(* ===== verification/Prelude.thy ===== *)
theory Prelude
  imports Main "HOL-Library.Word" "HOL-Library.State_Monad" "HOL-Library.Monad_Syntax"
begin

text \<open>
  Shared vocabulary of the development.  The Go program threads an implicit world through every
  call and reports failure as a second return value.  Here a call is a \<^typ>\<open>('s, 'a) state\<close> of
  \<^theory_text>\<open>HOL-Library.State_Monad\<close> whose result is a sum, \<open>Inl\<close> for the error and \<open>Inr\<close> for the value;
  \<open>bindE\<close> is the \<open>if err != nil { return err }\<close> that follows almost every call of the
  source, \<open>deferred\<close> is the \<open>defer\<close> statement.  The theory also names the collections of hints the
  components feed, and holds the few list facts that several of them use.
\<close>

section \<open>Collections\<close>

named_theorems run_simps \<open>what running one primitive action does\<close>
named_theorems code_defs \<open>the definitions that translate a function of the program\<close>

section \<open>Names shared by all components\<close>

text \<open>
  Go's \<open>cid.Cid\<close>, \<open>peer.ID\<close> and \<open>address.Address\<close> are wrappers of a string whose zero value is the
  empty string; \<open>[]byte\<close> and \<open>string\<close> are both byte sequences.
\<close>

type_synonym bytes = string
type_synonym cid = string
type_synonym peer = string
type_synonym address = string
type_synonym multiaddr = string
type_synonym u64 = "64 word"

abbreviation (input) cid_Undef :: cid where "cid_Undef \<equiv> []"
abbreviation (input) address_Undef :: address where "address_Undef \<equiv> []"

section \<open>Calls that may fail\<close>

abbreviation ret :: "'a \<Rightarrow> ('s, 'a) state" where
  "ret \<equiv> State_Monad.return"

definition bindE :: "('s, 'e + 'a) state \<Rightarrow> ('a \<Rightarrow> ('s, 'e + 'b) state) \<Rightarrow> ('s, 'e + 'b) state" where
  "bindE m k = do { r \<leftarrow> m; case r of Inl e \<Rightarrow> ret (Inl e) | Inr a \<Rightarrow> k a }"

definition deferred :: "('s, unit) state \<Rightarrow> ('s, 'a) state \<Rightarrow> ('s, 'a) state" where
  "deferred d m = do { r \<leftarrow> m; d; ret r }"

definition mapE :: "('e \<Rightarrow> 'e) \<Rightarrow> ('s, 'e + 'a) state \<Rightarrow> ('s, 'e + 'a) state" where
  "mapE f m = do { r \<leftarrow> m; ret (case r of Inl e \<Rightarrow> Inl (f e) | Inr a \<Rightarrow> Inr a) }"

definition modify :: "('s \<Rightarrow> 's) \<Rightarrow> ('s, unit) state" where
  "modify f = State (\<lambda>s. ((), f s))"

definition gets :: "('s \<Rightarrow> 'a) \<Rightarrow> ('s, 'a) state" where
  "gets f = State (\<lambda>s. (f s, s))"

lemma run_bindE [run_simps]:
  "run_state (bindE m k) s =
     (case run_state m s of
        (Inl e, s') \<Rightarrow> (Inl e, s')
      | (Inr a, s') \<Rightarrow> run_state (k a) s')"
  by (auto simp: bindE_def split: prod.splits sum.splits)

lemma run_deferred [run_simps]:
  "run_state (deferred d m) s =
     (case run_state m s of (r, s') \<Rightarrow> (r, snd (run_state d s')))"
  by (auto simp: deferred_def split: prod.splits)

lemma run_mapE [run_simps]:
  "run_state (mapE f m) s =
     (case run_state m s of
        (Inl e, s') \<Rightarrow> (Inl (f e), s')
      | (Inr a, s') \<Rightarrow> (Inr a, s'))"
  by (auto simp: mapE_def split: prod.splits sum.splits)

lemma run_modify [run_simps]: "run_state (modify f) s = ((), f s)"
  by (simp add: modify_def)

lemma run_gets [run_simps]: "run_state (gets f) s = (f s, s)"
  by (simp add: gets_def)

lemma bindE_Inr [simp]: "bindE (ret (Inr a)) k = k a"
  by (simp add: bindE_def)

lemma bindE_Inl [simp]: "bindE (ret (Inl e)) k = ret (Inl e)"
  by (simp add: bindE_def)

lemma bindE_assoc: "bindE (bindE m k) l = bindE m (\<lambda>a. bindE (k a) l)"
  by (rule state_ext) (auto simp: run_simps split: prod.splits sum.splits)

section \<open>Results\<close>

definition isOk :: "'e + 'a \<Rightarrow> bool" where
  "isOk r \<longleftrightarrow> (case r of Inl _ \<Rightarrow> False | Inr _ \<Rightarrow> True)"

lemma isOk_simps [simp]: "isOk (Inr a)" "\<not> isOk (Inl e)"
  by (simp_all add: isOk_def)

text \<open>An error that may be \<open>nil\<close>, as the result of a call that returns nothing else.\<close>

definition ofErr :: "'e option \<Rightarrow> 'e + unit" where
  "ofErr eo = (case eo of None \<Rightarrow> Inr () | Some e \<Rightarrow> Inl e)"

lemma ofErr_simps [simp]: "ofErr None = Inr ()" "ofErr (Some e) = Inl e"
  by (simp_all add: ofErr_def)

section \<open>Lists\<close>

text \<open>A slice filled by a conversion that may fail, stopping at the first failure.\<close>

fun mapM :: "('a \<Rightarrow> 'e + 'b) \<Rightarrow> 'a list \<Rightarrow> 'e + 'b list" where
  "mapM f [] = Inr []"
| "mapM f (x # xs) =
     (case f x of
        Inl e \<Rightarrow> Inl e
      | Inr y \<Rightarrow> (case mapM f xs of Inl e \<Rightarrow> Inl e | Inr ys \<Rightarrow> Inr (y # ys)))"

lemma mapM_Inr_iff:
  "mapM f xs = Inr ys \<longleftrightarrow> list_all2 (\<lambda>x y. f x = Inr y) xs ys"
proof (induction xs arbitrary: ys)
  case Nil
  then show ?case by auto
next
  case (Cons x xs)
  show ?case
    by (auto simp: list_all2_Cons1 Cons.IH[symmetric] split: sum.splits)
qed

lemma mapM_Inl:
  "mapM f xs = Inl e \<Longrightarrow> \<exists>x \<in> set xs. f x = Inl e"
  by (induction xs) (auto split: sum.splits)

lemma mapM_length: "mapM f xs = Inr ys \<Longrightarrow> length ys = length xs"
  by (simp add: mapM_Inr_iff list_all2_lengthD)

lemma mapM_map_Inr [simp]: "mapM (\<lambda>x. Inr (g x)) xs = Inr (map g xs)"
  by (induction xs) auto

text \<open>Counting the entries of a trace that satisfy a predicate.\<close>

definition count_if :: "('a \<Rightarrow> bool) \<Rightarrow> 'a list \<Rightarrow> nat" where
  "count_if P xs = length (filter P xs)"

lemma count_if_simps [simp]:
  "count_if P [] = 0"
  "count_if P (x # xs) = (if P x then Suc (count_if P xs) else count_if P xs)"
  "count_if P (xs @ ys) = count_if P xs + count_if P ys"
  by (simp_all add: count_if_def)

text \<open>A property of every entry of a trace together with what came before it.\<close>

fun every_entry :: "('a list \<Rightarrow> 'a \<Rightarrow> bool) \<Rightarrow> 'a list \<Rightarrow> bool" where
  "every_entry Q [] = True"
| "every_entry Q (c # w) = (Q [] c \<and> every_entry (\<lambda>v. Q (c # v)) w)"

lemma every_entry_append:
  "every_entry Q (u @ w) \<longleftrightarrow> every_entry Q u \<and> every_entry (\<lambda>v. Q (u @ v)) w"
  by (induction u arbitrary: Q) auto

lemma every_entryD: "every_entry Q t \<Longrightarrow> t = v @ c # w \<Longrightarrow> Q v c"
  by (simp add: every_entry_append)

end
