(* ===== verification/GoStrings.thy ===== *)
theory GoStrings
  imports Prelude
begin

text \<open>
  The parts of Go's standard library \<open>strings\<close> and \<open>strconv\<close> that the program calls:
  \<open>strings.Contains\<close>, \<open>strings.Split\<close> and \<open>strings.Join\<close> on a one-character separator, the \<open>%d\<close> verb
  of \<open>fmt.Sprintf\<close> for unsigned integers, and \<open>strconv.ParseUint(s, 10, 64)\<close> with its two error cases
  and the value each of them returns.  The lemmas say that parsing inverts printing and that
  splitting inverts joining.
\<close>

section \<open>strings\<close>

fun hasPrefix :: "string \<Rightarrow> string \<Rightarrow> bool" where
  "hasPrefix s [] = True"
| "hasPrefix [] (p # ps) = False"
| "hasPrefix (c # s) (p # ps) = (c = p \<and> hasPrefix s ps)"

fun strings_Contains :: "string \<Rightarrow> string \<Rightarrow> bool" where
  "strings_Contains [] sub = (sub = [])"
| "strings_Contains (c # s) sub = (hasPrefix (c # s) sub \<or> strings_Contains s sub)"

fun strings_Split :: "char \<Rightarrow> string \<Rightarrow> string list" where
  "strings_Split sep [] = [[]]"
| "strings_Split sep (c # s) =
     (if c = sep then [] # strings_Split sep s
      else (case strings_Split sep s of
              [] \<Rightarrow> [[c]]
            | p # ps \<Rightarrow> (c # p) # ps))"

fun strings_Join :: "char \<Rightarrow> string list \<Rightarrow> string" where
  "strings_Join sep [] = []"
| "strings_Join sep [p] = p"
| "strings_Join sep (p # q # ps) = p @ sep # strings_Join sep (q # ps)"

lemma hasPrefix_iff: "hasPrefix s p \<longleftrightarrow> (\<exists>t. s = p @ t)"
  by (induction s p rule: hasPrefix.induct) auto

lemma strings_Contains_iff: "strings_Contains s sub \<longleftrightarrow> (\<exists>a b. s = a @ sub @ b)"
proof (induction s)
  case Nil
  then show ?case by auto
next
  case (Cons c s)
  show ?case
  proof
    assume "strings_Contains (c # s) sub"
    then consider "hasPrefix (c # s) sub" | "strings_Contains s sub" by auto
    then show "\<exists>a b. c # s = a @ sub @ b"
    proof cases
      case 1
      then show ?thesis unfolding hasPrefix_iff by (metis append_Nil)
    next
      case 2
      then show ?thesis unfolding Cons.IH by (metis append_Cons)
    qed
  next
    assume "\<exists>a b. c # s = a @ sub @ b"
    then obtain a b where eq: "c # s = a @ sub @ b" by blast
    show "strings_Contains (c # s) sub"
    proof (cases a)
      case Nil
      with eq have "hasPrefix (c # s) sub" unfolding hasPrefix_iff by auto
      then show ?thesis by simp
    next
      case a: (Cons x a')
      with eq have "s = a' @ sub @ b" by simp
      then have "strings_Contains s sub" unfolding Cons.IH by blast
      then show ?thesis by simp
    qed
  qed
qed

lemma strings_Split_ne [simp]: "strings_Split sep s \<noteq> []"
  by (induction s) (auto split: list.splits)

lemma strings_Join_Split: "strings_Join sep (strings_Split sep s) = s"
proof (induction s)
  case Nil
  then show ?case by simp
next
  case (Cons c s)
  then show ?case
    by (cases "strings_Split sep s"; cases "tl (strings_Split sep s)") auto
qed

lemma strings_Split_no_sep: "sep \<notin> set s \<Longrightarrow> strings_Split sep s = [s]"
  by (induction s) auto

lemma strings_Split_append:
  "sep \<notin> set p \<Longrightarrow> strings_Split sep (p @ sep # s) = p # strings_Split sep s"
  by (induction p) auto

lemma strings_Split_parts: "p \<in> set (strings_Split sep s) \<Longrightarrow> sep \<notin> set p"
proof (induction s arbitrary: p)
  case Nil
  then show ?case by simp
next
  case (Cons c s)
  then show ?case
    by (cases "strings_Split sep s") (auto split: if_splits)
qed

section \<open>Decimal numbers\<close>

definition digitChar :: "nat \<Rightarrow> char" where
  "digitChar d = char_of (48 + d)"

text \<open>The value of a decimal digit, \<open>None\<close> for any other character.\<close>

definition digitVal :: "char \<Rightarrow> nat option" where
  "digitVal c = (let n = of_char c in if 48 \<le> n \<and> n \<le> 57 then Some (n - 48) else None)"

lemma digitVal_digitChar [simp]: "d < 10 \<Longrightarrow> digitVal (digitChar d) = Some d"
  by (simp add: digitVal_def digitChar_def)

lemma digitVal_less: "digitVal c = Some d \<Longrightarrow> d < 10"
  by (auto simp: digitVal_def Let_def split: if_splits)

fun fmt_d :: "nat \<Rightarrow> string" where
  "fmt_d n = (if n < 10 then [digitChar n] else fmt_d (n div 10) @ [digitChar (n mod 10)])"

declare fmt_d.simps [simp del]

definition fmt_u64 :: "u64 \<Rightarrow> string" where
  "fmt_u64 w = fmt_d (unat w)"

text \<open>The decimal text of a \<open>big.Int\<close>.\<close>

definition fmt_int :: "int \<Rightarrow> string" where
  "fmt_int i = (if i < 0 then CHR ''-'' # fmt_d (nat (- i)) else fmt_d (nat i))"

lemma fmt_d_ne [simp]: "fmt_d n \<noteq> []"
  by (subst fmt_d.simps) simp

lemma fmt_d_digits: "c \<in> set (fmt_d n) \<Longrightarrow> \<exists>d < 10. c = digitChar d"
proof (induction n rule: fmt_d.induct)
  case (1 n)
  show ?case
  proof (cases "n < 10")
    case True
    with "1.prems" show ?thesis by (subst (asm) fmt_d.simps) auto
  next
    case False
    with "1.prems" have "c \<in> set (fmt_d (n div 10)) \<or> c = digitChar (n mod 10)"
      by (subst (asm) fmt_d.simps) auto
    moreover have "n mod 10 < 10" by simp
    ultimately show ?thesis using "1.IH" False by blast
  qed
qed

lemma digitChar_ne: "d < 10 \<Longrightarrow> digitVal c = None \<Longrightarrow> digitChar d \<noteq> c"
  by (metis digitVal_digitChar option.distinct(1))

lemma fmt_d_no_other: "digitVal c = None \<Longrightarrow> c \<notin> set (fmt_d n)"
  using fmt_d_digits digitChar_ne by metis

section \<open>strconv.ParseUint(s, 10, 64)\<close>

datatype num_error = ErrSyntax | ErrRange

definition maxUint64 :: u64 where "maxUint64 = - 1"

text \<open>
  The loop of the standard library: a digit that is no digit ends it with a syntax error and the
  value 0, an accumulator that would pass 64 bits ends it with a range error and the largest value.
\<close>

fun parse_loop :: "u64 \<Rightarrow> string \<Rightarrow> u64 \<times> num_error option" where
  "parse_loop n [] = (n, None)"
| "parse_loop n (c # s) =
     (case digitVal c of
        None \<Rightarrow> (0, Some ErrSyntax)
      | Some d \<Rightarrow>
          if 1844674407370955162 \<le> n then (maxUint64, Some ErrRange)
          else let n1 = n * 10 + of_nat d
               in if n1 < n * 10 then (maxUint64, Some ErrRange) else parse_loop n1 s)"

definition ParseUint :: "string \<Rightarrow> u64 \<times> num_error option" where
  "ParseUint s = (if s = [] then (0, Some ErrSyntax) else parse_loop 0 s)"

text \<open>The mathematical value of a digit string, to state what the loop computes.\<close>

fun dec_val :: "nat \<Rightarrow> string \<Rightarrow> nat" where
  "dec_val n [] = n"
| "dec_val n (c # s) = dec_val (n * 10 + (case digitVal c of Some d \<Rightarrow> d | None \<Rightarrow> 0)) s"

lemma dec_val_mono: "n \<le> dec_val n s"
  by (induction n s rule: dec_val.induct) (auto split: option.splits intro: order_trans[rotated])

lemma dec_val_append: "dec_val n (s @ t) = dec_val (dec_val n s) t"
  by (induction s arbitrary: n) auto

lemma dec_val_fmt_d: "dec_val 0 (fmt_d n) = n"
proof (induction n rule: fmt_d.induct)
  case (1 n)
  show ?case
    by (subst fmt_d.simps) (auto simp: dec_val_append 1)
qed

lemma parse_step_unat:
  assumes "n < 1844674407370955162" and "d < 10"
  shows "(n :: u64) * 10 + of_nat d < n * 10 \<longleftrightarrow> 2 ^ 64 \<le> unat n * 10 + d"
    and "unat n * 10 + d < 2 ^ 64 \<Longrightarrow> unat (n * 10 + of_nat d) = unat n * 10 + d"
proof -
  from assms(1) have n: "unat n < 1844674407370955162"
    by (simp add: word_less_nat_alt)
  have m: "unat (n * 10) = unat n * 10"
    using n by (simp add: unat_word_ariths)
  have d: "unat (of_nat d :: u64) = d"
    using assms(2) by (simp add: unat_of_nat)
  have s: "unat (n * 10 + of_nat d) = (unat n * 10 + d) mod 2 ^ 64"
    by (simp only: unat_word_ariths(1) m d) simp
  then show "unat n * 10 + d < 2 ^ 64 \<Longrightarrow> unat (n * 10 + of_nat d) = unat n * 10 + d"
    by simp
  show "n * 10 + of_nat d < n * 10 \<longleftrightarrow> 2 ^ 64 \<le> unat n * 10 + d"
  proof (cases "unat n * 10 + d < 2 ^ 64")
    case True
    then show ?thesis by (simp add: word_less_nat_alt m s)
  next
    case False
    have "unat n * 10 + d < 2 ^ 64 + 10" using n assms(2) by simp
    with False have "(unat n * 10 + d) mod 2 ^ 64 = unat n * 10 + d - 2 ^ 64"
      by (simp add: mod_if)
    then show ?thesis using False assms(2) n by (simp add: word_less_nat_alt m s)
  qed
qed

lemma parse_loop_digits:
  assumes "\<forall>c \<in> set s. digitVal c \<noteq> None"
  shows "parse_loop n s =
    (if dec_val (unat n) s < 2 ^ 64 then (of_nat (dec_val (unat n) s), None)
     else (maxUint64, Some ErrRange))"
  using assms
proof (induction s arbitrary: n)
  case Nil
  then show ?case using unsigned_less[of n] by simp
next
  case (Cons c s)
  then obtain d where d: "digitVal c = Some d" by auto
  have d10: "d < 10" using d by (rule digitVal_less)
  have val: "dec_val (unat n) (c # s) = dec_val (unat n * 10 + d) s" using d by simp
  have ge: "unat n * 10 + d \<le> dec_val (unat n) (c # s)" unfolding val by (rule dec_val_mono)
  show ?case
  proof (cases "n < 1844674407370955162 \<and> unat n * 10 + d < 2 ^ 64")
    case True
    then have "parse_loop n (c # s) = parse_loop (n * 10 + of_nat d) s"
      using parse_step_unat(1)[of n d] d10 d by (auto simp: not_le)
    also have "\<dots> = (if dec_val (unat n * 10 + d) s < 2 ^ 64
        then (of_nat (dec_val (unat n * 10 + d) s), None) else (maxUint64, Some ErrRange))"
      using Cons.prems parse_step_unat(2)[of n d] True d10 by (subst Cons.IH) simp_all
    finally show ?thesis by (simp add: val d)
  next
    case False
    have big: "2 ^ 64 \<le> unat n * 10 + d"
      using False by (auto simp: not_less word_le_nat_alt)
    have "parse_loop n (c # s) = (maxUint64, Some ErrRange)"
      using False parse_step_unat(1)[of n d] d10 d big by (auto simp: not_le)
    moreover have "\<not> dec_val (unat n) (c # s) < 2 ^ 64" using big ge by simp
    ultimately show ?thesis by (simp only: if_False)
  qed
qed

lemma parse_loop_ok_digits:
  "parse_loop n s = (v, None) \<Longrightarrow> \<forall>c \<in> set s. digitVal c \<noteq> None"
  by (induction n s rule: parse_loop.induct) (auto simp: Let_def split: option.splits if_splits)

lemma ParseUint_ok_iff:
  "ParseUint s = (v, None) \<longleftrightarrow>
     s \<noteq> [] \<and> (\<forall>c \<in> set s. digitVal c \<noteq> None) \<and> dec_val 0 s < 2 ^ 64 \<and> v = of_nat (dec_val 0 s)"
proof (cases "s = []")
  case True
  then show ?thesis by (simp add: ParseUint_def)
next
  case False
  show ?thesis
  proof (cases "\<forall>c \<in> set s. digitVal c \<noteq> None")
    case True
    from False have "ParseUint s = parse_loop 0 s" by (simp add: ParseUint_def)
    with parse_loop_digits[OF True, of 0] False True show ?thesis by auto
  next
    case no: False
    have "ParseUint s \<noteq> (v, None)"
      using parse_loop_ok_digits[of 0 s v] no False unfolding ParseUint_def by metis
    then show ?thesis using no by blast
  qed
qed

lemma ParseUint_fmt_u64 [simp]: "ParseUint (fmt_u64 w) = (w, None)"
  unfolding ParseUint_ok_iff fmt_u64_def
  using fmt_d_no_other unsigned_less[of w]
  by (auto simp: dec_val_fmt_d)

lemma fmt_u64_inj: "fmt_u64 v = fmt_u64 w \<longleftrightarrow> v = w"
  by (metis ParseUint_fmt_u64 prod.inject)

lemma fmt_u64_no_dash: "CHR ''-'' \<notin> set (fmt_u64 w)"
  unfolding fmt_u64_def by (rule fmt_d_no_other) (simp add: digitVal_def)

end
