(* ===== verification/GoErrors.thy ===== *)
theory GoErrors
  imports GoStrings
begin

text \<open>
  The error values of the program: \<open>errors.go\<close> (the coded \<open>Error\<close> of the client) together with the
  three other ways the source makes one, \<open>fmt.Errorf\<close> without and with \<open>%w\<close> and an error handed over
  by a library.  A library error is known by its text; the sentinels the program compares with
  \<open>errors.Is\<close> are known by name.  A Go panic is the value \<open>Panic\<close>, which no wrapping touches.
\<close>

section \<open>Error codes (errors.go)\<close>

type_synonym ErrorCode = int

definition ErrUnknown :: ErrorCode where [simp]: "ErrUnknown = 0"
definition ErrMinerConnectionFailed :: ErrorCode where [simp]: "ErrMinerConnectionFailed = 1"
definition ErrLotusError :: ErrorCode where [simp]: "ErrLotusError = 2"

definition ErrorCode_String :: "ErrorCode \<Rightarrow> string" where
  "ErrorCode_String code =
     (if code = ErrUnknown then ''unknown''
      else if code = ErrMinerConnectionFailed then ''miner connection failed''
      else if code = ErrLotusError then ''lotus error''
      else ''(invalid error code)'')"

section \<open>Error values\<close>

datatype go_error =
    Opaque string                              \<comment> \<open>a library's error, with its text\<close>
  | Sentinel string string                     \<comment> \<open>a library's sentinel: name and text\<close>
  | Errorf string                              \<comment> \<open>\<open>fmt.Errorf\<close> without \<open>%w\<close>\<close>
  | Wrapf string go_error                      \<comment> \<open>\<open>fmt.Errorf("prefix%w", err)\<close>\<close>
  | CodedError (Code: ErrorCode) (Inner: "go_error option") \<comment> \<open>the struct \<open>Error\<close>\<close>
  | Panic string

text \<open>\<open>Error()\<close>; \<open>fmt\<close> prints a missing inner error as \<open>%!s(<nil>)\<close>.\<close>

fun errorText :: "go_error \<Rightarrow> string" where
  "errorText (Opaque s) = s"
| "errorText (Sentinel n s) = s"
| "errorText (Errorf s) = s"
| "errorText (Wrapf p e) = p @ errorText e"
| "errorText (CodedError c None) = ErrorCode_String c @ '': '' @ ''%!s(<nil>)''"
| "errorText (CodedError c (Some e)) = ErrorCode_String c @ '': '' @ errorText e"
| "errorText (Panic s) = s"

fun Unwrap :: "go_error \<Rightarrow> go_error option" where
  "Unwrap (Wrapf p e) = Some e"
| "Unwrap (CodedError c i) = i"
| "Unwrap _ = None"

definition NewError :: "ErrorCode \<Rightarrow> go_error \<Rightarrow> go_error" where
  "NewError code err = CodedError code (Some err)"

definition NewErrUnknown :: "go_error \<Rightarrow> go_error" where
  "NewErrUnknown err = NewError ErrUnknown err"

definition NewErrMinerConnectionFailed :: "go_error \<Rightarrow> go_error" where
  "NewErrMinerConnectionFailed err = NewError ErrMinerConnectionFailed err"

definition NewErrLotusError :: "go_error \<Rightarrow> go_error" where
  "NewErrLotusError err = NewError ErrLotusError err"

section \<open>errors.Is and errors.As\<close>

text \<open>
  The standard library follows \<open>Unwrap\<close> until it meets the target: a sentinel for \<open>errors.Is\<close>, the
  first error of the client's own type for \<open>errors.As\<close> with a \<open>*Error\<close>.
\<close>

fun errors_Is :: "go_error \<Rightarrow> string \<Rightarrow> bool" where
  "errors_Is (Sentinel n s) t = (n = t)"
| "errors_Is (Wrapf p e) t = errors_Is e t"
| "errors_Is (CodedError c (Some e)) t = errors_Is e t"
| "errors_Is _ t = False"

fun errors_As :: "go_error \<Rightarrow> ErrorCode option" where
  "errors_As (CodedError c i) = Some c"
| "errors_As (Wrapf p e) = errors_As e"
| "errors_As _ = None"

fun isPanic :: "go_error \<Rightarrow> bool" where
  "isPanic (Panic _) = True"
| "isPanic _ = False"

text \<open>\<open>fmt.Errorf("prefix%w", err)\<close> on the error of a call: a panic is no error value and passes.\<close>

definition wrapf :: "string \<Rightarrow> go_error \<Rightarrow> go_error" where
  "wrapf p e = (if isPanic e then e else Wrapf p e)"

text \<open>The same with \<open>%s\<close> or \<open>%v\<close>: only the text of the inner error survives.\<close>

definition flatf :: "string \<Rightarrow> go_error \<Rightarrow> go_error" where
  "flatf p e = (if isPanic e then e else Errorf (p @ errorText e))"

text \<open>An error constructor of the client applied to the error of a call.\<close>

definition codedf :: "(go_error \<Rightarrow> go_error) \<Rightarrow> go_error \<Rightarrow> go_error" where
  "codedf mk e = (if isPanic e then e else mk e)"

lemmas new_error_defs =
  NewErrUnknown_def NewErrMinerConnectionFailed_def NewErrLotusError_def NewError_def

section \<open>What survives wrapping\<close>

lemma errors_Is_wrapf [simp]: "errors_Is (wrapf p e) t = errors_Is e t"
  by (cases e) (auto simp: wrapf_def)

lemma errors_As_wrapf [simp]: "errors_As (wrapf p e) = errors_As e"
  by (cases e) (auto simp: wrapf_def)

lemma errors_As_flatf [simp]: "errors_As (flatf p e) = None"
  by (cases e) (auto simp: flatf_def)

lemma errors_Is_NewError [simp]: "errors_Is (NewError c e) t = errors_Is e t"
  by (simp add: NewError_def)

lemma errors_As_new [simp]:
  "errors_As (NewError c e) = Some c"
  "errors_As (NewErrUnknown e) = Some ErrUnknown"
  "errors_As (NewErrMinerConnectionFailed e) = Some ErrMinerConnectionFailed"
  "errors_As (NewErrLotusError e) = Some ErrLotusError"
  by (simp_all add: new_error_defs)

lemma isPanic_simps [simp]:
  "\<not> isPanic (NewErrMinerConnectionFailed e)" "\<not> isPanic (NewErrLotusError e)"
  "isPanic (wrapf p e) = isPanic e" "isPanic (flatf p e) = isPanic e"
  by (auto simp: new_error_defs wrapf_def flatf_def)

text \<open>The only errors whose chain \<open>Unwrap\<close> can go on from are the wrapped and the coded ones.\<close>

lemma Unwrap_errors_Is: "Unwrap e = Some e' \<Longrightarrow> errors_Is e t = errors_Is e' t"
  by (cases e rule: Unwrap.cases) auto

lemma errorText_wrapf: "\<not> isPanic e \<Longrightarrow> errorText (wrapf p e) = p @ errorText e"
  by (simp add: wrapf_def)

lemma errorText_flatf: "\<not> isPanic e \<Longrightarrow> errorText (flatf p e) = p @ errorText e"
  by (simp add: flatf_def)

text \<open>
  A chain of prefixes put around a coded error keeps the code for \<open>errors.As\<close>, keeps
  every sentinel for \<open>errors.Is\<close>, and prints the prefixes outermost first before the code's name.
\<close>

fun wrapChain :: "string list \<Rightarrow> go_error \<Rightarrow> go_error" where
  "wrapChain [] e = e"
| "wrapChain (p # ps) e = wrapf p (wrapChain ps e)"

lemma wrapChain_As: "errors_As (wrapChain ps e) = errors_As e"
  by (induction ps) auto

lemma wrapChain_Is: "errors_Is (wrapChain ps e) t = errors_Is e t"
  by (induction ps) auto

lemma wrapChain_isPanic [simp]: "isPanic (wrapChain ps e) = isPanic e"
  by (induction ps) auto

lemma wrapChain_text: "\<not> isPanic e \<Longrightarrow> errorText (wrapChain ps e) = concat ps @ errorText e"
  by (induction ps) (auto simp: errorText_wrapf)

end
