(* ===== verification/RepEvents.thy ===== *)
theory RepEvents
  imports GoErrors
begin

text \<open>
  \<open>rep/event.go\<close>: the seven retrieval events, their constructors and the five methods of the
  interface \<open>RetrievalEvent\<close>, and \<open>OnRetrievalEvent\<close> of \<open>filclient.go\<close>, the client's own subscriber,
  which turns an event into the key/value list of a log line.  The interface is the locale
  \<open>event_source\<close>, interpreted on each of the seven constructors.
\<close>

section \<open>Phases and codes\<close>

type_synonym Phase = string
type_synonym Code = string

definition QueryPhase :: Phase where "QueryPhase = ''query''"
definition RetrievalPhase :: Phase where "RetrievalPhase = ''retrieval''"

definition ConnectedCode :: Code where "ConnectedCode = ''connected''"
definition QueryAskedCode :: Code where "QueryAskedCode = ''query-asked''"
definition ProposedCode :: Code where "ProposedCode = ''proposed''"
definition AcceptedCode :: Code where "AcceptedCode = ''accepted''"
definition FirstByteCode :: Code where "FirstByteCode = ''first-byte-received''"
definition FailureCode :: Code where "FailureCode = ''failure''"
definition SuccessCode :: Code where "SuccessCode = ''success''"

lemmas code_constants =
  ConnectedCode_def QueryAskedCode_def ProposedCode_def AcceptedCode_def FirstByteCode_def
  FailureCode_def SuccessCode_def

text \<open>The fields of \<open>retrievalmarket.QueryResponse\<close> that the program reads.\<close>

record query_response =
  qr_Status :: int
  qr_PieceCIDFound :: int
  qr_Size :: u64
  qr_PaymentAddress :: address
  qr_MinPricePerByte :: int
  qr_MaxPaymentInterval :: u64
  qr_MaxPaymentIntervalIncrease :: u64
  qr_Message :: string
  qr_UnsealPrice :: int

section \<open>The events\<close>

datatype RetrievalEvent =
    RetrievalEventConnect Phase cid peer address
  | RetrievalEventQueryAsk Phase cid peer address query_response
  | RetrievalEventProposed Phase cid peer address
  | RetrievalEventAccepted Phase cid peer address
  | RetrievalEventFirstByte Phase cid peer address
  | RetrievalEventFailure Phase cid peer address string
  | RetrievalEventSuccess Phase cid peer address u64 "64 word" "64 word" int

definition NewRetrievalEventConnect :: "Phase \<Rightarrow> cid \<Rightarrow> peer \<Rightarrow> address \<Rightarrow> RetrievalEvent" where
  "NewRetrievalEventConnect phase payloadCid spId spAddr =
     RetrievalEventConnect phase payloadCid spId spAddr"

definition NewRetrievalEventQueryAsk ::
  "Phase \<Rightarrow> cid \<Rightarrow> peer \<Rightarrow> address \<Rightarrow> query_response \<Rightarrow> RetrievalEvent" where
  "NewRetrievalEventQueryAsk phase payloadCid spId spAddr queryResponse =
     RetrievalEventQueryAsk phase payloadCid spId spAddr queryResponse"

definition NewRetrievalEventProposed :: "Phase \<Rightarrow> cid \<Rightarrow> peer \<Rightarrow> address \<Rightarrow> RetrievalEvent" where
  "NewRetrievalEventProposed phase payloadCid spId spAddr =
     RetrievalEventProposed phase payloadCid spId spAddr"

definition NewRetrievalEventAccepted :: "Phase \<Rightarrow> cid \<Rightarrow> peer \<Rightarrow> address \<Rightarrow> RetrievalEvent" where
  "NewRetrievalEventAccepted phase payloadCid spId spAddr =
     RetrievalEventAccepted phase payloadCid spId spAddr"

definition NewRetrievalEventFirstByte :: "Phase \<Rightarrow> cid \<Rightarrow> peer \<Rightarrow> address \<Rightarrow> RetrievalEvent" where
  "NewRetrievalEventFirstByte phase payloadCid spId spAddr =
     RetrievalEventFirstByte phase payloadCid spId spAddr"

definition NewRetrievalEventFailure ::
  "Phase \<Rightarrow> cid \<Rightarrow> peer \<Rightarrow> address \<Rightarrow> string \<Rightarrow> RetrievalEvent" where
  "NewRetrievalEventFailure phase payloadCid spId spAddr errorMessage =
     RetrievalEventFailure phase payloadCid spId spAddr errorMessage"

definition NewRetrievalEventSuccess ::
  "Phase \<Rightarrow> cid \<Rightarrow> peer \<Rightarrow> address \<Rightarrow> u64 \<Rightarrow> 64 word \<Rightarrow> 64 word \<Rightarrow> int \<Rightarrow> RetrievalEvent" where
  "NewRetrievalEventSuccess phase payloadCid spId spAddr receivedSize receivedCids duration totalPayment =
     RetrievalEventSuccess phase payloadCid spId spAddr receivedSize receivedCids duration totalPayment"

lemmas new_event_defs =
  NewRetrievalEventConnect_def NewRetrievalEventQueryAsk_def NewRetrievalEventProposed_def
  NewRetrievalEventAccepted_def NewRetrievalEventFirstByte_def NewRetrievalEventFailure_def
  NewRetrievalEventSuccess_def

section \<open>The methods of the interface\<close>

fun ev_Code :: "RetrievalEvent \<Rightarrow> Code" where
  "ev_Code (RetrievalEventConnect _ _ _ _) = ConnectedCode"
| "ev_Code (RetrievalEventQueryAsk _ _ _ _ _) = QueryAskedCode"
| "ev_Code (RetrievalEventProposed _ _ _ _) = ProposedCode"
| "ev_Code (RetrievalEventAccepted _ _ _ _) = AcceptedCode"
| "ev_Code (RetrievalEventFirstByte _ _ _ _) = FirstByteCode"
| "ev_Code (RetrievalEventFailure _ _ _ _ _) = FailureCode"
| "ev_Code (RetrievalEventSuccess _ _ _ _ _ _ _ _) = SuccessCode"

fun ev_Phase :: "RetrievalEvent \<Rightarrow> Phase" where
  "ev_Phase (RetrievalEventConnect p _ _ _) = p"
| "ev_Phase (RetrievalEventQueryAsk p _ _ _ _) = p"
| "ev_Phase (RetrievalEventProposed p _ _ _) = p"
| "ev_Phase (RetrievalEventAccepted p _ _ _) = p"
| "ev_Phase (RetrievalEventFirstByte p _ _ _) = p"
| "ev_Phase (RetrievalEventFailure p _ _ _ _) = p"
| "ev_Phase (RetrievalEventSuccess p _ _ _ _ _ _ _) = p"

fun ev_PayloadCid :: "RetrievalEvent \<Rightarrow> cid" where
  "ev_PayloadCid (RetrievalEventConnect _ c _ _) = c"
| "ev_PayloadCid (RetrievalEventQueryAsk _ c _ _ _) = c"
| "ev_PayloadCid (RetrievalEventProposed _ c _ _) = c"
| "ev_PayloadCid (RetrievalEventAccepted _ c _ _) = c"
| "ev_PayloadCid (RetrievalEventFirstByte _ c _ _) = c"
| "ev_PayloadCid (RetrievalEventFailure _ c _ _ _) = c"
| "ev_PayloadCid (RetrievalEventSuccess _ c _ _ _ _ _ _) = c"

fun ev_StorageProviderId :: "RetrievalEvent \<Rightarrow> peer" where
  "ev_StorageProviderId (RetrievalEventConnect _ _ i _) = i"
| "ev_StorageProviderId (RetrievalEventQueryAsk _ _ i _ _) = i"
| "ev_StorageProviderId (RetrievalEventProposed _ _ i _) = i"
| "ev_StorageProviderId (RetrievalEventAccepted _ _ i _) = i"
| "ev_StorageProviderId (RetrievalEventFirstByte _ _ i _) = i"
| "ev_StorageProviderId (RetrievalEventFailure _ _ i _ _) = i"
| "ev_StorageProviderId (RetrievalEventSuccess _ _ i _ _ _ _ _) = i"

fun ev_StorageProviderAddr :: "RetrievalEvent \<Rightarrow> address" where
  "ev_StorageProviderAddr (RetrievalEventConnect _ _ _ a) = a"
| "ev_StorageProviderAddr (RetrievalEventQueryAsk _ _ _ a _) = a"
| "ev_StorageProviderAddr (RetrievalEventProposed _ _ _ a) = a"
| "ev_StorageProviderAddr (RetrievalEventAccepted _ _ _ a) = a"
| "ev_StorageProviderAddr (RetrievalEventFirstByte _ _ _ a) = a"
| "ev_StorageProviderAddr (RetrievalEventFailure _ _ _ a _) = a"
| "ev_StorageProviderAddr (RetrievalEventSuccess _ _ _ a _ _ _ _) = a"

section \<open>The interface as a locale\<close>

text \<open>
  What a subscriber may rely on for every implementation: the accessors give back what the
  constructor was called with, and the code tells the implementations apart.
\<close>

locale event_source =
  fixes mk :: "Phase \<Rightarrow> cid \<Rightarrow> peer \<Rightarrow> address \<Rightarrow> RetrievalEvent"
    and kind :: Code
  assumes mk_code: "ev_Code (mk p c i a) = kind"
    and mk_phase: "ev_Phase (mk p c i a) = p"
    and mk_cid: "ev_PayloadCid (mk p c i a) = c"
    and mk_id: "ev_StorageProviderId (mk p c i a) = i"
    and mk_addr: "ev_StorageProviderAddr (mk p c i a) = a"
begin

lemma mk_inj: "mk p c i a = mk p' c' i' a' \<longleftrightarrow> p = p' \<and> c = c' \<and> i = i' \<and> a = a'"
  by (metis mk_phase mk_cid mk_id mk_addr)

lemma mk_other_code: "ev_Code e \<noteq> kind \<Longrightarrow> e \<noteq> mk p c i a"
  using mk_code by blast

end

interpretation connect_ev: event_source NewRetrievalEventConnect ConnectedCode
  by unfold_locales (simp_all add: new_event_defs)

interpretation query_ask_ev:
  event_source "\<lambda>p c i a. NewRetrievalEventQueryAsk p c i a q" QueryAskedCode for q
  by unfold_locales (simp_all add: new_event_defs)

interpretation proposed_ev: event_source NewRetrievalEventProposed ProposedCode
  by unfold_locales (simp_all add: new_event_defs)

interpretation accepted_ev: event_source NewRetrievalEventAccepted AcceptedCode
  by unfold_locales (simp_all add: new_event_defs)

interpretation first_byte_ev: event_source NewRetrievalEventFirstByte FirstByteCode
  by unfold_locales (simp_all add: new_event_defs)

interpretation failure_ev:
  event_source "\<lambda>p c i a. NewRetrievalEventFailure p c i a m" FailureCode for m
  by unfold_locales (simp_all add: new_event_defs)

interpretation success_ev:
  event_source "\<lambda>p c i a. NewRetrievalEventSuccess p c i a n k d t" SuccessCode for n k d t
  by unfold_locales (simp_all add: new_event_defs)

lemmas event_codes [simp] =
  connect_ev.mk_code query_ask_ev.mk_code proposed_ev.mk_code accepted_ev.mk_code
  first_byte_ev.mk_code failure_ev.mk_code success_ev.mk_code

text \<open>The codes are pairwise different, so \<open>Code()\<close> identifies the concrete event type.\<close>

lemma event_codes_distinct:
  "distinct [ConnectedCode, QueryAskedCode, ProposedCode, AcceptedCode, FirstByteCode,
             FailureCode, SuccessCode]"
  by (simp add: code_constants)

section \<open>The client as a subscriber: \<open>OnRetrievalEvent\<close>\<close>

text \<open>A Go \<open>interface{}\<close> in a variadic key/value list.\<close>

datatype any = AString string | AInt int | AWord u64

fun logadd :: "any list \<Rightarrow> any list \<Rightarrow> go_error + any list" where
  "logadd kv [] = Inr kv"
| "logadd kv [_] = Inl (Panic ''bad number of key/value arguments'')"
| "logadd kv (k # v # kva) =
     (if odd (length kva) then Inl (Panic ''bad number of key/value arguments'')
      else (case k of AString key \<Rightarrow> logadd (kv @ [AString key, v]) kva
                    | _ \<Rightarrow> Inl (Panic ''expected string key'')))"

definition OnRetrievalEvent :: "RetrievalEvent \<Rightarrow> go_error + any list" where
  "OnRetrievalEvent event =
     (case logadd []
        [AString ''code'', AString (ev_Code event),
         AString ''phase'', AString (ev_Phase event),
         AString ''payloadCid'', AString (ev_PayloadCid event),
         AString ''storageProviderId'', AString (ev_StorageProviderId event),
         AString ''storageProviderAddr'', AString (ev_StorageProviderAddr event)] of
        Inl e \<Rightarrow> Inl e
      | Inr kv \<Rightarrow>
          (case event of
             RetrievalEventQueryAsk _ _ _ _ q \<Rightarrow>
               logadd kv
                 [AString ''queryResponse:Status'', AInt (qr_Status q),
                  AString ''queryResponse:PieceCIDFound'', AInt (qr_PieceCIDFound q),
                  AString ''queryResponse:Size'', AWord (qr_Size q),
                  AString ''queryResponse:PaymentAddress'', AString (qr_PaymentAddress q),
                  AString ''queryResponse:MinPricePerByte'', AInt (qr_MinPricePerByte q),
                  AString ''queryResponse:MaxPaymentInterval'', AWord (qr_MaxPaymentInterval q),
                  AString ''queryResponse:MaxPaymentIntervalIncrease'',
                    AWord (qr_MaxPaymentIntervalIncrease q),
                  AString ''queryResponse:Message'', AString (qr_Message q),
                  AString ''queryResponse:UnsealPrice'', AInt (qr_UnsealPrice q)]
           | RetrievalEventFailure _ _ _ _ m \<Rightarrow> logadd kv [AString ''errorMessage'', AString m]
           | RetrievalEventSuccess _ _ _ _ n _ _ _ \<Rightarrow> logadd kv [AString ''receivedSize'', AWord n]
           | _ \<Rightarrow> Inr kv))"

text \<open>
  \<open>keyed kva\<close>: an even list whose even positions are strings, which is what \<open>logadd\<close> accepts.
\<close>

fun keyed :: "any list \<Rightarrow> bool" where
  "keyed [] = True"
| "keyed [_] = False"
| "keyed (k # v # kva) = ((case k of AString _ \<Rightarrow> True | _ \<Rightarrow> False) \<and> keyed kva)"

lemma keyed_even: "keyed kva \<Longrightarrow> even (length kva)"
  by (induction kva rule: keyed.induct) auto

lemma logadd_iff: "logadd kv kva = Inr kv' \<longleftrightarrow> keyed kva \<and> kv' = kv @ kva"
proof (induction kv kva rule: logadd.induct)
  case (3 kv k v kva)
  then show ?case by (auto dest: keyed_even split: any.splits)
qed auto

end
