(* ===== verification/MarketTypes.thy ===== *)
theory MarketTypes
  imports RepEvents
begin

text \<open>
  The data the client moves around: the structs and enumerations of the market, data-transfer and
  chain packages, with the fields the program reads or writes, and the client's own \<open>ChannelState\<close>.
  Integers keep their Go width (\<open>uint64\<close> and \<open>int64\<close> are 64-bit words); \<open>big.Int\<close> amounts are
  unbounded integers.  An enumeration lists the values the program names and keeps every other value
  as a number.
\<close>

section \<open>Peers, streams, contexts\<close>

record addr_info =
  ai_ID :: peer
  ai_Addrs :: "multiaddr list"

record miner_info =
  mi_PeerId :: "peer option"
  mi_Multiaddrs :: "bytes list"
  mi_Owner :: address

record stream =
  str_Id :: nat
  str_RemotePeer :: peer
  str_Protocol :: string

record ctx =
  ctx_Deadline :: "int option"

section \<open>Storage deals\<close>

datatype deal_label = EmptyDealLabel | DealLabel string

type_synonym signature = string
type_synonym uuid = string

record market_deal_proposal =
  dp_PieceCID :: cid
  dp_PieceSize :: u64
  dp_VerifiedDeal :: bool
  dp_Client :: address
  dp_Provider :: address
  dp_Label :: deal_label
  dp_StartEpoch :: "64 word"
  dp_EndEpoch :: "64 word"
  dp_StoragePricePerEpoch :: int
  dp_ProviderCollateral :: int
  dp_ClientCollateral :: int

record client_deal_proposal =
  cdp_Proposal :: market_deal_proposal
  cdp_ClientSignature :: signature

record data_ref =
  dr_TransferType :: string
  dr_Root :: cid
  dr_RawBlockSize :: u64

record net_proposal =
  np_DealProposal :: client_deal_proposal
  np_Piece :: data_ref
  np_FastRetrieval :: bool

datatype storage_deal_status =
    StorageDealUnknown | StorageDealError | StorageDealProposalRejected
  | StorageDealProposalAccepted | StorageDealWaitingForData | StorageDealVerifyData
  | StorageDealPublishing | StorageDealStaged | StorageDealAwaitingPreCommit | StorageDealSealing
  | StorageDealOther u64

record signed_response =
  sr_State :: storage_deal_status
  sr_Message :: string
  sr_Proposal :: cid

record transfer =
  tr_Type :: string
  tr_ClientID :: string
  tr_Params :: bytes
  tr_Size :: u64

definition emptyTransfer :: transfer where
  "emptyTransfer = \<lparr>tr_Type = [], tr_ClientID = [], tr_Params = [], tr_Size = 0\<rparr>"

record deal_params =
  dpar_DealUUID :: uuid
  dpar_ClientDealProposal :: client_deal_proposal
  dpar_DealDataRoot :: cid
  dpar_Transfer :: transfer
  dpar_RemoveUnsealedCopy :: bool
  dpar_IsOffline :: bool
  dpar_SkipIPNIAnnounce :: bool

record deal_response =
  dresp_Accepted :: bool
  dresp_Message :: string

record storage_ask =
  sa_Miner :: address
  sa_Price :: int
  sa_VerifiedPrice :: int
  sa_MinPieceSize :: u64
  sa_MaxPieceSize :: u64

record provider_deal_state =
  pds_State :: storage_deal_status
  pds_Message :: string
  pds_Proposal :: "market_deal_proposal option"
  pds_ProposalCid :: "cid option"
  pds_AddFundsCid :: "cid option"
  pds_PublishCid :: "cid option"
  pds_DealID :: u64
  pds_FastRetrieval :: bool

record deal_status =
  ds_Error :: string
  ds_Status :: string
  ds_Proposal :: market_deal_proposal
  ds_SignedProposalCid :: cid
  ds_PublishCid :: "cid option"
  ds_ChainDealID :: u64

record deal_status_response =
  dsr_Error :: string
  dsr_DealStatus :: "deal_status option"

section \<open>Retrieval deals and payment\<close>

record retrieval_proposal =
  rp_PayloadCID :: cid
  rp_ID :: u64
  rp_PricePerByte :: int
  rp_UnsealPrice :: int
  rp_PaymentInterval :: u64
  rp_PaymentIntervalIncrease :: u64
  rp_Selector :: string

record signed_voucher =
  sv_ChannelAddr :: address
  sv_Lane :: u64
  sv_Nonce :: u64
  sv_Amount :: int

record voucher_create_result =
  vr_Voucher :: "signed_voucher option"
  vr_Shortfall :: int

record deal_payment =
  pay_ID :: u64
  pay_PaymentChannel :: address
  pay_PaymentVoucher :: "signed_voucher option"

datatype retrieval_deal_status =
    DealStatusAccepted | DealStatusFundsNeeded | DealStatusFundsNeededLastPayment
  | DealStatusRejected | DealStatusFundsNeededUnseal | DealStatusUnsealing | DealStatusCancelled
  | DealStatusErrored | DealStatusCompleted | DealStatusOther u64

record retrieval_deal_response =
  rdr_Status :: retrieval_deal_status
  rdr_PaymentOwed :: int
  rdr_Message :: string

section \<open>Data transfer\<close>

record channel_id =
  ch_Initiator :: peer
  ch_Responder :: peer
  ch_ID :: u64

definition zeroChannelID :: channel_id where
  "zeroChannelID = \<lparr>ch_Initiator = [], ch_Responder = [], ch_ID = 0\<rparr>"

datatype dt_status =
    Requested | Ongoing | TransferFinished | Finalizing | Completing | Completed | Failing
  | Failed | Cancelled | OtherStatus u64

datatype event_code =
    Open | Accept | Restart | DataReceived | DataSent | Cancel | Error | CleanupComplete
  | NewVoucher | NewVoucherResult | PauseInitiator | ResumeInitiator | PauseResponder
  | ResumeResponder | FinishTransfer | ResponderCompletes | ResponderBeginsFinalization
  | BeginFinalizing | Disconnected | Complete | CompleteCleanupOnRestart | DataQueued
  | DataQueuedProgress | DataSentProgress | DataReceivedProgress | RequestTimedOut
  | SendDataError | ReceiveDataError | TransferRequestQueued | RequestCancelled | Opened
  | OtherEvent u64

record dt_event =
  evt_Code :: event_code
  evt_Message :: string

datatype voucher_result = DealResponseResult retrieval_deal_response | OtherVoucherResult

text \<open>The answers of the interface \<open>datatransfer.ChannelState\<close>.\<close>

record dt_channel =
  dtc_SelfPeer :: peer
  dtc_OtherPeer :: peer
  dtc_Status :: dt_status
  dtc_Sent :: u64
  dtc_Received :: u64
  dtc_Message :: string
  dtc_BaseCID :: cid
  dtc_ChannelID :: channel_id
  dtc_Stages :: "string option"
  dtc_IsPull :: bool
  dtc_LastVoucherResult :: voucher_result
  dtc_ReceivedCidsTotal :: "64 word"

text \<open>\<open>TransferType\<close> and \<open>ChannelState\<close> of \<open>filclient.go\<close>.\<close>

type_synonym TransferType = string

definition BoostTransfer :: TransferType where "BoostTransfer = ''boost''"
definition GraphsyncTransfer :: TransferType where "GraphsyncTransfer = ''graphsync''"

record ChannelState =
  cs_SelfPeer :: peer
  cs_RemotePeer :: peer
  cs_Status :: dt_status
  cs_StatusStr :: string
  cs_Sent :: u64
  cs_Received :: u64
  cs_Message :: string
  cs_BaseCid :: string
  cs_ChannelID :: channel_id
  cs_TransferID :: string
  cs_Stages :: "string option"
  cs_TransferType :: TransferType

text \<open>The state of a transfer of the libp2p CAR server.\<close>

datatype transfer_status =
    TransferStatusStarted | TransferStatusOngoing | TransferStatusCompleted | TransferStatusFailed
  | TransferStatusOther string

record transfer_state =
  ts_ID :: string
  ts_LocalAddr :: string
  ts_RemoteAddr :: string
  ts_Status :: transfer_status
  ts_Sent :: u64
  ts_Received :: u64
  ts_Message :: string
  ts_PayloadCid :: cid

record auth_value =
  av_ID :: string
  av_ProposalCid :: cid
  av_PayloadCid :: cid
  av_Size :: u64

record libp2p_transfer =
  lt_ID :: string
  lt_RemoteAddr :: string
  lt_PayloadCid :: cid
  lt_State :: transfer_state

section \<open>Chain messages\<close>

record message =
  msg_From :: address
  msg_To :: address
  msg_Method :: u64
  msg_Value :: int
  msg_Params :: bytes
  msg_Nonce :: u64
  msg_GasLimit :: int
  msg_GasFeeCap :: int
  msg_GasPremium :: int

record signed_message =
  sm_Message :: message
  sm_Signature :: signature

record actor =
  act_Balance :: int
  act_Nonce :: u64

record market_balance =
  mb_Escrow :: int
  mb_Locked :: int

type_synonym market_deal = string

datatype msg_type = MTDealProposal | MTChainMsg | MTUnknown

end
