(* ===== verification/World.thy ===== *)
theory World
  imports MarketTypes
begin

text \<open>
  The outside world.  Every package the client calls is a record of functions (a host, a chain
  gateway, a wallet, a data-transfer manager, a payment channel manager, a libp2p CAR server with its
  auth database and datastore).  The answer of such a function may depend on everything that
  happened before, so each takes the trace of all calls made so far, and every call the program makes
  is appended to that trace.  The model thus fixes nothing about the packages: a theorem about every
  such record is a theorem about every deterministic behaviour of them, and a law of a package is a
  named hypothesis on its record.  The record \<open>FilClient\<close> mirrors the struct of \<open>filclient.go\<close>.
\<close>

section \<open>The trace\<close>

datatype request =
    AskRequest address
  | ProposalRequest net_proposal
  | DealParamsRequest deal_params
  | StatusRequestByCid cid signature
  | StatusRequestByUUID uuid signature
  | QueryRequest cid

datatype host_call =
    HConnect addr_info
  | HNewStream peer "string list"
  | HFirstSupportedProtocol peer "string list"
  | HPeerstoreGet peer string
  | HProtect peer string
  | HUnprotect peer string
  | HClose stream
  | HSetDeadline stream "int option"
  | HWrite stream request
  | HRead stream
  | HConnectedness peer

datatype api_call =
    AStateMinerInfo address
  | AChainHead
  | ACollateralBounds u64 bool
  | AStateGetActor address
  | AStateMarketBalance address
  | AVerifiedClientStatus address
  | AStateAccountKey address
  | AGasEstimate message
  | AMpoolPush signed_message "go_error option"
  | AMarketStorageDeal u64

datatype dt_call =
    DOpenPush peer cid cid
  | DOpenPull peer retrieval_proposal cid
  | DSendVoucher channel_id deal_payment "go_error option"
  | DRestart channel_id
  | DClose channel_id
  | DChannelState channel_id
  | DInProgressChannels
  | DSubscribe
  | DUnsubscribe

datatype pch_call =
    PAvailableFunds address address
  | PGetPaych address address int
  | PGetPaychWaitReady cid
  | PAllocateLane address
  | PCreateVoucher address signed_voucher

datatype xfer_call =
    XSubscribe
  | XUnsubscribe
  | XStart
  | XGet string
  | XCancelTransfer string
  | XMatching
  | XDeleteExpired int
  | XAuthPut string auth_value "go_error option"
  | XAuthDelete string
  | XDsGet string
  | XDsPut string bytes "go_error option"
  | XDsQuery
  | XListener nat u64 ChannelState

text \<open>What a new client sets up, in the order of the constructors' first use.\<close>

datatype setup_call =
    PaychStart
  | MkdirAll string
  | NewDataTransfer
  | RegisterVoucherType string
  | RegisterVoucherResultType string
  | RegisterTransportConfigurer string
  | DtStart

datatype call =
    Host host_call
  | Api api_call
  | WalletSign address bytes msg_type
  | CustomSign bytes
  | Dt dt_call
  | Pch pch_call
  | Xfer xfer_call
  | Publish RetrievalEvent
  | Progress u64
  | ComputePieceComm cid
  | BlockstoreHas cid
  | Tpr string "string list"
  | Printf string "string list"
  | Setup setup_call

type_synonym trace = "call list"

record world = w_trace :: trace

text \<open>A call: the answer is read off the trace so far, then the call is recorded.\<close>

definition perform :: "(trace \<Rightarrow> 'r) \<Rightarrow> ('r \<Rightarrow> call) \<Rightarrow> ('w world_scheme, 'r) state" where
  "perform f c = State (\<lambda>w.
     let r = f (w_trace w) in (r, w\<lparr>w_trace := w_trace w @ [c r]\<rparr>))"

text \<open>An effect whose answer the program does not look at.\<close>

definition emit :: "call \<Rightarrow> ('w world_scheme, unit) state" where
  "emit c = modify (\<lambda>w. w\<lparr>w_trace := w_trace w @ [c]\<rparr>)"

text \<open>A call whose only result is an error that may be nil.\<close>

definition performE :: "(trace \<Rightarrow> go_error option) \<Rightarrow> call \<Rightarrow> ('w world_scheme, go_error + unit) state" where
  "performE f c = perform (\<lambda>t. ofErr (f t)) (\<lambda>_. c)"

lemma run_perform [run_simps]:
  "run_state (perform f c) w =
     (f (w_trace w), w\<lparr>w_trace := w_trace w @ [c (f (w_trace w))]\<rparr>)"
  by (simp add: perform_def Let_def)

lemma run_emit [run_simps]: "run_state (emit c) w = ((), w\<lparr>w_trace := w_trace w @ [c]\<rparr>)"
  by (simp add: emit_def run_simps)

lemma run_performE [run_simps]:
  "run_state (performE f c) w = (ofErr (f (w_trace w)), w\<lparr>w_trace := w_trace w @ [c]\<rparr>)"
  by (simp add: performE_def run_simps)

section \<open>The services\<close>

text \<open>Values of the peerstore are \<open>interface{}\<close>.\<close>

datatype metadata = MetaString string | MetaOther

record host_service =
  h_Connect :: "trace \<Rightarrow> addr_info \<Rightarrow> go_error option"
  h_NewStream :: "trace \<Rightarrow> peer \<Rightarrow> string list \<Rightarrow> go_error + stream"
  h_FirstSupportedProtocol :: "trace \<Rightarrow> peer \<Rightarrow> string list \<Rightarrow> go_error + string"
  h_PeerstoreGet :: "trace \<Rightarrow> peer \<Rightarrow> string \<Rightarrow> go_error + metadata"
  h_Connected :: "trace \<Rightarrow> peer \<Rightarrow> bool"
  h_WriteCborRPC :: "trace \<Rightarrow> stream \<Rightarrow> request \<Rightarrow> go_error option"
  h_ReadAsk :: "trace \<Rightarrow> stream \<Rightarrow> go_error + storage_ask"
  h_ReadSignedResponse :: "trace \<Rightarrow> stream \<Rightarrow> go_error + signed_response"
  h_ReadDealResponse :: "trace \<Rightarrow> stream \<Rightarrow> go_error + deal_response"
  h_ReadDealState :: "trace \<Rightarrow> stream \<Rightarrow> go_error + provider_deal_state"
  h_ReadDealStatus :: "trace \<Rightarrow> stream \<Rightarrow> go_error + deal_status_response"
  h_ReadQueryResponse :: "trace \<Rightarrow> stream \<Rightarrow> go_error + query_response"

record gateway_service =
  g_StateMinerInfo :: "trace \<Rightarrow> address \<Rightarrow> go_error + miner_info"
  g_ChainHead :: "trace \<Rightarrow> go_error + 64 word"
  g_CollateralBounds :: "trace \<Rightarrow> u64 \<Rightarrow> bool \<Rightarrow> go_error + int \<times> int"
  g_StateGetActor :: "trace \<Rightarrow> address \<Rightarrow> go_error + actor"
  g_StateMarketBalance :: "trace \<Rightarrow> address \<Rightarrow> go_error + market_balance"
  g_VerifiedClientStatus :: "trace \<Rightarrow> address \<Rightarrow> go_error + int option"
  g_StateAccountKey :: "trace \<Rightarrow> address \<Rightarrow> go_error + address"
  g_GasEstimateMessageGas :: "trace \<Rightarrow> message \<Rightarrow> go_error + message"
  g_MpoolPush :: "trace \<Rightarrow> signed_message \<Rightarrow> go_error option"
  g_StateMarketStorageDeal :: "trace \<Rightarrow> u64 \<Rightarrow> go_error + market_deal"

record wallet_service =
  w_WalletSign :: "trace \<Rightarrow> address \<Rightarrow> bytes \<Rightarrow> msg_type \<Rightarrow> go_error + signature"

record dt_service =
  d_OpenPushDataChannel :: "trace \<Rightarrow> peer \<Rightarrow> cid \<Rightarrow> cid \<Rightarrow> go_error + channel_id"
  d_OpenPullDataChannel :: "trace \<Rightarrow> peer \<Rightarrow> retrieval_proposal \<Rightarrow> cid \<Rightarrow> go_error + channel_id"
  d_SendVoucher :: "trace \<Rightarrow> channel_id \<Rightarrow> deal_payment \<Rightarrow> go_error option"
  d_RestartChannel :: "trace \<Rightarrow> channel_id \<Rightarrow> go_error option"
  d_ChannelState :: "trace \<Rightarrow> channel_id \<Rightarrow> go_error + dt_channel"
  d_InProgressChannels :: "trace \<Rightarrow> go_error + (channel_id \<times> dt_channel) list"

record pch_service =
  p_AvailableFunds :: "trace \<Rightarrow> address \<Rightarrow> address \<Rightarrow> go_error + int \<times> address option"
  p_GetPaych :: "trace \<Rightarrow> address \<Rightarrow> address \<Rightarrow> int \<Rightarrow> go_error + address \<times> cid"
  p_GetPaychWaitReady :: "trace \<Rightarrow> cid \<Rightarrow> go_error + address"
  p_AllocateLane :: "trace \<Rightarrow> address \<Rightarrow> go_error + u64"
  p_CreateVoucher :: "trace \<Rightarrow> address \<Rightarrow> signed_voucher \<Rightarrow> go_error + voucher_create_result"

section \<open>The client\<close>

record FilClient =
  host :: host_service
  api :: gateway_service
  wallet :: wallet_service
  dataTransfer :: dt_service
  pchmgr :: pch_service
  ClientAddr :: address
  computePieceComm :: "trace \<Rightarrow> cid \<Rightarrow> go_error + cid \<times> u64 \<times> u64"
  blockstoreHas :: "trace \<Rightarrow> cid \<Rightarrow> go_error + bool"

text \<open>The pure library functions the program applies.\<close>

record library =
  lib_padded :: "u64 \<Rightarrow> u64"
  lib_unpadded :: "u64 \<Rightarrow> u64"
  lib_NewMultiaddrBytes :: "bytes \<Rightarrow> go_error + multiaddr"
  lib_LabelField :: "cid \<Rightarrow> go_error + deal_label"
  lib_DumpProposal :: "market_deal_proposal \<Rightarrow> go_error + bytes"
  lib_DumpCid :: "cid \<Rightarrow> go_error + bytes"
  lib_DumpAddress :: "address \<Rightarrow> go_error + bytes"
  lib_UUIDBytes :: "uuid \<Rightarrow> go_error + bytes"
  lib_CidHash :: "cid \<Rightarrow> bytes"
  lib_PadCommP :: "bytes \<Rightarrow> u64 \<Rightarrow> u64 \<Rightarrow> go_error + bytes"
  lib_DataCommitmentV1ToCID :: "bytes \<Rightarrow> go_error + cid"
  lib_MessageCidBytes :: "message \<Rightarrow> bytes"
  lib_SignedMessageCid :: "signed_message \<Rightarrow> cid"
  lib_addrString :: "address \<Rightarrow> string"
  lib_cidString :: "cid \<Rightarrow> string"
  lib_FILString :: "int \<Rightarrow> string"
  lib_ParseFIL :: "string \<Rightarrow> go_error + int"
  lib_dealStatusNum :: "storage_deal_status \<Rightarrow> string"

section \<open>Facts about traces\<close>

text \<open>An operation only ever extends the trace.\<close>

definition extends :: "('w world_scheme, 'a) state \<Rightarrow> bool" where
  "extends m \<longleftrightarrow> (\<forall>w. \<exists>t. w_trace (snd (run_state m w)) = w_trace w @ t)"

lemma extends_ret [simp, intro]: "extends (ret r)"
  by (simp add: extends_def)

lemma extends_perform [simp, intro]: "extends (perform f c)"
  by (simp add: extends_def run_simps)

lemma extends_performE [simp, intro]: "extends (performE f c)"
  by (simp add: extends_def run_simps)

lemma extends_emit [simp, intro]: "extends (emit c)"
  by (simp add: extends_def run_simps)

lemma extends_bind [intro]:
  assumes "extends m" and "\<And>r. extends (k r)"
  shows "extends (m \<bind> k)"
  unfolding extends_def
proof
  fix w
  obtain r w1 where m: "run_state m w = (r, w1)" by fastforce
  with assms(1) obtain t1 where "w_trace w1 = w_trace w @ t1"
    unfolding extends_def by (metis snd_conv)
  moreover obtain t2 where "w_trace (snd (run_state (k r) w1)) = w_trace w1 @ t2"
    using assms(2) unfolding extends_def by blast
  ultimately show "\<exists>t. w_trace (snd (run_state (m \<bind> k) w)) = w_trace w @ t"
    by (simp add: m)
qed

lemma extends_bindE [intro]:
  assumes "extends m" and "\<And>r. extends (k r)"
  shows "extends (bindE m k)"
  unfolding bindE_def using assms by (intro extends_bind) (auto split: sum.splits)

lemma extends_mapE [intro]: "extends m \<Longrightarrow> extends (mapE f m)"
  unfolding mapE_def by (intro extends_bind) auto

lemma extends_deferred [intro]: "extends d \<Longrightarrow> extends m \<Longrightarrow> extends (deferred d m)"
  unfolding deferred_def by (intro extends_bind) auto

text \<open>
  An operation that only appends calls of one kind to the trace and leaves the rest of the state
  alone.
\<close>

definition only :: "(call \<Rightarrow> bool) \<Rightarrow> ('w world_scheme, 'a) state \<Rightarrow> bool" where
  "only Q m \<longleftrightarrow> (\<forall>w. \<exists>u. snd (run_state m w) = w\<lparr>w_trace := w_trace w @ u\<rparr> \<and> list_all Q u)"

named_theorems only_intros \<open>which operations append calls of one kind only\<close>

lemma onlyD:
  assumes "only Q m" and "run_state m w = (r, w')"
  obtains u where "w' = w\<lparr>w_trace := w_trace w @ u\<rparr>" "list_all Q u"
  using assms unfolding only_def by (metis snd_conv)

lemma only_mono: "only Q m \<Longrightarrow> (\<And>c. Q c \<Longrightarrow> R c) \<Longrightarrow> only R m"
  unfolding only_def by (metis list.pred_mono_strong)

lemma only_ret [only_intros]: "only Q (ret r)"
  by (auto simp: only_def intro: exI [of _ "[]"])

lemma only_perform [only_intros]: "(\<And>r. Q (c r)) \<Longrightarrow> only Q (perform f c)"
  by (auto simp: only_def run_simps)

lemma only_performE [only_intros]: "Q c \<Longrightarrow> only Q (performE f c)"
  by (auto simp: only_def run_simps)

lemma only_emit [only_intros]: "Q c \<Longrightarrow> only Q (emit c)"
  by (auto simp: only_def run_simps)

lemma only_bind [only_intros]:
  assumes "only Q m" and "\<And>r. only Q (k r)"
  shows "only Q (m \<bind> k)"
  unfolding only_def
proof
  fix w
  obtain r w1 where m: "run_state m w = (r, w1)" by fastforce
  from onlyD [OF assms(1) m] obtain u where u: "w1 = w\<lparr>w_trace := w_trace w @ u\<rparr>" "list_all Q u" .
  obtain r2 w2 where k: "run_state (k r) w1 = (r2, w2)" by fastforce
  from onlyD [OF assms(2) k] obtain v where v: "w2 = w1\<lparr>w_trace := w_trace w1 @ v\<rparr>" "list_all Q v" .
  show "\<exists>u. snd (run_state (m \<bind> k) w) = w\<lparr>w_trace := w_trace w @ u\<rparr> \<and> list_all Q u"
    using u v k by (intro exI [of _ "u @ v"]) (simp add: m)
qed

lemma only_bindE [only_intros]: "only Q m \<Longrightarrow> (\<And>r. only Q (k r)) \<Longrightarrow> only Q (bindE m k)"
  unfolding bindE_def by (intro only_intros) (auto split: sum.splits intro: only_intros)

lemma only_mapE [only_intros]: "only Q m \<Longrightarrow> only Q (mapE f m)"
  unfolding mapE_def by (intro only_intros)

lemma only_deferred [only_intros]: "only Q d \<Longrightarrow> only Q m \<Longrightarrow> only Q (deferred d m)"
  unfolding deferred_def by (intro only_intros)

end
