(* ===== verification/Samples.thy ===== *)
theory Samples
  imports World
begin

text \<open>
  Concrete services, used only to show that the hypotheses of the properties can hold: a host that
  connects and answers every request, a gateway that knows one miner, a wallet that signs with the
  address, and so on.  A witness changes the fields it is about.
\<close>

definition sampleAsk :: storage_ask where
  "sampleAsk = \<lparr>sa_Miner = ''f01000'', sa_Price = 500, sa_VerifiedPrice = 5,
     sa_MinPieceSize = 256, sa_MaxPieceSize = 34359738368\<rparr>"

definition sampleDealProposal :: market_deal_proposal where
  "sampleDealProposal = \<lparr>dp_PieceCID = ''baga'', dp_PieceSize = 256, dp_VerifiedDeal = False,
     dp_Client = ''f3client'', dp_Provider = ''f01000'', dp_Label = DealLabel ''bafy'',
     dp_StartEpoch = 100, dp_EndEpoch = 200, dp_StoragePricePerEpoch = 1,
     dp_ProviderCollateral = 11, dp_ClientCollateral = 0\<rparr>"

definition sampleProviderState :: provider_deal_state where
  "sampleProviderState = \<lparr>pds_State = StorageDealSealing, pds_Message = [],
     pds_Proposal = Some sampleDealProposal, pds_ProposalCid = Some ''bafyprop'',
     pds_AddFundsCid = None, pds_PublishCid = None, pds_DealID = 7, pds_FastRetrieval = True\<rparr>"

definition sampleDealStatus :: deal_status where
  "sampleDealStatus = \<lparr>ds_Error = [], ds_Status = ''Accepted'', ds_Proposal = sampleDealProposal,
     ds_SignedProposalCid = ''bafyprop'', ds_PublishCid = None, ds_ChainDealID = 7\<rparr>"

definition sampleQueryResponse :: query_response where
  "sampleQueryResponse = \<lparr>qr_Status = 0, qr_PieceCIDFound = 0, qr_Size = 1024,
     qr_PaymentAddress = ''f3pay'', qr_MinPricePerByte = 2, qr_MaxPaymentInterval = 1048576,
     qr_MaxPaymentIntervalIncrease = 1048576, qr_Message = [], qr_UnsealPrice = 0\<rparr>"

definition sampleHost :: host_service where
  "sampleHost = \<lparr>
     h_Connect = (\<lambda>_ _. None),
     h_NewStream = (\<lambda>_ p ps. case ps of
        [] \<Rightarrow> Inl (Opaque ''no protocol'')
      | pr # _ \<Rightarrow> Inr \<lparr>str_Id = 1, str_RemotePeer = p, str_Protocol = pr\<rparr>),
     h_FirstSupportedProtocol = (\<lambda>_ _ ps. case ps of [] \<Rightarrow> Inr [] | pr # _ \<Rightarrow> Inr pr),
     h_PeerstoreGet = (\<lambda>_ _ _. Inr (MetaString ''lotus'')),
     h_Connected = (\<lambda>_ _. True),
     h_WriteCborRPC = (\<lambda>_ _ _. None),
     h_ReadAsk = (\<lambda>_ _. Inr sampleAsk),
     h_ReadSignedResponse = (\<lambda>_ _. Inr \<lparr>sr_State = StorageDealProposalAccepted,
        sr_Message = [], sr_Proposal = ''bafyprop''\<rparr>),
     h_ReadDealResponse = (\<lambda>_ _. Inr \<lparr>dresp_Accepted = True, dresp_Message = []\<rparr>),
     h_ReadDealState = (\<lambda>_ _. Inr sampleProviderState),
     h_ReadDealStatus = (\<lambda>_ _. Inr \<lparr>dsr_Error = [], dsr_DealStatus = Some sampleDealStatus\<rparr>),
     h_ReadQueryResponse = (\<lambda>_ _. Inr sampleQueryResponse)\<rparr>"

definition sampleMiner :: miner_info where
  "sampleMiner = \<lparr>mi_PeerId = Some ''12D3miner'', mi_Multiaddrs = [''/ip4/1.2.3.4''],
     mi_Owner = ''f3owner''\<rparr>"

definition sampleGateway :: gateway_service where
  "sampleGateway = \<lparr>
     g_StateMinerInfo = (\<lambda>_ _. Inr sampleMiner),
     g_ChainHead = (\<lambda>_. Inr 1000),
     g_CollateralBounds = (\<lambda>_ _ _. Inr (100, 1000)),
     g_StateGetActor = (\<lambda>_ _. Inr \<lparr>act_Balance = 5000, act_Nonce = 3\<rparr>),
     g_StateMarketBalance = (\<lambda>_ _. Inr \<lparr>mb_Escrow = 70, mb_Locked = 20\<rparr>),
     g_VerifiedClientStatus = (\<lambda>_ _. Inr None),
     g_StateAccountKey = (\<lambda>_ a. Inr a),
     g_GasEstimateMessageGas =
       (\<lambda>_ m. Inr (m\<lparr>msg_GasLimit := 9, msg_GasFeeCap := 1, msg_GasPremium := 3000000000\<rparr>)),
     g_MpoolPush = (\<lambda>_ _. None),
     g_StateMarketStorageDeal = (\<lambda>_ _. Inr ''deal'')\<rparr>"

definition sampleWallet :: wallet_service where
  "sampleWallet = \<lparr>w_WalletSign = (\<lambda>_ a _ _. Inr a)\<rparr>"

definition sampleChannel :: channel_id where
  "sampleChannel = \<lparr>ch_Initiator = ''12D3me'', ch_Responder = ''12D3miner'', ch_ID = 5\<rparr>"

definition sampleDtChannel :: dt_channel where
  "sampleDtChannel = \<lparr>dtc_SelfPeer = ''12D3me'', dtc_OtherPeer = ''12D3miner'',
     dtc_Status = Ongoing, dtc_Sent = 0, dtc_Received = 1024, dtc_Message = [],
     dtc_BaseCID = ''bafyroot'', dtc_ChannelID = sampleChannel, dtc_Stages = None,
     dtc_IsPull = True, dtc_LastVoucherResult = OtherVoucherResult, dtc_ReceivedCidsTotal = 4\<rparr>"

definition sampleDataTransfer :: dt_service where
  "sampleDataTransfer = \<lparr>
     d_OpenPushDataChannel = (\<lambda>_ _ _ _. Inr sampleChannel),
     d_OpenPullDataChannel = (\<lambda>_ _ _ _. Inr sampleChannel),
     d_SendVoucher = (\<lambda>_ _ _. None),
     d_RestartChannel = (\<lambda>_ _. None),
     d_ChannelState = (\<lambda>_ _. Inr sampleDtChannel),
     d_InProgressChannels = (\<lambda>_. Inr [])\<rparr>"

definition samplePaych :: pch_service where
  "samplePaych = \<lparr>
     p_AvailableFunds = (\<lambda>_ _ _. Inr (10000000000000000, Some ''f2paych'')),
     p_GetPaych = (\<lambda>_ _ _ _. Inr (''f2paych'', [])),
     p_GetPaychWaitReady = (\<lambda>_ _. Inr ''f2paych''),
     p_AllocateLane = (\<lambda>_ _. Inr 1),
     p_CreateVoucher = (\<lambda>_ _ v. Inr \<lparr>vr_Voucher = Some v, vr_Shortfall = 0\<rparr>)\<rparr>"

definition sampleClient :: FilClient where
  "sampleClient = \<lparr>host = sampleHost, api = sampleGateway, wallet = sampleWallet,
     dataTransfer = sampleDataTransfer, pchmgr = samplePaych, ClientAddr = ''f3client'',
     computePieceComm = (\<lambda>_ _. Inr (''bagapiece'', 1000, 1016)),
     blockstoreHas = (\<lambda>_ _. Inr True)\<rparr>"

definition sampleLibrary :: library where
  "sampleLibrary = \<lparr>
     lib_padded = (\<lambda>s. s + s div 127),
     lib_unpadded = (\<lambda>s. s - s div 128),
     lib_NewMultiaddrBytes = (\<lambda>b. if b = [] then Inl (Opaque ''empty multiaddr'') else Inr b),
     lib_LabelField = (\<lambda>c. Inr (DealLabel c)),
     lib_DumpProposal = (\<lambda>p. Inr (dp_PieceCID p)),
     lib_DumpCid = (\<lambda>c. Inr c),
     lib_DumpAddress = (\<lambda>a. Inr a),
     lib_UUIDBytes = (\<lambda>u. Inr u),
     lib_CidHash = (\<lambda>c. replicate 40 (CHR ''h'')),
     lib_PadCommP = (\<lambda>b _ _. Inr b),
     lib_DataCommitmentV1ToCID = (\<lambda>b. Inr ''bagapadded''),
     lib_MessageCidBytes = (\<lambda>m. msg_From m),
     lib_SignedMessageCid = (\<lambda>s. ''bafymsg''),
     lib_addrString = (\<lambda>a. a),
     lib_cidString = (\<lambda>c. c),
     lib_FILString = (\<lambda>n. ''FIL''),
     lib_ParseFIL = (\<lambda>s. Inr 10000000000000000),
     lib_dealStatusNum = (\<lambda>s. ''11'')\<rparr>"

definition sampleMessage :: message where
  "sampleMessage = \<lparr>msg_From = ''f3client'', msg_To = ''f05'', msg_Method = 2, msg_Value = 1,
     msg_Params = [], msg_Nonce = 0, msg_GasLimit = 0, msg_GasFeeCap = 0, msg_GasPremium = 0\<rparr>"

definition emptyCtx :: ctx where
  "emptyCtx = \<lparr>ctx_Deadline = None\<rparr>"

lemmas sample_defs =
  sampleAsk_def sampleDealProposal_def sampleProviderState_def sampleDealStatus_def
  sampleQueryResponse_def sampleHost_def sampleMiner_def sampleGateway_def sampleWallet_def
  sampleChannel_def sampleDtChannel_def sampleDataTransfer_def samplePaych_def sampleClient_def
  sampleLibrary_def sampleMessage_def emptyCtx_def

end
