(* ===== verification/MsgPusher.thy ===== *)
theory MsgPusher
  imports Samples
begin

text \<open>
  \<open>msgpusher.go\<close>, the nonce-tracking message pusher, and the three methods of \<open>apiprov.go\<close> that hand
  the payment channel manager a pusher and a wallet.  The state is the trace and the map from key
  addresses to the next nonce; the mutex makes each call atomic, so a history of the pusher is the
  list of its calls in the order they took the lock.  The lemmas follow the nonces of the messages
  that the gateway accepted.
\<close>

section \<open>State and operations\<close>

record pusher = world +
  nonces :: "address \<rightharpoonup> u64"

definition NewMsgPusher :: "trace \<Rightarrow> pusher" where
  "NewMsgPusher t = \<lparr>w_trace = t, nonces = Map.empty\<rparr>"

text \<open>The nonce for a key: the tracked one, or the actor's nonce on chain, which is then tracked.\<close>

definition nextNonce ::
  "gateway_service \<Rightarrow> address \<Rightarrow> ('w pusher_scheme, go_error + u64) state" where
  "nextNonce gapi kaddr = do {
     ns \<leftarrow> gets nonces;
     case ns kaddr of
       Some n \<Rightarrow> ret (Inr n)
     | None \<Rightarrow>
         bindE (perform (\<lambda>t. g_StateGetActor gapi t kaddr) (\<lambda>_. Api (AStateGetActor kaddr))) (\<lambda>act.
         do { modify (\<lambda>w. w\<lparr>nonces := (nonces w)(kaddr \<mapsto> act_Nonce act)\<rparr>);
              ret (Inr (act_Nonce act)) })
   }"

definition MpoolPushMessage ::
  "library \<Rightarrow> gateway_service \<Rightarrow> wallet_service \<Rightarrow> message
     \<Rightarrow> ('w pusher_scheme, go_error + signed_message) state" where
  "MpoolPushMessage L gapi wal msg =
     bindE (perform (\<lambda>t. g_StateAccountKey gapi t (msg_From msg))
                    (\<lambda>_. Api (AStateAccountKey (msg_From msg)))) (\<lambda>kaddr.
     bindE (nextNonce gapi kaddr) (\<lambda>n.
     let msg' = msg\<lparr>msg_Nonce := n\<rparr> in
     bindE (mapE (wrapf ''failed to estimate gas: '')
             (perform (\<lambda>t. g_GasEstimateMessageGas gapi t msg') (\<lambda>_. Api (AGasEstimate msg')))) (\<lambda>e.
     let estim = e\<lparr>msg_GasFeeCap := 4000000000, msg_GasPremium := msg_GasPremium e * 2\<rparr> in
     bindE (perform (\<lambda>t. w_WalletSign wal t kaddr (lib_MessageCidBytes L estim) MTChainMsg)
                    (\<lambda>_. WalletSign kaddr (lib_MessageCidBytes L estim) MTChainMsg)) (\<lambda>sig.
     let smsg = \<lparr>sm_Message = estim, sm_Signature = sig\<rparr> in
     do { r \<leftarrow> perform (\<lambda>t. g_MpoolPush gapi t smsg) (\<lambda>r. Api (AMpoolPush smsg r));
          case r of
            Some err \<Rightarrow> ret (Inl err)
          | None \<Rightarrow>
              do { modify (\<lambda>w. w\<lparr>nonces := (nonces w)(kaddr \<mapsto>
                     (case nonces w kaddr of Some m \<Rightarrow> m + 1 | None \<Rightarrow> 1))\<rparr>);
                   ret (Inr smsg) } }))))"

text \<open>\<open>paychApiProvider\<close>: the gateway with a local wallet and this pusher.\<close>

definition paych_MpoolPushMessage ::
  "library \<Rightarrow> gateway_service \<Rightarrow> wallet_service \<Rightarrow> message
     \<Rightarrow> ('w pusher_scheme, go_error + signed_message) state" where
  "paych_MpoolPushMessage L gapi wal msg = MpoolPushMessage L gapi wal msg"

definition paych_WalletSign ::
  "wallet_service \<Rightarrow> address \<Rightarrow> bytes \<Rightarrow> ('w world_scheme, go_error + signature) state" where
  "paych_WalletSign wal addr data =
     perform (\<lambda>t. w_WalletSign wal t addr data MTUnknown) (\<lambda>_. WalletSign addr data MTUnknown)"

text \<open>A history of calls; each result is returned to its caller, whatever it is.\<close>

fun pushAll ::
  "library \<Rightarrow> gateway_service \<Rightarrow> wallet_service \<Rightarrow> message list
     \<Rightarrow> ('w pusher_scheme, (go_error + signed_message) list) state" where
  "pushAll L gapi wal [] = ret []"
| "pushAll L gapi wal (m # ms) =
     do { r \<leftarrow> MpoolPushMessage L gapi wal m; rs \<leftarrow> pushAll L gapi wal ms; ret (r # rs) }"

section \<open>The accepted messages of a trace\<close>

definition pushedMsgs :: "trace \<Rightarrow> message list" where
  "pushedMsgs t =
     concat (map (\<lambda>c. case c of Api (AMpoolPush s None) \<Rightarrow> [sm_Message s] | _ \<Rightarrow> []) t)"

lemma pushedMsgs_simps [simp]:
  "pushedMsgs [] = []"
  "pushedMsgs (t @ u) = pushedMsgs t @ pushedMsgs u"
  "pushedMsgs (c # t) =
     (case c of Api (AMpoolPush s None) \<Rightarrow> [sm_Message s] | _ \<Rightarrow> []) @ pushedMsgs t"
  by (simp_all add: pushedMsgs_def)

text \<open>The nonces of the accepted messages of one key, in order; \<open>key\<close> resolves a sender to its key.\<close>

definition noncesOf :: "(address \<Rightarrow> address) \<Rightarrow> address \<Rightarrow> trace \<Rightarrow> u64 list" where
  "noncesOf key k t = map msg_Nonce (filter (\<lambda>m. key (msg_From m) = k) (pushedMsgs t))"

lemma noncesOf_append [simp]: "noncesOf key k (t @ u) = noncesOf key k t @ noncesOf key k u"
  by (simp add: noncesOf_def)

definition consecutive :: "u64 \<Rightarrow> u64 list \<Rightarrow> bool" where
  "consecutive n0 ns \<longleftrightarrow> ns = map (\<lambda>i. n0 + of_nat i) [0..<length ns]"

lemma consecutive_Nil [simp]: "consecutive n0 []"
  by (simp add: consecutive_def)

lemma consecutive_snoc: "consecutive n0 ns \<Longrightarrow> consecutive n0 (ns @ [n0 + of_nat (length ns)])"
  by (simp add: consecutive_def)

lemma consecutive_distinct:
  assumes "consecutive n0 ns" and "length ns \<le> 2 ^ 64"
  shows "distinct ns"
proof -
  have "inj_on (\<lambda>i. n0 + of_nat i :: u64) {0..<length ns}"
  proof (rule inj_onI)
    fix i j
    assume ij: "i \<in> {0..<length ns}" "j \<in> {0..<length ns}"
      and "n0 + of_nat i = n0 + of_nat j"
    then have "(of_nat i :: u64) = of_nat j" by simp
    then have "unat (of_nat i :: u64) = unat (of_nat j :: u64)" by simp
    with ij assms(2) show "i = j" by (simp add: unat_of_nat)
  qed
  then have "distinct (map (\<lambda>i. n0 + of_nat i) [0..<length ns])"
    by (simp add: distinct_map)
  then show ?thesis using assms(1) unfolding consecutive_def by metis
qed

section \<open>What the gateway is relied on for\<close>

text \<open>
  \<open>StateAccountKey\<close> resolves an address to one key for good, and \<open>GasEstimateMessageGas\<close> fills in the
  gas fields of the message it is given and changes neither its sender nor its nonce.
\<close>

definition keyed_by :: "gateway_service \<Rightarrow> (address \<Rightarrow> address) \<Rightarrow> bool" where
  "keyed_by gapi key \<longleftrightarrow> (\<forall>t a k. g_StateAccountKey gapi t a = Inr k \<longrightarrow> k = key a)"

definition estimates_gas_only :: "gateway_service \<Rightarrow> bool" where
  "estimates_gas_only gapi \<longleftrightarrow>
     (\<forall>t m m'. g_GasEstimateMessageGas gapi t m = Inr m' \<longrightarrow>
        msg_From m' = msg_From m \<and> msg_Nonce m' = msg_Nonce m)"

section \<open>One call\<close>

text \<open>A key learns a nonce from the chain at most once, and nothing else changes.\<close>

lemma nextNonce_run:
  assumes "run_state (nextNonce gapi k) w = (r, w')"
  shows "pushedMsgs (w_trace w') = pushedMsgs (w_trace w)"
    and "case r of
           Inl e \<Rightarrow> nonces w k = None \<and> nonces w' = nonces w
         | Inr n \<Rightarrow> nonces w' k = Some n \<and>
             (nonces w k = None \<and> nonces w' = (nonces w)(k \<mapsto> n) \<or>
              nonces w k = Some n \<and> nonces w' = nonces w)"
  using assms
  by (auto simp: nextNonce_def run_simps split: option.splits sum.splits prod.splits)

text \<open>
  The outcome of a call, split by what the gateway accepted: either nothing was accepted and the
  tracked nonces are kept (up to a key that learnt its nonce), or one message was, with the tracked
  nonce of its key, and that nonce moved on by one.
\<close>

lemma MpoolPushMessage_run:
  assumes "run_state (MpoolPushMessage L gapi wal msg) w = (r, w')"
    and "keyed_by gapi key" and "estimates_gas_only gapi"
  shows "case r of
      Inl e \<Rightarrow> pushedMsgs (w_trace w') = pushedMsgs (w_trace w) \<and>
        (nonces w' = nonces w \<or>
         (\<exists>n. nonces w (key (msg_From msg)) = None \<and> nonces w' = (nonces w)(key (msg_From msg) \<mapsto> n)))
    | Inr smsg \<Rightarrow> \<exists>n. (nonces w (key (msg_From msg)) = None \<or> nonces w (key (msg_From msg)) = Some n) \<and>
        pushedMsgs (w_trace w') = pushedMsgs (w_trace w) @ [sm_Message smsg] \<and>
        msg_From (sm_Message smsg) = msg_From msg \<and> msg_Nonce (sm_Message smsg) = n \<and>
        nonces w' = (nonces w)(key (msg_From msg) \<mapsto> n + 1)"
proof -
  let ?w1 = "w\<lparr>w_trace := w_trace w @ [Api (AStateAccountKey (msg_From msg))]\<rparr>"
  show ?thesis
  proof (cases "g_StateAccountKey gapi (w_trace w) (msg_From msg)")
    case (Inl e)
    then show ?thesis using assms(1) by (auto simp: MpoolPushMessage_def run_simps)
  next
    case (Inr k)
    with assms(2) have k: "k = key (msg_From msg)" unfolding keyed_by_def by blast
    obtain q w2 where nn: "run_state (nextNonce gapi k) ?w1 = (q, w2)" by fastforce
    note nnr = nextNonce_run [OF nn]
    show ?thesis
    proof (cases q)
      case (Inl e)
      then show ?thesis using assms(1) nn nnr Inr k
        by (auto simp: MpoolPushMessage_def run_simps)
    next
      case (Inr n)
      note q = Inr
      let ?msg = "msg\<lparr>msg_Nonce := n\<rparr>"
      show ?thesis
      proof (cases "g_GasEstimateMessageGas gapi (w_trace w2) ?msg")
        case (Inl e)
        then show ?thesis using assms(1) nn nnr \<open>g_StateAccountKey _ _ _ = Inr k\<close> k q
          by (auto simp: MpoolPushMessage_def run_simps Let_def)
      next
        case (Inr m')
        with assms(3) have "msg_From m' = msg_From msg" "msg_Nonce m' = n"
          unfolding estimates_gas_only_def by fastforce+
        then show ?thesis
          using assms(1) nn nnr \<open>g_StateAccountKey _ _ _ = Inr k\<close> k q Inr
          by (auto simp: MpoolPushMessage_def run_simps Let_def
              split: sum.splits option.splits prod.splits if_splits)
      qed
    qed
  qed
qed

section \<open>The invariant of the nonces\<close>

text \<open>
  What the accepted nonces of a key say about its entry in the map: none for a key not tracked yet,
  otherwise consecutive ones of which the entry is the next.
\<close>

fun tracked :: "u64 list \<Rightarrow> u64 option \<Rightarrow> bool" where
  "tracked ns None = (ns = [])"
| "tracked ns (Some n) = (\<exists>n0. consecutive n0 ns \<and> n = n0 + of_nat (length ns))"

lemma tracked_learn: "tracked ns None \<Longrightarrow> tracked ns (Some n)"
  by simp

lemma tracked_push: "tracked ns o' \<Longrightarrow> o' = None \<or> o' = Some n \<Longrightarrow> tracked (ns @ [n]) (Some (n + 1))"
  by (cases o') (auto dest: consecutive_snoc simp: consecutive_def)

lemma tracked_consecutive: "tracked ns o' \<Longrightarrow> \<exists>n0. consecutive n0 ns"
  by (cases o') auto

definition nonce_inv :: "(address \<Rightarrow> address) \<Rightarrow> 'w pusher_scheme \<Rightarrow> bool" where
  "nonce_inv key w \<longleftrightarrow> (\<forall>k. tracked (noncesOf key k (w_trace w)) (nonces w k))"

lemma nonce_inv_init: "pushedMsgs t = [] \<Longrightarrow> nonce_inv key (NewMsgPusher t)"
  by (simp add: nonce_inv_def NewMsgPusher_def noncesOf_def)

lemma nonce_inv_push:
  assumes inv: "nonce_inv key w"
    and run: "run_state (MpoolPushMessage L gapi wal msg) w = (r, w')"
    and laws: "keyed_by gapi key" "estimates_gas_only gapi"
  shows "nonce_inv key w'"
proof -
  note out = MpoolPushMessage_run [OF run laws]
  have tk: "tracked (noncesOf key k (w_trace w)) (nonces w k)" for k
    using inv unfolding nonce_inv_def by blast
  show ?thesis
  proof (cases r)
    case (Inl e)
    with out have same: "noncesOf key k (w_trace w') = noncesOf key k (w_trace w)" for k
      by (simp add: noncesOf_def)
    from Inl out consider "nonces w' = nonces w"
      | n where "nonces w (key (msg_From msg)) = None"
          "nonces w' = (nonces w)(key (msg_From msg) \<mapsto> n)" by auto
    then show ?thesis
    proof cases
      case 1
      then show ?thesis using tk by (simp add: nonce_inv_def same)
    next
      case 2
      have "tracked (noncesOf key k (w_trace w)) (nonces w' k)" for k
        using tk [of k] 2 tracked_learn by (cases "k = key (msg_From msg)") auto
      then show ?thesis by (simp only: nonce_inv_def same) blast
    qed
  next
    case (Inr smsg)
    then obtain n where n: "nonces w (key (msg_From msg)) = None \<or> nonces w (key (msg_From msg)) = Some n"
      and tr: "pushedMsgs (w_trace w') = pushedMsgs (w_trace w) @ [sm_Message smsg]"
      and m: "msg_From (sm_Message smsg) = msg_From msg" "msg_Nonce (sm_Message smsg) = n"
      and ns: "nonces w' = (nonces w)(key (msg_From msg) \<mapsto> n + 1)"
      using out by auto
    have nof: "noncesOf key k (w_trace w') =
        noncesOf key k (w_trace w) @ (if k = key (msg_From msg) then [n] else [])" for k
      using tr m by (auto simp: noncesOf_def)
    have "tracked (noncesOf key k (w_trace w')) (nonces w' k)" for k
      using tk [of k] tracked_push [OF tk n] ns nof [of k]
      by (cases "k = key (msg_From msg)") simp_all
    then show ?thesis by (simp add: nonce_inv_def)
  qed
qed

lemma nonce_inv_pushAll:
  assumes "nonce_inv key w" and "keyed_by gapi key" and "estimates_gas_only gapi"
  shows "nonce_inv key (snd (run_state (pushAll L gapi wal msgs) w))"
  using assms(1)
proof (induction msgs arbitrary: w)
  case Nil
  then show ?case by simp
next
  case (Cons m ms)
  obtain r w1 where r: "run_state (MpoolPushMessage L gapi wal m) w = (r, w1)" by fastforce
  from nonce_inv_push [OF Cons.prems r assms(2,3)] have "nonce_inv key w1" .
  from Cons.IH [OF this] show ?case by (auto simp: r split: prod.splits)
qed

section \<open>Properties\<close>

text \<open>
  C8: Over any history of calls to a fresh pusher, whatever the gateway and the wallet answer, the
  messages accepted for one key carry consecutive nonces, with no gap and no repetition (up to the
  64-bit wrap-around); a call that failed did not use up a nonce.
\<close>

theorem pushed_nonces_consecutive:
  assumes "keyed_by gapi key" and "estimates_gas_only gapi" and "pushedMsgs t = []"
  shows "\<exists>n0. consecutive n0
    (noncesOf key k (w_trace (snd (run_state (pushAll L gapi wal msgs) (NewMsgPusher t)))))"
proof -
  let ?w = "snd (run_state (pushAll L gapi wal msgs) (NewMsgPusher t))"
  have "nonce_inv key ?w"
    by (rule nonce_inv_pushAll [OF nonce_inv_init [OF assms(3)] assms(1,2)])
  then show ?thesis unfolding nonce_inv_def using tracked_consecutive by blast
qed

theorem pushed_nonces_consecutive_witness:
  "\<exists>n0. consecutive n0 (noncesOf (\<lambda>a. a) ''f3client'' (w_trace (snd (run_state
     (pushAll sampleLibrary sampleGateway sampleWallet [sampleMessage, sampleMessage])
     (NewMsgPusher [])))))"
proof -
  have "keyed_by sampleGateway (\<lambda>a. a)" "estimates_gas_only sampleGateway"
    by (simp_all add: keyed_by_def estimates_gas_only_def sampleGateway_def)
  then show ?thesis by (rule pushed_nonces_consecutive [OF _ _ pushedMsgs_simps(1)])
qed

text \<open>
  A call that returns an error accepted no message and changes no nonce that was tracked before
  it, so the next call for the same key uses the same nonce again.
\<close>

theorem failed_push_keeps_nonces:
  assumes "run_state (MpoolPushMessage L gapi wal msg) w = (Inl e, w')"
  shows "pushedMsgs (w_trace w') = pushedMsgs (w_trace w) \<and> nonces w \<subseteq>\<^sub>m nonces w'"
  using assms
  by (auto simp: MpoolPushMessage_def nextNonce_def run_simps Let_def map_le_def
      split: sum.splits option.splits prod.splits)

theorem failed_push_keeps_nonces_witness:
  "let g = sampleGateway\<lparr>g_MpoolPush := \<lambda>_ _. Some (Opaque ''mempool full'')\<rparr>;
       w = \<lparr>w_trace = [], nonces = [''f3client'' \<mapsto> 8]\<rparr>;
       w' = snd (run_state (MpoolPushMessage sampleLibrary g sampleWallet sampleMessage) w)
   in pushedMsgs (w_trace w') = pushedMsgs (w_trace w) \<and> nonces w \<subseteq>\<^sub>m nonces w'"
proof -
  let ?g = "sampleGateway\<lparr>g_MpoolPush := \<lambda>_ _. Some (Opaque ''mempool full'')\<rparr>"
  let ?w = "\<lparr>w_trace = [], nonces = [''f3client'' \<mapsto> 8]\<rparr> :: pusher"
  let ?run = "run_state (MpoolPushMessage sampleLibrary ?g sampleWallet sampleMessage) ?w"
  have "?run = (Inl (Opaque ''mempool full''), snd ?run)"
    by (simp add: MpoolPushMessage_def nextNonce_def run_simps sample_defs Let_def)
  from failed_push_keeps_nonces [OF this] show ?thesis by (simp only: Let_def)
qed

text \<open>
  An accepted message always carries the fee cap 4000000000 and twice the estimated premium,
  whatever fee cap was estimated and whatever \<open>maxFee\<close> the caller passed; the sampled gateway of the
  witness estimates a premium for which the premium sent exceeds the cap sent.
\<close>

theorem pushed_gas_fields:
  assumes "run_state (MpoolPushMessage L gapi wal msg) w = (Inr smsg, w')"
  shows "\<exists>t n e. g_GasEstimateMessageGas gapi t (msg\<lparr>msg_Nonce := n\<rparr>) = Inr e \<and>
    sm_Message smsg = e\<lparr>msg_GasFeeCap := 4000000000, msg_GasPremium := msg_GasPremium e * 2\<rparr> \<and>
    (msg_GasPremium (sm_Message smsg) \<le> msg_GasFeeCap (sm_Message smsg)
       \<longleftrightarrow> msg_GasPremium e \<le> 2000000000)"
proof -
  from assms obtain t n e where "g_GasEstimateMessageGas gapi t (msg\<lparr>msg_Nonce := n\<rparr>) = Inr e"
    and "sm_Message smsg = e\<lparr>msg_GasFeeCap := 4000000000, msg_GasPremium := msg_GasPremium e * 2\<rparr>"
    by (auto simp: MpoolPushMessage_def run_simps Let_def
        split: sum.splits option.splits prod.splits)
  then show ?thesis by (intro exI [of _ t] exI [of _ n] exI [of _ e]) auto
qed

theorem pushed_gas_fields_witness:
  "\<exists>smsg. fst (run_state (MpoolPushMessage sampleLibrary sampleGateway sampleWallet sampleMessage)
       (NewMsgPusher [])) = Inr smsg \<and>
     \<not> msg_GasPremium (sm_Message smsg) \<le> msg_GasFeeCap (sm_Message smsg)"
proof -
  let ?run = "run_state (MpoolPushMessage sampleLibrary sampleGateway sampleWallet sampleMessage)
    (NewMsgPusher [])"
  obtain smsg where s: "?run = (Inr smsg, snd ?run)"
    by (simp add: MpoolPushMessage_def nextNonce_def NewMsgPusher_def run_simps sample_defs Let_def)
  from pushed_gas_fields [OF s] obtain t n e
    where "g_GasEstimateMessageGas sampleGateway t (sampleMessage\<lparr>msg_Nonce := n\<rparr>) = Inr e"
    and "msg_GasPremium (sm_Message smsg) \<le> msg_GasFeeCap (sm_Message smsg)
       \<longleftrightarrow> msg_GasPremium e \<le> 2000000000" by blast
  then have "\<not> msg_GasPremium (sm_Message smsg) \<le> msg_GasFeeCap (sm_Message smsg)"
    by (auto simp: sampleGateway_def)
  with s show ?thesis by (metis fst_conv)
qed

end
