(* ===== verification/Connect.thy ===== *)
theory Connect
  imports Samples
begin

text \<open>
  How \<open>filclient.go\<close> reaches a storage provider: looking its peer up on chain, connecting, opening a
  stream, one request/response exchange (\<open>doRpc\<close>), the ask query built from them, and the choice of
  the deal protocol.  Two groups of lemmas: which coded error each failure becomes, and the
  connection-manager protections a call leaves behind.
\<close>

section \<open>Looking a provider up\<close>

definition stateMinerInfo ::
  "FilClient \<Rightarrow> address \<Rightarrow> ('w world_scheme, go_error + miner_info) state" where
  "stateMinerInfo fc maddr =
     perform (\<lambda>t. g_StateMinerInfo (api fc) t maddr) (\<lambda>_. Api (AStateMinerInfo maddr))"

definition hostConnect :: "FilClient \<Rightarrow> addr_info \<Rightarrow> ('w world_scheme, go_error + unit) state" where
  "hostConnect fc ai = performE (\<lambda>t. h_Connect (host fc) t ai) (Host (HConnect ai))"

definition minerAddrInfo ::
  "library \<Rightarrow> FilClient \<Rightarrow> address \<Rightarrow> ('w world_scheme, go_error + addr_info) state" where
  "minerAddrInfo L fc maddr =
     bindE (mapE (codedf NewErrLotusError) (stateMinerInfo fc maddr)) (\<lambda>minfo.
     case mi_PeerId minfo of
       None \<Rightarrow> ret (Inl (NewErrMinerConnectionFailed
                (Errorf (''miner '' @ lib_addrString L maddr @ '' has no peer ID set''))))
     | Some pid \<Rightarrow>
         (case mapM (lib_NewMultiaddrBytes L) (mi_Multiaddrs minfo) of
            Inl err \<Rightarrow> ret (Inl (codedf (\<lambda>e. NewErrMinerConnectionFailed (wrapf
                (''miner '' @ lib_addrString L maddr @ '' had invalid multiaddrs in their info: '') e)) err))
          | Inr maddrs \<Rightarrow>
              if maddrs = [] then
                ret (Inl (NewErrMinerConnectionFailed
                  (Errorf (''miner '' @ lib_addrString L maddr @ '' has no multiaddrs set on chain''))))
              else
                let ai = \<lparr>ai_ID = pid, ai_Addrs = maddrs\<rparr> in
                bindE (mapE (codedf NewErrMinerConnectionFailed) (hostConnect fc ai)) (\<lambda>_.
                ret (Inr ai))))"

definition ConnectToMiner ::
  "library \<Rightarrow> FilClient \<Rightarrow> address \<Rightarrow> ('w world_scheme, go_error + peer) state" where
  "ConnectToMiner L fc maddr =
     bindE (minerAddrInfo L fc maddr) (\<lambda>addrInfo.
     bindE (mapE (codedf NewErrMinerConnectionFailed) (hostConnect fc addrInfo)) (\<lambda>_.
     ret (Inr (ai_ID addrInfo))))"

definition connectToPeer ::
  "FilClient \<Rightarrow> addr_info \<Rightarrow> ('w world_scheme, go_error + unit) state" where
  "connectToPeer fc addr = mapE (codedf NewErrMinerConnectionFailed) (hostConnect fc addr)"

text \<open>\<open>MinerPeer\<close> and \<open>minerOwner\<close> only read the chain; the first accepts an empty address list.\<close>

definition MinerPeer ::
  "library \<Rightarrow> FilClient \<Rightarrow> address \<Rightarrow> ('w world_scheme, go_error + addr_info) state" where
  "MinerPeer L fc miner =
     bindE (stateMinerInfo fc miner) (\<lambda>minfo.
     case mi_PeerId minfo of
       None \<Rightarrow> ret (Inl (Errorf (''miner '' @ lib_addrString L miner @ '' has no peer ID set'')))
     | Some pid \<Rightarrow>
         (case mapM (lib_NewMultiaddrBytes L) (mi_Multiaddrs minfo) of
            Inl err \<Rightarrow> ret (Inl (wrapf
              (''miner '' @ lib_addrString L miner @ '' had invalid multiaddrs in their info: '') err))
          | Inr maddrs \<Rightarrow> ret (Inr \<lparr>ai_ID = pid, ai_Addrs = maddrs\<rparr>)))"

definition minerOwner :: "FilClient \<Rightarrow> address \<Rightarrow> ('w world_scheme, go_error + address) state" where
  "minerOwner fc miner =
     bindE (stateMinerInfo fc miner) (\<lambda>minfo.
     case mi_PeerId minfo of
       None \<Rightarrow> ret (Inl (Errorf ''miner has no peer id''))
     | Some _ \<Rightarrow> ret (Inr (mi_Owner minfo)))"

section \<open>Streams\<close>

definition newStream ::
  "FilClient \<Rightarrow> peer \<Rightarrow> string list \<Rightarrow> ('w world_scheme, go_error + stream) state" where
  "newStream fc p protos =
     mapE (wrapf ''failed to open stream to peer: '')
       (perform (\<lambda>t. h_NewStream (host fc) t p protos) (\<lambda>_. Host (HNewStream p protos)))"

definition streamToMiner ::
  "library \<Rightarrow> FilClient \<Rightarrow> address \<Rightarrow> string list \<Rightarrow> ('w world_scheme, go_error + stream) state" where
  "streamToMiner L fc maddr protos =
     bindE (ConnectToMiner L fc maddr) (\<lambda>mpid. newStream fc mpid protos)"

definition openStreamToPeer ::
  "FilClient \<Rightarrow> addr_info \<Rightarrow> string \<Rightarrow> ('w world_scheme, go_error + stream) state" where
  "openStreamToPeer fc addr proto =
     bindE (connectToPeer fc addr) (\<lambda>_. newStream fc (ai_ID addr) [proto])"

text \<open>\<open>Protect\<close>, then the body, then the deferred \<open>Unprotect\<close> and \<open>Close\<close> on every path.\<close>

definition withProtected ::
  "string \<Rightarrow> stream \<Rightarrow> ('w world_scheme, 'a) state \<Rightarrow> ('w world_scheme, 'a) state" where
  "withProtected tag s body = do {
     emit (Host (HProtect (str_RemotePeer s) tag));
     deferred (do { emit (Host (HUnprotect (str_RemotePeer s) tag)); emit (Host (HClose s)) }) body
   }"

text \<open>One exchange; a deadline of the context is set on the stream and taken off at the end.\<close>

definition doRpc ::
  "FilClient \<Rightarrow> ctx \<Rightarrow> stream \<Rightarrow> request \<Rightarrow> (trace \<Rightarrow> stream \<Rightarrow> go_error + 'r)
     \<Rightarrow> ('w world_scheme, go_error + 'r) state" where
  "doRpc fc cx s req readResp =
     (let body =
        bindE (mapE (wrapf ''failed to send request: '')
          (performE (\<lambda>t. h_WriteCborRPC (host fc) t s req) (Host (HWrite s req)))) (\<lambda>_.
        mapE (wrapf ''failed to read response: '')
          (perform (\<lambda>t. readResp t s) (\<lambda>_. Host (HRead s))))
      in case ctx_Deadline cx of
           None \<Rightarrow> body
         | Some dline \<Rightarrow>
             do { emit (Host (HSetDeadline s (Some dline)));
                  deferred (emit (Host (HSetDeadline s None))) body })"

section \<open>Asking, versions and the deal protocol\<close>

definition DealProtocolv110 :: string where "DealProtocolv110 = ''/fil/storage/mk/1.1.0''"
definition DealProtocolv120 :: string where "DealProtocolv120 = ''/fil/storage/mk/1.2.0''"
definition QueryAskProtocol :: string where "QueryAskProtocol = ''/fil/storage/ask/1.1.0''"
definition DealStatusProtocolv110 :: string where
  "DealStatusProtocolv110 = ''/fil/storage/status/1.1.0''"
definition DealStatusProtocolv120 :: string where
  "DealStatusProtocolv120 = ''/fil/storage/status/1.2.0''"
definition RetrievalQueryProtocol :: string where
  "RetrievalQueryProtocol = ''/fil/retrieval/qry/1.0.0''"

lemmas protocol_defs =
  DealProtocolv110_def DealProtocolv120_def QueryAskProtocol_def DealStatusProtocolv110_def
  DealStatusProtocolv120_def RetrievalQueryProtocol_def

definition GetAsk ::
  "library \<Rightarrow> FilClient \<Rightarrow> ctx \<Rightarrow> address \<Rightarrow> ('w world_scheme, go_error + storage_ask) state" where
  "GetAsk L fc cx maddr =
     bindE (streamToMiner L fc maddr [QueryAskProtocol]) (\<lambda>s.
     withProtected ''GetAsk'' s
       (mapE (wrapf ''get ask rpc: '')
          (doRpc fc cx s (AskRequest maddr) (h_ReadAsk (host fc)))))"

definition DealProtocolForMiner ::
  "library \<Rightarrow> FilClient \<Rightarrow> address \<Rightarrow> ('w world_scheme, go_error + string) state" where
  "DealProtocolForMiner L fc miner =
     bindE (mapE (wrapf (''connecting to '' @ lib_addrString L miner @ '': ''))
       (ConnectToMiner L fc miner)) (\<lambda>mpid.
     bindE (mapE (wrapf (''getting deal protocol for '' @ lib_addrString L miner @ '': ''))
       (perform (\<lambda>t. h_FirstSupportedProtocol (host fc) t mpid [DealProtocolv120, DealProtocolv110])
          (\<lambda>_. Host (HFirstSupportedProtocol mpid [DealProtocolv120, DealProtocolv110])))) (\<lambda>proto.
     if proto = [] then
       ret (Inl (Errorf (lib_addrString L miner @ '' does not support any deal making protocol'')))
     else ret (Inr proto)))"

text \<open>A peerstore failure is swallowed: the version is then the empty string, without an error.\<close>

definition GetMinerVersion ::
  "library \<Rightarrow> FilClient \<Rightarrow> address \<Rightarrow> ('w world_scheme, go_error + string) state" where
  "GetMinerVersion L fc maddr =
     bindE (ConnectToMiner L fc maddr) (\<lambda>pid. do {
       agent \<leftarrow> perform (\<lambda>t. h_PeerstoreGet (host fc) t pid ''AgentVersion'')
                  (\<lambda>_. Host (HPeerstoreGet pid ''AgentVersion''));
       case agent of
         Inl err \<Rightarrow> ret (Inr [])
       | Inr (MetaString v) \<Rightarrow> ret (Inr v)
       | Inr MetaOther \<Rightarrow> ret (Inl (Panic ''interface conversion: interface {} is not string''))
     })"

lemmas connect_defs =
  stateMinerInfo_def hostConnect_def minerAddrInfo_def ConnectToMiner_def connectToPeer_def

lemma run_withProtected:
  "run_state (withProtected tag s body) w =
     (case run_state body (w\<lparr>w_trace := w_trace w @ [Host (HProtect (str_RemotePeer s) tag)]\<rparr>) of
        (r, w1) \<Rightarrow> (r, w1\<lparr>w_trace := w_trace w1 @
          [Host (HUnprotect (str_RemotePeer s) tag), Host (HClose s)]\<rparr>))"
  by (simp add: withProtected_def run_simps split: prod.splits)

section \<open>Protections held at the connection manager\<close>

text \<open>
  \<open>Protect(p, tag)\<close> adds a tag to a peer and \<open>Unprotect(p, tag)\<close> removes it, as the connection
  manager documents; \<open>held t\<close> is the set of tags that the calls of a trace leave in place.
\<close>

fun hold :: "call \<Rightarrow> (peer \<times> string) set \<Rightarrow> (peer \<times> string) set" where
  "hold (Host (HProtect p tag)) S = insert (p, tag) S"
| "hold (Host (HUnprotect p tag)) S = S - {(p, tag)}"
| "hold _ S = S"

definition held :: "trace \<Rightarrow> (peer \<times> string) set" where
  "held t = fold hold t {}"

lemma held_simps [simp]: "held [] = {}" "held (t @ [c]) = hold c (held t)"
  by (simp_all add: held_def)

text \<open>An operation that touches no protection, and one that at most drops tags of its own.\<close>

definition quiet :: "('w world_scheme, 'a) state \<Rightarrow> bool" where
  "quiet m \<longleftrightarrow> (\<forall>w. held (w_trace (snd (run_state m w))) = held (w_trace w))"

definition releases :: "string \<Rightarrow> ('w world_scheme, 'a) state \<Rightarrow> bool" where
  "releases tag m \<longleftrightarrow> (\<forall>w. held (w_trace (snd (run_state m w))) \<subseteq> held (w_trace w) \<and>
     (\<forall>p tg. tg \<noteq> tag \<longrightarrow> (p, tg) \<in> held (w_trace w) \<longrightarrow>
        (p, tg) \<in> held (w_trace (snd (run_state m w)))))"

named_theorems quiet_intros \<open>which operations touch no protection\<close>

lemma quiet_ret [quiet_intros]: "quiet (ret r)"
  by (simp add: quiet_def)

lemma quiet_perform [quiet_intros]:
  "(\<And>r S. hold (c r) S = S) \<Longrightarrow> quiet (perform f c)"
  by (simp add: quiet_def run_simps)

lemma quiet_performE [quiet_intros]: "(\<And>S. hold c S = S) \<Longrightarrow> quiet (performE f c)"
  by (simp add: quiet_def run_simps)

lemma quiet_emit [quiet_intros]: "(\<And>S. hold c S = S) \<Longrightarrow> quiet (emit c)"
  by (simp add: quiet_def run_simps)

lemma quiet_bind [quiet_intros]:
  "quiet m \<Longrightarrow> (\<And>r. quiet (k r)) \<Longrightarrow> quiet (m \<bind> k)"
  unfolding quiet_def by (metis (no_types, lifting) case_prod_beta run_state_bind)

lemma quiet_bindE [quiet_intros]:
  assumes "quiet m" and "\<And>r. quiet (k r)"
  shows "quiet (bindE m k)"
  unfolding bindE_def using assms
  by (intro quiet_intros) (auto split: sum.splits intro: quiet_intros)

lemma quiet_mapE [quiet_intros]: "quiet m \<Longrightarrow> quiet (mapE f m)"
  unfolding mapE_def by (intro quiet_intros)

lemma quiet_deferred [quiet_intros]: "quiet d \<Longrightarrow> quiet m \<Longrightarrow> quiet (deferred d m)"
  unfolding deferred_def by (intro quiet_intros)

lemma quiet_releases: "quiet m \<Longrightarrow> releases tag m"
  by (simp add: quiet_def releases_def)

lemma releasesD:
  assumes "releases tag m" and "run_state m w = (r, w')"
  shows "held (w_trace w') \<subseteq> held (w_trace w)"
    and "tg \<noteq> tag \<Longrightarrow> (p, tg) \<in> held (w_trace w) \<Longrightarrow> (p, tg) \<in> held (w_trace w')"
  using assms(1)[unfolded releases_def, rule_format, of w] assms(2) by auto

lemma releases_bindE:
  assumes "quiet m" and "\<And>r. releases tag (k r)"
  shows "releases tag (bindE m k)"
  unfolding releases_def
proof
  fix w
  obtain r w1 where m: "run_state m w = (r, w1)" by fastforce
  with assms(1) have h: "held (w_trace w1) = held (w_trace w)"
    unfolding quiet_def by (metis snd_conv)
  show "held (w_trace (snd (run_state (bindE m k) w))) \<subseteq> held (w_trace w) \<and>
      (\<forall>p tg. tg \<noteq> tag \<longrightarrow> (p, tg) \<in> held (w_trace w) \<longrightarrow>
        (p, tg) \<in> held (w_trace (snd (run_state (bindE m k) w))))"
  proof (cases r)
    case (Inl e)
    then show ?thesis by (simp add: run_bindE m h)
  next
    case (Inr a)
    obtain r2 w2 where k: "run_state (k a) w1 = (r2, w2)" by fastforce
    have "run_state (bindE m k) w = (r2, w2)" by (simp add: run_bindE m Inr k)
    then show ?thesis using releasesD [OF assms(2) k] h by simp
  qed
qed

lemma held_withProtected:
  assumes "quiet body"
  shows "held (w_trace (snd (run_state (withProtected tag s body) w))) =
      held (w_trace w) - {(str_RemotePeer s, tag)}"
proof -
  let ?w0 = "w\<lparr>w_trace := w_trace w @ [Host (HProtect (str_RemotePeer s) tag)]\<rparr>"
  obtain r w1 where b: "run_state body ?w0 = (r, w1)" by fastforce
  with assms have "held (w_trace w1) = held (w_trace ?w0)"
    unfolding quiet_def by (metis snd_conv)
  then have "held (w_trace w1) = insert (str_RemotePeer s, tag) (held (w_trace w))" by simp
  moreover have "w_trace (snd (run_state (withProtected tag s body) w)) =
      (w_trace w1 @ [Host (HUnprotect (str_RemotePeer s) tag)]) @ [Host (HClose s)]"
    by (simp add: withProtected_def run_simps b)
  ultimately show ?thesis by (simp only: held_simps hold.simps) blast
qed

lemma releases_withProtected: "quiet body \<Longrightarrow> releases tag (withProtected tag s body)"
  by (auto simp: releases_def held_withProtected)

lemma quiet_connect [quiet_intros]:
  "quiet (ConnectToMiner L fc maddr)" "quiet (connectToPeer fc ai)"
  "quiet (MinerPeer L fc maddr)" "quiet (minerOwner fc maddr)"
  by (auto simp: connect_defs MinerPeer_def minerOwner_def Let_def split: option.splits sum.splits
      intro!: quiet_intros)

lemma quiet_streams [quiet_intros]:
  "quiet (newStream fc p protos)" "quiet (streamToMiner L fc maddr protos)"
  "quiet (openStreamToPeer fc ai proto)"
  by (auto simp: newStream_def streamToMiner_def openStreamToPeer_def intro!: quiet_intros)

lemma quiet_doRpc [quiet_intros]: "quiet (doRpc fc cx s req readResp)"
  by (auto simp: doRpc_def Let_def split: option.splits intro!: quiet_intros)

lemma releases_GetAsk: "releases ''GetAsk'' (GetAsk L fc cx maddr)"
  unfolding GetAsk_def by (intro releases_bindE releases_withProtected quiet_intros)

text \<open>All of these only talk to the host and the chain.\<close>

fun hostOrChain :: "call \<Rightarrow> bool" where
  "hostOrChain (Host _) = True"
| "hostOrChain (Api _) = True"
| "hostOrChain _ = False"

lemma only_connect [only_intros]:
  "only hostOrChain (ConnectToMiner L fc maddr)" "only hostOrChain (MinerPeer L fc maddr)"
  "only hostOrChain (minerOwner fc maddr)"
  by (auto simp: connect_defs MinerPeer_def minerOwner_def Let_def split: option.splits sum.splits
      intro!: only_intros)

lemma only_streams [only_intros]:
  "only hostOrChain (newStream fc p protos)" "only hostOrChain (streamToMiner L fc maddr protos)"
  by (auto simp: newStream_def streamToMiner_def intro!: only_intros)

lemma only_doRpc [only_intros]: "only hostOrChain (doRpc fc cx s req readResp)"
  by (auto simp: doRpc_def Let_def split: option.splits intro!: only_intros)

lemma only_withProtected [only_intros]: "only hostOrChain body \<Longrightarrow> only hostOrChain (withProtected tag s body)"
  by (auto simp: withProtected_def intro!: only_intros)

section \<open>Properties\<close>

text \<open>
  Every error of \<open>ConnectToMiner\<close> is one of the two its comment documents.  \<open>errors.As\<close> finds
  \<open>ErrLotusError\<close> exactly when the chain lookup itself failed, and \<open>ErrMinerConnectionFailed\<close> for every
  later failure (no peer id, a bad or missing address, a refused connection).
\<close>

theorem connect_errors_coded:
  assumes "run_state (ConnectToMiner L fc maddr) w = (Inl e, w')" and "\<not> isPanic e"
  shows "errors_As e =
    Some (if isOk (g_StateMinerInfo (api fc) (w_trace w) maddr) then ErrMinerConnectionFailed
          else ErrLotusError)"
  using assms
  by (auto simp: connect_defs run_simps Let_def codedf_def ofErr_def
      split: sum.splits option.splits prod.splits if_splits)

theorem connect_errors_coded_witness:
  "let fc = sampleClient\<lparr>host := sampleHost\<lparr>h_Connect := \<lambda>_ _. Some (Opaque ''refused'')\<rparr>\<rparr>
   in \<exists>e. fst (run_state (ConnectToMiner sampleLibrary fc ''f01000'') \<lparr>w_trace = []\<rparr>) = Inl e \<and>
     errors_As e = Some ErrMinerConnectionFailed"
proof -
  let ?fc = "sampleClient\<lparr>host := sampleHost\<lparr>h_Connect := \<lambda>_ _. Some (Opaque ''refused'')\<rparr>\<rparr>"
  let ?run = "run_state (ConnectToMiner sampleLibrary ?fc ''f01000'') \<lparr>w_trace = []\<rparr>"
  have r: "?run = (Inl (NewErrMinerConnectionFailed (Opaque ''refused'')), snd ?run)"
    by (simp add: connect_defs run_simps sample_defs Let_def codedf_def)
  from connect_errors_coded [OF r]
  have "errors_As (NewErrMinerConnectionFailed (Opaque ''refused'')) =
      Some ErrMinerConnectionFailed" by (simp add: sample_defs)
  with r show ?thesis by (metis fst_conv)
qed

text \<open>
  A peer id is returned only after the chain named that peer and every one of its addresses
  parsed; the host was then asked twice to connect to that peer at exactly those addresses, and
  nothing else was called.
\<close>

theorem connect_success:
  assumes "run_state (ConnectToMiner L fc maddr) w = (Inr p, w')"
  shows "\<exists>minfo ai. g_StateMinerInfo (api fc) (w_trace w) maddr = Inr minfo \<and>
    mi_PeerId minfo = Some p \<and> ai_ID ai = p \<and> ai_Addrs ai \<noteq> [] \<and>
    list_all2 (\<lambda>b a. lib_NewMultiaddrBytes L b = Inr a) (mi_Multiaddrs minfo) (ai_Addrs ai) \<and>
    w_trace w' = w_trace w @ [Api (AStateMinerInfo maddr), Host (HConnect ai), Host (HConnect ai)]"
  using assms
  by (auto simp: connect_defs run_simps Let_def mapM_Inr_iff [symmetric] ofErr_def
      split: sum.splits option.splits prod.splits if_splits)

theorem connect_success_witness:
  "\<exists>minfo ai. g_StateMinerInfo (api sampleClient) [] ''f01000'' = Inr minfo \<and>
    mi_PeerId minfo = Some ''12D3miner'' \<and> ai_ID ai = ''12D3miner'' \<and> ai_Addrs ai \<noteq> [] \<and>
    list_all2 (\<lambda>b a. lib_NewMultiaddrBytes sampleLibrary b = Inr a) (mi_Multiaddrs minfo) (ai_Addrs ai) \<and>
    w_trace (snd (run_state (ConnectToMiner sampleLibrary sampleClient ''f01000'') \<lparr>w_trace = []\<rparr>)) =
      [Api (AStateMinerInfo ''f01000''), Host (HConnect ai), Host (HConnect ai)]"
proof -
  let ?run = "run_state (ConnectToMiner sampleLibrary sampleClient ''f01000'') \<lparr>w_trace = []\<rparr>"
  have "?run = (Inr ''12D3miner'', snd ?run)"
    by (simp add: connect_defs run_simps sample_defs Let_def)
  from connect_success [OF this] show ?thesis by simp
qed

end
