(* ===== verification/DealConfig.thy ===== *)
theory DealConfig
  imports Connect
begin

text \<open>
  The configuration of a storage deal and the functional options that fill it
  (\<open>DealConfig\<close>, \<open>DealWith...\<close>), and the same for a v1.2.0 proposal
  (\<open>ProposalV120Config\<close>, \<open>ProposalV120With...\<close>), whose options see the proposal and may fail.  Both
  groups share one contract, the locale \<open>config_option\<close>: an option sets its own field, overrides an
  earlier setting of it, and a later option that leaves the field alone keeps it.
\<close>

section \<open>The contract of an option\<close>

text \<open>Go applies the options of a variadic list from left to right to one configuration.\<close>

definition applyOptions :: "'c \<Rightarrow> ('c \<Rightarrow> 'c) list \<Rightarrow> 'c" where
  "applyOptions cfg options = foldl (\<lambda>c option. option c) cfg options"

lemma applyOptions_simps [simp]:
  "applyOptions c [] = c"
  "applyOptions c (f # fs) = applyOptions (f c) fs"
  "applyOptions c (fs @ gs) = applyOptions (applyOptions c fs) gs"
  by (simp_all add: applyOptions_def)

locale config_option =
  fixes get :: "'c \<Rightarrow> 'v" and opt :: "'v \<Rightarrow> 'c \<Rightarrow> 'c"
  assumes get_opt [simp]: "get (opt v c) = v"
    and opt_opt: "opt v (opt u c) = opt v c"
    and opt_get: "opt (get c) c = c"
begin

lemma untouched:
  "(\<And>f c. f \<in> set fs \<Longrightarrow> get (f c) = get c) \<Longrightarrow> get (applyOptions c fs) = get c"
  by (induction fs arbitrary: c) auto

lemma last_wins:
  "(\<And>f c. f \<in> set gs \<Longrightarrow> get (f c) = get c) \<Longrightarrow> get (applyOptions c (fs @ opt v # gs)) = v"
  by (simp add: untouched)

lemma overridden: "applyOptions c (fs @ [opt u, opt v]) = applyOptions c (fs @ [opt v])"
  by (simp add: opt_opt)

end

section \<open>DealConfig\<close>

record DealPieceInfo =
  pi_Cid :: cid
  pi_Size :: u64
  pi_PayloadSize :: u64

definition emptyPieceInfo :: DealPieceInfo where
  "emptyPieceInfo = \<lparr>pi_Cid = cid_Undef, pi_Size = 0, pi_PayloadSize = 0\<rparr>"

type_synonym deal_signer = "trace \<Rightarrow> bytes \<Rightarrow> go_error + signature"

text \<open>\<open>PricePerEpoch\<close> is a \<open>big.Int\<close> whose pointer is nil until it is set.\<close>

record DealConfig =
  cfg_Verified :: bool
  cfg_FastRetrieval :: bool
  cfg_MinSize :: u64
  cfg_PieceInfo :: DealPieceInfo
  cfg_StartEpoch :: "64 word"
  cfg_EndEpoch :: "64 word"
  cfg_PricePerEpoch :: "int option"
  cfg_Signer :: "deal_signer option"
  cfg_Label :: deal_label
  cfg_TransferType :: string

definition TTGraphsync :: string where "TTGraphsync = ''graphsync''"

definition DefaultDealConfig :: DealConfig where
  "DefaultDealConfig = \<lparr>cfg_Verified = False, cfg_FastRetrieval = False, cfg_MinSize = 0,
     cfg_PieceInfo = emptyPieceInfo, cfg_StartEpoch = 0, cfg_EndEpoch = 0,
     cfg_PricePerEpoch = None, cfg_Signer = None, cfg_Label = EmptyDealLabel,
     cfg_TransferType = TTGraphsync\<rparr>"

type_synonym DealOption = "DealConfig \<Rightarrow> DealConfig"

definition DealWithVerified :: "bool \<Rightarrow> DealOption" where
  "DealWithVerified verified cfg = cfg\<lparr>cfg_Verified := verified\<rparr>"

definition DealWithFastRetrieval :: "bool \<Rightarrow> DealOption" where
  "DealWithFastRetrieval fastRetrieval cfg = cfg\<lparr>cfg_FastRetrieval := fastRetrieval\<rparr>"

definition DealWithMinSize :: "u64 \<Rightarrow> DealOption" where
  "DealWithMinSize minSize cfg = cfg\<lparr>cfg_MinSize := minSize\<rparr>"

definition DealWithPieceInfo :: "DealPieceInfo \<Rightarrow> DealOption" where
  "DealWithPieceInfo pieceInfo cfg = cfg\<lparr>cfg_PieceInfo := pieceInfo\<rparr>"

definition DealWithStartEpoch :: "64 word \<Rightarrow> DealOption" where
  "DealWithStartEpoch startEpoch cfg = cfg\<lparr>cfg_StartEpoch := startEpoch\<rparr>"

definition DealWithEndEpoch :: "64 word \<Rightarrow> DealOption" where
  "DealWithEndEpoch endEpoch cfg = cfg\<lparr>cfg_EndEpoch := endEpoch\<rparr>"

definition DealWithPricePerEpoch :: "int option \<Rightarrow> DealOption" where
  "DealWithPricePerEpoch pricePerEpoch cfg = cfg\<lparr>cfg_PricePerEpoch := pricePerEpoch\<rparr>"

definition DealWithSigner :: "deal_signer option \<Rightarrow> DealOption" where
  "DealWithSigner signer cfg = cfg\<lparr>cfg_Signer := signer\<rparr>"

definition DealWithLabel :: "deal_label \<Rightarrow> DealOption" where
  "DealWithLabel label cfg = cfg\<lparr>cfg_Label := label\<rparr>"

definition DealWithTransferType :: "string \<Rightarrow> DealOption" where
  "DealWithTransferType transferType cfg = cfg\<lparr>cfg_TransferType := transferType\<rparr>"

definition DealWithConfig :: "DealConfig \<Rightarrow> DealOption" where
  "DealWithConfig newCfg cfg = newCfg"

lemmas deal_option_defs =
  DealWithVerified_def DealWithFastRetrieval_def DealWithMinSize_def DealWithPieceInfo_def
  DealWithStartEpoch_def DealWithEndEpoch_def DealWithPricePerEpoch_def DealWithSigner_def
  DealWithLabel_def DealWithTransferType_def DealWithConfig_def

interpretation verified_opt: config_option cfg_Verified DealWithVerified
  by unfold_locales (simp_all add: deal_option_defs)

interpretation fast_retrieval_opt: config_option cfg_FastRetrieval DealWithFastRetrieval
  by unfold_locales (simp_all add: deal_option_defs)

interpretation min_size_opt: config_option cfg_MinSize DealWithMinSize
  by unfold_locales (simp_all add: deal_option_defs)

interpretation piece_info_opt: config_option cfg_PieceInfo DealWithPieceInfo
  by unfold_locales (simp_all add: deal_option_defs)

interpretation start_epoch_opt: config_option cfg_StartEpoch DealWithStartEpoch
  by unfold_locales (simp_all add: deal_option_defs)

interpretation end_epoch_opt: config_option cfg_EndEpoch DealWithEndEpoch
  by unfold_locales (simp_all add: deal_option_defs)

interpretation price_opt: config_option cfg_PricePerEpoch DealWithPricePerEpoch
  by unfold_locales (simp_all add: deal_option_defs)

interpretation signer_opt: config_option cfg_Signer DealWithSigner
  by unfold_locales (simp_all add: deal_option_defs)

interpretation label_opt: config_option cfg_Label DealWithLabel
  by unfold_locales (simp_all add: deal_option_defs)

interpretation transfer_type_opt: config_option cfg_TransferType DealWithTransferType
  by unfold_locales (simp_all add: deal_option_defs)

interpretation config_opt: config_option "\<lambda>c. c" DealWithConfig
  by unfold_locales (simp_all add: deal_option_defs)

section \<open>ProposalV120Config\<close>

record ProposalV120Config =
  v_DealUUID :: uuid
  v_Transfer :: transfer
  v_Offline :: bool
  v_SkipIPNIAnnounce :: bool

text \<open>The fresh random UUID is an argument.\<close>

definition DefaultProposalV120Config :: "uuid \<Rightarrow> ProposalV120Config" where
  "DefaultProposalV120Config fresh = \<lparr>v_DealUUID = fresh, v_Transfer = emptyTransfer,
     v_Offline = False, v_SkipIPNIAnnounce = False\<rparr>"

type_synonym ProposalV120Option = "ProposalV120Config \<Rightarrow> net_proposal \<Rightarrow> go_error + ProposalV120Config"

definition ProposalV120WithDealUUID :: "uuid \<Rightarrow> ProposalV120Option" where
  "ProposalV120WithDealUUID dealUUID cfg netprop = Inr (cfg\<lparr>v_DealUUID := dealUUID\<rparr>)"

text \<open>
  The transfer parameters are the JSON of a boost \<open>HttpRequest\<close> with a URL and one \<open>Authorization\<close>
  header: \<open>marshal url auth\<close> and \<open>basicAuth user token\<close> are the two library functions.
\<close>

definition ProposalV120WithLibp2pTransfer ::
  "(string \<Rightarrow> string \<Rightarrow> go_error + bytes) \<Rightarrow> (string \<Rightarrow> string \<Rightarrow> string)
     \<Rightarrow> multiaddr \<Rightarrow> string \<Rightarrow> u64 \<Rightarrow> ProposalV120Option" where
  "ProposalV120WithLibp2pTransfer marshal basicAuth announceAddr authToken clientID cfg netprop =
     (case marshal (''libp2p://'' @ announceAddr) (basicAuth [] authToken) of
        Inl err \<Rightarrow> Inl (flatf ''failed to marshal libp2p transfer params: '' err)
      | Inr transferParams \<Rightarrow>
          Inr (cfg\<lparr>v_Transfer := \<lparr>tr_Type = ''libp2p'', tr_ClientID = fmt_u64 clientID,
             tr_Params = transferParams, tr_Size = dr_RawBlockSize (np_Piece netprop)\<rparr>\<rparr>))"

definition ProposalV120WithTransfer :: "transfer \<Rightarrow> ProposalV120Option" where
  "ProposalV120WithTransfer transfer cfg netprop = Inr (cfg\<lparr>v_Transfer := transfer\<rparr>)"

definition ProposalV120WithOffline :: "bool \<Rightarrow> ProposalV120Option" where
  "ProposalV120WithOffline offline cfg netprop = Inr (cfg\<lparr>v_Offline := offline\<rparr>)"

definition ProposalV120WithSkipIPNIAnnounce :: "bool \<Rightarrow> ProposalV120Option" where
  "ProposalV120WithSkipIPNIAnnounce skip cfg netprop = Inr (cfg\<lparr>v_SkipIPNIAnnounce := skip\<rparr>)"

definition ProposalV120WithConfig :: "ProposalV120Config \<Rightarrow> ProposalV120Option" where
  "ProposalV120WithConfig newCfg cfg netprop = Inr newCfg"

lemmas v120_option_defs =
  ProposalV120WithDealUUID_def ProposalV120WithTransfer_def ProposalV120WithOffline_def
  ProposalV120WithSkipIPNIAnnounce_def ProposalV120WithConfig_def

text \<open>The loop over the options: the first failure ends it.\<close>

fun applyV120Options ::
  "ProposalV120Config \<Rightarrow> net_proposal \<Rightarrow> ProposalV120Option list \<Rightarrow> go_error + ProposalV120Config" where
  "applyV120Options cfg netprop [] = Inr cfg"
| "applyV120Options cfg netprop (option # options) =
     (case option cfg netprop of
        Inl err \<Rightarrow> Inl (flatf ''failed to apply option filclient.ProposalV120Option: '' err)
      | Inr cfg' \<Rightarrow> applyV120Options cfg' netprop options)"

lemma applyV120Options_append:
  "applyV120Options cfg np (os @ os') =
     (case applyV120Options cfg np os of Inl e \<Rightarrow> Inl e | Inr cfg' \<Rightarrow> applyV120Options cfg' np os')"
  by (induction os arbitrary: cfg) (auto split: sum.splits)

text \<open>An option of the second kind that cannot fail is an option of the first kind, lifted.\<close>

locale proposal_option = config_option get opt
  for get :: "ProposalV120Config \<Rightarrow> 'v" and opt :: "'v \<Rightarrow> ProposalV120Config \<Rightarrow> ProposalV120Config" +
  fixes popt :: "'v \<Rightarrow> ProposalV120Option"
  assumes popt_opt: "popt v cfg np = Inr (opt v cfg)"
begin

lemma v120_last_wins:
  assumes "\<And>f c c'. f \<in> set gs \<Longrightarrow> f c np = Inr c' \<Longrightarrow> get c' = get c"
    and "applyV120Options c np (fs @ popt v # gs) = Inr c'"
  shows "get c' = v"
proof -
  have keep: "applyV120Options d np gs = Inr d' \<Longrightarrow> get d' = get d" for d d'
    using assms(1)
  proof (induction gs arbitrary: d)
    case Nil
    then show ?case by simp
  next
    case (Cons g gs)
    then show ?case by (fastforce split: sum.splits)
  qed
  from assms(2) obtain d where "applyV120Options (opt v d) np gs = Inr c'"
    by (auto simp: applyV120Options_append popt_opt split: sum.splits)
  then have "get c' = get (opt v d)" by (rule keep)
  then show ?thesis by simp
qed

end

interpretation uuid_opt: proposal_option v_DealUUID "\<lambda>u c. c\<lparr>v_DealUUID := u\<rparr>" ProposalV120WithDealUUID
  by unfold_locales (simp_all add: v120_option_defs)

interpretation v120_transfer_opt:
  proposal_option v_Transfer "\<lambda>t c. c\<lparr>v_Transfer := t\<rparr>" ProposalV120WithTransfer
  by unfold_locales (simp_all add: v120_option_defs)

interpretation offline_opt: proposal_option v_Offline "\<lambda>b c. c\<lparr>v_Offline := b\<rparr>" ProposalV120WithOffline
  by unfold_locales (simp_all add: v120_option_defs)

interpretation skip_ipni_opt:
  proposal_option v_SkipIPNIAnnounce "\<lambda>b c. c\<lparr>v_SkipIPNIAnnounce := b\<rparr>" ProposalV120WithSkipIPNIAnnounce
  by unfold_locales (simp_all add: v120_option_defs)

interpretation v120_config_opt: proposal_option "\<lambda>c. c" "\<lambda>n c. n" ProposalV120WithConfig
  by unfold_locales (simp_all add: v120_option_defs)

text \<open>Only the libp2p transfer option can fail.\<close>

lemma applyV120Options_total:
  assumes "\<And>f c. f \<in> set fs \<Longrightarrow> isOk (f c np)"
  shows "isOk (applyV120Options c np fs)"
  using assms
proof (induction fs arbitrary: c)
  case Nil
  then show ?case by simp
next
  case (Cons f fs)
  then have "isOk (f c np)" by simp
  then obtain c' where "f c np = Inr c'" by (cases "f c np") auto
  with Cons show ?case by simp
qed

end
