(* ===== verification/MakeDeal.thy ===== *)
theory MakeDeal
  imports DealConfig
begin

text \<open>
  Building a storage deal proposal: \<open>ComputePrice\<close>, \<open>ZeroPadPieceCommitment\<close>,
  \<open>MakeDealUnsigned\<close>, \<open>MakeDealWithOptions\<close> and \<open>MakeDeal\<close> of \<open>filclient.go\<close>.  \<open>big.Div\<close> by a positive
  constant is Euclidean division, which is HOL's \<open>div\<close>; sizes and epochs are 64-bit words, and
  \<open>big.NewInt(int64(x))\<close> reads a word as signed.
\<close>

section \<open>Prices and padding\<close>

definition epochsPerHour :: "64 word" where "epochsPerHour = 60 * 2"

definition ComputePrice :: "int \<Rightarrow> u64 \<Rightarrow> 64 word \<Rightarrow> int" where
  "ComputePrice askPrice sz duration =
     (sint sz * askPrice) div 2 ^ 30 * sint duration"

text \<open>The trailing 32 bytes of the hash; Go panics on a shorter slice.\<close>

definition ZeroPadPieceCommitment :: "library \<Rightarrow> cid \<Rightarrow> u64 \<Rightarrow> u64 \<Rightarrow> go_error + cid" where
  "ZeroPadPieceCommitment L c curSize toSize =
     (let h = lib_CidHash L c in
      if length h < 32 then Inl (Panic ''slice bounds out of range'')
      else case lib_PadCommP L (drop (length h - 32) h) (lib_padded L curSize) (lib_padded L toSize) of
             Inl err \<Rightarrow> Inl err
           | Inr raw \<Rightarrow> lib_DataCommitmentV1ToCID L raw)"

section \<open>MakeDealUnsigned\<close>

text \<open>The piece: given, or computed from the payload.\<close>

definition dealPieceInfo ::
  "library \<Rightarrow> FilClient \<Rightarrow> cid \<Rightarrow> DealConfig \<Rightarrow> ('w world_scheme, go_error + DealConfig) state" where
  "dealPieceInfo L fc payload cfg =
     (if pi_Cid (cfg_PieceInfo cfg) = cid_Undef then
        bindE (perform (\<lambda>t. computePieceComm fc t payload) (\<lambda>_. ComputePieceComm payload))
          (\<lambda>(pieceCid, payloadSize, unpaddedPieceSize).
        ret (Inr (cfg\<lparr>cfg_PieceInfo := \<lparr>pi_Cid = pieceCid,
           pi_Size = lib_padded L unpaddedPieceSize, pi_PayloadSize = payloadSize\<rparr>\<rparr>)))
      else ret (Inr cfg))"

text \<open>The piece padded up to the minimum size.\<close>

definition padDealPiece :: "library \<Rightarrow> DealConfig \<Rightarrow> go_error + DealConfig" where
  "padDealPiece L cfg =
     (let pinf = cfg_PieceInfo cfg in
      if pi_Size pinf < cfg_MinSize cfg then
        (case ZeroPadPieceCommitment L (pi_Cid pinf) (lib_unpadded L (pi_Size pinf))
                (lib_unpadded L (cfg_MinSize cfg)) of
           Inl err \<Rightarrow> Inl err
         | Inr paddedPieceCid \<Rightarrow>
             Inr (cfg\<lparr>cfg_PieceInfo := pinf\<lparr>pi_Cid := paddedPieceCid, pi_Size := cfg_MinSize cfg\<rparr>\<rparr>))
      else Inr cfg)"

text \<open>The terms that still have their zero value: epochs and price.\<close>

definition defaultTerms :: "64 word \<Rightarrow> int \<Rightarrow> 64 word \<Rightarrow> DealConfig \<Rightarrow> DealConfig" where
  "defaultTerms height price duration cfg =
     (let cfg1 = (if cfg_StartEpoch cfg = 0
                  then cfg\<lparr>cfg_StartEpoch := height + epochsPerHour * 24 * 7\<rparr> else cfg);
          cfg2 = (if cfg_EndEpoch cfg1 = 0
                  then cfg1\<lparr>cfg_EndEpoch := cfg_StartEpoch cfg1 + duration\<rparr> else cfg1)
      in case cfg_PricePerEpoch cfg2 of
           None \<Rightarrow> cfg2\<lparr>cfg_PricePerEpoch :=
                     Some ((sint (pi_Size (cfg_PieceInfo cfg2)) * price) div 2 ^ 30)\<rparr>
         | Some _ \<Rightarrow> cfg2)"

definition dealLabel :: "library \<Rightarrow> cid \<Rightarrow> DealConfig \<Rightarrow> go_error + DealConfig" where
  "dealLabel L payload cfg =
     (if cfg_Label cfg = EmptyDealLabel then
        (case lib_LabelField L payload of
           Inl err \<Rightarrow> Inl (flatf ''failed to construct label field: '' err)
         | Inr label \<Rightarrow> Inr (cfg\<lparr>cfg_Label := label\<rparr>))
      else Inr cfg)"

definition MakeDealUnsigned ::
  "library \<Rightarrow> FilClient \<Rightarrow> address \<Rightarrow> cid \<Rightarrow> int \<Rightarrow> 64 word \<Rightarrow> DealOption list
     \<Rightarrow> ('w world_scheme, go_error + market_deal_proposal \<times> bytes) state" where
  "MakeDealUnsigned L fc sp payload price duration options =
     bindE (dealPieceInfo L fc payload (applyOptions DefaultDealConfig options)) (\<lambda>cfg0.
     bindE (ret (padDealPiece L cfg0)) (\<lambda>cfg1.
     bindE (perform (\<lambda>t. g_ChainHead (api fc) t) (\<lambda>_. Api AChainHead)) (\<lambda>height.
     bindE (perform (\<lambda>t. g_CollateralBounds (api fc) t (pi_Size (cfg_PieceInfo cfg1)) (cfg_Verified cfg1))
              (\<lambda>_. Api (ACollateralBounds (pi_Size (cfg_PieceInfo cfg1)) (cfg_Verified cfg1))))
       (\<lambda>(collMin, collMax).
     let provCol = (collMin * 11) div 10;
         cfg2 = defaultTerms height price duration cfg1 in
     bindE (ret (dealLabel L payload cfg2)) (\<lambda>cfg.
     let proposal =
       \<lparr>dp_PieceCID = pi_Cid (cfg_PieceInfo cfg),
        dp_PieceSize = pi_Size (cfg_PieceInfo cfg),
        dp_VerifiedDeal = cfg_Verified cfg,
        dp_Client = ClientAddr fc,
        dp_Provider = sp,
        dp_Label = cfg_Label cfg,
        dp_StartEpoch = cfg_StartEpoch cfg,
        dp_EndEpoch = cfg_EndEpoch cfg,
        dp_StoragePricePerEpoch = (case cfg_PricePerEpoch cfg of Some p \<Rightarrow> p | None \<Rightarrow> 0),
        dp_ProviderCollateral = provCol,
        dp_ClientCollateral = 0\<rparr> in
     bindE (ret (lib_DumpProposal L proposal)) (\<lambda>raw.
     ret (Inr (proposal, raw))))))))"

section \<open>MakeDealWithOptions and MakeDeal\<close>

definition signProposal ::
  "FilClient \<Rightarrow> DealConfig \<Rightarrow> bytes \<Rightarrow> ('w world_scheme, go_error + signature) state" where
  "signProposal fc cfg raw =
     (case cfg_Signer cfg of
        Some signer \<Rightarrow> perform (\<lambda>t. signer t raw) (\<lambda>_. CustomSign raw)
      | None \<Rightarrow> perform (\<lambda>t. w_WalletSign (wallet fc) t (ClientAddr fc) raw MTDealProposal)
                  (\<lambda>_. WalletSign (ClientAddr fc) raw MTDealProposal))"

definition MakeDealWithOptions ::
  "library \<Rightarrow> FilClient \<Rightarrow> address \<Rightarrow> cid \<Rightarrow> int \<Rightarrow> 64 word \<Rightarrow> DealOption list
     \<Rightarrow> ('w world_scheme, go_error + net_proposal) state" where
  "MakeDealWithOptions L fc sp payload price duration options =
     (let cfg = applyOptions DefaultDealConfig options in
      bindE (MakeDealUnsigned L fc sp payload price duration [DealWithConfig cfg]) (\<lambda>(proposal, raw).
      bindE (signProposal fc cfg raw) (\<lambda>sig.
      ret (Inr \<lparr>np_DealProposal = \<lparr>cdp_Proposal = proposal, cdp_ClientSignature = sig\<rparr>,
                np_Piece = \<lparr>dr_TransferType = cfg_TransferType cfg, dr_Root = payload,
                            dr_RawBlockSize = pi_PayloadSize (cfg_PieceInfo cfg)\<rparr>,
                np_FastRetrieval = cfg_FastRetrieval cfg\<rparr>))))"

definition MakeDeal ::
  "library \<Rightarrow> FilClient \<Rightarrow> address \<Rightarrow> cid \<Rightarrow> int \<Rightarrow> u64 \<Rightarrow> 64 word \<Rightarrow> bool \<Rightarrow> bool
     \<Rightarrow> ('w world_scheme, go_error + net_proposal) state" where
  "MakeDeal L fc miner data price minSize duration verified removeUnsealed =
     MakeDealWithOptions L fc miner data price duration
       [DealWithMinSize minSize, DealWithVerified verified, DealWithFastRetrieval (\<not> removeUnsealed)]"

section \<open>Lemmas\<close>

text \<open>Which fields each stage keeps; the size after padding is at least the minimum.\<close>

lemma padDealPiece_ok:
  assumes "padDealPiece L cfg = Inr cfg'"
  shows "cfg' = cfg\<lparr>cfg_PieceInfo := cfg_PieceInfo cfg'\<rparr>"
    and "cfg_MinSize cfg \<le> pi_Size (cfg_PieceInfo cfg')"
    and "pi_Size (cfg_PieceInfo cfg') = max (pi_Size (cfg_PieceInfo cfg)) (cfg_MinSize cfg)"
    and "pi_PayloadSize (cfg_PieceInfo cfg') = pi_PayloadSize (cfg_PieceInfo cfg)"
  using assms by (auto simp: padDealPiece_def Let_def not_less max_def less_imp_le split: if_splits sum.splits)

lemma dealPieceInfo_run:
  assumes "run_state (dealPieceInfo L fc payload cfg) w = (Inr cfg', w')"
  shows "cfg' = cfg\<lparr>cfg_PieceInfo := cfg_PieceInfo cfg'\<rparr>"
    and "pi_Cid (cfg_PieceInfo cfg) \<noteq> cid_Undef \<Longrightarrow> cfg' = cfg \<and> w' = w"
  using assms by (auto simp: dealPieceInfo_def run_simps split: if_splits sum.splits prod.splits)

lemma defaultTerms_fields [simp]:
  "cfg_PieceInfo (defaultTerms h p d cfg) = cfg_PieceInfo cfg"
  "cfg_Verified (defaultTerms h p d cfg) = cfg_Verified cfg"
  "cfg_MinSize (defaultTerms h p d cfg) = cfg_MinSize cfg"
  "cfg_Label (defaultTerms h p d cfg) = cfg_Label cfg"
  "cfg_StartEpoch (defaultTerms h p d cfg) =
     (if cfg_StartEpoch cfg = 0 then h + 20160 else cfg_StartEpoch cfg)"
  "cfg_PricePerEpoch (defaultTerms h p d cfg) =
     Some (case cfg_PricePerEpoch cfg of
             None \<Rightarrow> (sint (pi_Size (cfg_PieceInfo cfg)) * p) div 2 ^ 30 | Some q \<Rightarrow> q)"
  by (auto simp: defaultTerms_def Let_def epochsPerHour_def split: option.splits)

lemma defaultTerms_end:
  "cfg_EndEpoch (defaultTerms h p d cfg) =
     (if cfg_EndEpoch cfg = 0 then cfg_StartEpoch (defaultTerms h p d cfg) + d else cfg_EndEpoch cfg)"
  by (auto simp: defaultTerms_def Let_def epochsPerHour_def split: option.splits)

lemma dealLabel_ok:
  assumes "dealLabel L payload cfg = Inr cfg'"
  shows "cfg' = cfg\<lparr>cfg_Label := cfg_Label cfg'\<rparr>"
    and "cfg_Label cfg \<noteq> EmptyDealLabel \<Longrightarrow> cfg' = cfg"
  using assms by (auto simp: dealLabel_def split: if_splits sum.splits)

text \<open>The stages of a successful run.\<close>

lemma MakeDealUnsigned_run:
  assumes "run_state (MakeDealUnsigned L fc sp payload price duration options) w = (Inr (p, raw), w')"
  obtains cfg0 w0 cfg1 height collMin collMax cfg t where
    "run_state (dealPieceInfo L fc payload (applyOptions DefaultDealConfig options)) w = (Inr cfg0, w0)"
    "padDealPiece L cfg0 = Inr cfg1"
    "g_ChainHead (api fc) (w_trace w0) = Inr height"
    "g_CollateralBounds (api fc) t (pi_Size (cfg_PieceInfo cfg1)) (cfg_Verified cfg1) = Inr (collMin, collMax)"
    "dealLabel L payload (defaultTerms height price duration cfg1) = Inr cfg"
    "lib_DumpProposal L p = Inr raw"
    "p = \<lparr>dp_PieceCID = pi_Cid (cfg_PieceInfo cfg), dp_PieceSize = pi_Size (cfg_PieceInfo cfg),
        dp_VerifiedDeal = cfg_Verified cfg, dp_Client = ClientAddr fc, dp_Provider = sp,
        dp_Label = cfg_Label cfg, dp_StartEpoch = cfg_StartEpoch cfg, dp_EndEpoch = cfg_EndEpoch cfg,
        dp_StoragePricePerEpoch = (case cfg_PricePerEpoch cfg of Some q \<Rightarrow> q | None \<Rightarrow> 0),
        dp_ProviderCollateral = (collMin * 11) div 10, dp_ClientCollateral = 0\<rparr>"
  using assms
  by (auto simp: MakeDealUnsigned_def run_simps Let_def
      split: sum.splits prod.splits)

text \<open>The terms of the proposal of a successful run, by the options.\<close>

lemma unsigned_terms:
  assumes "run_state (MakeDealUnsigned L fc sp payload price duration options) w = (Inr (p, raw), w')"
    and c: "c = applyOptions DefaultDealConfig options"
  shows "cfg_MinSize c \<le> dp_PieceSize p" and "dp_VerifiedDeal p = cfg_Verified c" and "dp_Client p = ClientAddr fc"
    and "dp_Provider p = sp" and "dp_ClientCollateral p = 0" and "lib_DumpProposal L p = Inr raw"
    and "dp_StoragePricePerEpoch p =
      (case cfg_PricePerEpoch c of None \<Rightarrow> (sint (dp_PieceSize p) * price) div 2 ^ 30 | Some r \<Rightarrow> r)"
    and "\<exists>t mn mx. g_CollateralBounds (api fc) t (dp_PieceSize p) (dp_VerifiedDeal p) = Inr (mn, mx)
      \<and> dp_ProviderCollateral p = (mn * 11) div 10"
    and "\<exists>t height. g_ChainHead (api fc) t = Inr height
      \<and> dp_StartEpoch p = (if cfg_StartEpoch c = 0 then height + 20160 else cfg_StartEpoch c)"
    and "dp_EndEpoch p = (if cfg_EndEpoch c = 0 then dp_StartEpoch p + duration else cfg_EndEpoch c)"
proof -
  from MakeDealUnsigned_run [OF assms(1)] obtain cfg0 w0 cfg1 height mn mx cfg t where
    pi: "run_state (dealPieceInfo L fc payload c) w = (Inr cfg0, w0)"
    and pad: "padDealPiece L cfg0 = Inr cfg1"
    and head: "g_ChainHead (api fc) (w_trace w0) = Inr height"
    and coll: "g_CollateralBounds (api fc) t (pi_Size (cfg_PieceInfo cfg1)) (cfg_Verified cfg1) = Inr (mn, mx)"
    and lab: "dealLabel L payload (defaultTerms height price duration cfg1) = Inr cfg"
    and raw: "lib_DumpProposal L p = Inr raw"
    and p: "p = \<lparr>dp_PieceCID = pi_Cid (cfg_PieceInfo cfg), dp_PieceSize = pi_Size (cfg_PieceInfo cfg),
        dp_VerifiedDeal = cfg_Verified cfg, dp_Client = ClientAddr fc, dp_Provider = sp,
        dp_Label = cfg_Label cfg, dp_StartEpoch = cfg_StartEpoch cfg, dp_EndEpoch = cfg_EndEpoch cfg,
        dp_StoragePricePerEpoch = (case cfg_PricePerEpoch cfg of Some r \<Rightarrow> r | None \<Rightarrow> 0),
        dp_ProviderCollateral = (mn * 11) div 10, dp_ClientCollateral = 0\<rparr>"
    unfolding c by metis
  have l: "cfg_Verified cfg = cfg_Verified cfg1" "cfg_PieceInfo cfg = cfg_PieceInfo cfg1"
    "cfg_PricePerEpoch cfg = cfg_PricePerEpoch (defaultTerms height price duration cfg1)"
    "cfg_StartEpoch cfg = cfg_StartEpoch (defaultTerms height price duration cfg1)"
    "cfg_EndEpoch cfg = cfg_EndEpoch (defaultTerms height price duration cfg1)"
    by (subst dealLabel_ok(1) [OF lab], simp)+
  have c1: "cfg_Verified cfg1 = cfg_Verified c" "cfg_PricePerEpoch cfg1 = cfg_PricePerEpoch c"
    "cfg_StartEpoch cfg1 = cfg_StartEpoch c" "cfg_EndEpoch cfg1 = cfg_EndEpoch c"
    by (subst padDealPiece_ok(1) [OF pad], simp, subst dealPieceInfo_run(1) [OF pi], simp)+
  have "cfg_MinSize cfg0 = cfg_MinSize c" by (subst dealPieceInfo_run(1) [OF pi], simp)
  with padDealPiece_ok(2) [OF pad] have "cfg_MinSize c \<le> pi_Size (cfg_PieceInfo cfg1)" by simp
  moreover have f: "dp_PieceSize p = pi_Size (cfg_PieceInfo cfg)" "dp_StartEpoch p = cfg_StartEpoch cfg"
    "dp_EndEpoch p = cfg_EndEpoch cfg" "dp_VerifiedDeal p = cfg_Verified cfg"
    "dp_StoragePricePerEpoch p = (case cfg_PricePerEpoch cfg of Some r \<Rightarrow> r | None \<Rightarrow> 0)"
    "dp_ProviderCollateral p = (mn * 11) div 10" by (simp_all add: p)
  ultimately show "cfg_MinSize c \<le> dp_PieceSize p" using l by simp
  show "dp_Client p = ClientAddr fc" "dp_Provider p = sp" "dp_ClientCollateral p = 0" "lib_DumpProposal L p = Inr raw"
    using raw by (simp_all add: p)
  from f l c1 show "dp_VerifiedDeal p = cfg_Verified c"
    "dp_StoragePricePerEpoch p = (case cfg_PricePerEpoch c of None \<Rightarrow> (sint (dp_PieceSize p) * price) div 2 ^ 30 | Some r \<Rightarrow> r)"
    by (simp_all split: option.splits)
  from f l coll show "\<exists>t mn mx. g_CollateralBounds (api fc) t (dp_PieceSize p) (dp_VerifiedDeal p) = Inr (mn, mx)
      \<and> dp_ProviderCollateral p = (mn * 11) div 10" by auto
  from f l c1 head show "\<exists>t height. g_ChainHead (api fc) t = Inr height
      \<and> dp_StartEpoch p = (if cfg_StartEpoch c = 0 then height + 20160 else cfg_StartEpoch c)" by auto
  from f l c1 show "dp_EndEpoch p = (if cfg_EndEpoch c = 0 then dp_StartEpoch p + duration else cfg_EndEpoch c)"
    by (simp add: defaultTerms_end)
qed

lemmas make_deal_stages = padDealPiece_ok dealPieceInfo_run dealLabel_ok

lemma MakeDealWithOptions_run:
  assumes "run_state (MakeDealWithOptions L fc sp payload price duration options) w = (Inr np, w')"
    and "cfg = applyOptions DefaultDealConfig options"
  obtains p raw w1 sig where
    "run_state (MakeDealUnsigned L fc sp payload price duration [DealWithConfig cfg]) w = (Inr (p, raw), w1)"
    "run_state (signProposal fc cfg raw) w1 = (Inr sig, w')"
    "np = \<lparr>np_DealProposal = \<lparr>cdp_Proposal = p, cdp_ClientSignature = sig\<rparr>,
       np_Piece = \<lparr>dr_TransferType = cfg_TransferType cfg, dr_Root = payload,
         dr_RawBlockSize = pi_PayloadSize (cfg_PieceInfo cfg)\<rparr>,
       np_FastRetrieval = cfg_FastRetrieval cfg\<rparr>"
  using assms
  by (auto simp: MakeDealWithOptions_def run_bindE Let_def split: sum.splits prod.splits)

lemma applyOptions_WithConfig [simp]: "applyOptions c [DealWithConfig cfg] = cfg"
  by (simp add: deal_option_defs)

lemma div_2_30_bounds:
  "2 ^ 30 * (x div 2 ^ 30) \<le> (x :: int)" "x < 2 ^ 30 * (x div 2 ^ 30) + 2 ^ 30"
  by simp_all

text \<open>A concrete run, shared by the witnesses: a minimum size above the computed piece size.\<close>

definition sampleOptions :: "DealOption list" where
  "sampleOptions = [DealWithMinSize 2048, DealWithVerified True]"

lemmas make_deal_eval =
  MakeDealWithOptions_def MakeDealUnsigned_def signProposal_def dealPieceInfo_def padDealPiece_def
  defaultTerms_def dealLabel_def ZeroPadPieceCommitment_def deal_option_defs DefaultDealConfig_def
  emptyPieceInfo_def TTGraphsync_def epochsPerHour_def sampleOptions_def sample_defs run_simps Let_def

lemma sample_unsigned_run:
  "\<exists>p raw w'. run_state (MakeDealUnsigned sampleLibrary sampleClient ''f01000'' ''bafyroot'' 500 1000
     sampleOptions) \<lparr>w_trace = []\<rparr> = (Inr (p, raw), w')"
  by (simp add: make_deal_eval)

lemma sample_options_run:
  "\<exists>np w'. run_state (MakeDealWithOptions sampleLibrary sampleClient ''f01000'' ''bafyroot'' 500 1000
     sampleOptions) \<lparr>w_trace = []\<rparr> = (Inr np, w')"
  by (simp add: make_deal_eval)

section \<open>Properties\<close>



text \<open>
  Without an explicit price per epoch, the price per epoch of the proposal times the duration is
  exactly what \<open>ComputePrice\<close> tells the user for that piece size, and per epoch it is the exact price
  per GiB rounded down (by less than one unit).
\<close>

theorem deal_price_matches_ComputePrice:
  assumes "run_state (MakeDealUnsigned L fc sp payload price duration options) w = (Inr (p, raw), w')"
    and "cfg_PricePerEpoch (applyOptions DefaultDealConfig options) = None"
  shows "dp_StoragePricePerEpoch p * sint duration = ComputePrice price (dp_PieceSize p) duration \<and>
    2 ^ 30 * dp_StoragePricePerEpoch p \<le> sint (dp_PieceSize p) * price \<and>
    sint (dp_PieceSize p) * price < 2 ^ 30 * dp_StoragePricePerEpoch p + 2 ^ 30"
  using unsigned_terms(7) [OF assms(1) refl] assms(2) div_2_30_bounds [of "sint (dp_PieceSize p) * price"]
  by (simp add: ComputePrice_def)

theorem deal_price_matches_ComputePrice_witness:
  "\<exists>p :: market_deal_proposal. dp_StoragePricePerEpoch p * sint (1000 :: 64 word) = ComputePrice 500 (dp_PieceSize p) 1000"
proof -
  obtain p raw w' where r: "run_state (MakeDealUnsigned sampleLibrary sampleClient ''f01000'' ''bafyroot''
      500 1000 sampleOptions) \<lparr>w_trace = []\<rparr> = (Inr (p, raw), w')"
    using sample_unsigned_run by blast
  have "cfg_PricePerEpoch (applyOptions DefaultDealConfig sampleOptions) = None"
    by (simp add: sampleOptions_def deal_option_defs DefaultDealConfig_def)
  from deal_price_matches_ComputePrice [OF r this] show ?thesis by blast
qed

text \<open>
  The epochs.  A start epoch that was not set is one week (20160 epochs) after the chain head, an
  end epoch that was not set is the start plus the duration, both with 64-bit wrap-around; epochs
  that were set are kept.
\<close>

theorem deal_epochs:
  assumes "run_state (MakeDealUnsigned L fc sp payload price duration options) w = (Inr (p, raw), w')"
  shows "let cfg = applyOptions DefaultDealConfig options in
    \<exists>t height. g_ChainHead (api fc) t = Inr height \<and>
      dp_StartEpoch p = (if cfg_StartEpoch cfg = 0 then height + 20160 else cfg_StartEpoch cfg) \<and>
      dp_EndEpoch p = (if cfg_EndEpoch cfg = 0 then dp_StartEpoch p + duration else cfg_EndEpoch cfg)"
  using unsigned_terms(9,10) [OF assms refl] by (simp add: Let_def)

theorem deal_epochs_witness:
  "\<exists>p :: market_deal_proposal. dp_StartEpoch p = 1000 + 20160 \<and> dp_EndEpoch p = 1000 + 20160 + 1000"
proof -
  obtain p raw w' where r: "run_state (MakeDealUnsigned sampleLibrary sampleClient ''f01000'' ''bafyroot''
      500 1000 sampleOptions) \<lparr>w_trace = []\<rparr> = (Inr (p, raw), w')"
    using sample_unsigned_run by blast
  from deal_epochs [OF r] show ?thesis
    by (intro exI [of _ p])
       (auto simp: Let_def sampleOptions_def deal_option_defs DefaultDealConfig_def sample_defs)
qed

text \<open>
  When no option gives piece information the piece commitment is computed from the payload, but
  the payload size it reports does not reach the result: \<open>RawBlockSize\<close> of the data reference is 0,
  because \<open>MakeDealWithOptions\<close> reads it from its own copy of the configuration.
\<close>

theorem computed_payload_size_lost:
  assumes "run_state (MakeDealWithOptions L fc sp payload price duration options) w = (Inr np, w')"
    and "\<And>f c. f \<in> set options \<Longrightarrow> cfg_PieceInfo (f c) = cfg_PieceInfo c"
  shows "dr_RawBlockSize (np_Piece np) = 0 \<and>
    (\<exists>pieceCid payloadSize unpadded.
       computePieceComm fc (w_trace w) payload = Inr (pieceCid, payloadSize, unpadded))"
proof -
  let ?c = "applyOptions DefaultDealConfig options"
  have pinf: "cfg_PieceInfo ?c = emptyPieceInfo"
    by (simp add: piece_info_opt.untouched assms(2) DefaultDealConfig_def)
  from assms(1) obtain p raw w1 sig where
    u: "run_state (MakeDealUnsigned L fc sp payload price duration [DealWithConfig ?c]) w = (Inr (p, raw), w1)"
    and np: "dr_RawBlockSize (np_Piece np) = pi_PayloadSize (cfg_PieceInfo ?c)"
    by (rule MakeDealWithOptions_run [OF _ refl]) auto
  from u obtain cfg0 w0 where
    "run_state (dealPieceInfo L fc payload ?c) w = (Inr cfg0, w0)"
    by (rule MakeDealUnsigned_run) simp
  then have "\<exists>pieceCid payloadSize unpadded.
      computePieceComm fc (w_trace w) payload = Inr (pieceCid, payloadSize, unpadded)"
    by (auto simp: dealPieceInfo_def pinf emptyPieceInfo_def run_simps split: sum.splits)
  with np pinf show ?thesis by (simp add: emptyPieceInfo_def)
qed

theorem computed_payload_size_lost_witness:
  "\<exists>np :: net_proposal. dr_RawBlockSize (np_Piece np) = 0 \<and>
     computePieceComm sampleClient [] ''bafyroot'' = Inr (''bagapiece'', 1000, 1016)"
proof -
  obtain np w' where r: "run_state (MakeDealWithOptions sampleLibrary sampleClient ''f01000'' ''bafyroot''
      500 1000 sampleOptions) \<lparr>w_trace = []\<rparr> = (Inr np, w')"
    using sample_options_run by blast
  have "dr_RawBlockSize (np_Piece np) = 0"
    by (rule conjunct1 [OF computed_payload_size_lost [OF r]])
       (auto simp: sampleOptions_def deal_option_defs)
  then show ?thesis by (intro exI [of _ np]) (simp add: sample_defs)
qed

text \<open>
  The client signature of a network proposal is made over the dump of the proposal it travels
  with: by the custom signer when one is configured, otherwise by the client's own address in the
  wallet, with the purpose \<open>MTDealProposal\<close>; it is the last call made.
\<close>

theorem deal_signature_over_dump:
  assumes "run_state (MakeDealWithOptions L fc sp payload price duration options) w = (Inr np, w')"
  shows "\<exists>raw t. lib_DumpProposal L (cdp_Proposal (np_DealProposal np)) = Inr raw \<and>
    (case cfg_Signer (applyOptions DefaultDealConfig options) of
       Some signer \<Rightarrow> signer t raw = Inr (cdp_ClientSignature (np_DealProposal np)) \<and>
         w_trace w' = t @ [CustomSign raw]
     | None \<Rightarrow> w_WalletSign (wallet fc) t (ClientAddr fc) raw MTDealProposal =
           Inr (cdp_ClientSignature (np_DealProposal np)) \<and>
         w_trace w' = t @ [WalletSign (ClientAddr fc) raw MTDealProposal])"
proof -
  let ?c = "applyOptions DefaultDealConfig options"
  from assms obtain p raw w1 sig where
    u: "run_state (MakeDealUnsigned L fc sp payload price duration [DealWithConfig ?c]) w = (Inr (p, raw), w1)"
    and s: "run_state (signProposal fc ?c raw) w1 = (Inr sig, w')"
    and np: "np_DealProposal np = \<lparr>cdp_Proposal = p, cdp_ClientSignature = sig\<rparr>"
    by (rule MakeDealWithOptions_run [OF _ refl]) auto
  from u have "lib_DumpProposal L p = Inr raw" by (rule MakeDealUnsigned_run)
  with s np show ?thesis
    by (intro exI [of _ raw] exI [of _ "w_trace w1"])
       (auto simp: signProposal_def run_simps split: option.splits)
qed

theorem deal_signature_over_dump_witness:
  "\<exists>(np :: net_proposal) raw. lib_DumpProposal sampleLibrary (cdp_Proposal (np_DealProposal np)) = Inr raw \<and>
     cdp_ClientSignature (np_DealProposal np) = ''f3client''"
proof -
  obtain np w' where r: "run_state (MakeDealWithOptions sampleLibrary sampleClient ''f01000'' ''bafyroot''
      500 1000 sampleOptions) \<lparr>w_trace = []\<rparr> = (Inr np, w')"
    using sample_options_run by blast
  from deal_signature_over_dump [OF r] show ?thesis
    by (intro exI [of _ np])
       (auto simp: sampleOptions_def deal_option_defs DefaultDealConfig_def sample_defs)
qed

end
