(* ===== verification/SendDeal.thy ===== *)
theory SendDeal
  imports MakeDeal
begin

text \<open>
  Proposing a deal to a provider and asking for its status: \<open>SendProposalV110\<close>,
  \<open>SendProposalV120WithOptions\<close>, \<open>SendProposalV120\<close>, \<open>DealStatus\<close> and \<open>toLegacyDealStatus\<close> of
  \<open>filclient.go\<close>.  Sending returns a flag with its error, which says whether the provider had
  answered; the pair \<open>(flag, error)\<close> is the left of the result, and \<open>(false, nil)\<close> is \<open>Inr ()\<close>.
\<close>

section \<open>Sending a proposal\<close>

definition flagE :: "bool \<Rightarrow> ('s, go_error + 'a) state \<Rightarrow> ('s, (bool \<times> go_error) + 'a) state" where
  "flagE b m = do { r \<leftarrow> m; ret (case r of Inl e \<Rightarrow> Inl (b, e) | Inr a \<Rightarrow> Inr a) }"

lemma run_flagE [run_simps]:
  "run_state (flagE b m) s =
     (case run_state m s of
        (Inl e, s') \<Rightarrow> (Inl (b, e), s')
      | (Inr a, s') \<Rightarrow> (Inr a, s'))"
  by (auto simp: flagE_def split: prod.splits sum.splits)

lemma quiet_flagE [quiet_intros]: "quiet m \<Longrightarrow> quiet (flagE b m)"
  unfolding flagE_def by (intro quiet_intros)

text \<open>The verdict on the answer of a v1.1.0 provider.\<close>

definition checkV110Response :: "library \<Rightarrow> cid \<Rightarrow> signed_response \<Rightarrow> (bool \<times> go_error) + unit" where
  "checkV110Response L propCid resp =
     (let proposalCheck =
        (if propCid \<noteq> sr_Proposal resp then
           Inl (True, Errorf (''proposal in saved deal did not match response ('' @ lib_cidString L propCid
             @ '' != '' @ lib_cidString L (sr_Proposal resp) @ '')''))
         else Inr ())
      in case sr_State resp of
           StorageDealError \<Rightarrow> Inl (True, Errorf (''error response from miner: '' @ sr_Message resp))
         | StorageDealProposalRejected \<Rightarrow> Inl (True, Errorf (''deal rejected by miner: '' @ sr_Message resp))
         | StorageDealWaitingForData \<Rightarrow> proposalCheck
         | StorageDealProposalAccepted \<Rightarrow> proposalCheck
         | st \<Rightarrow> Inl (True, Errorf (''unrecognized response from miner: '' @ lib_dealStatusNum L st
                  @ '' '' @ sr_Message resp)))"

definition SendProposalV110 ::
  "library \<Rightarrow> FilClient \<Rightarrow> ctx \<Rightarrow> net_proposal \<Rightarrow> cid \<Rightarrow> ('w world_scheme, (bool \<times> go_error) + unit) state" where
  "SendProposalV110 L fc cx netprop propCid =
     bindE (flagE False (mapE (wrapf ''opening stream to miner: '')
       (streamToMiner L fc (dp_Provider (cdp_Proposal (np_DealProposal netprop))) [DealProtocolv110]))) (\<lambda>s.
     withProtected ''SendProposalV110'' s
       (bindE (flagE False (mapE (wrapf ''send proposal rpc: '')
          (doRpc fc cx s (ProposalRequest netprop) (h_ReadSignedResponse (host fc))))) (\<lambda>resp.
        ret (checkV110Response L propCid resp))))"

definition v120Params :: "net_proposal \<Rightarrow> ProposalV120Config \<Rightarrow> deal_params" where
  "v120Params netprop cfg =
     \<lparr>dpar_DealUUID = v_DealUUID cfg,
      dpar_ClientDealProposal = np_DealProposal netprop,
      dpar_DealDataRoot = dr_Root (np_Piece netprop),
      dpar_Transfer = v_Transfer cfg,
      dpar_RemoveUnsealedCopy = (\<not> np_FastRetrieval netprop),
      dpar_IsOffline = v_Offline cfg,
      dpar_SkipIPNIAnnounce = v_SkipIPNIAnnounce cfg\<rparr>"

definition SendProposalV120WithOptions ::
  "library \<Rightarrow> FilClient \<Rightarrow> ctx \<Rightarrow> uuid \<Rightarrow> net_proposal \<Rightarrow> ProposalV120Option list
     \<Rightarrow> ('w world_scheme, (bool \<times> go_error) + unit) state" where
  "SendProposalV120WithOptions L fc cx fresh netprop options =
     bindE (flagE False (ret (applyV120Options (DefaultProposalV120Config fresh) netprop options))) (\<lambda>cfg.
     bindE (flagE False (mapE (wrapf ''opening stream to miner: '')
       (streamToMiner L fc (dp_Provider (cdp_Proposal (np_DealProposal netprop))) [DealProtocolv120]))) (\<lambda>s.
     withProtected ''SendProposalV120'' s
       (bindE (flagE False (mapE (wrapf ''send proposal rpc: '')
          (doRpc fc cx s (DealParamsRequest (v120Params netprop cfg)) (h_ReadDealResponse (host fc))))) (\<lambda>resp.
        if \<not> dresp_Accepted resp then
          ret (Inl (True, Errorf (''deal proposal rejected: '' @ dresp_Message resp)))
        else ret (Inr ())))))"

definition SendProposalV120 ::
  "(string \<Rightarrow> string \<Rightarrow> go_error + bytes) \<Rightarrow> (string \<Rightarrow> string \<Rightarrow> string)
     \<Rightarrow> library \<Rightarrow> FilClient \<Rightarrow> ctx \<Rightarrow> uuid \<Rightarrow> u64 \<Rightarrow> net_proposal \<Rightarrow> uuid \<Rightarrow> multiaddr \<Rightarrow> string
     \<Rightarrow> ('w world_scheme, (bool \<times> go_error) + unit) state" where
  "SendProposalV120 marshal basicAuth L fc cx fresh dbid netprop dealUUID announce authToken =
     SendProposalV120WithOptions L fc cx fresh netprop
       [ProposalV120WithDealUUID dealUUID,
        ProposalV120WithLibp2pTransfer marshal basicAuth announce authToken dbid]"

section \<open>The status of a deal\<close>

text \<open>The checkpoints of boost by name; \<open>cp\<close> is their \<open>String()\<close>.\<close>

datatype checkpoint =
    Accepted | Transferred | Published | PublishConfirmed | AddedPiece | IndexedAndAnnounced
  | CheckpointComplete

definition toLegacyDealStatus :: "(checkpoint \<Rightarrow> string) \<Rightarrow> deal_status \<Rightarrow> storage_deal_status" where
  "toLegacyDealStatus cp ds =
     (if ds_Error ds \<noteq> [] then StorageDealError
      else if ds_Status ds = cp Accepted then StorageDealWaitingForData
      else if ds_Status ds = cp Transferred then StorageDealVerifyData
      else if ds_Status ds = cp Published then StorageDealPublishing
      else if ds_Status ds = cp PublishConfirmed then StorageDealStaged
      else if ds_Status ds = cp AddedPiece then StorageDealAwaitingPreCommit
      else if ds_Status ds = cp IndexedAndAnnounced then StorageDealAwaitingPreCommit
      else if ds_Status ds = cp CheckpointComplete then StorageDealSealing
      else StorageDealUnknown)"

definition dealStatusV110 ::
  "library \<Rightarrow> FilClient \<Rightarrow> ctx \<Rightarrow> stream \<Rightarrow> cid \<Rightarrow> ('w world_scheme, go_error + provider_deal_state) state" where
  "dealStatusV110 L fc cx s propCid =
     bindE (ret (lib_DumpCid L propCid)) (\<lambda>cidb.
     bindE (mapE (wrapf ''signing status request failed: '')
       (perform (\<lambda>t. w_WalletSign (wallet fc) t (ClientAddr fc) cidb MTUnknown)
          (\<lambda>_. WalletSign (ClientAddr fc) cidb MTUnknown))) (\<lambda>sig.
     mapE (wrapf ''deal status rpc: '')
       (doRpc fc cx s (StatusRequestByCid propCid sig) (h_ReadDealState (host fc)))))"

definition dealStatusV120 ::
  "library \<Rightarrow> (checkpoint \<Rightarrow> string) \<Rightarrow> FilClient \<Rightarrow> ctx \<Rightarrow> stream \<Rightarrow> uuid option
     \<Rightarrow> ('w world_scheme, go_error + provider_deal_state) state" where
  "dealStatusV120 L cp fc cx s dealUUID =
     (case dealUUID of
        None \<Rightarrow> ret (Inl (Panic ''invalid memory address or nil pointer dereference''))
      | Some u \<Rightarrow>
          bindE (mapE (wrapf ''getting uuid bytes: '') (ret (lib_UUIDBytes L u))) (\<lambda>uuidBytes.
          bindE (mapE (wrapf ''signing status request failed: '')
            (perform (\<lambda>t. w_WalletSign (wallet fc) t (ClientAddr fc) uuidBytes MTUnknown)
               (\<lambda>_. WalletSign (ClientAddr fc) uuidBytes MTUnknown))) (\<lambda>sig.
          bindE (mapE (wrapf ''deal status rpc: '')
            (doRpc fc cx s (StatusRequestByUUID u sig) (h_ReadDealStatus (host fc)))) (\<lambda>resp.
          if dsr_Error resp \<noteq> [] then
            ret (Inl (Errorf (''deal status error: '' @ dsr_Error resp)))
          else case dsr_DealStatus resp of
            None \<Rightarrow> ret (Inl (Errorf ''deal status is nil''))
          | Some st \<Rightarrow>
              ret (Inr \<lparr>pds_State = toLegacyDealStatus cp st, pds_Message = ds_Error st,
                pds_Proposal = Some (ds_Proposal st), pds_ProposalCid = Some (ds_SignedProposalCid st),
                pds_AddFundsCid = None, pds_PublishCid = ds_PublishCid st,
                pds_DealID = ds_ChainDealID st, pds_FastRetrieval = True\<rparr>)))))"

definition DealStatus ::
  "library \<Rightarrow> (checkpoint \<Rightarrow> string) \<Rightarrow> FilClient \<Rightarrow> ctx \<Rightarrow> address \<Rightarrow> cid \<Rightarrow> uuid option
     \<Rightarrow> ('w world_scheme, go_error + provider_deal_state) state" where
  "DealStatus L cp fc cx miner propCid dealUUID =
     (let protos = (if dealUUID \<noteq> None then [DealStatusProtocolv120, DealStatusProtocolv110]
                    else [DealStatusProtocolv110])
      in bindE (streamToMiner L fc miner protos) (\<lambda>s.
         withProtected ''DealStatus'' s
           (if str_Protocol s = DealStatusProtocolv110 then dealStatusV110 L fc cx s propCid
            else dealStatusV120 L cp fc cx s dealUUID)))"

section \<open>Lemmas\<close>

text \<open>Libp2p negotiates one of the protocols it was asked for.\<close>

definition negotiates :: "host_service \<Rightarrow> bool" where
  "negotiates h \<longleftrightarrow> (\<forall>t p ps s. h_NewStream h t p ps = Inr s \<longrightarrow> str_Protocol s \<in> set ps)"

lemma newStream_protocol:
  assumes "negotiates (host fc)" and "run_state (newStream fc p ps) w = (Inr s, w')"
  shows "str_Protocol s \<in> set ps"
  using assms by (auto simp: newStream_def negotiates_def run_simps split: sum.splits)

lemma streamToMiner_protocol:
  assumes "negotiates (host fc)" and "run_state (streamToMiner L fc m ps) w = (Inr s, w')"
  shows "str_Protocol s \<in> set ps"
  using assms newStream_protocol
  by (auto simp: streamToMiner_def run_bindE split: sum.splits prod.splits)

lemma quiet_deal_status [quiet_intros]:
  "quiet (dealStatusV110 L fc cx s c)" "quiet (dealStatusV120 L cp fc cx s u)"
  by (auto simp: dealStatusV110_def dealStatusV120_def split: option.splits intro!: quiet_intros)

lemma releases_SendProposalV110: "releases ''SendProposalV110'' (SendProposalV110 L fc cx np c)"
  unfolding SendProposalV110_def by (intro releases_bindE releases_withProtected quiet_intros)

lemma releases_SendProposalV120WithOptions:
  "releases ''SendProposalV120'' (SendProposalV120WithOptions L fc cx u np os)"
  unfolding SendProposalV120WithOptions_def
  by (intro releases_bindE releases_withProtected) (auto intro!: quiet_intros)

lemma releases_DealStatus: "releases ''DealStatus'' (DealStatus L cp fc cx m c u)"
  unfolding DealStatus_def Let_def
  by (intro releases_bindE releases_withProtected) (auto intro!: quiet_intros)

lemma checkV110Response_flag: "checkV110Response L c r = Inl (b, e) \<Longrightarrow> b"
  by (auto simp: checkV110Response_def Let_def split: storage_deal_status.splits if_splits)

lemma checkV110Response_ok:
  "checkV110Response L c r = Inr () \<longleftrightarrow>
     sr_State r \<in> {StorageDealWaitingForData, StorageDealProposalAccepted} \<and> sr_Proposal r = c"
  by (auto simp: checkV110Response_def Let_def split: storage_deal_status.splits if_splits)

text \<open>An exchange that succeeded wrote its request on the stream and read this answer.\<close>

lemma doRpc_ok:
  assumes "run_state (doRpc fc cx s req readResp) w = (Inr r, w')"
  shows "\<exists>t u. readResp t s = Inr r \<and> w_trace w' = w_trace w @ u \<and> Host (HWrite s req) \<in> set u"
  using assms
  by (auto simp: doRpc_def run_simps ofErr_def Let_def split: option.splits sum.splits)

lemma doRpc_writes:
  assumes "run_state (doRpc fc cx s req readResp) w = (r, w')"
  shows "\<exists>u. w_trace w' = w_trace w @ u \<and> (\<forall>s' q. Host (HWrite s' q) \<in> set u \<longrightarrow> s' = s \<and> q = req)"
  using assms
  by (auto simp: doRpc_def run_simps ofErr_def Let_def split: option.splits sum.splits)

lemma only_flagE [only_intros]: "only Q m \<Longrightarrow> only Q (flagE b m)"
  unfolding flagE_def by (intro only_intros)

lemma only_send [only_intros]:
  "only hostOrChain (SendProposalV110 L fc cx np c)"
  "only hostOrChain (SendProposalV120 marshal basicAuth L fc cx fresh dbid np u announce tok)"
  by (auto simp: SendProposalV110_def SendProposalV120_def SendProposalV120WithOptions_def intro!: only_intros)

text \<open>The answer behind a proposal that was sent with success.\<close>

lemma send_v120_accepted:
  assumes "run_state (SendProposalV120 marshal basicAuth L fc cx fresh dbid np dealUUID announce tok) w = (Inr (), w')"
  shows "\<exists>t s resp. h_ReadDealResponse (host fc) t s = Inr resp \<and> dresp_Accepted resp"
  using assms
  by (auto simp: SendProposalV120_def SendProposalV120WithOptions_def run_bindE run_withProtected run_flagE
      run_mapE dest!: doRpc_ok split: sum.splits if_splits prod.splits)

lemma send_v110_accepted:
  assumes "run_state (SendProposalV110 L fc cx np c) w = (Inr (), w')"
  shows "\<exists>t s resp. h_ReadSignedResponse (host fc) t s = Inr resp \<and> sr_Proposal resp = c
    \<and> sr_State resp \<in> {StorageDealWaitingForData, StorageDealProposalAccepted}"
  using assms
  by (auto simp: SendProposalV110_def run_bindE run_withProtected run_flagE run_mapE checkV110Response_ok
      dest!: doRpc_ok split: sum.splits if_splits prod.splits)

section \<open>Properties\<close>





text \<open>
  \<open>DealStatus\<close> without a deal UUID never reaches the code that dereferences it: when the host
  negotiates one of the protocols it was asked for, the call is exactly the v1.1.0 query by proposal
  CID on a v1.1.0 stream.
\<close>

theorem deal_status_without_uuid:
  assumes "negotiates (host fc)"
  shows "run_state (DealStatus L cp fc cx miner propCid None) w =
    run_state (bindE (streamToMiner L fc miner [DealStatusProtocolv110]) (\<lambda>s.
      withProtected ''DealStatus'' s (dealStatusV110 L fc cx s propCid))) w"
proof -
  obtain q w1 where st: "run_state (streamToMiner L fc miner [DealStatusProtocolv110]) w = (q, w1)"
    by fastforce
  show ?thesis
  proof (cases q)
    case (Inl e)
    then show ?thesis by (simp add: DealStatus_def run_bindE st)
  next
    case (Inr s)
    with streamToMiner_protocol [OF assms] st have "str_Protocol s = DealStatusProtocolv110" by fastforce
    then show ?thesis by (simp add: DealStatus_def run_bindE st Inr)
  qed
qed

theorem deal_status_without_uuid_witness:
  "fst (run_state (DealStatus sampleLibrary (\<lambda>_. []) sampleClient emptyCtx ''f01000'' ''bafyprop'' None)
     \<lparr>w_trace = []\<rparr>) = Inr sampleProviderState"
proof -
  have "negotiates (host sampleClient)"
    by (auto simp: negotiates_def sampleClient_def sampleHost_def split: list.splits)
  then show ?thesis
    by (subst deal_status_without_uuid) (assumption, simp add: streamToMiner_def newStream_def connect_defs dealStatusV110_def run_withProtected
        doRpc_def run_simps sample_defs Let_def)
qed

text \<open>
  The legacy state of a v1.2.0 deal.  An error message always gives the error state; otherwise,
  when the checkpoints have different names, each has its state, and the unknown state is given for
  exactly the names that are no checkpoint.
\<close>

theorem legacy_status_total:
  assumes "inj cp"
  shows "(ds_Error ds \<noteq> [] \<longleftrightarrow> toLegacyDealStatus cp ds = StorageDealError) \<and>
    (ds_Error ds = [] \<longrightarrow>
      (toLegacyDealStatus cp ds = StorageDealUnknown \<longleftrightarrow> ds_Status ds \<notin> range cp) \<and>
      (\<forall>c. ds_Status ds = cp c \<longrightarrow> toLegacyDealStatus cp ds =
        (case c of
           Accepted \<Rightarrow> StorageDealWaitingForData
         | Transferred \<Rightarrow> StorageDealVerifyData
         | Published \<Rightarrow> StorageDealPublishing
         | PublishConfirmed \<Rightarrow> StorageDealStaged
         | AddedPiece \<Rightarrow> StorageDealAwaitingPreCommit
         | IndexedAndAnnounced \<Rightarrow> StorageDealAwaitingPreCommit
         | CheckpointComplete \<Rightarrow> StorageDealSealing)))"
proof -
  note cpd = inj_eq [OF assms]
  have rng: "ds_Status ds \<notin> range cp \<Longrightarrow> ds_Status ds \<noteq> cp c" for c by blast
  have "toLegacyDealStatus cp ds = StorageDealUnknown \<longleftrightarrow> ds_Error ds = [] \<and> ds_Status ds \<notin> range cp"
  proof
    assume a: "toLegacyDealStatus cp ds = StorageDealUnknown"
    have "ds_Status ds \<noteq> cp c" for c
      using a by (cases c) (auto simp: toLegacyDealStatus_def cpd split: if_splits)
    with a show "ds_Error ds = [] \<and> ds_Status ds \<notin> range cp"
      by (auto simp: toLegacyDealStatus_def split: if_splits)
  qed (simp add: toLegacyDealStatus_def rng)
  then show ?thesis by (auto simp: toLegacyDealStatus_def cpd split: checkpoint.splits)
qed

definition sampleCheckpoint :: "checkpoint \<Rightarrow> string" where
  "sampleCheckpoint c = (case c of
     Accepted \<Rightarrow> ''Accepted'' | Transferred \<Rightarrow> ''Transferred'' | Published \<Rightarrow> ''Published''
   | PublishConfirmed \<Rightarrow> ''PublishConfirmed'' | AddedPiece \<Rightarrow> ''AddedPiece''
   | IndexedAndAnnounced \<Rightarrow> ''IndexedAndAnnounced'' | CheckpointComplete \<Rightarrow> ''Complete'')"

theorem legacy_status_total_witness:
  "toLegacyDealStatus sampleCheckpoint (sampleDealStatus\<lparr>ds_Status := ''AddedPiece''\<rparr>) =
     StorageDealAwaitingPreCommit"
proof -
  let ?d = "sampleDealStatus\<lparr>ds_Status := ''AddedPiece''\<rparr>"
  have inj: "inj sampleCheckpoint"
  proof (rule injI)
    fix c d
    assume "sampleCheckpoint c = sampleCheckpoint d"
    then show "c = d" by (cases c; cases d) (simp_all add: sampleCheckpoint_def)
  qed
  have e: "ds_Error ?d = []" and st: "ds_Status ?d = sampleCheckpoint AddedPiece"
    by (simp_all add: sampleDealStatus_def sampleCheckpoint_def)
  note all = conjunct2 [OF mp [OF conjunct2 [OF legacy_status_total [OF inj]] e]]
  show ?thesis using mp [OF spec [OF all] st] by simp
qed

end
