(* ===== verification/Retrieval.thy ===== *)
theory Retrieval
  imports Connect
begin

text \<open>
  The retrieval operations of \<open>filclient.go\<close> up to the transfer itself: the two query calls with the
  events they publish, \<open>getPaychWithMinFunds\<close>, the setup of a retrieval (payment channel and lane),
  the handler of data-transfer events, and the final confirmation with the statistics.  The closure
  variables of the handler are the fields of \<open>rstate\<close>; the one-place channel \<open>dtRes\<close> with its
  non-blocking send is a cell that keeps the first value put into it (locale \<open>once_cell\<close>).
\<close>

section \<open>Publishing\<close>

definition publish :: "RetrievalEvent \<Rightarrow> ('w world_scheme, unit) state" where
  "publish ev = emit (Publish ev)"

text \<open>Code that runs when a call returned an error; a panic leaves without running it.\<close>

definition onErr ::
  "(go_error \<Rightarrow> ('s, unit) state) \<Rightarrow> ('s, go_error + 'a) state \<Rightarrow> ('s, go_error + 'a) state" where
  "onErr h m = do {
     r \<leftarrow> m;
     case r of
       Inl e \<Rightarrow> if isPanic e then ret (Inl e) else do { h e; ret (Inl e) }
     | Inr a \<Rightarrow> ret (Inr a) }"

lemma run_onErr [run_simps]:
  "run_state (onErr h m) s =
     (case run_state m s of
        (Inl e, s') \<Rightarrow> (Inl e, if isPanic e then s' else snd (run_state (h e) s'))
      | (Inr a, s') \<Rightarrow> (Inr a, s'))"
  by (auto simp: onErr_def split: prod.splits sum.splits)

lemma quiet_publish [quiet_intros]: "quiet (publish ev)"
  unfolding publish_def by (intro quiet_intros) simp

lemma quiet_onErr [quiet_intros]:
  assumes "quiet m" and "\<And>e. quiet (h e)"
  shows "quiet (onErr h m)"
  unfolding onErr_def using assms
  by (intro quiet_intros) (auto split: sum.splits intro!: quiet_intros)

text \<open>The events of a trace, in order.\<close>

definition published :: "trace \<Rightarrow> RetrievalEvent list" where
  "published t = concat (map (\<lambda>c. case c of Publish ev \<Rightarrow> [ev] | _ \<Rightarrow> []) t)"

lemma published_simps [simp]:
  "published [] = []"
  "published (t @ u) = published t @ published u"
  "published (c # t) = (case c of Publish ev \<Rightarrow> [ev] | _ \<Rightarrow> []) @ published t"
  by (simp_all add: published_def)

section \<open>Queries\<close>

text \<open>The part after the stream is open, common to both calls.\<close>

definition retrievalQueryOn ::
  "FilClient \<Rightarrow> ctx \<Rightarrow> stream \<Rightarrow> cid \<Rightarrow> peer \<Rightarrow> address \<Rightarrow> ('w world_scheme, go_error + query_response) state" where
  "retrievalQueryOn fc cx s pcid pid maddr = do {
     publish (NewRetrievalEventConnect QueryPhase pcid pid maddr);
     bindE (mapE (wrapf ''retrieval query rpc: '')
       (onErr (\<lambda>err. publish (NewRetrievalEventFailure QueryPhase pcid pid maddr
                 (''failed retrieval query ask: '' @ errorText err)))
          (doRpc fc cx s (QueryRequest pcid) (h_ReadQueryResponse (host fc))))) (\<lambda>resp.
     do { publish (NewRetrievalEventQueryAsk QueryPhase pcid pid maddr resp); ret (Inr resp) })
   }"

definition RetrievalQuery ::
  "library \<Rightarrow> FilClient \<Rightarrow> ctx \<Rightarrow> address \<Rightarrow> cid \<Rightarrow> ('w world_scheme, go_error + query_response) state" where
  "RetrievalQuery L fc cx maddr pcid =
     bindE (onErr (\<lambda>err. publish (NewRetrievalEventFailure QueryPhase pcid [] maddr
                    (''failed connecting to miner: '' @ errorText err)))
              (streamToMiner L fc maddr [RetrievalQueryProtocol])) (\<lambda>s.
     withProtected ''RetrievalQuery'' s (retrievalQueryOn fc cx s pcid [] maddr))"

definition RetrievalQueryToPeer ::
  "FilClient \<Rightarrow> ctx \<Rightarrow> addr_info \<Rightarrow> cid \<Rightarrow> ('w world_scheme, go_error + query_response) state" where
  "RetrievalQueryToPeer fc cx minerPeer pcid =
     bindE (onErr (\<lambda>err. publish (NewRetrievalEventFailure QueryPhase pcid (ai_ID minerPeer) address_Undef
                    (''failed connecting to miner: '' @ errorText err)))
              (openStreamToPeer fc minerPeer RetrievalQueryProtocol)) (\<lambda>s.
     withProtected ''RetrievalQueryToPeer'' s
       (retrievalQueryOn fc cx s pcid (ai_ID minerPeer) address_Undef))"

section \<open>The payment channel\<close>

definition getPaychWithMinFunds ::
  "library \<Rightarrow> FilClient \<Rightarrow> address \<Rightarrow> ('w world_scheme, go_error + address) state" where
  "getPaychWithMinFunds L fc dest =
     bindE (perform (\<lambda>t. p_AvailableFunds (pchmgr fc) t (ClientAddr fc) dest)
              (\<lambda>_. Pch (PAvailableFunds (ClientAddr fc) dest))) (\<lambda>(confirmedAmt, channel).
     bindE (ret (lib_ParseFIL L ''0.01'')) (\<lambda>reqBalance.
     if confirmedAmt \<ge> reqBalance then
       (case channel of
          None \<Rightarrow> ret (Inl (Panic ''invalid memory address or nil pointer dereference''))
        | Some ch \<Rightarrow> ret (Inr ch))
     else
       let amount = reqBalance * 2 in
       bindE (mapE (wrapf ''failed to get payment channel: '')
         (perform (\<lambda>t. p_GetPaych (pchmgr fc) t (ClientAddr fc) dest amount)
            (\<lambda>_. Pch (PGetPaych (ClientAddr fc) dest amount)))) (\<lambda>(pchaddr, mcid).
       if mcid = cid_Undef then
         (if pchaddr = address_Undef then ret (Inl (Errorf ''GetPaych returned nothing''))
          else ret (Inr pchaddr))
       else perform (\<lambda>t. p_GetPaychWaitReady (pchmgr fc) t mcid) (\<lambda>_. Pch (PGetPaychWaitReady mcid)))))"

section \<open>The parameters of one retrieval\<close>

record rparams =
  rq_peerID :: peer
  rq_proposal :: retrieval_proposal
  rq_pchRequired :: bool
  rq_pchAddr :: address
  rq_pchLane :: u64

definition rootCid :: "rparams \<Rightarrow> cid" where
  "rootCid P = rp_PayloadCID (rq_proposal P)"

definition publishFailure :: "rparams \<Rightarrow> string \<Rightarrow> ('w world_scheme, unit) state" where
  "publishFailure P msg =
     publish (NewRetrievalEventFailure RetrievalPhase (rootCid P) (rq_peerID P) address_Undef msg)"

text \<open>
  The setup.  The block that gets the payment channel declares a new variable \<open>pchAddr\<close>; the outer
  one, which the handler reads, keeps its zero value.
\<close>

definition retrievalSetup ::
  "library \<Rightarrow> FilClient \<Rightarrow> peer \<Rightarrow> address \<Rightarrow> retrieval_proposal
     \<Rightarrow> ('w world_scheme, go_error + rparams) state" where
  "retrievalSetup L fc peerID minerWallet proposal =
     (let pchRequired = (rp_PricePerByte proposal \<noteq> 0 \<or> rp_UnsealPrice proposal \<noteq> 0);
          pchAddr = address_Undef;
          P = \<lparr>rq_peerID = peerID, rq_proposal = proposal, rq_pchRequired = pchRequired,
               rq_pchAddr = pchAddr, rq_pchLane = 0\<rparr>
      in if pchRequired then
           bindE (mapE (wrapf ''failed to get payment channel: '')
             (onErr (\<lambda>err. publishFailure P (''failed to get payment channel: '' @ errorText err))
                (getPaychWithMinFunds L fc minerWallet))) (\<lambda>innerPchAddr.
           bindE (mapE (wrapf ''failed to allocate lane: '')
             (onErr (\<lambda>err. publishFailure P (''failed to allocate lane: '' @ errorText err))
                (perform (\<lambda>t. p_AllocateLane (pchmgr fc) t innerPchAddr)
                   (\<lambda>_. Pch (PAllocateLane innerPchAddr))))) (\<lambda>lane.
           ret (Inr (P\<lparr>rq_pchLane := lane\<rparr>))))
         else ret (Inr P))"

section \<open>The result cell\<close>

text \<open>
  A buffered channel of capacity one that is written by a non-blocking send: the first value stays
  until it is received.
\<close>

locale once_cell =
  fixes put :: "'v \<Rightarrow> 'c \<Rightarrow> 'c" and content :: "'c \<Rightarrow> 'v option"
  assumes put_empty: "content c = None \<Longrightarrow> content (put v c) = Some v"
    and put_full: "content c = Some u \<Longrightarrow> put v c = c"
begin

lemma content_put: "content (put v c) = (case content c of None \<Rightarrow> Some v | Some u \<Rightarrow> Some u)"
  by (auto simp: put_empty put_full split: option.splits)

lemma content_fold:
  "content (fold put vs c) =
     (case content c of Some u \<Rightarrow> Some u | None \<Rightarrow> (case vs of [] \<Rightarrow> None | v # _ \<Rightarrow> Some v))"
  by (induction vs arbitrary: c) (auto simp: content_put split: option.splits)

lemma first_wins: "content (fold put vs (put v c)) = content (put v c)"
  by (auto simp: content_fold content_put split: option.splits)

end

record rstate = world +
  r_chanid :: channel_id
  r_totalPayment :: int
  r_nonce :: u64
  r_dtRes :: "go_error option option"
  r_allBytesReceived :: bool
  r_dealComplete :: bool
  r_receivedFirstByte :: bool

definition initRetrieval :: "trace \<Rightarrow> rstate" where
  "initRetrieval t = \<lparr>w_trace = t, r_chanid = zeroChannelID, r_totalPayment = 0, r_nonce = 0,
     r_dtRes = None, r_allBytesReceived = False, r_dealComplete = False,
     r_receivedFirstByte = False\<rparr>"

definition finishCell :: "go_error option \<Rightarrow> 'w rstate_scheme \<Rightarrow> 'w rstate_scheme" where
  "finishCell err s = (case r_dtRes s of None \<Rightarrow> s\<lparr>r_dtRes := Some err\<rparr> | Some _ \<Rightarrow> s)"

interpretation dtRes_cell: once_cell finishCell r_dtRes
  by unfold_locales (simp_all add: finishCell_def)

definition finish :: "go_error option \<Rightarrow> ('w rstate_scheme, unit) state" where
  "finish err = modify (finishCell err)"

section \<open>The event handler\<close>

text \<open>A request for funds is answered with a voucher over the running total.\<close>

definition payForRetrieval ::
  "FilClient \<Rightarrow> rparams \<Rightarrow> channel_id \<Rightarrow> retrieval_deal_response \<Rightarrow> ('w rstate_scheme, unit) state" where
  "payForRetrieval fc P chid resp = do {
     modify (\<lambda>s. s\<lparr>r_totalPayment := r_totalPayment s + rdr_PaymentOwed resp\<rparr>);
     total \<leftarrow> gets r_totalPayment;
     nonce \<leftarrow> gets r_nonce;
     let sv = \<lparr>sv_ChannelAddr = rq_pchAddr P, sv_Lane = rq_pchLane P, sv_Nonce = nonce, sv_Amount = total\<rparr>;
     vres \<leftarrow> perform (\<lambda>t. p_CreateVoucher (pchmgr fc) t (rq_pchAddr P) sv)
                (\<lambda>_. Pch (PCreateVoucher (rq_pchAddr P) sv));
     case vres of
       Inl err \<Rightarrow> finish (Some err)
     | Inr vr \<Rightarrow>
         if vr_Shortfall vr > 0 then
           finish (Some (Errorf (''not enough funds remaining in payment channel (shortfall = ''
             @ fmt_int (vr_Shortfall vr) @ '')'')))
         else do {
           let pay = \<lparr>pay_ID = rp_ID (rq_proposal P), pay_PaymentChannel = rq_pchAddr P,
                      pay_PaymentVoucher = vr_Voucher vr\<rparr>;
           r \<leftarrow> perform (\<lambda>t. d_SendVoucher (dataTransfer fc) t chid pay)
                  (\<lambda>r. Dt (DSendVoucher chid pay r));
           case r of
             Some err \<Rightarrow> finish (Some (wrapf ''failed to send payment voucher: '' err))
           | None \<Rightarrow> modify (\<lambda>s. s\<lparr>r_nonce := r_nonce s + 1\<rparr>)
         }
   }"

definition onDealResponse ::
  "FilClient \<Rightarrow> rparams \<Rightarrow> channel_id \<Rightarrow> retrieval_deal_response \<Rightarrow> ('w rstate_scheme, unit) state" where
  "onDealResponse fc P chid resp =
     (let pay = (if rq_pchRequired P then payForRetrieval fc P chid resp
                 else finish (Some (Errorf ''the miner requested payment even though this transaction was determined to be zero cost'')))
      in case rdr_Status resp of
           DealStatusAccepted \<Rightarrow>
             publish (NewRetrievalEventAccepted RetrievalPhase (rootCid P) (rq_peerID P) address_Undef)
         | DealStatusFundsNeeded \<Rightarrow> pay
         | DealStatusFundsNeededLastPayment \<Rightarrow> pay
         | DealStatusRejected \<Rightarrow> finish (Some (Errorf (''deal rejected: '' @ rdr_Message resp)))
         | DealStatusFundsNeededUnseal \<Rightarrow> finish (Some (Errorf ''data is sealed''))
         | DealStatusUnsealing \<Rightarrow> finish (Some (Errorf ''data is sealed''))
         | DealStatusCancelled \<Rightarrow> finish (Some (Errorf (''deal cancelled: '' @ rdr_Message resp)))
         | DealStatusErrored \<Rightarrow> finish (Some (Errorf (''deal errored: '' @ rdr_Message resp)))
         | DealStatusCompleted \<Rightarrow> do {
             allBytes \<leftarrow> gets r_allBytesReceived;
             if allBytes then finish None else modify (\<lambda>s. s\<lparr>r_dealComplete := True\<rparr>)
           }
         | DealStatusOther _ \<Rightarrow> ret ())"

definition onEvent ::
  "FilClient \<Rightarrow> rparams \<Rightarrow> dt_event \<Rightarrow> dt_channel \<Rightarrow> ('w rstate_scheme, unit) state" where
  "onEvent fc P event st = do {
     chid \<leftarrow> gets r_chanid;
     if dtc_ChannelID st \<noteq> chid then ret ()
     else case evt_Code event of
         Error \<Rightarrow> finish (Some (Errorf (''datatransfer error: '' @ evt_Message event)))
       | CleanupComplete \<Rightarrow> finish None
       | NewVoucherResult \<Rightarrow>
           (case dtc_LastVoucherResult st of
              DealResponseResult resp \<Rightarrow> onDealResponse fc P chid resp
            | OtherVoucherResult \<Rightarrow> ret ())
       | FinishTransfer \<Rightarrow> do {
           complete \<leftarrow> gets r_dealComplete;
           if complete then finish None else modify (\<lambda>s. s\<lparr>r_allBytesReceived := True\<rparr>)
         }
       | DataReceivedProgress \<Rightarrow> do {
           first \<leftarrow> gets r_receivedFirstByte;
           (if \<not> first then do {
              modify (\<lambda>s. s\<lparr>r_receivedFirstByte := True\<rparr>);
              publish (NewRetrievalEventFirstByte RetrievalPhase (rootCid P) (rq_peerID P) address_Undef)
            } else ret ());
           emit (Progress (dtc_Received st))
         }
       | _ \<Rightarrow> ret ()
   }"

section \<open>Confirmation and statistics\<close>

record RetrievalStats =
  rs_Peer :: peer
  rs_Size :: u64
  rs_Duration :: "64 word"
  rs_AverageSpeed :: u64
  rs_TotalPayment :: int
  rs_NumPayments :: int
  rs_AskPrice :: int

text \<open>
  After the transfer reported its end: the root block must be in the blockstore.  \<open>duration\<close> is the
  time measured, \<open>avgSpeed\<close> the floating-point quotient of the bytes by its seconds.
\<close>

definition confirmRetrieval ::
  "(u64 \<Rightarrow> 64 word \<Rightarrow> u64) \<Rightarrow> FilClient \<Rightarrow> rparams \<Rightarrow> 64 word
     \<Rightarrow> ('w rstate_scheme, go_error + RetrievalStats) state" where
  "confirmRetrieval avgSpeed fc P duration =
     bindE (onErr (\<lambda>err. publishFailure P (errorText err))
       (mapE (wrapf ''could not get query blockstore: '')
          (perform (\<lambda>t. blockstoreHas fc t (rootCid P)) (\<lambda>_. BlockstoreHas (rootCid P))))) (\<lambda>has.
     if \<not> has then do {
       publishFailure P ''data transfer failed: unconfirmed block transfer'';
       ret (Inl (Errorf ''data transfer failed: unconfirmed block transfer''))
     } else do {
       chid \<leftarrow> gets r_chanid;
       bindE (onErr (\<lambda>err. publishFailure P (errorText err))
         (mapE (wrapf ''could not get channel state: '')
            (perform (\<lambda>t. d_ChannelState (dataTransfer fc) t chid) (\<lambda>_. Dt (DChannelState chid))))) (\<lambda>st.
       do { total \<leftarrow> gets r_totalPayment;
            nonce \<leftarrow> gets r_nonce;
            publish (NewRetrievalEventSuccess RetrievalPhase (rootCid P) (rq_peerID P) address_Undef
              (dtc_Received st) (dtc_ReceivedCidsTotal st) duration total);
            ret (Inr \<lparr>rs_Peer = dtc_OtherPeer st, rs_Size = dtc_Received st, rs_Duration = duration,
              rs_AverageSpeed = avgSpeed (dtc_Received st) duration, rs_TotalPayment = total,
              rs_NumPayments = sint nonce, rs_AskPrice = rp_PricePerByte (rq_proposal P)\<rparr>) }) })"

end
