(* ===== verification/Runs.thy ===== *)
theory Runs
  imports Prelude "HOL-Library.Multiset"
begin

text \<open>
  Runs of a transition system that is given as a function from a state and a label to the next state,
  \<open>None\<close> where the label is not enabled.  Goroutines that run beside each other are such a system, their
  interleaving is a list of labels.  The locales state once what is proved for each of them: an invariant is
  kept by a run, and a system in which every step uses up something and that is not stuck before its
  end can always be completed, with a bound on the number of steps.
\<close>

section \<open>Runs\<close>

fun steps :: "('s \<Rightarrow> 'l \<Rightarrow> 's option) \<Rightarrow> 's \<Rightarrow> 'l list \<Rightarrow> 's option" where
  "steps nxt s [] = Some s"
| "steps nxt s (l # ls) = (case nxt s l of None \<Rightarrow> None | Some s' \<Rightarrow> steps nxt s' ls)"

lemma steps_append:
  "steps nxt s (ls @ ms) = (case steps nxt s ls of None \<Rightarrow> None | Some s' \<Rightarrow> steps nxt s' ms)"
  by (induction ls arbitrary: s) (auto split: option.splits)

lemma steps_snoc:
  "steps nxt s (ls @ [l]) = Some s'' \<longleftrightarrow> (\<exists>s'. steps nxt s ls = Some s' \<and> nxt s' l = Some s'')"
  by (auto simp: steps_append split: option.splits)

text \<open>Induction over a run from its start, with the labels so far.\<close>

lemma steps_induct [consumes 1, case_names start step]:
  assumes "steps nxt s0 ls = Some s"
    and "P [] s0"
    and "\<And>ls s l s'. steps nxt s0 ls = Some s \<Longrightarrow> P ls s \<Longrightarrow> nxt s l = Some s' \<Longrightarrow> P (ls @ [l]) s'"
  shows "P ls s"
  using assms(1)
proof (induction ls arbitrary: s rule: rev_induct)
  case Nil
  then show ?case using assms(2) by simp
next
  case (snoc l ls)
  then show ?case using assms(3) by (auto simp: steps_snoc)
qed

section \<open>Invariants and completion\<close>

locale guarded =
  fixes nxt :: "'s \<Rightarrow> 'l \<Rightarrow> 's option" and inv :: "'s \<Rightarrow> bool"
  assumes inv_step: "inv s \<Longrightarrow> nxt s l = Some s' \<Longrightarrow> inv s'"
begin

lemma inv_run: "steps nxt s ls = Some s' \<Longrightarrow> inv s \<Longrightarrow> inv s'"
  by (induction ls arbitrary: s) (auto intro: inv_step split: option.splits)

end

text \<open>\<open>left\<close> counts the steps that are still to be made before \<open>final\<close>.\<close>

locale draining = guarded nxt inv
  for nxt :: "'s \<Rightarrow> 'l \<Rightarrow> 's option" and inv :: "'s \<Rightarrow> bool" +
  fixes final :: "'s \<Rightarrow> bool" and left :: "'s \<Rightarrow> nat"
  assumes uses_up: "inv s \<Longrightarrow> nxt s l = Some s' \<Longrightarrow> left s' < left s"
    and not_stuck: "inv s \<Longrightarrow> \<not> final s \<Longrightarrow> \<exists>l s'. nxt s l = Some s'"
begin

lemma run_bounded: "steps nxt s ls = Some s' \<Longrightarrow> inv s \<Longrightarrow> length ls + left s' \<le> left s"
proof (induction ls arbitrary: s)
  case Nil
  then show ?case by simp
next
  case (Cons l ls)
  then obtain s1 where s1: "nxt s l = Some s1" "steps nxt s1 ls = Some s'" by (auto split: option.splits)
  with Cons.IH [OF s1(2)] inv_step uses_up Cons.prems(2) show ?case by fastforce
qed

lemma can_finish: "inv s \<Longrightarrow> \<exists>ls s'. steps nxt s ls = Some s' \<and> final s'"
proof (induction "left s" arbitrary: s rule: less_induct)
  case less
  show ?case
  proof (cases "final s")
    case True
    then show ?thesis by (intro exI [of _ "[]"]) simp
  next
    case False
    then obtain l s1 where l: "nxt s l = Some s1" using not_stuck less.prems by blast
    with less uses_up inv_step obtain ls s' where "steps nxt s1 ls = Some s'" "final s'" by meson
    with l show ?thesis by (intro exI [of _ "l # ls"]) auto
  qed
qed

end

section \<open>One component of many\<close>

text \<open>What a sum over the components becomes when one of them moves.\<close>

lemma sum_list_update:
  fixes f :: "'a \<Rightarrow> 'b :: comm_monoid_add"
  shows "i < length xs \<Longrightarrow> sum_list (map f (xs[i := x])) + f (xs ! i) = sum_list (map f xs) + f x"
proof (induction xs arbitrary: i)
  case (Cons y ys)
  then show ?case by (cases i) (auto simp: ac_simps)
qed simp

lemma sum_list_zip_update:
  fixes f :: "'c \<Rightarrow> 'a \<Rightarrow> 'b :: comm_monoid_add"
  shows "i < length xs \<Longrightarrow> length cs = length xs \<Longrightarrow>
    sum_list (map2 f cs (xs[i := x])) + f (cs ! i) (xs ! i) = sum_list (map2 f cs xs) + f (cs ! i) x"
proof (induction xs arbitrary: i cs)
  case (Cons y ys)
  then obtain c cs' where "cs = c # cs'" by (cases cs) auto
  with Cons show ?case by (cases i) (auto simp: ac_simps)
qed simp

end
