(* ===== verification/RetrievalRun.thy ===== *)
theory RetrievalRun
  imports Retrieval Runs
begin

text \<open>
  One retrieval as a transition system: the main thread of
  \<open>retrieveContentFromPeerWithProgressCallback\<close> (submit the deal, publish, install the channel id, wait
  for the result, confirm) interleaved with the handler of data-transfer events, which runs from the
  subscription to the return.  The wait loop is a \<open>select\<close> over the result, a graceful shutdown
  request and the end of the context (with its error \<open>ctx.Err()\<close>); which one is taken is left open,
  as is the moment of every event.  The handler and the confirmation are single steps, and the closing
  goroutine of a shutdown request is recorded where it is started.  Labels record what happened; \<open>rexec\<close> is a run with its labels.
\<close>

section \<open>The main thread\<close>

datatype pc =
    Opening
  | Opened channel_id
  | Proposed channel_id
  | Waiting
  | Confirming
  | Returned "go_error + RetrievalStats"

fun returned :: "pc \<Rightarrow> bool" where
  "returned (Returned _) = True"
| "returned _ = False"

datatype label =
    LEvent dt_event dt_channel
  | LOpen
  | LPropose
  | LSetChannel channel_id
  | LGraceful
  | LTake
  | LCtxDone go_error
  | LConfirm "64 word"

text \<open>The deferred calls at return, once the channel id is known: close the channel, unsubscribe.\<close>

definition closeChannel :: "channel_id \<Rightarrow> rstate \<Rightarrow> rstate" where
  "closeChannel c s = snd (run_state (do { emit (Dt (DClose c)); emit (Dt DUnsubscribe) }) s)"

definition openPull :: "FilClient \<Rightarrow> rparams \<Rightarrow> rstate \<Rightarrow> pc \<times> rstate" where
  "openPull fc P s =
     (case run_state
         (onErr (\<lambda>err. publishFailure P (''deal proposal failed: '' @ errorText err))
           (perform (\<lambda>t. d_OpenPullDataChannel (dataTransfer fc) t (rq_peerID P) (rq_proposal P) (rootCid P))
              (\<lambda>_. Dt (DOpenPull (rq_peerID P) (rq_proposal P) (rootCid P))))) s of
        (Inl err, s') \<Rightarrow> (Returned (Inl err), snd (run_state (emit (Dt DUnsubscribe)) s'))
      | (Inr newchid, s') \<Rightarrow> (Opened newchid, s'))"

definition takeResult :: "rparams \<Rightarrow> rstate \<Rightarrow> (pc \<times> rstate) option" where
  "takeResult P s =
     (case r_dtRes s of
        None \<Rightarrow> None
      | Some None \<Rightarrow> Some (Confirming, s\<lparr>r_dtRes := None\<rparr>)
      | Some (Some err) \<Rightarrow>
          Some (Returned (Inl (wrapf ''data transfer failed: '' err)),
            closeChannel (r_chanid s) (snd (run_state
              (publishFailure P (''data transfer failed: '' @ errorText err)) (s\<lparr>r_dtRes := None\<rparr>)))))"

text \<open>The start: subscribed to the events, nothing submitted yet.\<close>

definition startRetrieval :: "trace \<Rightarrow> pc \<times> rstate" where
  "startRetrieval t = (Opening, initRetrieval (t @ [Dt DSubscribe]))"

inductive rstep ::
  "(u64 \<Rightarrow> 64 word \<Rightarrow> u64) \<Rightarrow> FilClient \<Rightarrow> rparams \<Rightarrow> pc \<times> rstate \<Rightarrow> label \<Rightarrow> pc \<times> rstate \<Rightarrow> bool"
  for avgSpeed fc P where
  event: "\<not> returned p \<Longrightarrow>
    rstep avgSpeed fc P (p, s) (LEvent ev st) (p, snd (run_state (onEvent fc P ev st) s))"
| open_pull: "rstep avgSpeed fc P (Opening, s) LOpen (openPull fc P s)"
| propose: "rstep avgSpeed fc P (Opened c, s) LPropose (Proposed c, snd (run_state
    (publish (NewRetrievalEventProposed RetrievalPhase (rootCid P) (rq_peerID P) address_Undef)) s))"
| set_channel: "rstep avgSpeed fc P (Proposed c, s) (LSetChannel c) (Waiting, s\<lparr>r_chanid := c\<rparr>)"
| graceful: "rstep avgSpeed fc P (Waiting, s) LGraceful
    (Waiting, snd (run_state (emit (Dt (DClose (r_chanid s)))) s))"
| take: "takeResult P s = Some c' \<Longrightarrow> rstep avgSpeed fc P (Waiting, s) LTake c'"
| ctx_done: "rstep avgSpeed fc P (Waiting, s) (LCtxDone err)
    (Returned (Inl err), closeChannel (r_chanid s) s)"
| confirm: "run_state (confirmRetrieval avgSpeed fc P dur) s = (r, s') \<Longrightarrow>
    rstep avgSpeed fc P (Confirming, s) (LConfirm dur) (Returned r, closeChannel (r_chanid s') s')"

inductive rexec ::
  "(u64 \<Rightarrow> 64 word \<Rightarrow> u64) \<Rightarrow> FilClient \<Rightarrow> rparams \<Rightarrow> pc \<times> rstate \<Rightarrow> label list \<Rightarrow> pc \<times> rstate \<Rightarrow> bool"
  for avgSpeed fc P c0 where
  start: "rexec avgSpeed fc P c0 [] c0"
| step: "rexec avgSpeed fc P c0 ls c \<Longrightarrow> rstep avgSpeed fc P c l c' \<Longrightarrow> rexec avgSpeed fc P c0 (ls @ [l]) c'"

inductive_cases rstepE: "rstep avgSpeed fc P (p, s) l c'"
inductive_cases rexecE: "rexec avgSpeed fc P c0 ls c"

lemma rstep_returned: "\<not> rstep avgSpeed fc P (Returned r, s) l c'"
  by (auto elim: rstepE)

text \<open>The same steps as a function: a label determines what happens.\<close>

definition rnext ::
  "(u64 \<Rightarrow> 64 word \<Rightarrow> u64) \<Rightarrow> FilClient \<Rightarrow> rparams \<Rightarrow> pc \<times> rstate \<Rightarrow> label \<Rightarrow> (pc \<times> rstate) option" where
  "rnext avgSpeed fc P c l =
     (case c of (p, s) \<Rightarrow>
       (case l of
          LEvent ev st \<Rightarrow> if returned p then None else Some (p, snd (run_state (onEvent fc P ev st) s))
        | LOpen \<Rightarrow> if p = Opening then Some (openPull fc P s) else None
        | LPropose \<Rightarrow> (case p of
            Opened d \<Rightarrow> Some (Proposed d, snd (run_state (publish
              (NewRetrievalEventProposed RetrievalPhase (rootCid P) (rq_peerID P) address_Undef)) s))
          | _ \<Rightarrow> None)
        | LSetChannel d \<Rightarrow> if p = Proposed d then Some (Waiting, s\<lparr>r_chanid := d\<rparr>) else None
        | LGraceful \<Rightarrow> if p = Waiting
            then Some (Waiting, snd (run_state (emit (Dt (DClose (r_chanid s)))) s)) else None
        | LTake \<Rightarrow> if p = Waiting then takeResult P s else None
        | LCtxDone err \<Rightarrow> if p = Waiting
            then Some (Returned (Inl err), closeChannel (r_chanid s) s) else None
        | LConfirm dur \<Rightarrow> if p = Confirming
            then (case run_state (confirmRetrieval avgSpeed fc P dur) s of
                    (r, s') \<Rightarrow> Some (Returned r, closeChannel (r_chanid s') s')) else None))"

lemma rstep_iff_rnext: "rstep avgSpeed fc P c l c' \<longleftrightarrow> rnext avgSpeed fc P c l = Some c'"
proof
  show "rstep avgSpeed fc P c l c' \<Longrightarrow> rnext avgSpeed fc P c l = Some c'"
    by (induction rule: rstep.induct) (auto simp: rnext_def)
  show "rnext avgSpeed fc P c l = Some c' \<Longrightarrow> rstep avgSpeed fc P c l c'"
    by (cases c; cases l)
      (auto simp: rnext_def intro: rstep.intros split: if_splits pc.splits prod.splits)
qed

abbreviation rrun ::
  "(u64 \<Rightarrow> 64 word \<Rightarrow> u64) \<Rightarrow> FilClient \<Rightarrow> rparams \<Rightarrow> pc \<times> rstate \<Rightarrow> label list \<Rightarrow> (pc \<times> rstate) option" where
  "rrun avgSpeed fc P \<equiv> steps (rnext avgSpeed fc P)"

lemma rexec_iff_rrun: "rexec avgSpeed fc P c0 ls c \<longleftrightarrow> rrun avgSpeed fc P c0 ls = Some c"
proof
  show "rexec avgSpeed fc P c0 ls c \<Longrightarrow> rrun avgSpeed fc P c0 ls = Some c"
    by (induction rule: rexec.induct) (auto simp: steps_append rstep_iff_rnext)
  show "rrun avgSpeed fc P c0 ls = Some c \<Longrightarrow> rexec avgSpeed fc P c0 ls c"
  proof (induction ls arbitrary: c rule: rev_induct)
    case Nil
    then show ?case by (simp add: rexec.start)
  next
    case (snoc l ls)
    then show ?case
      by (auto simp: steps_append rstep_iff_rnext [symmetric] intro: rexec.step split: option.splits)
  qed
qed

section \<open>What the handler can do\<close>

definition wantsFunds :: "retrieval_deal_response \<Rightarrow> bool" where
  "wantsFunds resp \<longleftrightarrow> rdr_Status resp \<in> {DealStatusFundsNeeded, DealStatusFundsNeededLastPayment}"

text \<open>The deal response an event carries.\<close>

definition dealResponse :: "dt_event \<Rightarrow> dt_channel \<Rightarrow> retrieval_deal_response option" where
  "dealResponse ev st =
     (if evt_Code ev = NewVoucherResult then
        (case dtc_LastVoucherResult st of DealResponseResult r \<Rightarrow> Some r | OtherVoucherResult \<Rightarrow> None)
      else None)"

definition dealCompleted :: "dt_event \<Rightarrow> dt_channel \<Rightarrow> bool" where
  "dealCompleted ev st \<longleftrightarrow>
     (\<exists>r. dealResponse ev st = Some r \<and> rdr_Status r = DealStatusCompleted)"

text \<open>The response a voucher is created for, if any.\<close>

definition paysFor :: "rparams \<Rightarrow> dt_event \<Rightarrow> dt_channel \<Rightarrow> retrieval_deal_response option" where
  "paysFor P ev st =
     (case dealResponse ev st of
        None \<Rightarrow> None
      | Some resp \<Rightarrow> if rq_pchRequired P \<and> wantsFunds resp then Some resp else None)"

text \<open>Everything the handler can do for an event of its channel that asks for no payment.\<close>

inductive handled :: "rparams \<Rightarrow> dt_event \<Rightarrow> dt_channel \<Rightarrow> rstate \<Rightarrow> rstate \<Rightarrow> bool"
  for P ev st s where
  h_nothing: "handled P ev st s s"
| h_fail: "handled P ev st s (finishCell (Some err) s)"
| h_done: "evt_Code ev = CleanupComplete \<or> evt_Code ev = FinishTransfer \<and> r_dealComplete s
      \<or> dealCompleted ev st \<and> r_allBytesReceived s \<Longrightarrow>
    handled P ev st s (finishCell None s)"
| h_all_bytes: "evt_Code ev = FinishTransfer \<Longrightarrow> handled P ev st s (s\<lparr>r_allBytesReceived := True\<rparr>)"
| h_complete: "dealCompleted ev st \<Longrightarrow> handled P ev st s (s\<lparr>r_dealComplete := True\<rparr>)"
| h_accepted: "handled P ev st s (s\<lparr>w_trace := w_trace s @
    [Publish (NewRetrievalEventAccepted RetrievalPhase (rootCid P) (rq_peerID P) address_Undef)]\<rparr>)"
| h_first_byte: "\<not> r_receivedFirstByte s \<Longrightarrow>
    handled P ev st s (s\<lparr>r_receivedFirstByte := True, w_trace := w_trace s @
      [Publish (NewRetrievalEventFirstByte RetrievalPhase (rootCid P) (rq_peerID P) address_Undef),
       Progress n]\<rparr>)"
| h_progress: "r_receivedFirstByte s \<Longrightarrow>
    handled P ev st s (s\<lparr>w_trace := w_trace s @ [Progress n]\<rparr>)"

lemma onEvent_other: "dtc_ChannelID st \<noteq> r_chanid s \<Longrightarrow> run_state (onEvent fc P ev st) s = ((), s)"
  by (simp add: onEvent_def run_gets)

lemma onEvent_response:
  assumes "dtc_ChannelID st = r_chanid s" and "dealResponse ev st = Some resp"
  shows "run_state (onEvent fc P ev st) s = run_state (onDealResponse fc P (r_chanid s) resp) s"
  using assms
  by (auto simp: onEvent_def run_simps dealResponse_def split: if_splits voucher_result.splits)

lemma onEvent_pays:
  assumes "dtc_ChannelID st = r_chanid s" and "paysFor P ev st = Some resp"
  shows "run_state (onEvent fc P ev st) s = run_state (payForRetrieval fc P (r_chanid s) resp) s"
proof -
  from assms(2) have "dealResponse ev st = Some resp" "rq_pchRequired P" "wantsFunds resp"
    by (auto simp: paysFor_def split: option.splits if_splits)
  with assms(1) show ?thesis
    by (auto simp: onEvent_response onDealResponse_def wantsFunds_def)
qed

lemma onDealResponse_handled:
  assumes "dealResponse ev st = Some resp" and "paysFor P ev st = None"
  shows "handled P ev st s (snd (run_state (onDealResponse fc P (r_chanid s) resp) s))"
proof (cases "rdr_Status resp")
  case DealStatusCompleted
  with assms(1) have "dealCompleted ev st" by (simp add: dealCompleted_def)
  with DealStatusCompleted show ?thesis
    by (auto simp: onDealResponse_def run_simps finish_def intro: handled.intros)
next
  case DealStatusFundsNeeded
  with assms have "\<not> rq_pchRequired P" by (auto simp: paysFor_def wantsFunds_def split: if_splits)
  with DealStatusFundsNeeded show ?thesis
    by (simp add: onDealResponse_def run_simps finish_def h_fail)
next
  case DealStatusFundsNeededLastPayment
  with assms have "\<not> rq_pchRequired P" by (auto simp: paysFor_def wantsFunds_def split: if_splits)
  with DealStatusFundsNeededLastPayment show ?thesis
    by (simp add: onDealResponse_def run_simps finish_def h_fail)
qed (simp_all add: onDealResponse_def run_simps finish_def publish_def h_fail h_accepted h_nothing)

lemma onEvent_handled:
  assumes "dtc_ChannelID st = r_chanid s" and "paysFor P ev st = None"
  shows "handled P ev st s (snd (run_state (onEvent fc P ev st) s))"
proof (cases "dealResponse ev st")
  case (Some resp)
  then show ?thesis using assms by (simp add: onEvent_response onDealResponse_handled)
next
  case None
  show ?thesis
  proof (cases "evt_Code ev")
    case DataReceivedProgress
    then show ?thesis using assms(1) h_first_byte [where ev = ev and st = st and s = s and P = P and n = "dtc_Received st"]
        h_progress [where ev = ev and st = st and s = s and P = P and n = "dtc_Received st"]
      by (simp add: onEvent_def run_simps publish_def)
  next
    case NewVoucherResult
    then show ?thesis using assms(1) None
      by (simp add: onEvent_def run_simps dealResponse_def h_nothing split: voucher_result.splits)
  next
    case Error
    then show ?thesis using assms(1) by (simp add: onEvent_def run_simps finish_def h_fail)
  next
    case CleanupComplete
    then show ?thesis using assms(1) h_done [where ev = ev and st = st and s = s and P = P] by (simp add: onEvent_def run_simps finish_def)
  next
    case FinishTransfer
    then show ?thesis using assms(1) h_done [where ev = ev and st = st and s = s and P = P] h_all_bytes [where ev = ev and st = st and s = s and P = P]
      by (simp add: onEvent_def run_simps finish_def)
  qed (use assms(1) in \<open>simp_all add: onEvent_def run_simps h_nothing\<close>)
qed

text \<open>The handler in three cases.\<close>

lemma onEvent_cases:
  fixes s :: rstate
  assumes "run_state (onEvent fc P ev st) s = (x, s')"
  obtains (other) "dtc_ChannelID st \<noteq> r_chanid s" "s' = s"
  | (pays) resp where "dtc_ChannelID st = r_chanid s" "paysFor P ev st = Some resp"
      "run_state (payForRetrieval fc P (r_chanid s) resp) s = ((), s')"
  | (handled) "dtc_ChannelID st = r_chanid s" "paysFor P ev st = None" "handled P ev st s s'"
proof -
  have s': "s' = snd (run_state (onEvent fc P ev st) s)" using assms by simp
  show ?thesis
  proof (cases "dtc_ChannelID st = r_chanid s")
    case False
    then have "s' = s" by (simp add: s' onEvent_other)
    with False show ?thesis by (rule other)
  next
    case True
    show ?thesis
    proof (cases "paysFor P ev st")
      case None
      show ?thesis
        by (rule handled [OF True None]) (simp only: s' onEvent_handled [OF True None])
    next
      case (Some resp)
      show ?thesis
        by (rule pays [OF True Some]) (simp add: onEvent_pays [OF True Some, symmetric] assms)
    qed
  qed
qed

section \<open>What a payment does\<close>

definition nextVoucher :: "rparams \<Rightarrow> retrieval_deal_response \<Rightarrow> rstate \<Rightarrow> signed_voucher" where
  "nextVoucher P resp s = \<lparr>sv_ChannelAddr = rq_pchAddr P, sv_Lane = rq_pchLane P,
     sv_Nonce = r_nonce s, sv_Amount = r_totalPayment s + rdr_PaymentOwed resp\<rparr>"

definition failedSend :: "rparams \<Rightarrow> channel_id \<Rightarrow> call list \<Rightarrow> bool" where
  "failedSend P chid u \<longleftrightarrow> u = [] \<or> (\<exists>pay e. u = [Dt (DSendVoucher chid pay (Some e))]
     \<and> pay_PaymentChannel pay = rq_pchAddr P)"

lemma payForRetrieval_cases:
  fixes s :: rstate
  assumes "run_state (payForRetrieval fc P chid resp) s = ((), s')"
  obtains (failed) err u where
      "failedSend P chid u"
      "s' = finishCell (Some err) (s\<lparr>r_totalPayment := r_totalPayment s + rdr_PaymentOwed resp,
        w_trace := w_trace s @ Pch (PCreateVoucher (rq_pchAddr P) (nextVoucher P resp s)) # u\<rparr>)"
  | (sent) pay where
      "pay_PaymentChannel pay = rq_pchAddr P"
      "s' = s\<lparr>r_totalPayment := r_totalPayment s + rdr_PaymentOwed resp,
        w_trace := w_trace s @ [Pch (PCreateVoucher (rq_pchAddr P) (nextVoucher P resp s)),
          Dt (DSendVoucher chid pay None)],
        r_nonce := r_nonce s + 1\<rparr>"
proof (cases "p_CreateVoucher (pchmgr fc) (w_trace s) (rq_pchAddr P) (nextVoucher P resp s)")
  case (Inl err)
  show ?thesis
    by (rule failed [of "[]" err]) (use assms Inl in
      \<open>auto simp: payForRetrieval_def run_simps Let_def finish_def failedSend_def nextVoucher_def\<close>)
next
  case (Inr vr)
  let ?pay = "\<lparr>pay_ID = rp_ID (rq_proposal P), pay_PaymentChannel = rq_pchAddr P,
    pay_PaymentVoucher = vr_Voucher vr\<rparr>"
  let ?t = "w_trace s @ [Pch (PCreateVoucher (rq_pchAddr P) (nextVoucher P resp s))]"
  show ?thesis
  proof (cases "vr_Shortfall vr > 0")
    case True
    show ?thesis
      by (rule failed [of "[]"]) (use assms Inr True in
        \<open>auto simp: payForRetrieval_def run_simps Let_def finish_def failedSend_def nextVoucher_def\<close>)
  next
    case False
    show ?thesis
    proof (cases "d_SendVoucher (dataTransfer fc) ?t chid ?pay")
      case (Some e)
      show ?thesis
        by (rule failed [of "[Dt (DSendVoucher chid ?pay (Some e))]"]) (use assms Inr False Some in
          \<open>auto simp: payForRetrieval_def run_simps Let_def finish_def failedSend_def nextVoucher_def\<close>)
    next
      case None
      show ?thesis
        by (rule sent [of ?pay]) (use assms Inr False None in
          \<open>auto simp: payForRetrieval_def run_simps Let_def nextVoucher_def\<close>)
    qed
  qed
qed

end
