(* ===== verification/RetrievalPay.thy ===== *)
theory RetrievalPay
  imports RetrievalRun
begin

text \<open>
  The payments of a retrieval, by rule induction over its runs: what each step leaves alone, and the amounts,
  nonces and channels of the vouchers it creates.
\<close>

section \<open>Projections of a trace and of the labels\<close>

definition isSent :: "call \<Rightarrow> bool" where
  "isSent c = (case c of Dt (DSendVoucher _ _ None) \<Rightarrow> True | _ \<Rightarrow> False)"

definition createdVouchers :: "trace \<Rightarrow> signed_voucher list" where
  "createdVouchers t = concat (map (\<lambda>c. case c of Pch (PCreateVoucher _ sv) \<Rightarrow> [sv] | _ \<Rightarrow> []) t)"

definition isTerminal :: "RetrievalEvent \<Rightarrow> bool" where
  "isTerminal ev \<longleftrightarrow> ev_Code ev = FailureCode \<or> ev_Code ev = SuccessCode"

definition isFirstByte :: "RetrievalEvent \<Rightarrow> bool" where
  "isFirstByte ev \<longleftrightarrow> ev_Code ev = FirstByteCode"

lemma createdVouchers_simps [simp]:
  "createdVouchers [] = []"
  "createdVouchers (c # t) =
     (case c of Pch (PCreateVoucher _ sv) \<Rightarrow> [sv] | _ \<Rightarrow> []) @ createdVouchers t"
  "createdVouchers (t @ u) = createdVouchers t @ createdVouchers u"
  by (simp_all add: createdVouchers_def)

lemma isSent_simps [simp]:
  "\<not> isSent (Host h)" "\<not> isSent (Publish e)" "\<not> isSent (Progress n)" "\<not> isSent (Pch p)"
  "\<not> isSent (BlockstoreHas x)" "\<not> isSent (Dt (DClose d))" "\<not> isSent (Dt DUnsubscribe)"
  "\<not> isSent (Dt DSubscribe)" "\<not> isSent (Dt (DOpenPull i q x))" "\<not> isSent (Dt (DChannelState d))"
  "isSent (Dt (DSendVoucher d pay r)) \<longleftrightarrow> r = None"
  by (auto simp: isSent_def split: option.splits)

text \<open>
  The channel the handler listens to, the events it heard on it and the payments asked for by them,
  replayed from the labels alone.
\<close>

definition listeningTo :: "label list \<Rightarrow> channel_id" where
  "listeningTo ls = foldl (\<lambda>c l. case l of LSetChannel d \<Rightarrow> d | _ \<Rightarrow> c) zeroChannelID ls"

fun heardOn :: "channel_id \<Rightarrow> label list \<Rightarrow> (dt_event \<times> dt_channel) list" where
  "heardOn c [] = []"
| "heardOn c (LSetChannel d # ls) = heardOn d ls"
| "heardOn c (LEvent ev st # ls) = (if dtc_ChannelID st = c then [(ev, st)] else []) @ heardOn c ls"
| "heardOn c (_ # ls) = heardOn c ls"

definition heard :: "label list \<Rightarrow> (dt_event \<times> dt_channel) list" where
  "heard ls = heardOn zeroChannelID ls"

definition paymentsOwed :: "rparams \<Rightarrow> label list \<Rightarrow> int list" where
  "paymentsOwed P ls = concat (map (\<lambda>(ev, st).
     case paysFor P ev st of None \<Rightarrow> [] | Some resp \<Rightarrow> [rdr_PaymentOwed resp]) (heard ls))"

lemma heardOn_append: "heardOn c (ls @ ms) =
  heardOn c ls @ heardOn (foldl (\<lambda>c l. case l of LSetChannel d \<Rightarrow> d | _ \<Rightarrow> c) c ls) ms"
  by (induction c ls rule: heardOn.induct) auto

lemma replay_start [simp]:
  "heard [] = []" "paymentsOwed P [] = []" "listeningTo [] = zeroChannelID"
  by (simp_all add: paymentsOwed_def listeningTo_def heard_def)

lemma replay_snoc [simp]:
  "listeningTo (ls @ [l]) = (case l of LSetChannel d \<Rightarrow> d | _ \<Rightarrow> listeningTo ls)"
  "heard (ls @ [l]) = heard ls @ (case l of
     LEvent ev st \<Rightarrow> if dtc_ChannelID st = listeningTo ls then [(ev, st)] else [] | _ \<Rightarrow> [])"
  by (cases l; simp add: listeningTo_def heard_def heardOn_append)+

lemma owed_snoc: "paymentsOwed P (ls @ [l]) = paymentsOwed P ls @
  (case l of
     LEvent ev st \<Rightarrow>
       (case paysFor P ev st of
          Some resp \<Rightarrow> if dtc_ChannelID st = listeningTo ls then [rdr_PaymentOwed resp] else []
        | None \<Rightarrow> [])
   | _ \<Rightarrow> [])"
  by (cases l) (simp_all add: paymentsOwed_def split: option.splits)

text \<open>Running totals.\<close>

fun totals :: "int \<Rightarrow> int list \<Rightarrow> int list" where
  "totals a [] = []"
| "totals a (x # xs) = (a + x) # totals (a + x) xs"

lemma totals_append: "totals a (xs @ ys) = totals a xs @ totals (a + sum_list xs) ys"
  by (induction xs arbitrary: a) (auto simp: add.assoc)

section \<open>The effect of a step\<close>

text \<open>A step of the main thread leaves the payment state alone and makes no payment.\<close>

fun isPayment :: "call \<Rightarrow> bool" where
  "isPayment (Pch (PCreateVoucher _ _)) = True"
| "isPayment (Dt (DSendVoucher _ _ _)) = True"
| "isPayment _ = False"

abbreviation noPayment :: "trace \<Rightarrow> bool" where
  "noPayment \<equiv> list_all (\<lambda>c. \<not> isPayment c)"

lemma noPayment_projections:
  assumes "noPayment u"
  shows "createdVouchers u = []" and "count_if isSent u = 0"
  using assms
  by (induction u) (auto simp: isSent_def split: call.splits pch_call.splits dt_call.splits option.splits)

definition mainStep :: "label \<Rightarrow> trace \<Rightarrow> rstate \<Rightarrow> rstate \<Rightarrow> bool" where
  "mainStep l u s s' \<longleftrightarrow> w_trace s' = w_trace s @ u \<and> noPayment u
     \<and> r_nonce s' = r_nonce s \<and> r_totalPayment s' = r_totalPayment s
     \<and> r_allBytesReceived s' = r_allBytesReceived s \<and> r_dealComplete s' = r_dealComplete s
     \<and> r_receivedFirstByte s' = r_receivedFirstByte s
     \<and> r_chanid s' = (case l of LSetChannel d \<Rightarrow> d | _ \<Rightarrow> r_chanid s)
     \<and> count_if isFirstByte (published u) = 0"

lemma terminal_codes [simp]:
  "isTerminal (NewRetrievalEventFailure p c i a m)"
  "isTerminal (NewRetrievalEventSuccess p c i a n k d t)"
  "\<not> isTerminal (NewRetrievalEventProposed p c i a)"
  "\<not> isTerminal (NewRetrievalEventAccepted p c i a)"
  "\<not> isTerminal (NewRetrievalEventFirstByte p c i a)"
  "\<not> isFirstByte (NewRetrievalEventFailure p c i a m)"
  "\<not> isFirstByte (NewRetrievalEventSuccess p c i a n k d t)"
  "\<not> isFirstByte (NewRetrievalEventProposed p c i a)"
  "\<not> isFirstByte (NewRetrievalEventAccepted p c i a)"
  "isFirstByte (NewRetrievalEventFirstByte p c i a)"
  by (simp_all add: isTerminal_def isFirstByte_def new_event_defs code_constants)

lemma closeChannel_effect [simp]:
  "closeChannel c s = s\<lparr>w_trace := w_trace s @ [Dt (DClose c), Dt DUnsubscribe]\<rparr>"
  by (simp add: closeChannel_def run_simps)

definition panicked :: "pc \<Rightarrow> bool" where
  "panicked p \<longleftrightarrow> (case p of Returned (Inl e) \<Rightarrow> isPanic e | _ \<Rightarrow> False)"

lemma openPull_effect:
  assumes "openPull fc P s = (p', s')"
  shows "\<exists>u. mainStep LOpen u s s' \<and> r_dtRes s' = r_dtRes s
    \<and> ((\<exists>e. p' = Returned (Inl e)) \<and> (count_if isTerminal (published u) = 1 \<or> panicked p')
     \<or> (\<exists>c. p' = Opened c) \<and> count_if isTerminal (published u) = 0)"
  using assms
  by (auto simp: openPull_def run_simps publishFailure_def publish_def mainStep_def panicked_def
      split: sum.splits if_splits prod.splits)

lemma takeResult_effect:
  assumes "takeResult P s = Some (p', s')"
  shows "\<exists>u. mainStep LTake u s s' \<and> r_dtRes s' = None
    \<and> ((\<exists>e. r_dtRes s = Some (Some e) \<and> p' = Returned (Inl (wrapf ''data transfer failed: '' e)))
         \<and> count_if isTerminal (published u) = 1
     \<or> r_dtRes s = Some None \<and> p' = Confirming \<and> count_if isTerminal (published u) = 0)"
  using assms
  by (auto simp: takeResult_def run_simps publishFailure_def publish_def mainStep_def
      split: option.splits)

lemma confirm_effect:
  assumes "run_state (confirmRetrieval avgSpeed fc P dur) s = (r, s')"
  shows "\<exists>u. mainStep (LConfirm dur) u s s' \<and> r_dtRes s' = r_dtRes s
    \<and> (count_if isTerminal (published u) = 1 \<or> panicked (Returned r))"
  using assms
  by (auto simp: confirmRetrieval_def run_simps publishFailure_def publish_def mainStep_def panicked_def
      split: sum.splits if_splits prod.splits)

lemma main_effect:
  assumes "rstep avgSpeed fc P (p, s) l (p', s')" and "\<And>ev st. l \<noteq> LEvent ev st"
  shows "\<exists>u. mainStep l u s s'"
  using assms(1)
proof (cases rule: rstep.cases)
  case (event ev st)
  then show ?thesis using assms(2) by blast
next
  case open_pull
  then show ?thesis using openPull_effect by metis
next
  case propose
  then show ?thesis by (auto simp: mainStep_def publish_def run_simps)
next
  case set_channel
  then show ?thesis by (auto simp: mainStep_def)
next
  case graceful
  then show ?thesis by (auto simp: mainStep_def run_simps)
next
  case take
  then show ?thesis using takeResult_effect by metis
next
  case ctx_done
  then show ?thesis by (auto simp: mainStep_def run_simps)
next
  case (confirm dur r s1)
  then obtain u where "mainStep l u s s1" using confirm_effect by metis
  with confirm have "mainStep l (u @ [Dt (DClose (r_chanid s1)), Dt DUnsubscribe]) s s'"
    by (auto simp: mainStep_def)
  then show ?thesis ..
qed

section \<open>Payments\<close>

text \<open>
  What holds of each call of a retrieval, given the calls before it: vouchers are created and sent
  only when payment is required, on the channel and lane of the retrieval, and their nonce is the
  number of vouchers already sent.
\<close>

definition voucherOk :: "rparams \<Rightarrow> trace \<Rightarrow> call \<Rightarrow> bool" where
  "voucherOk P v c =
     (case c of
        Pch (PCreateVoucher a sv) \<Rightarrow> rq_pchRequired P \<and> a = rq_pchAddr P
          \<and> sv_ChannelAddr sv = rq_pchAddr P \<and> sv_Lane sv = rq_pchLane P
          \<and> sv_Nonce sv = of_nat (count_if isSent v)
      | Dt (DSendVoucher d pay r) \<Rightarrow> rq_pchRequired P \<and> pay_PaymentChannel pay = rq_pchAddr P
      | _ \<Rightarrow> True)"

lemma noPayment_voucherOk:
  assumes "noPayment u" shows "every_entry (\<lambda>v. voucherOk P (w @ v)) u"
  using assms
proof (induction u arbitrary: w)
  case (Cons c u)
  then show ?case using Cons.IH [of "w @ [c]"]
    by (auto simp: voucherOk_def split: call.splits pch_call.splits dt_call.splits)
qed simp

definition payInv :: "rparams \<Rightarrow> trace \<Rightarrow> label list \<Rightarrow> rstate \<Rightarrow> bool" where
  "payInv P t ls s \<longleftrightarrow> (\<exists>u. w_trace s = t @ u \<and> r_nonce s = of_nat (count_if isSent u)
     \<and> r_chanid s = listeningTo ls
     \<and> map sv_Amount (createdVouchers u) = totals 0 (paymentsOwed P ls)
     \<and> r_totalPayment s = sum_list (paymentsOwed P ls) \<and> every_entry (voucherOk P) u)"

lemma payInv_mainStep:
  assumes "payInv P t ls s" and "mainStep l u s s'" and "\<And>ev st. l \<noteq> LEvent ev st"
  shows "payInv P t (ls @ [l]) s'"
proof -
  from assms(1) obtain w where w: "w_trace s = t @ w" "r_nonce s = of_nat (count_if isSent w)"
    "r_chanid s = listeningTo ls" "map sv_Amount (createdVouchers w) = totals 0 (paymentsOwed P ls)"
    "r_totalPayment s = sum_list (paymentsOwed P ls)" "every_entry (voucherOk P) w"
    by (auto simp: payInv_def)
  have u: "w_trace s' = w_trace s @ u" "noPayment u" "r_nonce s' = r_nonce s"
    "r_totalPayment s' = r_totalPayment s"
    "r_chanid s' = (case l of LSetChannel d \<Rightarrow> d | _ \<Rightarrow> r_chanid s)"
    using assms(2) by (auto simp: mainStep_def)
  have "paymentsOwed P (ls @ [l]) = paymentsOwed P ls" using assms(3) by (cases l) (auto simp: owed_snoc)
  then show ?thesis
    unfolding payInv_def using w u
    by (intro exI [of _ "w @ u"])
      (auto simp: every_entry_append noPayment_projections noPayment_voucherOk split: label.splits)
qed

lemma payInv_handled:
  assumes "payInv P t ls s" and "handled P ev st s s'" and "paysFor P ev st = None"
  shows "payInv P t (ls @ [LEvent ev st]) s'"
proof -
  have "\<exists>u. w_trace s' = w_trace s @ u \<and> noPayment u \<and> r_nonce s' = r_nonce s
    \<and> r_totalPayment s' = r_totalPayment s \<and> r_chanid s' = r_chanid s"
    using assms(2)
    by (cases rule: handled.cases) (auto simp: finishCell_def split: option.splits)
  then show ?thesis using assms(1,3) noPayment_voucherOk
    by (fastforce simp: payInv_def every_entry_append noPayment_projections owed_snoc)
qed

lemma paysFor_required: "paysFor P ev st = Some resp \<Longrightarrow> rq_pchRequired P"
  by (auto simp: paysFor_def split: option.splits if_splits)

lemma payInv_pays:
  assumes "payInv P t ls s" and "dtc_ChannelID st = r_chanid s" and "paysFor P ev st = Some resp"
    and "run_state (payForRetrieval fc P (r_chanid s) resp) s = ((), s')"
  shows "payInv P t (ls @ [LEvent ev st]) s'"
proof -
  from assms(1) obtain w where w: "w_trace s = t @ w" "r_nonce s = of_nat (count_if isSent w)"
    "r_chanid s = listeningTo ls" "map sv_Amount (createdVouchers w) = totals 0 (paymentsOwed P ls)"
    "r_totalPayment s = sum_list (paymentsOwed P ls)" "every_entry (voucherOk P) w"
    by (auto simp: payInv_def)
  have owed: "paymentsOwed P (ls @ [LEvent ev st]) = paymentsOwed P ls @ [rdr_PaymentOwed resp]"
    using assms(2,3) w(3) by (simp add: owed_snoc)
  let ?cv = "Pch (PCreateVoucher (rq_pchAddr P) (nextVoucher P resp s))"
  have ok: "voucherOk P w ?cv"
    using w(2) paysFor_required [OF assms(3)] by (simp add: voucherOk_def nextVoucher_def)
  have sendOk: "voucherOk P v (Dt (DSendVoucher d pay r))" if "pay_PaymentChannel pay = rq_pchAddr P"
    for v d pay r
    using that paysFor_required [OF assms(3)] by (simp add: voucherOk_def)
  have amount: "sv_Amount (nextVoucher P resp s) = sum_list (paymentsOwed P ls) + rdr_PaymentOwed resp"
    by (simp add: nextVoucher_def w(5))
  note facts = owed w ok sendOk amount totals_append every_entry_append
  from assms(4) show ?thesis
  proof (cases rule: payForRetrieval_cases)
    case (failed err u)
    then show ?thesis unfolding payInv_def
      by (intro exI [of _ "w @ ?cv # u"])
        (auto simp: facts failedSend_def finishCell_def split: option.splits)
  next
    case (sent pay)
    then show ?thesis unfolding payInv_def
      by (intro exI [of _ "w @ [?cv, Dt (DSendVoucher (r_chanid s) pay None)]"])
        (auto simp: facts)
  qed
qed

lemma payInv_step:
  assumes "payInv P t ls s" and "rstep avgSpeed fc P (p, s) l (p', s')"
  shows "payInv P t (ls @ [l]) s'"
proof (cases "\<exists>ev st. l = LEvent ev st")
  case False
  then show ?thesis using assms main_effect payInv_mainStep by metis
next
  case True
  then obtain ev st where l: "l = LEvent ev st" by blast
  have "run_state (onEvent fc P ev st) s = ((), s')"
    using assms(2) unfolding l by (auto elim: rstep.cases simp: prod_eq_iff)
  then show ?thesis
  proof (cases rule: onEvent_cases)
    case other
    then have "dtc_ChannelID st \<noteq> listeningTo ls" using assms(1) by (auto simp: payInv_def)
    then have "paymentsOwed P (ls @ [l]) = paymentsOwed P ls" by (simp add: l owed_snoc split: option.splits)
    with other assms(1) show ?thesis by (simp add: payInv_def l)
  next
    case (pays resp)
    then show ?thesis using payInv_pays [OF assms(1)] unfolding l by blast
  next
    case handled
    then show ?thesis using payInv_handled [OF assms(1)] unfolding l by blast
  qed
qed

lemma payInv_run: "rexec avgSpeed fc P (startRetrieval t) ls c \<Longrightarrow> payInv P t ls (snd c)"
proof (induction rule: rexec.induct)
  case start
  show ?case
    unfolding payInv_def
    by (intro exI [of _ "[Dt DSubscribe]"])
      (simp add: startRetrieval_def initRetrieval_def voucherOk_def)
next
  case (step ls c l c')
  then show ?case using payInv_step by (metis prod.collapse)
qed

text \<open>The calls of a run, after those that came before it.\<close>

lemma payInv_suffix:
  assumes "rexec avgSpeed fc P (startRetrieval t) ls (p, s)" and "w_trace s = t @ u"
  shows "r_nonce s = of_nat (count_if isSent u)" "r_chanid s = listeningTo ls"
    "map sv_Amount (createdVouchers u) = totals 0 (paymentsOwed P ls)"
    "r_totalPayment s = sum_list (paymentsOwed P ls)" "every_entry (voucherOk P) u"
  using payInv_run [OF assms(1)] assms(2) by (auto simp: payInv_def)

lemma voucherOk_at:
  assumes "rexec avgSpeed fc P (startRetrieval t) ls (p, s)" and "w_trace s = t @ v @ c # w"
  shows "voucherOk P v c"
  by (rule every_entryD [OF payInv_suffix(5) [OF assms] refl])

text \<open>
  C2: The vouchers created in a retrieval are cumulative: their amounts are the running totals of the
  payments the provider asked for on the retrieval's channel, in order; the total reported is their
  sum, and the payment count is the number of vouchers sent.
\<close>

theorem vouchers_cumulative:
  assumes "rexec avgSpeed fc P (startRetrieval t) ls (p, s)" and "w_trace s = t @ u"
  shows "map sv_Amount (createdVouchers u) = totals 0 (paymentsOwed P ls)
    \<and> r_totalPayment s = sum_list (paymentsOwed P ls) \<and> r_nonce s = of_nat (count_if isSent u)"
  using payInv_suffix [OF assms] by simp

text \<open>
  Every voucher is created on the lane of the retrieval with the number of vouchers already sent
  as its nonce, on the address the handler holds.
\<close>

theorem voucher_nonces:
  assumes "rexec avgSpeed fc P (startRetrieval t) ls (p, s)"
    and "w_trace s = t @ v @ Pch (PCreateVoucher a sv) # w"
  shows "a = rq_pchAddr P \<and> sv_ChannelAddr sv = a \<and> sv_Lane sv = rq_pchLane P
    \<and> sv_Nonce sv = of_nat (count_if isSent v)"
  using voucherOk_at [OF assms] by (simp add: voucherOk_def)

text \<open>
  A retrieval whose price per byte and unseal price are zero never creates or sends a voucher,
  whatever the provider asks for.
\<close>

theorem zero_cost_never_pays:
  assumes "run_state (retrievalSetup L fc peerID minerWallet proposal) w = (Inr P, w')"
    and "rp_PricePerByte proposal = 0" and "rp_UnsealPrice proposal = 0"
    and "rexec avgSpeed fc P (startRetrieval t) ls (p, s)" and "w_trace s = t @ u"
  shows "noPayment u"
proof -
  have req: "\<not> rq_pchRequired P" using assms(1-3) by (auto simp: retrievalSetup_def)
  have "\<not> isPayment c" if "c \<in> set u" for c
  proof -
    from that obtain v x where "u = v @ c # x" by (auto simp: in_set_conv_decomp)
    with assms(5) have "voucherOk P v c" by (intro voucherOk_at [OF assms(4)]) simp
    with req show ?thesis
      by (auto simp: voucherOk_def split: call.splits pch_call.splits dt_call.splits)
  qed
  then show ?thesis by (simp add: list_all_iff)
qed

text \<open>
  The payment channel obtained for a paid retrieval is not the one its vouchers are drawn on:
  every voucher names the zero address, since the setup assigns the address to a variable of an
  inner block.
\<close>

theorem vouchers_on_zero_address:
  assumes "run_state (retrievalSetup L fc peerID minerWallet proposal) w = (Inr P, w')"
    and "rexec avgSpeed fc P (startRetrieval t) ls (p, s)"
    and "w_trace s = t @ u" and "sv \<in> set (createdVouchers u)"
  shows "sv_ChannelAddr sv = address_Undef"
proof -
  have addr: "rq_pchAddr P = address_Undef"
    using assms(1)
    by (auto simp: retrievalSetup_def Let_def run_simps split: if_splits sum.splits prod.splits)
  from assms(4) obtain a where "Pch (PCreateVoucher a sv) \<in> set u"
    by (auto simp: createdVouchers_def split: call.splits pch_call.splits)
  then obtain v x where "u = v @ Pch (PCreateVoucher a sv) # x" by (auto simp: in_set_conv_decomp)
  with assms(3) have "voucherOk P v (Pch (PCreateVoucher a sv))"
    by (intro voucherOk_at [OF assms(2)]) simp
  with addr show ?thesis by (simp add: voucherOk_def)
qed

end
