(* ===== verification/RetrievalProps.thy ===== *)
theory RetrievalProps
  imports RetrievalPay
begin

text \<open>
  The properties of a retrieval, by rule induction over its runs: the events it publishes, what a
  successful result rests on, and which data-transfer events it never sees; with a run for the witnesses.
\<close>

section \<open>Published events\<close>

definition cancelled :: "label list \<Rightarrow> bool" where
  "cancelled ls \<longleftrightarrow> list_ex (\<lambda>l. case l of LCtxDone _ \<Rightarrow> True | _ \<Rightarrow> False) ls"

lemma cancelled_simps [simp]:
  "\<not> cancelled []"
  "cancelled (ls @ ms) \<longleftrightarrow> cancelled ls \<or> cancelled ms"
  "\<not> cancelled [LEvent ev st]"
  by (auto simp: cancelled_def)

definition eventInv :: "trace \<Rightarrow> label list \<Rightarrow> pc \<times> rstate \<Rightarrow> bool" where
  "eventInv t ls c \<longleftrightarrow> (\<exists>u. w_trace (snd c) = t @ u
     \<and> count_if isFirstByte (published u) = (if r_receivedFirstByte (snd c) then 1 else 0)
     \<and> (if returned (fst c)
        then panicked (fst c) \<or> count_if isTerminal (published u) = (if cancelled ls then 0 else 1)
        else \<not> cancelled ls \<and> count_if isTerminal (published u) = 0))"

text \<open>What a step publishes: from a state that has not returned.\<close>

definition publishes :: "label \<Rightarrow> pc \<Rightarrow> trace \<Rightarrow> bool" where
  "publishes l p' u \<longleftrightarrow>
     (if returned p'
      then panicked p' \<or> count_if isTerminal (published u) = (if cancelled [l] then 0 else 1)
      else \<not> cancelled [l] \<and> count_if isTerminal (published u) = 0)"

lemma step_publishes:
  assumes "rstep avgSpeed fc P (p, s) l (p', s')" and "\<And>ev st. l \<noteq> LEvent ev st"
  shows "\<exists>u. mainStep l u s s' \<and> publishes l p' u"
  using assms(1)
proof (cases rule: rstep.cases)
  case (event ev st)
  then show ?thesis using assms(2) by blast
next
  case open_pull
  then have "openPull fc P s = (p', s')" by simp
  from openPull_effect [OF this] open_pull show ?thesis
    by (auto simp: publishes_def cancelled_def)
next
  case propose
  then show ?thesis by (auto simp: mainStep_def publish_def run_simps publishes_def cancelled_def)
next
  case set_channel
  then show ?thesis by (auto simp: mainStep_def publishes_def cancelled_def)
next
  case graceful
  then show ?thesis by (auto simp: mainStep_def run_simps publishes_def cancelled_def)
next
  case take
  then have "takeResult P s = Some (p', s')" by simp
  from takeResult_effect [OF this] take show ?thesis
    by (auto simp: publishes_def cancelled_def)
next
  case ctx_done
  then show ?thesis by (auto simp: mainStep_def run_simps publishes_def cancelled_def)
next
  case (confirm dur r s1)
  then obtain u where u: "mainStep l u s s1"
      "count_if isTerminal (published u) = 1 \<or> panicked (Returned r)"
    using confirm_effect by metis
  let ?u = "u @ [Dt (DClose (r_chanid s1)), Dt DUnsubscribe]"
  have "mainStep l ?u s s'" using confirm u by (auto simp: mainStep_def)
  moreover have "publishes l p' ?u" using confirm u by (auto simp: publishes_def cancelled_def)
  ultimately show ?thesis by blast
qed

lemma onEvent_publishes:
  fixes s :: rstate
  assumes "run_state (onEvent fc P ev st) s = ((), s')"
  shows "\<exists>u. w_trace s' = w_trace s @ u \<and> count_if isTerminal (published u) = 0
    \<and> (r_receivedFirstByte s \<longrightarrow> r_receivedFirstByte s')
    \<and> count_if isFirstByte (published u)
        = (if r_receivedFirstByte s' \<and> \<not> r_receivedFirstByte s then 1 else 0)"
  using assms
proof (cases rule: onEvent_cases)
  case other
  then show ?thesis by simp
next
  case (pays resp)
  from pays(3) show ?thesis
    by (cases rule: payForRetrieval_cases) (auto simp: failedSend_def finishCell_def split: option.splits)
next
  case handled
  from handled(3) show ?thesis
    by (cases rule: handled.cases) (auto simp: finishCell_def split: option.splits)
qed

lemma eventInv_step:
  assumes "eventInv t ls (p, s)" and "rstep avgSpeed fc P (p, s) l (p', s')"
  shows "eventInv t (ls @ [l]) (p', s')"
proof -
  have run: "\<not> returned p" using assms(2) rstep_returned by (cases p) auto
  from assms(1) run obtain w where w: "w_trace s = t @ w"
    "count_if isFirstByte (published w) = (if r_receivedFirstByte s then 1 else 0)"
    "\<not> cancelled ls" "count_if isTerminal (published w) = 0"
    by (auto simp: eventInv_def)
  show ?thesis
  proof (cases "\<exists>ev st. l = LEvent ev st")
    case False
    then obtain u where "mainStep l u s s'" "publishes l p' u"
      using step_publishes [OF assms(2)] by metis
    with w show ?thesis unfolding eventInv_def
      by (intro exI [of _ "w @ u"]) (auto simp: mainStep_def publishes_def)
  next
    case True
    then obtain ev st where l: "l = LEvent ev st" by blast
    have p': "p' = p" and "run_state (onEvent fc P ev st) s = ((), s')"
      using assms(2) unfolding l by (auto elim: rstep.cases simp: prod_eq_iff)
    then obtain u where "w_trace s' = w_trace s @ u" "count_if isTerminal (published u) = 0"
      "r_receivedFirstByte s \<longrightarrow> r_receivedFirstByte s'"
      "count_if isFirstByte (published u)
        = (if r_receivedFirstByte s' \<and> \<not> r_receivedFirstByte s then 1 else 0)"
      using onEvent_publishes by metis
    with w run p' show ?thesis unfolding eventInv_def l
      by (intro exI [of _ "w @ u"]) auto
  qed
qed

lemma eventInv_run: "rexec avgSpeed fc P (startRetrieval t) ls c \<Longrightarrow> eventInv t ls c"
proof (induction rule: rexec.induct)
  case start
  show ?case
    unfolding eventInv_def
    by (intro exI [of _ "[Dt DSubscribe]"]) (simp add: startRetrieval_def initRetrieval_def)
next
  case (step ls c l c')
  then show ?case using eventInv_step by (metis prod.collapse)
qed

text \<open>
  C5: A retrieval reports its end exactly once: one failure or success event when it has returned,
  none before, and none at all when its context ended it; the first byte is reported at most once.
\<close>

theorem one_terminal_event:
  assumes "rexec avgSpeed fc P (startRetrieval t) ls (p, s)" and "w_trace s = t @ u"
    and "\<not> panicked p"
  shows "count_if isTerminal (published u) = (if returned p \<and> \<not> cancelled ls then 1 else 0)
    \<and> count_if isFirstByte (published u) \<le> 1"
  using eventInv_run [OF assms(1)] assms(2,3) by (auto simp: eventInv_def split: if_splits)

section \<open>Success\<close>

text \<open>
  The provider has ended the transfer, by a clean-up or by both the end of the data and the
  completion of the deal.
\<close>

definition ended :: "label list \<Rightarrow> bool" where
  "ended ls \<longleftrightarrow> (\<exists>(ev, st) \<in> set (heard ls). evt_Code ev = CleanupComplete)
     \<or> (\<exists>(ev, st) \<in> set (heard ls). evt_Code ev = FinishTransfer)
       \<and> (\<exists>(ev, st) \<in> set (heard ls). dealCompleted ev st)"

definition successInv :: "FilClient \<Rightarrow> rparams \<Rightarrow> label list \<Rightarrow> pc \<times> rstate \<Rightarrow> bool" where
  "successInv fc P ls c \<longleftrightarrow>
     (r_allBytesReceived (snd c) \<longrightarrow> (\<exists>(ev, st) \<in> set (heard ls). evt_Code ev = FinishTransfer))
     \<and> (r_dealComplete (snd c) \<longrightarrow> (\<exists>(ev, st) \<in> set (heard ls). dealCompleted ev st))
     \<and> (r_dtRes (snd c) = Some None \<or> fst c = Confirming \<longrightarrow> ended ls)
     \<and> (\<forall>stats. fst c = Returned (Inr stats) \<longrightarrow> ended ls
         \<and> (\<exists>v w. w_trace (snd c) = v @ BlockstoreHas (rootCid P) # w
              \<and> blockstoreHas fc v (rootCid P) = Inr True)
         \<and> rs_TotalPayment stats = r_totalPayment (snd c)
         \<and> rs_NumPayments stats = sint (r_nonce (snd c)))"

lemma set_heard_mono: "set (heard ls) \<subseteq> set (heard (ls @ [l]))"
  by simp

lemma ended_mono: "ended ls \<Longrightarrow> ended (ls @ [l])"
  unfolding ended_def using set_heard_mono [of ls l] by blast

lemma confirm_success:
  assumes "run_state (confirmRetrieval avgSpeed fc P dur) s = (Inr stats, s')"
  shows "blockstoreHas fc (w_trace s) (rootCid P) = Inr True
    \<and> (\<exists>w. w_trace s' = w_trace s @ BlockstoreHas (rootCid P) # w)
    \<and> rs_TotalPayment stats = r_totalPayment s' \<and> rs_NumPayments stats = sint (r_nonce s')"
  using assms
  by (auto simp: confirmRetrieval_def run_simps publishFailure_def publish_def
      split: sum.splits if_splits prod.splits)

lemma successInv_main:
  assumes "successInv fc P ls (p, s)" and "rstep avgSpeed fc P (p, s) l (p', s')"
    and "\<And>ev st. l \<noteq> LEvent ev st"
  shows "successInv fc P (ls @ [l]) (p', s')"
proof -
  have heard: "heard (ls @ [l]) = heard ls" and ended: "ended (ls @ [l]) = ended ls"
    using assms(3) by (cases l; auto simp: ended_def)+
  obtain u where m: "mainStep l u s s'" using main_effect [OF assms(2,3)] by blast
  then have flags: "r_allBytesReceived s' = r_allBytesReceived s" "r_dealComplete s' = r_dealComplete s"
    by (auto simp: mainStep_def)
  note inv = assms(1) [unfolded successInv_def, simplified]
  from assms(2) show ?thesis
  proof (cases rule: rstep.cases)
    case (event ev st)
    then show ?thesis using assms(3) by blast
  next
    case open_pull
    then have "openPull fc P s = (p', s')" by simp
    from openPull_effect [OF this] inv show ?thesis
      by (auto simp: successInv_def heard ended flags)
  next
    case take
    then have "takeResult P s = Some (p', s')" by simp
    from takeResult_effect [OF this] inv show ?thesis
      by (auto simp: successInv_def heard ended flags)
  next
    case (confirm dur r s1)
    from confirm_effect [of avgSpeed fc P dur s r s1] confirm
    have res: "r_dtRes s' = r_dtRes s" "p' = Returned r" by auto
    have e: "ended ls" using inv confirm by simp
    have "(\<exists>v w. w_trace s' = v @ BlockstoreHas (rootCid P) # w
              \<and> blockstoreHas fc v (rootCid P) = Inr True)
         \<and> rs_TotalPayment stats = r_totalPayment s' \<and> rs_NumPayments stats = sint (r_nonce s')"
      if "r = Inr stats" for stats
    proof -
      from confirm_success [of avgSpeed fc P dur s stats s1] confirm that obtain w
        where "blockstoreHas fc (w_trace s) (rootCid P) = Inr True"
          "w_trace s1 = w_trace s @ BlockstoreHas (rootCid P) # w"
          "rs_TotalPayment stats = r_totalPayment s1" "rs_NumPayments stats = sint (r_nonce s1)"
        by auto
      then show ?thesis using confirm
        by (intro conjI exI [of _ "w_trace s"]
          exI [of _ "w @ [Dt (DClose (r_chanid s1)), Dt DUnsubscribe]"]) simp_all
    qed
    then show ?thesis using inv e unfolding successInv_def fst_conv snd_conv heard ended flags res
      by simp
  qed (use inv in \<open>auto simp: successInv_def publish_def run_simps intro: ended_mono\<close>)
qed

lemma successInv_event:
  assumes "successInv fc P ls (p, s)" and "\<not> returned p"
    and "run_state (onEvent fc P ev st) s = ((), s')"
    and "r_chanid s = listeningTo ls"
  shows "successInv fc P (ls @ [LEvent ev st]) (p, s')"
proof -
  let ?ls = "ls @ [LEvent ev st]"
  note inv = assms(1) [unfolded successInv_def, simplified]
  have keep: "successInv fc P ?ls (p, s'')"
    if "r_allBytesReceived s'' = r_allBytesReceived s" "r_dealComplete s'' = r_dealComplete s"
       "r_dtRes s'' = Some None \<longrightarrow> r_dtRes s = Some None" for s''
    using inv that assms(2) ended_mono [of ls] unfolding successInv_def by auto
  from assms(3) show ?thesis
  proof (cases rule: onEvent_cases)
    case other
    then show ?thesis using keep by simp
  next
    case (pays resp)
    from pays(3) show ?thesis
      by (cases rule: payForRetrieval_cases) (auto intro!: keep simp: finishCell_def split: option.splits)
  next
    case handled
    then have new: "heard ?ls = heard ls @ [(ev, st)]" using assms(4) by simp
    from handled(3) show ?thesis
    proof (cases rule: handled.cases)
      case h_done
      then have "ended ?ls" using inv unfolding ended_def new by fastforce
      then show ?thesis using inv h_done assms(2) new
        by (auto simp: successInv_def finishCell_def split: option.splits)
    next
      case h_all_bytes
      then show ?thesis using inv assms(2) new ended_mono [of ls] by (auto simp: successInv_def)
    next
      case h_complete
      then show ?thesis using inv assms(2) new ended_mono [of ls] by (auto simp: successInv_def)
    qed (auto intro!: keep simp: finishCell_def split: option.splits)
  qed
qed

lemma successInv_run:
  "rexec avgSpeed fc P (startRetrieval t) ls c \<Longrightarrow> successInv fc P ls c"
proof (induction rule: rexec.induct)
  case start
  show ?case by (simp add: successInv_def startRetrieval_def initRetrieval_def)
next
  case (step ls c l c')
  obtain p s p' s' where c: "c = (p, s)" "c' = (p', s')" by fastforce
  show ?case
  proof (cases "\<exists>ev st. l = LEvent ev st")
    case False
    then show ?thesis using step successInv_main unfolding c by metis
  next
    case True
    then obtain ev st where l: "l = LEvent ev st" by blast
    have "p' = p" "\<not> returned p" "run_state (onEvent fc P ev st) s = ((), s')"
      using step.hyps(2) unfolding l c by (auto elim: rstep.cases simp: prod_eq_iff)
    moreover have "r_chanid s = listeningTo ls"
      using payInv_run [OF step.hyps(1)] by (auto simp: payInv_def c)
    ultimately show ?thesis using successInv_event step.IH unfolding l c by metis
  qed
qed

text \<open>
  C1: A retrieval that reports success has heard the provider end the transfer on its channel, a
  clean-up or both the end of the data and the completed deal, and has found the root block in the
  blockstore; the statistics give the sum of the payments asked for.
\<close>

theorem retrieval_success:
  assumes "rexec avgSpeed fc P (startRetrieval t) ls (Returned (Inr stats), s)"
  shows "ended ls
    \<and> (\<exists>v w. w_trace s = v @ BlockstoreHas (rootCid P) # w \<and> blockstoreHas fc v (rootCid P) = Inr True)
    \<and> rs_TotalPayment stats = sum_list (paymentsOwed P ls)"
proof -
  have "r_totalPayment s = sum_list (paymentsOwed P ls)"
    using payInv_run [OF assms] by (auto simp: payInv_def)
  with successInv_run [OF assms] show ?thesis by (auto simp: successInv_def)
qed

section \<open>The result and the channel\<close>

lemma onEvent_keeps_result:
  fixes s :: rstate
  assumes "run_state (onEvent fc P ev st) s = ((), s')" and "r_dtRes s = Some r"
  shows "r_dtRes s' = Some r"
  using assms(1)
proof (cases rule: onEvent_cases)
  case other
  then show ?thesis using assms(2) by simp
next
  case (pays resp)
  from pays(3) show ?thesis
    by (cases rule: payForRetrieval_cases) (use assms(2) in \<open>auto simp: dtRes_cell.content_put\<close>)
next
  case handled
  from handled(3) show ?thesis
    by (cases rule: handled.cases) (use assms(2) in \<open>auto simp: dtRes_cell.content_put\<close>)
qed

text \<open>
  Once the handler has put a result into the channel \<open>dtRes\<close>, no later event changes it: the
  first result is the one the retrieval returns with, an error or success.
\<close>

theorem first_result_wins:
  assumes "rexec avgSpeed fc P (Waiting, s) ls (Waiting, s')" and "r_dtRes s = Some r"
  shows "r_dtRes s' = Some r"
proof -
  have "(\<forall>d. fst c \<noteq> Proposed d \<and> fst c \<noteq> Opened d) \<and> fst c \<noteq> Opening
      \<and> (fst c = Waiting \<longrightarrow> r_dtRes (snd c) = Some r)"
    if "rexec avgSpeed fc P (Waiting, s) ls c" for c
    using that
  proof (induction rule: rexec.induct)
    case start
    then show ?case using assms(2) by simp
  next
    case (step ls c l c')
    show ?case
    proof (cases rule: rstep.cases [OF step.hyps(2)])
      case (1 p s ev st)
      then show ?thesis using step.IH onEvent_keeps_result [of fc P ev st s] by (simp add: prod_eq_iff)
    next
      case (6 s c2)
      then show ?thesis by (auto simp: takeResult_def split: option.splits)
    qed (use step.IH in \<open>auto simp: openPull_def run_simps split: sum.splits prod.splits\<close>)
  qed
  with assms(1) show ?thesis by fastforce
qed

text \<open>
  An event for the channel that arrives before its id has been stored is ignored, an error or the
  end of the transfer included, since the handler compares with the zero channel id until then.
\<close>

theorem early_events_lost:
  assumes "rexec avgSpeed fc P (startRetrieval t) ls (p, s)"
    and "rstep avgSpeed fc P (p, s) (LEvent ev st) (p', s')"
    and "\<forall>d. LSetChannel d \<notin> set ls" and "dtc_ChannelID st \<noteq> zeroChannelID"
  shows "p' = p \<and> s' = s"
proof -
  have "listeningTo ls = zeroChannelID"
    using assms(3) by (induction ls rule: rev_induct) (auto split: label.splits)
  then have "r_chanid s = zeroChannelID" using payInv_run [OF assms(1)] by (auto simp: payInv_def)
  then have "run_state (onEvent fc P ev st) s = ((), s)" using assms(4) by (simp add: onEvent_other)
  with assms(2) show ?thesis by (auto elim: rstep.cases)
qed


section \<open>The events of a query\<close>

text \<open>Operations that publish nothing.\<close>

lemma streamToMiner_silent:
  assumes "run_state (streamToMiner L fc maddr protos) w = (r, w')"
  shows "\<exists>u. w_trace w' = w_trace w @ u \<and> published u = []"
  using assms
  by (auto simp: streamToMiner_def newStream_def connect_defs run_simps Let_def
      split: sum.splits option.splits prod.splits if_splits)

lemma doRpc_silent:
  assumes "run_state (doRpc fc cx s req rd) w = (r, w')"
  shows "\<exists>u. w_trace w' = w_trace w @ u \<and> published u = []"
  using assms
  by (auto simp: doRpc_def run_simps Let_def split: sum.splits option.splits prod.splits)

lemma retrievalQueryOn_events:
  assumes "run_state (retrievalQueryOn fc cx s pcid pid maddr) w = (r, w')"
    and "\<forall>e. r = Inl e \<longrightarrow> \<not> isPanic e"
  shows "\<exists>u. w_trace w' = w_trace w @ u \<and> map ev_Code (published u) =
    (if isOk r then [ConnectedCode, QueryAskedCode] else [ConnectedCode, FailureCode])"
proof -
  let ?w1 = "w\<lparr>w_trace := w_trace w @ [Publish (NewRetrievalEventConnect QueryPhase pcid pid maddr)]\<rparr>"
  obtain q w2 where q: "run_state (doRpc fc cx s (QueryRequest pcid) (h_ReadQueryResponse (host fc))) ?w1 = (q, w2)"
    by fastforce
  from doRpc_silent [OF q] obtain u where u: "w_trace w2 = w_trace ?w1 @ u" "published u = []" by blast
  show ?thesis using assms u
    by (cases q) (auto simp: retrievalQueryOn_def run_simps publish_def q)
qed

text \<open>
  The events a retrieval query publishes: a failure alone when the provider cannot be reached,
  and otherwise the connection followed by the answer or by one failure; the answer is published
  exactly when the query returns it.
\<close>

theorem query_events:
  assumes "run_state (RetrievalQuery L fc cx maddr pcid) w = (r, w')"
    and "\<forall>e. r = Inl e \<longrightarrow> \<not> isPanic e"
  shows "\<exists>u. w_trace w' = w_trace w @ u \<and> map ev_Code (published u) \<in>
    (if isOk r then {[ConnectedCode, QueryAskedCode]} else {[FailureCode], [ConnectedCode, FailureCode]})"
proof -
  obtain q w1 where st: "run_state (streamToMiner L fc maddr [RetrievalQueryProtocol]) w = (q, w1)"
    by fastforce
  from streamToMiner_silent [OF st] obtain u where u: "w_trace w1 = w_trace w @ u" "published u = []"
    by blast
  show ?thesis
  proof (cases q)
    case (Inl e)
    then show ?thesis using assms u by (auto simp: RetrievalQuery_def run_simps publish_def st)
  next
    case (Inr s)
    let ?w2 = "w1\<lparr>w_trace := w_trace w1 @ [Host (HProtect (str_RemotePeer s) ''RetrievalQuery'')]\<rparr>"
    obtain r3 w3 where b: "run_state (retrievalQueryOn fc cx s pcid [] maddr) ?w2 = (r3, w3)" by fastforce
    have r: "r = r3" and w': "w_trace w' = w_trace w3 @ [Host (HUnprotect (str_RemotePeer s) ''RetrievalQuery''), Host (HClose s)]"
      using assms(1) by (auto simp: RetrievalQuery_def run_simps withProtected_def st Inr b)
    from retrievalQueryOn_events [OF b] assms(2) obtain v where
      "w_trace w3 = w_trace ?w2 @ v" "map ev_Code (published v) =
        (if isOk r then [ConnectedCode, QueryAskedCode] else [ConnectedCode, FailureCode])"
      unfolding r by blast
    then show ?thesis using u w' by simp
  qed
qed

section \<open>A run\<close>

text \<open>
  A paid retrieval in which two vouchers are sent; an error event that comes too early is lost.
\<close>

definition sampleProposal :: retrieval_proposal where
  "sampleProposal = \<lparr>rp_PayloadCID = ''bafyroot'', rp_ID = 9, rp_PricePerByte = 2, rp_UnsealPrice = 0,
     rp_PaymentInterval = 1048576, rp_PaymentIntervalIncrease = 1048576, rp_Selector = ''*''\<rparr>"

definition sampleParams :: rparams where
  "sampleParams = \<lparr>rq_peerID = ''12D3miner'', rq_proposal = sampleProposal, rq_pchRequired = True,
     rq_pchAddr = address_Undef, rq_pchLane = 1\<rparr>"

definition sampleEvent :: "event_code \<Rightarrow> voucher_result \<Rightarrow> label" where
  "sampleEvent c r = LEvent \<lparr>evt_Code = c, evt_Message = []\<rparr>
     (sampleDtChannel\<lparr>dtc_LastVoucherResult := r\<rparr>)"

definition sampleResponse :: "retrieval_deal_status \<Rightarrow> int \<Rightarrow> voucher_result" where
  "sampleResponse d n = DealResponseResult \<lparr>rdr_Status = d, rdr_PaymentOwed = n, rdr_Message = []\<rparr>"

definition sampleLabels :: "label list" where
  "sampleLabels =
     [sampleEvent Error OtherVoucherResult, LOpen, LPropose, LSetChannel sampleChannel,
      sampleEvent NewVoucherResult (sampleResponse DealStatusAccepted 0),
      sampleEvent DataReceivedProgress OtherVoucherResult,
      sampleEvent NewVoucherResult (sampleResponse DealStatusFundsNeeded 100),
      sampleEvent DataReceivedProgress OtherVoucherResult,
      sampleEvent NewVoucherResult (sampleResponse DealStatusFundsNeededLastPayment 50),
      sampleEvent FinishTransfer OtherVoucherResult,
      sampleEvent NewVoucherResult (sampleResponse DealStatusCompleted 0),
      LTake, LConfirm 5]"

definition sampleEnd :: "pc \<times> rstate" where
  "sampleEnd = the (rrun (\<lambda>n d. n div d) sampleClient sampleParams (startRetrieval []) sampleLabels)"


lemma sample_step:
  "rrun (\<lambda>n d. n div d) sampleClient sampleParams (startRetrieval []) sampleLabels = Some sampleEnd"
  unfolding sampleEnd_def by code_simp

lemma sample_run:
  "rexec (\<lambda>n d. n div d) sampleClient sampleParams (startRetrieval []) sampleLabels
     (fst sampleEnd, snd sampleEnd)"
  using sample_step by (simp add: rexec_iff_rrun)

lemma sample_trace: "w_trace (snd sampleEnd) = [] @ w_trace (snd sampleEnd)"
  by simp

theorem vouchers_cumulative_witness:
  "map sv_Amount (createdVouchers (w_trace (snd sampleEnd))) = [100, 150]
     \<and> r_totalPayment (snd sampleEnd) = 150 \<and> count_if isSent (w_trace (snd sampleEnd)) = 2"
proof -
  have "totals 0 (paymentsOwed sampleParams sampleLabels) = [100, 150]"
    "sum_list (paymentsOwed sampleParams sampleLabels) = 150"
    "count_if isSent (w_trace (snd sampleEnd)) = 2"
    by code_simp+
  with vouchers_cumulative [OF sample_run sample_trace] show ?thesis by simp
qed

theorem voucher_nonces_witness:
  "\<exists>sv. w_trace (snd sampleEnd) ! 9 = Pch (PCreateVoucher address_Undef sv)
     \<and> sv_Nonce sv = 1 \<and> sv_Lane sv = 1"
proof -
  let ?t = "w_trace (snd sampleEnd)"
  let ?sv = "\<lparr>sv_ChannelAddr = address_Undef, sv_Lane = 1, sv_Nonce = 1, sv_Amount = 150\<rparr>"
  have n: "?t ! 9 = Pch (PCreateVoucher address_Undef ?sv)" and l: "9 < length ?t"
    and one: "count_if isSent (take 9 ?t) = 1"
    by code_simp+
  have "?t = [] @ take 9 ?t @ Pch (PCreateVoucher address_Undef ?sv) # drop (Suc 9) ?t"
    using id_take_nth_drop [OF l] by (simp only: n append_Nil)
  from voucher_nonces [OF sample_run this] n show ?thesis by (auto simp: sampleParams_def one)
qed

lemma sample_setup:
  "run_state (retrievalSetup sampleLibrary sampleClient ''12D3miner'' ''f3pay'' sampleProposal) \<lparr>w_trace = []\<rparr> =
     (Inr sampleParams, \<lparr>w_trace = [Pch (PAvailableFunds ''f3client'' ''f3pay''), Pch (PAllocateLane ''f2paych'')]\<rparr>)"
  by code_simp

theorem vouchers_on_zero_address_witness:
  "length (createdVouchers (w_trace (snd sampleEnd))) = 2
     \<and> sv_ChannelAddr (hd (createdVouchers (w_trace (snd sampleEnd)))) = address_Undef
     \<and> sv_ChannelAddr (last (createdVouchers (w_trace (snd sampleEnd)))) = address_Undef"
proof -
  let ?vs = "createdVouchers (w_trace (snd sampleEnd))"
  have n: "length ?vs = 2" by code_simp
  then have "?vs \<noteq> []" by auto
  with vouchers_on_zero_address [OF sample_setup sample_run sample_trace] n
  show ?thesis by (simp only: list.set_sel last_in_set) simp
qed

definition freeProposal :: retrieval_proposal where
  "freeProposal = sampleProposal\<lparr>rp_PricePerByte := 0\<rparr>"

definition freeParams :: rparams where
  "freeParams = sampleParams\<lparr>rq_proposal := freeProposal, rq_pchRequired := False, rq_pchLane := 0\<rparr>"

definition freeEnd :: "pc \<times> rstate" where
  "freeEnd = the (rrun (\<lambda>n d. n div d) sampleClient freeParams (startRetrieval []) (take 7 sampleLabels))"

theorem zero_cost_never_pays_witness:
  "noPayment (w_trace (snd freeEnd)) \<and> r_dtRes (snd freeEnd) = Some (Some (Errorf
     ''the miner requested payment even though this transaction was determined to be zero cost''))"
proof -
  have s: "run_state (retrievalSetup sampleLibrary sampleClient ''12D3miner'' ''f3pay'' freeProposal) \<lparr>w_trace = []\<rparr> =
      (Inr freeParams, \<lparr>w_trace = []\<rparr>)" by code_simp
  have p: "rp_PricePerByte freeProposal = 0" "rp_UnsealPrice freeProposal = 0"
    by (simp_all add: freeProposal_def sampleProposal_def)
  have "rrun (\<lambda>n d. n div d) sampleClient freeParams (startRetrieval []) (take 7 sampleLabels) = Some freeEnd"
    unfolding freeEnd_def by code_simp
  then have r: "rexec (\<lambda>n d. n div d) sampleClient freeParams (startRetrieval []) (take 7 sampleLabels)
      (fst freeEnd, snd freeEnd)" by (simp add: rexec_iff_rrun)
  have t: "w_trace (snd freeEnd) = [] @ w_trace (snd freeEnd)" by simp
  have "r_dtRes (snd freeEnd) = Some (Some (Errorf
     ''the miner requested payment even though this transaction was determined to be zero cost''))"
    by code_simp
  with zero_cost_never_pays [OF s p r t] show ?thesis by blast
qed

theorem one_terminal_event_witness:
  "count_if isTerminal (published (w_trace (snd sampleEnd))) = 1
     \<and> count_if isFirstByte (published (w_trace (snd sampleEnd))) \<le> 1"
proof -
  have "\<not> panicked (fst sampleEnd)" "returned (fst sampleEnd) \<and> \<not> cancelled sampleLabels"
    by code_simp+
  with one_terminal_event [OF sample_run sample_trace] show ?thesis by simp
qed

theorem retrieval_success_witness:
  "ended sampleLabels \<and> sum_list (paymentsOwed sampleParams sampleLabels) = 150"
proof -
  have f: "fst sampleEnd = Returned (Inr \<lparr>rs_Peer = ''12D3miner'', rs_Size = 1024, rs_Duration = 5,
      rs_AverageSpeed = 204, rs_TotalPayment = 150, rs_NumPayments = 2, rs_AskPrice = 2\<rparr>)"
    by code_simp
  from retrieval_success [OF sample_run [unfolded f]] show ?thesis by simp
qed

definition waitingState :: rstate where
  "waitingState = (initRetrieval [])\<lparr>r_chanid := sampleChannel\<rparr>"

theorem first_result_wins_witness:
  "\<exists>s'. rexec (\<lambda>n d. n div d) sampleClient sampleParams
     (Waiting, waitingState\<lparr>r_dtRes := Some (Some (Errorf ''deal rejected: ''))\<rparr>)
     [sampleEvent CleanupComplete OtherVoucherResult] (Waiting, s')
     \<and> r_dtRes s' = Some (Some (Errorf ''deal rejected: ''))"
proof -
  let ?s = "waitingState\<lparr>r_dtRes := Some (Some (Errorf ''deal rejected: ''))\<rparr>"
  let ?l = "[sampleEvent CleanupComplete OtherVoucherResult]"
  have "rrun (\<lambda>n d. n div d) sampleClient sampleParams (Waiting, ?s) ?l = Some (Waiting, ?s)"
    by code_simp
  then have r: "rexec (\<lambda>n d. n div d) sampleClient sampleParams (Waiting, ?s) ?l (Waiting, ?s)"
    by (simp add: rexec_iff_rrun)
  with first_result_wins [OF r] show ?thesis by auto
qed

theorem early_events_lost_witness:
  "\<exists>p' s'. rstep (\<lambda>n d. n div d) sampleClient sampleParams (startRetrieval [])
     (sampleEvent Error OtherVoucherResult) (p', s') \<and> (p', s') = startRetrieval []"
proof -
  obtain p s where c: "startRetrieval [] = (p, s)" by fastforce
  have "rexec (\<lambda>n d. n div d) sampleClient sampleParams (startRetrieval []) [] (p, s)"
    by (simp add: c rexec.start)
  moreover have p: "p = Opening" using c by (simp add: startRetrieval_def)
  have "rstep (\<lambda>n d. n div d) sampleClient sampleParams (p, s) (sampleEvent Error OtherVoucherResult)
      (p, snd (run_state (onEvent sampleClient sampleParams \<lparr>evt_Code = Error, evt_Message = []\<rparr>
        (sampleDtChannel\<lparr>dtc_LastVoucherResult := OtherVoucherResult\<rparr>)) s))"
    unfolding sampleEvent_def by (rule rstep.event) (simp add: p)
  moreover have "dtc_ChannelID (sampleDtChannel\<lparr>dtc_LastVoucherResult := OtherVoucherResult\<rparr>) \<noteq> zeroChannelID"
    by (simp add: sampleDtChannel_def sampleChannel_def zeroChannelID_def)
  ultimately show ?thesis
    using early_events_lost [of "\<lambda>n d. n div d" sampleClient sampleParams "[]" "[]" p s]
    unfolding c sampleEvent_def by (metis (no_types, lifting) empty_iff empty_set)
qed


theorem query_events_witness:
  "map ev_Code (published (w_trace (snd (run_state
     (RetrievalQuery sampleLibrary sampleClient emptyCtx ''f01000'' ''bafyroot'') \<lparr>w_trace = []\<rparr>)))) =
   [ConnectedCode, QueryAskedCode]"
proof -
  let ?run = "run_state (RetrievalQuery sampleLibrary sampleClient emptyCtx ''f01000'' ''bafyroot'') \<lparr>w_trace = []\<rparr>"
  have f: "fst ?run = Inr sampleQueryResponse" by code_simp
  have "?run = (Inr sampleQueryResponse, snd ?run)" by (simp add: f prod_eq_iff)
  from query_events [OF this] show ?thesis by auto
qed

end
