(* ===== verification/FilcQueries.thy ===== *)
theory FilcQueries
  imports RetrievalProps Runs
begin

text \<open>
  The first half of \<open>FILRetrievalAttempt.Retrieve\<close> in \<open>filc/retrieval.go\<close>: every candidate is queried by a
  goroutine of its own, which appends its answer under a mutex, and the attempt waits for all of them.
  The goroutines are a transition system: which one moves is the label.  It is shown to be what one loop over
  the candidates does, up to the order of the answers, and that the wait always comes to an end.
\<close>

section \<open>Candidates\<close>

record FILRetrievalCandidate =
  cand_Miner :: address
  cand_RootCid :: cid
  cand_DealID :: u64

record CandidateQuery =
  cq_Candidate :: FILRetrievalCandidate
  cq_Response :: query_response

section \<open>The goroutines\<close>

text \<open>A goroutine before its query, with an answer, before its deferred \<open>wg.Done()\<close>, and after it.\<close>

datatype asker = Asking | Answered query_response | Leaving | Gone

text \<open>
  \<open>qs_checked\<close>, \<open>qs_queries\<close> and the lines of progress on the standard error output are what the mutex
  protects; \<open>qs_waiting\<close> is the counter of the wait group.
\<close>

record query_state =
  qs_world :: world
  qs_askers :: "asker list"
  qs_queries :: "CandidateQuery list"
  qs_checked :: int
  qs_stderr :: "(int \<times> nat) list"
  qs_waiting :: int

definition startQueries :: "FILRetrievalCandidate list \<Rightarrow> world \<Rightarrow> query_state" where
  "startQueries cands w = \<lparr>qs_world = w, qs_askers = replicate (length cands) Asking, qs_queries = [],
     qs_checked = 0, qs_stderr = [], qs_waiting = int (length cands)\<rparr>"

datatype query_label = QAsk nat | QAppend nat | QDone nat

definition askStep ::
  "library \<Rightarrow> FilClient \<Rightarrow> ctx \<Rightarrow> FILRetrievalCandidate \<Rightarrow> nat \<Rightarrow> query_state \<Rightarrow> query_state" where
  "askStep L fc cx candidate i s =
     (case run_state (RetrievalQuery L fc cx (cand_Miner candidate) (cand_RootCid candidate)) (qs_world s) of
        (Inl err, w) \<Rightarrow> s\<lparr>qs_world := w, qs_askers := (qs_askers s)[i := Leaving]\<rparr>
      | (Inr query, w) \<Rightarrow> s\<lparr>qs_world := w, qs_askers := (qs_askers s)[i := Answered query]\<rparr>)"

text \<open>The section between \<open>Lock\<close> and \<open>Unlock\<close>.\<close>

definition appendStep ::
  "FILRetrievalCandidate list \<Rightarrow> query_response \<Rightarrow> nat \<Rightarrow> query_state \<Rightarrow> query_state" where
  "appendStep cands query i s =
     (let checked = qs_checked s + 1 in
      s\<lparr>qs_queries := qs_queries s @ [\<lparr>cq_Candidate = cands ! i, cq_Response = query\<rparr>],
        qs_checked := checked,
        qs_stderr := qs_stderr s @ [(checked, length cands)],
        qs_askers := (qs_askers s)[i := Leaving]\<rparr>)"

definition doneStep :: "nat \<Rightarrow> query_state \<Rightarrow> query_state" where
  "doneStep i s = s\<lparr>qs_waiting := qs_waiting s - 1, qs_askers := (qs_askers s)[i := Gone]\<rparr>"

definition qnext ::
  "library \<Rightarrow> FilClient \<Rightarrow> ctx \<Rightarrow> FILRetrievalCandidate list \<Rightarrow> query_state \<Rightarrow> query_label \<Rightarrow> query_state option" where
  "qnext L fc cx cands s l =
     (case l of
        QAsk i \<Rightarrow> if i < length (qs_askers s) \<and> qs_askers s ! i = Asking
          then Some (askStep L fc cx (cands ! i) i s) else None
      | QAppend i \<Rightarrow> if i < length (qs_askers s)
          then (case qs_askers s ! i of Answered query \<Rightarrow> Some (appendStep cands query i s) | _ \<Rightarrow> None) else None
      | QDone i \<Rightarrow> if i < length (qs_askers s) \<and> qs_askers s ! i = Leaving
          then Some (doneStep i s) else None)"

text \<open>\<open>wg.Wait()\<close> returns when the counter is zero; \<open>None\<close> is a run in which it has not returned.\<close>

definition queryCandidates ::
  "library \<Rightarrow> FilClient \<Rightarrow> ctx \<Rightarrow> FILRetrievalCandidate list \<Rightarrow> query_label list \<Rightarrow> world
     \<Rightarrow> (CandidateQuery list \<times> world) option" where
  "queryCandidates L fc cx cands sched w =
     (case steps (qnext L fc cx cands) (startQueries cands w) sched of
        None \<Rightarrow> None
      | Some s \<Rightarrow> if qs_waiting s = 0 then Some (qs_queries s, qs_world s) else None)"

lemma qnext_cases:
  assumes "qnext L fc cx cands s l = Some s'"
  obtains (ask) i where "l = QAsk i" "i < length (qs_askers s)" "qs_askers s ! i = Asking"
      "s' = askStep L fc cx (cands ! i) i s"
  | (append) i query where "l = QAppend i" "i < length (qs_askers s)" "qs_askers s ! i = Answered query"
      "s' = appendStep cands query i s"
  | (leave) i where "l = QDone i" "i < length (qs_askers s)" "qs_askers s ! i = Leaving" "s' = doneStep i s"
  using assms by (auto simp: qnext_def split: query_label.splits if_splits asker.splits)

section \<open>The wait comes to an end\<close>

fun stepsLeft :: "asker \<Rightarrow> nat" where
  "stepsLeft Asking = 3"
| "stepsLeft (Answered query) = 2"
| "stepsLeft Leaving = 1"
| "stepsLeft Gone = 0"

definition present :: "asker \<Rightarrow> int" where
  "present a = (if a = Gone then 0 else 1)"

definition queriesLeft :: "query_state \<Rightarrow> nat" where
  "queriesLeft s = sum_list (map stepsLeft (qs_askers s))"

text \<open>The counter is the number of goroutines that have not called \<open>Done\<close>; the numbers shown count up.\<close>

definition waitInv :: "FILRetrievalCandidate list \<Rightarrow> query_state \<Rightarrow> bool" where
  "waitInv cands s \<longleftrightarrow> length (qs_askers s) = length cands
     \<and> qs_waiting s = sum_list (map present (qs_askers s))
     \<and> qs_checked s = int (length (qs_queries s))
     \<and> qs_stderr s = map (\<lambda>k. (int (Suc k), length cands)) [0..<length (qs_queries s)]"

lemma waitInv_start: "waitInv cands (startQueries cands w)"
  by (simp add: waitInv_def startQueries_def map_replicate sum_list_replicate present_def)

lemma asker_moves:
  assumes "i < length xs" and "xs ! i = a"
  shows "sum_list (map stepsLeft (xs[i := b])) + stepsLeft a = sum_list (map stepsLeft xs) + stepsLeft b"
    and "sum_list (map present (xs[i := b])) + present a = sum_list (map present xs) + present b"
  using sum_list_update [OF assms(1)] assms(2) by metis+

lemma askStep_effect:
  "\<exists>a w. askStep L fc cx c i s = s\<lparr>qs_world := w, qs_askers := (qs_askers s)[i := a]\<rparr>
    \<and> (a = Leaving \<or> (\<exists>query. a = Answered query))"
  by (auto simp: askStep_def split: prod.splits sum.splits)

lemma present_zero:
  assumes "sum_list (map present xs) \<noteq> 0" shows "\<exists>i < length xs. xs ! i \<noteq> Gone"
proof (rule ccontr)
  assume "\<not> ?thesis"
  then have "map present xs = replicate (length xs) 0"
    by (intro nth_equalityI) (auto simp: present_def)
  then have "sum_list (map present xs) = sum_list (replicate (length xs) (0 :: int))" by (rule arg_cong)
  with assms show False by (simp add: sum_list_replicate)
qed

interpretation queries: draining "qnext L fc cx cands" "waitInv cands" "\<lambda>s. qs_waiting s = 0" queriesLeft
  for L fc cx cands
proof
  fix s l s'
  assume inv: "waitInv cands s" and n: "qnext L fc cx cands s l = Some s'"
  from n have "waitInv cands s' \<and> queriesLeft s' < queriesLeft s"
  proof (cases rule: qnext_cases)
    case (ask i)
    from askStep_effect obtain a w where a: "s' = s\<lparr>qs_world := w, qs_askers := (qs_askers s)[i := a]\<rparr>"
      "a = Leaving \<or> (\<exists>query. a = Answered query)" using ask(4) by metis
    from a(2) have "stepsLeft a < 3" "present a = 1" "present Asking = 1" by (auto simp: present_def)
    with asker_moves [OF ask(2,3), of a] a(1) inv show ?thesis
      by (auto simp: waitInv_def queriesLeft_def)
  next
    case (append i query)
    with asker_moves [OF append(2,3), of Leaving] inv show ?thesis
      by (auto simp: waitInv_def queriesLeft_def appendStep_def Let_def present_def)
  next
    case (leave i)
    with asker_moves [OF leave(2,3), of Gone] inv show ?thesis
      by (auto simp: waitInv_def queriesLeft_def doneStep_def present_def)
  qed
  then show "waitInv cands s'" "queriesLeft s' < queriesLeft s" by auto
next
  fix s
  assume "waitInv cands s" "qs_waiting s \<noteq> 0"
  then have "sum_list (map present (qs_askers s)) \<noteq> 0" by (simp add: waitInv_def)
  then obtain i where i: "i < length (qs_askers s)" "qs_askers s ! i \<noteq> Gone" using present_zero by blast
  show "\<exists>l s'. qnext L fc cx cands s l = Some s'"
  proof (cases "qs_askers s ! i")
    case Asking
    with i show ?thesis by (intro exI [of _ "QAsk i"]) (simp add: qnext_def)
  next
    case (Answered query)
    with i show ?thesis by (intro exI [of _ "QAppend i"]) (simp add: qnext_def)
  next
    case Leaving
    with i show ?thesis by (intro exI [of _ "QDone i"]) (simp add: qnext_def)
  qed (use i in simp)
qed

lemma startQueries_left: "queriesLeft (startQueries cands w) = 3 * length cands"
  by (simp add: queriesLeft_def startQueries_def map_replicate sum_list_replicate)

text \<open>
  C21: The wait for the queries always comes to an end: the goroutines together make at most three
  steps for each candidate, and from whatever point they have reached they can all finish.
\<close>

theorem queries_return:
  assumes "steps (qnext L fc cx cands) (startQueries cands w) ls = Some s"
  shows "length ls \<le> 3 * length cands
    \<and> (\<exists>ms queries w'. queryCandidates L fc cx cands (ls @ ms) w = Some (queries, w'))"
proof -
  have inv: "waitInv cands s" using queries.inv_run [OF assms] waitInv_start by blast
  obtain ms s' where "steps (qnext L fc cx cands) s ms = Some s'" "qs_waiting s' = 0"
    using queries.can_finish [OF inv] by blast
  then have "queryCandidates L fc cx cands (ls @ ms) w = Some (qs_queries s', qs_world s')"
    using assms by (simp add: queryCandidates_def steps_append)
  moreover have "length ls \<le> 3 * length cands"
    using queries.run_bounded [OF assms waitInv_start] by (simp add: startQueries_left)
  ultimately show ?thesis by blast
qed

section \<open>One loop over the candidates\<close>

text \<open>The specification: the candidates one after the other, a failed query adding nothing.\<close>

fun queryAll ::
  "library \<Rightarrow> FilClient \<Rightarrow> ctx \<Rightarrow> FILRetrievalCandidate list \<Rightarrow> CandidateQuery list
     \<Rightarrow> (world, CandidateQuery list) state" where
  "queryAll L fc cx [] queries = ret queries"
| "queryAll L fc cx (c # cs) queries = do {
     r \<leftarrow> RetrievalQuery L fc cx (cand_Miner c) (cand_RootCid c);
     case r of
       Inl err \<Rightarrow> queryAll L fc cx cs queries
     | Inr query \<Rightarrow> queryAll L fc cx cs (queries @ [\<lparr>cq_Candidate = c, cq_Response = query\<rparr>])
   }"

lemma queryAll_snoc:
  assumes "run_state (queryAll L fc cx cs queries) w = (found, w1)"
    and "run_state (RetrievalQuery L fc cx (cand_Miner c) (cand_RootCid c)) w1 = (r, w2)"
  shows "run_state (queryAll L fc cx (cs @ [c]) queries) w =
    (case r of Inl err \<Rightarrow> found | Inr query \<Rightarrow> found @ [\<lparr>cq_Candidate = c, cq_Response = query\<rparr>], w2)"
  using assms
  by (induction cs arbitrary: queries w) (auto split: sum.splits prod.splits)

definition asked :: "FILRetrievalCandidate \<Rightarrow> asker \<Rightarrow> FILRetrievalCandidate multiset" where
  "asked c a = (if a = Asking then {#} else {#c#})"

definition unsaved :: "FILRetrievalCandidate \<Rightarrow> asker \<Rightarrow> CandidateQuery multiset" where
  "unsaved c a = (case a of Answered query \<Rightarrow> {#\<lparr>cq_Candidate = c, cq_Response = query\<rparr>#} | _ \<Rightarrow> {#})"

lemma part_simps [simp]:
  "asked c Asking = {#}" "asked c (Answered query) = {#c#}" "asked c Leaving = {#c#}" "asked c Gone = {#c#}"
  "unsaved c Asking = {#}" "unsaved c (Answered query) = {#\<lparr>cq_Candidate = c, cq_Response = query\<rparr>#}"
  "unsaved c Leaving = {#}" "unsaved c Gone = {#}"
  by (simp_all add: asked_def unsaved_def)

text \<open>What the goroutines have done so far, as a loop over the candidates that have been asked.\<close>

definition asLoop ::
  "library \<Rightarrow> FilClient \<Rightarrow> ctx \<Rightarrow> FILRetrievalCandidate list \<Rightarrow> world \<Rightarrow> query_state \<Rightarrow> bool" where
  "asLoop L fc cx cands w s \<longleftrightarrow> length (qs_askers s) = length cands
     \<and> (\<exists>order found. run_state (queryAll L fc cx order []) w = (found, qs_world s)
         \<and> mset order = sum_list (map2 asked cands (qs_askers s))
         \<and> mset found = mset (qs_queries s) + sum_list (map2 unsaved cands (qs_askers s)))"

lemma asLoop_start: "asLoop L fc cx cands w (startQueries cands w)"
proof -
  have "sum_list (map2 asked cands (replicate (length cands) Asking)) = {#}"
    "sum_list (map2 unsaved cands (replicate (length cands) Asking)) = {#}"
    by (induction cands) (auto)
  then show ?thesis
    unfolding asLoop_def by (intro conjI exI [of _ "[]"]) (simp_all add: startQueries_def)
qed

lemma part_moves:
  assumes "i < length xs" and "length cs = length xs" and "xs ! i = a"
  shows "sum_list (map2 asked cs (xs[i := b])) + asked (cs ! i) a = sum_list (map2 asked cs xs) + asked (cs ! i) b"
    and "sum_list (map2 unsaved cs (xs[i := b])) + unsaved (cs ! i) a = sum_list (map2 unsaved cs xs) + unsaved (cs ! i) b"
  using sum_list_zip_update [OF assms(1,2)] assms(3) by metis+

lemma asLoop_step:
  assumes "asLoop L fc cx cands w s" and "qnext L fc cx cands s l = Some s'"
  shows "asLoop L fc cx cands w s'"
proof -
  from assms(1) obtain order found where len: "length cands = length (qs_askers s)"
    and run: "run_state (queryAll L fc cx order []) w = (found, qs_world s)"
    and order: "mset order = sum_list (map2 asked cands (qs_askers s))"
    and found: "mset found = mset (qs_queries s) + sum_list (map2 unsaved cands (qs_askers s))"
    by (auto simp: asLoop_def)
  from assms(2) show ?thesis
  proof (cases rule: qnext_cases)
    case (ask i)
    let ?c = "cands ! i"
    obtain r w1 where q: "run_state (RetrievalQuery L fc cx (cand_Miner ?c) (cand_RootCid ?c)) (qs_world s) = (r, w1)"
      by fastforce
    note loop = queryAll_snoc [OF run q]
    show ?thesis
    proof (cases r)
      case (Inl err)
      with ask(4) q loop len part_moves [OF ask(2) len ask(3), of Leaving] order found show ?thesis
        unfolding asLoop_def
        by (intro conjI exI [of _ "order @ [?c]"] exI [of _ found]) (auto simp: askStep_def)
    next
      case (Inr query)
      with ask(4) q loop len part_moves [OF ask(2) len ask(3), of "Answered query"] order found show ?thesis
        unfolding asLoop_def
        by (intro conjI exI [of _ "order @ [?c]"] exI [of _ "found @ [\<lparr>cq_Candidate = ?c, cq_Response = query\<rparr>]"])
          (auto simp: askStep_def)
    qed
  next
    case (append i query)
    with part_moves [OF append(2) len append(3), of Leaving] len run order found show ?thesis
      unfolding asLoop_def
      by (intro conjI exI [of _ order] exI [of _ found])
        (auto simp: appendStep_def Let_def)
  next
    case (leave i)
    with part_moves [OF leave(2) len leave(3), of Gone] len run order found show ?thesis
      unfolding asLoop_def
      by (intro conjI exI [of _ order] exI [of _ found]) (auto simp: doneStep_def)
  qed
qed

interpretation loops: guarded "qnext L fc cx cands" "asLoop L fc cx cands w" for L fc cx cands w
  by unfold_locales (rule asLoop_step)

lemma all_gone:
  assumes "sum_list (map present xs) = 0" shows "set xs \<subseteq> {Gone}"
  using assms
proof (induction xs)
  case (Cons x xs)
  have "0 \<le> sum_list (map present xs)" "0 \<le> present x"
    by (intro sum_list_nonneg) (auto simp: present_def)
  with Cons.prems have "present x = 0" "sum_list (map present xs) = 0" by simp_all
  then have "set xs \<subseteq> {Gone}" by (intro Cons.IH)
  moreover from \<open>present x = 0\<close> have "x = Gone" by (simp add: present_def split: if_splits)
  ultimately show ?case by simp
qed simp

lemma queries_refine:
  assumes "queryCandidates L fc cx cands sched w = Some (queries, w')"
  shows "\<exists>order found. mset order = mset cands \<and> mset found = mset queries
    \<and> run_state (queryAll L fc cx order []) w = (found, w')"
proof -
  from assms obtain s where s: "steps (qnext L fc cx cands) (startQueries cands w) sched = Some s"
    and z: "qs_waiting s = 0" and q: "queries = qs_queries s" "w' = qs_world s"
    by (auto simp: queryCandidates_def split: option.splits if_splits)
  have "waitInv cands s" using queries.inv_run [OF s] waitInv_start by blast
  with z have len: "length (qs_askers s) = length cands" and "sum_list (map present (qs_askers s)) = 0"
    by (auto simp: waitInv_def)
  then have "qs_askers s = replicate (length cands) Gone"
    by (intro replicate_eqI) (use all_gone in auto)
  moreover have "sum_list (map2 asked cands (replicate (length cands) Gone)) = mset cands"
    "sum_list (map2 unsaved cands (replicate (length cands) Gone)) = {#}"
    by (induction cands) (auto)
  moreover have "asLoop L fc cx cands w s" using loops.inv_run [OF s] asLoop_start by blast
  ultimately show ?thesis using q by (auto simp: asLoop_def)
qed


section \<open>A sample\<close>

definition sampleCandidate :: "string \<Rightarrow> FILRetrievalCandidate" where
  "sampleCandidate m = \<lparr>cand_Miner = m, cand_RootCid = ''bafyroot'', cand_DealID = 0\<rparr>"

definition sampleCandidates :: "FILRetrievalCandidate list" where
  "sampleCandidates = [sampleCandidate ''f01000'', sampleCandidate ''f02000'']"

definition sampleQuerySteps :: "query_label list" where
  "sampleQuerySteps = [QAsk 1, QAsk 0, QAppend 1, QAppend 0, QDone 0, QDone 1]"

definition sampleQueries :: "CandidateQuery list" where
  "sampleQueries = [\<lparr>cq_Candidate = sampleCandidate ''f02000'', cq_Response = sampleQueryResponse\<rparr>,
     \<lparr>cq_Candidate = sampleCandidate ''f01000'', cq_Response = sampleQueryResponse\<rparr>]"

lemma sampleAsk:
  assumes "m \<in> {''f01000'', ''f02000''}"
  shows "\<exists>u. run_state (RetrievalQuery sampleLibrary sampleClient emptyCtx m ''bafyroot'') \<lparr>w_trace = t\<rparr>
    = (Inr sampleQueryResponse, \<lparr>w_trace = u\<rparr>)"
  using assms
  by (auto simp: RetrievalQuery_def retrievalQueryOn_def streamToMiner_def
      newStream_def connect_defs run_withProtected doRpc_def publish_def run_simps sample_defs Let_def)

lemma sampleAnswers:
  "\<exists>w. queryCandidates sampleLibrary sampleClient emptyCtx sampleCandidates sampleQuerySteps \<lparr>w_trace = []\<rparr>
    = Some (sampleQueries, w)"
proof -
  obtain u where u: "run_state (RetrievalQuery sampleLibrary sampleClient emptyCtx ''f02000'' ''bafyroot'') \<lparr>w_trace = []\<rparr>
    = (Inr sampleQueryResponse, \<lparr>w_trace = u\<rparr>)" using sampleAsk by blast
  obtain v where v: "run_state (RetrievalQuery sampleLibrary sampleClient emptyCtx ''f01000'' ''bafyroot'') \<lparr>w_trace = u\<rparr>
    = (Inr sampleQueryResponse, \<lparr>w_trace = v\<rparr>)" using sampleAsk by blast
  show ?thesis
    by (simp add: queryCandidates_def sampleCandidates_def sampleCandidate_def sampleQuerySteps_def sampleQueries_def
        startQueries_def qnext_def askStep_def appendStep_def doneStep_def u v numeral_2_eq_2)
qed

theorem queries_return_witness:
  "\<exists>ms queries w'. queryCandidates sampleLibrary sampleClient emptyCtx sampleCandidates ([] @ ms) \<lparr>w_trace = []\<rparr>
    = Some (queries, w')"
proof -
  have "steps (qnext sampleLibrary sampleClient emptyCtx sampleCandidates) (startQueries sampleCandidates \<lparr>w_trace = []\<rparr>) []
    = Some (startQueries sampleCandidates \<lparr>w_trace = []\<rparr>)" by simp
  from queries_return [OF this] show ?thesis by blast
qed


end
