(* ===== verification/FilcIpfs.thy ===== *)
theory FilcIpfs
  imports MarketTypes Runs
begin

text \<open>
  \<open>IPFSRetrievalAttempt.Retrieve\<close> of \<open>filc/retrieval.go\<close>.  Its first half is a transition system of two
  threads: a goroutine that reads the providers the DHT finds, and the attempt, which waits for
  the first one with an address, the end of the search or the end of its context.  They share the channel
  \<open>ready\<close>, which has one place.  The second half is the callback that \<open>merkledag.Walk\<close> calls for
  every block; the order of these calls is a parameter.
\<close>

section \<open>The search for providers\<close>

text \<open>The goroutine in its \<open>select\<close>, in a send, and after its return.\<close>

datatype finder = Reading | Sending bool | Finished

datatype searcher = Searching | Found | NotFound go_error

text \<open>
  \<open>ps_providers\<close> are the providers not read yet; the DHT closes its channel after them, or earlier when
  the context of the attempt has ended (\<open>ps_ctx\<close>, with its error).
\<close>

record provider_search =
  ps_providers :: "addr_info list"
  ps_finder :: finder
  ps_ready :: "bool option"
  ps_searcher :: searcher
  ps_ctx :: "go_error option"

definition startSearch :: "addr_info list \<Rightarrow> provider_search" where
  "startSearch providers = \<lparr>ps_providers = providers, ps_finder = Reading, ps_ready = None,
     ps_searcher = Searching, ps_ctx = None\<rparr>"

datatype search_label =
    SRead           \<comment> \<open>the goroutine receives a provider\<close>
  | SClosed         \<comment> \<open>the goroutine finds the channel closed\<close>
  | SSend           \<comment> \<open>its send to \<open>ready\<close> succeeds\<close>
  | SGiveUp         \<comment> \<open>it sees that the context is done\<close>
  | STake           \<comment> \<open>the attempt receives from \<open>ready\<close>\<close>
  | SAbort          \<comment> \<open>the attempt sees that the context is done\<close>
  | SCancel go_error \<comment> \<open>the context ends, at the latest with the deferred \<open>cancel\<close>\<close>

definition onProvider :: "addr_info \<Rightarrow> finder" where
  "onProvider provider = (if ai_Addrs provider = [] then Reading else Sending True)"

definition couldntFind :: go_error where
  "couldntFind = Errorf (''couldn'' @ [CHR 0x27] @ ''t find CID'')"

definition pnext :: "provider_search \<Rightarrow> search_label \<Rightarrow> provider_search option" where
  "pnext s l =
     (case l of
        SRead \<Rightarrow> (case (ps_finder s, ps_providers s) of
            (Reading, provider # providers) \<Rightarrow>
              Some (s\<lparr>ps_providers := providers, ps_finder := onProvider provider\<rparr>)
          | _ \<Rightarrow> None)
      | SClosed \<Rightarrow> if ps_finder s = Reading \<and> (ps_providers s = [] \<or> ps_ctx s \<noteq> None)
          then Some (s\<lparr>ps_finder := Sending False\<rparr>) else None
      | SSend \<Rightarrow> (case (ps_finder s, ps_ready s) of
            (Sending b, None) \<Rightarrow> Some (s\<lparr>ps_ready := Some b, ps_finder := (if b then Reading else Finished)\<rparr>)
          | _ \<Rightarrow> None)
      | SGiveUp \<Rightarrow> if ps_finder s = Reading \<and> ps_ctx s \<noteq> None
          then Some (s\<lparr>ps_finder := Finished\<rparr>) else None
      | STake \<Rightarrow> (case (ps_searcher s, ps_ready s) of
            (Searching, Some b) \<Rightarrow>
              Some (s\<lparr>ps_ready := None, ps_searcher := (if b then Found else NotFound couldntFind)\<rparr>)
          | _ \<Rightarrow> None)
      | SAbort \<Rightarrow> (case (ps_searcher s, ps_ctx s) of
            (Searching, Some err) \<Rightarrow> Some (s\<lparr>ps_searcher := NotFound err\<rparr>)
          | _ \<Rightarrow> None)
      | SCancel err \<Rightarrow> if ps_ctx s = None then Some (s\<lparr>ps_ctx := Some err\<rparr>) else None)"

text \<open>A search up to its decision; \<open>None\<close> when the attempt is still waiting.\<close>

definition awaitProvider :: "addr_info list \<Rightarrow> search_label list \<Rightarrow> (go_error + unit) option" where
  "awaitProvider providers sched =
     (case steps pnext (startSearch providers) sched of
        None \<Rightarrow> None
      | Some s \<Rightarrow> (case ps_searcher s of
            Searching \<Rightarrow> None | Found \<Rightarrow> Some (Inr ()) | NotFound err \<Rightarrow> Some (Inl err)))"

lemma pnext_cases:
  assumes "pnext s l = Some s'"
  obtains (read) provider providers where "l = SRead" "ps_finder s = Reading" "ps_providers s = provider # providers"
      "s' = s\<lparr>ps_providers := providers, ps_finder := onProvider provider\<rparr>"
  | (closed) "l = SClosed" "ps_finder s = Reading" "ps_providers s = [] \<or> ps_ctx s \<noteq> None"
      "s' = s\<lparr>ps_finder := Sending False\<rparr>"
  | (send) b where "l = SSend" "ps_finder s = Sending b" "ps_ready s = None"
      "s' = s\<lparr>ps_ready := Some b, ps_finder := (if b then Reading else Finished)\<rparr>"
  | (give_up) "l = SGiveUp" "ps_finder s = Reading" "ps_ctx s \<noteq> None" "s' = s\<lparr>ps_finder := Finished\<rparr>"
  | (take) b where "l = STake" "ps_searcher s = Searching" "ps_ready s = Some b"
      "s' = s\<lparr>ps_ready := None, ps_searcher := (if b then Found else NotFound couldntFind)\<rparr>"
  | (abort) err where "l = SAbort" "ps_searcher s = Searching" "ps_ctx s = Some err"
      "s' = s\<lparr>ps_searcher := NotFound err\<rparr>"
  | (cancel) err where "l = SCancel err" "ps_ctx s = None" "s' = s\<lparr>ps_ctx := Some err\<rparr>"
  using assms
  by (auto simp: pnext_def split: search_label.splits finder.splits list.splits option.splits searcher.splits if_splits)

section \<open>What the search decides\<close>

text \<open>The specification: is there a provider with an address?\<close>

fun ipfsReady :: "addr_info list \<Rightarrow> bool" where
  "ipfsReady [] = False"
| "ipfsReady (provider # providers) =
     (if ai_Addrs provider = [] then ipfsReady providers else True)"

text \<open>
  Before anything has been sent, no provider with an address has been read; a \<open>True\<close> stands for one, and
  a \<open>False\<close> comes first only when there is none or the context has ended.
\<close>

definition sentNothing :: "provider_search \<Rightarrow> bool" where
  "sentNothing s \<longleftrightarrow> ps_ready s = None \<and> ps_searcher s = Searching"

definition searchInv :: "addr_info list \<Rightarrow> provider_search \<Rightarrow> bool" where
  "searchInv providers s \<longleftrightarrow>
     (sentNothing s \<longrightarrow> (case ps_finder s of
         Reading \<Rightarrow> ipfsReady (ps_providers s) = ipfsReady providers
       | Sending b \<Rightarrow> if b then ipfsReady providers else \<not> ipfsReady providers \<or> ps_ctx s \<noteq> None
       | Finished \<Rightarrow> ps_ctx s \<noteq> None))
   \<and> (ps_searcher s = Searching \<longrightarrow> (case ps_ready s of
         None \<Rightarrow> True
       | Some b \<Rightarrow> if b then ipfsReady providers else \<not> ipfsReady providers \<or> ps_ctx s \<noteq> None))
   \<and> (case ps_searcher s of
         Searching \<Rightarrow> True
       | Found \<Rightarrow> ipfsReady providers
       | NotFound err \<Rightarrow> err = couldntFind \<and> \<not> ipfsReady providers
           \<or> ps_ctx s \<noteq> None \<and> (err = couldntFind \<or> ps_ctx s = Some err))"

lemma searchInv_start: "searchInv providers (startSearch providers)"
  by (simp add: searchInv_def startSearch_def)

lemma searchInv_step:
  assumes "searchInv providers s" and "pnext s l = Some s'"
  shows "searchInv providers s'"
  using assms(2)
proof (cases rule: pnext_cases)
  case (read p ps)
  with assms(1) show ?thesis
    by (auto simp: searchInv_def sentNothing_def onProvider_def split: finder.splits searcher.splits option.splits if_splits)
next
  case closed
  with assms(1) show ?thesis
    by (auto simp: searchInv_def sentNothing_def split: finder.splits searcher.splits option.splits if_splits)
next
  case (send b)
  with assms(1) show ?thesis
    by (auto simp: searchInv_def sentNothing_def split: finder.splits searcher.splits option.splits if_splits)
next
  case give_up
  with assms(1) show ?thesis
    by (auto simp: searchInv_def sentNothing_def split: finder.splits searcher.splits option.splits if_splits)
next
  case (take b)
  with assms(1) show ?thesis
    by (auto simp: searchInv_def sentNothing_def split: finder.splits searcher.splits option.splits if_splits)
next
  case (abort err)
  with assms(1) show ?thesis
    by (auto simp: searchInv_def sentNothing_def split: finder.splits searcher.splits option.splits if_splits)
next
  case (cancel err)
  with assms(1) show ?thesis
    by (auto simp: searchInv_def sentNothing_def split: finder.splits searcher.splits option.splits if_splits)
qed

section \<open>The search comes to a decision\<close>

fun finderLeft :: "finder \<Rightarrow> nat" where
  "finderLeft Reading = 2"
| "finderLeft (Sending b) = (if b then 3 else 1)"
| "finderLeft Finished = 0"

definition searchLeft :: "provider_search \<Rightarrow> nat" where
  "searchLeft s = 2 * length (ps_providers s) + finderLeft (ps_finder s)
     + (if ps_searcher s = Searching then 1 else 0) + (if ps_ctx s = None then 1 else 0)"

interpretation search: draining pnext "searchInv providers" "\<lambda>s. ps_searcher s \<noteq> Searching" searchLeft
  for providers
proof
  fix s l s'
  assume "searchInv providers s" "pnext s l = Some s'"
  then show "searchInv providers s'" by (rule searchInv_step)
next
  fix s l s'
  assume "pnext s l = Some s'"
  then show "searchLeft s' < searchLeft s"
    by (cases rule: pnext_cases) (auto simp: searchLeft_def onProvider_def)
next
  fix s
  assume inv: "searchInv providers s" and "\<not> ps_searcher s \<noteq> Searching"
  then have searching: "ps_searcher s = Searching" by simp
  show "\<exists>l s'. pnext s l = Some s'"
  proof (cases "ps_ready s")
    case (Some b)
    with searching show ?thesis by (intro exI [of _ STake]) (simp add: pnext_def)
  next
    case None
    show ?thesis
    proof (cases "ps_finder s")
      case Reading
      then show ?thesis
        by (cases "ps_providers s") (auto simp: pnext_def intro: exI [of _ SRead] exI [of _ SClosed])
    next
      case (Sending b)
      with None show ?thesis by (intro exI [of _ SSend]) (simp add: pnext_def)
    next
      case Finished
      with inv None searching obtain err where "ps_ctx s = Some err" by (auto simp: searchInv_def sentNothing_def)
      with searching show ?thesis by (intro exI [of _ SAbort]) (simp add: pnext_def)
    qed
  qed
qed

lemma search_returns:
  assumes "steps pnext (startSearch providers) ls = Some s"
  shows "length ls \<le> 2 * length providers + 4 \<and> (\<exists>ms r. awaitProvider providers (ls @ ms) = Some r)"
proof -
  have inv: "searchInv providers s" using search.inv_run [OF assms] searchInv_start by blast
  obtain ms s' where ms: "steps pnext s ms = Some s'" "ps_searcher s' \<noteq> Searching" using search.can_finish [OF inv] by blast
  then have "\<exists>r. awaitProvider providers (ls @ ms) = Some r"
    using assms by (cases "ps_searcher s'") (auto simp: awaitProvider_def steps_append)
  moreover have "length ls \<le> 2 * length providers + 4"
    using search.run_bounded [OF assms searchInv_start] by (simp add: searchLeft_def startSearch_def)
  ultimately show ?thesis by blast
qed

text \<open>The context ends only by a step.\<close>

lemma ctx_by_cancel:
  "steps pnext (startSearch providers) ls = Some s \<Longrightarrow> ps_ctx s = Some err \<Longrightarrow> SCancel err \<in> set ls"
proof (induction rule: steps_induct)
  case start
  then show ?case by (simp add: startSearch_def)
next
  case (step ls s l s')
  from step.hyps(2) step.IH step.prems show ?case by (cases rule: pnext_cases) auto
qed

text \<open>
  The search decides what it is to decide: a positive answer is given only when the DHT has found a
  provider with an address, and a negative one only when it has found none, or when the context ended.
\<close>

theorem search_decides:
  assumes "awaitProvider providers sched = Some r" and "\<forall>err. SCancel err \<notin> set sched"
  shows "r = (if ipfsReady providers then Inr () else Inl couldntFind)"
proof -
  from assms(1) obtain s where s: "steps pnext (startSearch providers) sched = Some s"
    and r: "(case ps_searcher s of Searching \<Rightarrow> None | Found \<Rightarrow> Some (Inr ()) | NotFound err \<Rightarrow> Some (Inl err)) = Some r"
    by (auto simp: awaitProvider_def split: option.splits)
  have "searchInv providers s" using search.inv_run [OF s] searchInv_start by blast
  moreover have "ps_ctx s = None" using ctx_by_cancel [OF s] assms(2) by (cases "ps_ctx s") auto
  ultimately show ?thesis using r by (auto simp: searchInv_def split: searcher.splits)
qed

section \<open>A goroutine that never returns\<close>

text \<open>The goroutine is in a send to a channel that is full and that nobody reads any more.\<close>

definition leaked :: "provider_search \<Rightarrow> bool" where
  "leaked s \<longleftrightarrow> (\<exists>b. ps_finder s = Sending b) \<and> ps_ready s \<noteq> None \<and> ps_searcher s \<noteq> Searching"

interpretation leak: guarded pnext leaked
proof
  fix s l s'
  assume "leaked s" "pnext s l = Some s'"
  from this(2,1) show "leaked s'" by (cases rule: pnext_cases) (auto simp: leaked_def)
qed

lemma read_until:
  "list_all (\<lambda>p. ai_Addrs p = []) pre \<Longrightarrow> ps_finder s = Reading \<Longrightarrow> ps_providers s = pre @ rest \<Longrightarrow>
   steps pnext s (replicate (length pre) SRead) = Some (s\<lparr>ps_providers := rest\<rparr>)"
proof (induction pre arbitrary: s)
  case Nil
  then show ?case by simp
next
  case (Cons p pre)
  have "pnext s SRead = Some (s\<lparr>ps_providers := pre @ rest\<rparr>)"
    using Cons.prems by (simp add: pnext_def onProvider_def)
  with Cons.IH [of "s\<lparr>ps_providers := pre @ rest\<rparr>"] Cons.prems show ?case by simp
qed

lemma read_provider:
  assumes "list_all (\<lambda>p. ai_Addrs p = []) pre" and "ai_Addrs p \<noteq> []"
    and "ps_finder s = Reading" and "ps_providers s = pre @ p # rest"
  shows "steps pnext s (replicate (length pre) SRead @ [SRead])
    = Some (s\<lparr>ps_providers := rest, ps_finder := Sending True\<rparr>)"
  using read_until [OF assms(1,3,4)] assms(2,3) by (simp add: steps_append pnext_def onProvider_def)

lemma reads_on:
  assumes "ps_finder s = Reading"
  shows "\<exists>ls b rest. steps pnext s ls = Some (s\<lparr>ps_providers := rest, ps_finder := Sending b\<rparr>)"
proof (cases "list_all (\<lambda>p. ai_Addrs p = []) (ps_providers s)")
  case True
  have "steps pnext s (replicate (length (ps_providers s)) SRead @ [SClosed])
    = Some (s\<lparr>ps_providers := [], ps_finder := Sending False\<rparr>)"
    using read_until [OF True assms, of "[]"] assms by (simp add: steps_append pnext_def)
  then show ?thesis by blast
next
  case False
  then obtain p where "p \<in> set (ps_providers s)" "ai_Addrs p \<noteq> []" by (auto simp: list_all_iff)
  then obtain pre q rest where "ps_providers s = pre @ q # rest" "ai_Addrs q \<noteq> []"
    "\<forall>y \<in> set pre. \<not> ai_Addrs y \<noteq> []"
    using split_list_first_prop [of "ps_providers s" "\<lambda>p. ai_Addrs p \<noteq> []"] by auto
  then show ?thesis using read_provider [of pre q s rest] assms by (auto simp: list_all_iff)
qed

text \<open>
  C25: Two providers with an address are enough for the goroutine to be left behind: there is a search that
  has been answered by the first of them, and whatever happens afterwards, the end of the context
  included, the goroutine never returns.
\<close>

theorem search_leaks:
  assumes "list_all (\<lambda>p. ai_Addrs p = []) pre" and "ai_Addrs p \<noteq> []"
    and "list_all (\<lambda>p. ai_Addrs p = []) mid" and "ai_Addrs q \<noteq> []"
  shows "\<exists>ls s. steps pnext (startSearch (pre @ p # mid @ q # rest)) ls = Some s \<and> ps_searcher s = Found
    \<and> (\<forall>ms s'. steps pnext s ms = Some s' \<longrightarrow> ps_finder s' \<noteq> Finished)"
proof -
  let ?s0 = "startSearch (pre @ p # mid @ q # rest)"
  let ?s1 = "?s0\<lparr>ps_providers := mid @ q # rest, ps_searcher := Found\<rparr>"
  let ?s2 = "?s1\<lparr>ps_providers := rest, ps_ready := Some True\<rparr>"
  have "steps pnext ?s0 (replicate (length pre) SRead @ [SRead])
      = Some (?s0\<lparr>ps_providers := mid @ q # rest, ps_finder := Sending True\<rparr>)"
    by (rule read_provider [OF assms(1,2)]) (simp_all add: startSearch_def)
  then have 1: "steps pnext ?s0 ((replicate (length pre) SRead @ [SRead]) @ [SSend, STake]) = Some ?s1"
    unfolding steps_append [of _ _ "_ @ _"] by (simp add: pnext_def startSearch_def)
  have "steps pnext ?s1 (replicate (length mid) SRead @ [SRead])
      = Some (?s1\<lparr>ps_providers := rest, ps_finder := Sending True\<rparr>)"
    by (rule read_provider [OF assms(3,4)]) (simp_all add: startSearch_def)
  then have 2: "steps pnext ?s1 ((replicate (length mid) SRead @ [SRead]) @ [SSend]) = Some ?s2"
    unfolding steps_append [of _ _ "_ @ _"] by (simp add: pnext_def startSearch_def)
  obtain ls b rest' where 3: "steps pnext ?s2 ls = Some (?s2\<lparr>ps_providers := rest', ps_finder := Sending b\<rparr>)"
    using reads_on [of ?s2] by (auto simp: startSearch_def)
  let ?s3 = "?s2\<lparr>ps_providers := rest', ps_finder := Sending b\<rparr>"
  let ?ls = "((replicate (length pre) SRead @ [SRead]) @ [SSend, STake])
    @ ((replicate (length mid) SRead @ [SRead]) @ [SSend]) @ ls"
  have run: "steps pnext ?s0 ?ls = Some ?s3"
    by (simp only: steps_append [of _ _ _ "_ @ ls"] steps_append [of _ _ _ ls] 1 2 3 option.case)
  have "leaked ?s3" by (simp add: leaked_def)
  then have "ps_finder s' \<noteq> Finished" if "steps pnext ?s3 ms = Some s'" for ms s'
    using leak.inv_run [OF that] by (auto simp: leaked_def)
  with run show ?thesis by (intro exI [of _ ?ls] exI [of _ ?s3]) auto
qed

section \<open>The walk\<close>

record dag_node =
  dn_Links :: "cid list"
  dn_Size :: "go_error + u64"

text \<open>
  The choices of the environment: the providers and the course of the search, the nodes of the DAG
  service, which CIDs are raw blocks, and the walk, of which \<open>ie_Walk\<close> gives the blocks for which the callback is
  called, in the order in which the calls take the mutex, and the error it ends with when none of them fails.
\<close>

record ipfs_env =
  ie_Providers :: "cid \<Rightarrow> addr_info list"
  ie_Search :: "search_label list"
  ie_Get :: "cid \<Rightarrow> go_error + dag_node"
  ie_IsRaw :: "cid \<Rightarrow> bool"
  ie_Walk :: "cid \<Rightarrow> cid list \<times> go_error option"
  ie_Duration :: "64 word"

text \<open>What the callback counts, and the totals that it shows.\<close>

record leaf_count =
  lc_bytesRetrieved :: u64
  lc_progress :: "u64 list"

definition nodeBytes :: "dag_node \<Rightarrow> u64" where
  "nodeBytes node = (case dn_Size node of Inl err \<Rightarrow> 0 | Inr nodeSize \<Rightarrow> nodeSize)"

definition visitNode :: "ipfs_env \<Rightarrow> cid \<Rightarrow> leaf_count \<Rightarrow> (go_error + cid list) \<times> leaf_count" where
  "visitNode I c st =
     (case ie_Get I c of
        Inl err \<Rightarrow> (Inl err, st)
      | Inr node \<Rightarrow>
          let st' = (if dn_Links node = [] then
                (let bytesRetrieved = lc_bytesRetrieved st + nodeBytes node in
                 \<lparr>lc_bytesRetrieved = bytesRetrieved, lc_progress = lc_progress st @ [bytesRetrieved]\<rparr>)
              else st)
          in (if ie_IsRaw I c then Inr [] else Inr (dn_Links node), st'))"

fun visitNodes :: "ipfs_env \<Rightarrow> cid list \<Rightarrow> leaf_count \<Rightarrow> go_error option \<times> leaf_count" where
  "visitNodes I [] st = (None, st)"
| "visitNodes I (c # cs) st =
     (case visitNode I c st of
        (Inl err, st1) \<Rightarrow> (Some err, st1)
      | (Inr links, st1) \<Rightarrow> visitNodes I cs st1)"

record IPFSRetrievalStats =
  is_ByteSize :: u64
  is_Duration :: "64 word"

definition walkDag :: "ipfs_env \<Rightarrow> cid \<Rightarrow> (go_error + IPFSRetrievalStats) \<times> u64 list" where
  "walkDag I c =
     (case ie_Walk I c of
        (visited, walkErr) \<Rightarrow>
          (case visitNodes I visited \<lparr>lc_bytesRetrieved = 0, lc_progress = []\<rparr> of
             (Some err, st) \<Rightarrow> (Inl err, lc_progress st)
           | (None, st) \<Rightarrow>
               (case walkErr of
                  Some err \<Rightarrow> (Inl err, lc_progress st)
                | None \<Rightarrow> (Inr \<lparr>is_ByteSize = lc_bytesRetrieved st, is_Duration = ie_Duration I\<rparr>, lc_progress st))))"

text \<open>The whole attempt with the totals it shows; \<open>None\<close> when the search has not decided.\<close>

definition ipfsRetrieve :: "ipfs_env \<Rightarrow> cid \<Rightarrow> ((go_error + IPFSRetrievalStats) \<times> u64 list) option" where
  "ipfsRetrieve I c =
     (case awaitProvider (ie_Providers I c) (ie_Search I) of
        None \<Rightarrow> None
      | Some (Inl err) \<Rightarrow> Some (Inl err, [])
      | Some (Inr _) \<Rightarrow> Some (walkDag I c))"

text \<open>Only leaves count: the size of a block is that of its node, if it can be had.\<close>

definition leafBytes :: "ipfs_env \<Rightarrow> cid \<Rightarrow> u64" where
  "leafBytes I c = (case ie_Get I c of Inl err \<Rightarrow> 0 | Inr node \<Rightarrow> if dn_Links node = [] then nodeBytes node else 0)"

lemma visitNodes_counts:
  "visitNodes I cs st = (None, st') \<Longrightarrow>
     lc_bytesRetrieved st' = lc_bytesRetrieved st + sum_list (map (leafBytes I) cs)
     \<and> (\<exists>u. lc_progress st' = lc_progress st @ u \<and> (if u = [] then lc_bytesRetrieved st' = lc_bytesRetrieved st
          else last u = lc_bytesRetrieved st'))
     \<and> (\<forall>c \<in> set cs. isOk (ie_Get I c))"
proof (induction cs arbitrary: st)
  case Nil
  then show ?case by simp
next
  case (Cons c cs)
  then obtain links st1 where v: "visitNode I c st = (Inr links, st1)" and rest: "visitNodes I cs st1 = (None, st')"
    by (auto split: prod.splits sum.splits)
  from v have 1: "lc_bytesRetrieved st1 = lc_bytesRetrieved st + leafBytes I c" "isOk (ie_Get I c)"
    "lc_progress st1 = lc_progress st @ (if lc_progress st1 = lc_progress st then [] else [lc_bytesRetrieved st1])"
    "lc_progress st1 = lc_progress st \<Longrightarrow> lc_bytesRetrieved st1 = lc_bytesRetrieved st"
    by (auto simp: visitNode_def leafBytes_def Let_def split: sum.splits if_splits)
  from Cons.IH [OF rest] obtain u where
    u: "lc_progress st' = lc_progress st1 @ u" "if u = [] then lc_bytesRetrieved st' = lc_bytesRetrieved st1 else last u = lc_bytesRetrieved st'"
    and b: "lc_bytesRetrieved st' = lc_bytesRetrieved st1 + sum_list (map (leafBytes I) cs)" "\<forall>c \<in> set cs. isOk (ie_Get I c)"
    by blast
  let ?v = "if lc_progress st1 = lc_progress st then [] else [lc_bytesRetrieved st1]"
  have "lc_progress st' = lc_progress st @ (?v @ u)" using u(1) 1(3) by (metis append_assoc)
  moreover have "if ?v @ u = [] then lc_bytesRetrieved st' = lc_bytesRetrieved st else last (?v @ u) = lc_bytesRetrieved st'"
    using u(2) 1(4) by (auto split: if_splits)
  ultimately show ?case using 1(1,2) b by auto
qed

lemma ipfsRetrieve_success:
  assumes "ipfsRetrieve I c = Some (Inr stats, progress)"
  shows "ipfsReady (ie_Providers I c)
    \<and> (\<forall>b \<in> set (fst (ie_Walk I c)). isOk (ie_Get I b))
    \<and> (\<forall>order. mset order = mset (fst (ie_Walk I c)) \<longrightarrow> is_ByteSize stats = sum_list (map (leafBytes I) order))
    \<and> (progress \<noteq> [] \<longrightarrow> last progress = is_ByteSize stats)"
proof -
  obtain visited walkErr where w: "ie_Walk I c = (visited, walkErr)" by fastforce
  from assms obtain u where await: "awaitProvider (ie_Providers I c) (ie_Search I) = Some (Inr u)"
    and walk: "walkDag I c = (Inr stats, progress)"
    by (auto simp: ipfsRetrieve_def split: option.splits sum.splits)
  from walk obtain st where v: "visitNodes I visited \<lparr>lc_bytesRetrieved = 0, lc_progress = []\<rparr> = (None, st)"
    and st: "is_ByteSize stats = lc_bytesRetrieved st" "progress = lc_progress st"
    by (auto simp: walkDag_def w split: prod.splits option.splits)
  from visitNodes_counts [OF v] have n: "is_ByteSize stats = sum_list (map (leafBytes I) visited)"
    "progress \<noteq> [] \<longrightarrow> last progress = is_ByteSize stats" "\<forall>b \<in> set visited. isOk (ie_Get I b)"
    by (auto simp: st)
  have "is_ByteSize stats = sum_list (map (leafBytes I) order)" if "mset order = mset visited" for order
  proof -
    have "mset (map (leafBytes I) order) = mset (map (leafBytes I) visited)" using that by simp
    then show ?thesis using n(1) by (metis sum_mset_sum_list)
  qed
  moreover have "ipfsReady (ie_Providers I c)"
  proof -
    from await obtain s where s: "steps pnext (startSearch (ie_Providers I c)) (ie_Search I) = Some s" "ps_searcher s = Found"
      by (auto simp: awaitProvider_def split: option.splits searcher.splits)
    show ?thesis using search.inv_run [OF s(1) searchInv_start] s(2) by (simp add: searchInv_def)
  qed
  ultimately show ?thesis using n(2,3) unfolding w fst_conv by blast
qed

text \<open>
  C30: What an IPFS retrieval reports: success means that the DHT had found a provider with an address and
  that every visited block was fetched; the size is the sum over the leaves, whatever the order of the
  concurrent visits, and the last progress that was shown is that size.
\<close>

theorem ipfs_retrieval_size:
  assumes "ipfsRetrieve I c = Some (Inr stats, progress)"
  shows "ipfsReady (ie_Providers I c)
    \<and> (\<forall>b \<in> set (fst (ie_Walk I c)). isOk (ie_Get I b))
    \<and> (\<forall>order. mset order = mset (fst (ie_Walk I c)) \<longrightarrow> is_ByteSize stats = sum_list (map (leafBytes I) order))
    \<and> (progress \<noteq> [] \<longrightarrow> last progress = is_ByteSize stats)"
  by (rule ipfsRetrieve_success [OF assms])

section \<open>A sample\<close>

definition sampleProviders :: "addr_info list" where
  "sampleProviders = [\<lparr>ai_ID = ''12D3none'', ai_Addrs = []\<rparr>, \<lparr>ai_ID = ''12D3one'', ai_Addrs = [''/ip4/1.2.3.4/tcp/4001'']\<rparr>,
     \<lparr>ai_ID = ''12D3two'', ai_Addrs = [''/ip4/5.6.7.8/tcp/4001'']\<rparr>]"

definition sampleSearch :: "search_label list" where
  "sampleSearch = [SRead, SRead, SSend, STake]"

definition sampleIpfs :: ipfs_env where
  "sampleIpfs = \<lparr>ie_Providers = (\<lambda>_. sampleProviders), ie_Search = sampleSearch,
     ie_Get = (\<lambda>c. if c = ''bafyroot'' then Inr \<lparr>dn_Links = [''bafyleaf1'', ''bafyleaf2''], dn_Size = Inr 90\<rparr>
        else Inr \<lparr>dn_Links = [], dn_Size = Inr 40\<rparr>),
     ie_IsRaw = (\<lambda>c. c \<noteq> ''bafyroot''), ie_Walk = (\<lambda>_. ([''bafyroot'', ''bafyleaf2'', ''bafyleaf1''], None)),
     ie_Duration = 5\<rparr>"

theorem search_decides_witness:
  "awaitProvider sampleProviders sampleSearch = Some (Inr ()) \<and> ipfsReady sampleProviders"
proof -
  have a: "awaitProvider sampleProviders sampleSearch = Some (Inr ())" by code_simp
  have "SCancel err \<notin> set sampleSearch" for err by (simp add: sampleSearch_def)
  from search_decides [OF a allI [OF this]] a show ?thesis by (simp split: if_splits)
qed

theorem search_leaks_witness:
  "\<exists>ls s. steps pnext (startSearch sampleProviders) ls = Some s \<and> ps_searcher s = Found"
proof -
  have "list_all (\<lambda>p. ai_Addrs p = []) [hd sampleProviders]" "ai_Addrs (sampleProviders ! 1) \<noteq> []"
    "list_all (\<lambda>p. ai_Addrs p = []) ([] :: addr_info list)" "ai_Addrs (sampleProviders ! 2) \<noteq> []"
    by (simp_all add: sampleProviders_def)
  from search_leaks [OF this, of "[]"] show ?thesis by (auto simp: sampleProviders_def)
qed

theorem ipfs_retrieval_size_witness:
  "ipfsRetrieve sampleIpfs ''bafyroot'' = Some (Inr \<lparr>is_ByteSize = 80, is_Duration = 5\<rparr>, [40, 80])
   \<and> sum_list (map (leafBytes sampleIpfs) [''bafyleaf1'', ''bafyroot'', ''bafyleaf2'']) = 80"
proof -
  have r: "ipfsRetrieve sampleIpfs ''bafyroot'' = Some (Inr \<lparr>is_ByteSize = 80, is_Duration = 5\<rparr>, [40, 80])" by code_simp
  have "mset [''bafyleaf1'', ''bafyroot'', ''bafyleaf2''] = mset (fst (ie_Walk sampleIpfs ''bafyroot''))"
    by (simp add: sampleIpfs_def)
  with ipfs_retrieval_size [OF r] have "is_ByteSize \<lparr>is_ByteSize = 80, is_Duration = 5\<rparr>
      = sum_list (map (leafBytes sampleIpfs) [''bafyleaf1'', ''bafyroot'', ''bafyleaf2''])" by blast
  with r show ?thesis by simp
qed

end
