(* ===== verification/FilcParse.thy ===== *)
theory FilcParse
  imports GoErrors
begin

text \<open>
  The arguments of the command line (\<open>filc/parsing.go\<close>).  The flag package gives each flag as a string, a
  list of strings or a truth value; a flag that the command does not declare has its zero value.
  Addresses and UUIDs are parsed by their packages.
\<close>

section \<open>Flags\<close>

record cli_context =
  cli_declared :: "string list"
  cli_strings :: "string \<Rightarrow> string"
  cli_slices :: "string \<Rightarrow> string list"
  cli_bools :: "string \<Rightarrow> bool"
  cli_args :: "string list"

definition cctx_String :: "cli_context \<Rightarrow> string \<Rightarrow> string" where
  "cctx_String c name = (if name \<in> set (cli_declared c) then cli_strings c name else [])"

definition cctx_StringSlice :: "cli_context \<Rightarrow> string \<Rightarrow> string list" where
  "cctx_StringSlice c name = (if name \<in> set (cli_declared c) then cli_slices c name else [])"

definition cctx_Bool :: "cli_context \<Rightarrow> string \<Rightarrow> bool" where
  "cctx_Bool c name \<longleftrightarrow> name \<in> set (cli_declared c) \<and> cli_bools c name"

definition args_First :: "cli_context \<Rightarrow> string" where
  "args_First c = (case cli_args c of [] \<Rightarrow> [] | a # _ \<Rightarrow> a)"

record parse_library =
  pa_NewFromString :: "string \<Rightarrow> go_error + address"
  pa_UUIDParse :: "string \<Rightarrow> go_error + string"
  pa_UUIDNil :: string
  pa_utf8Valid :: "string \<Rightarrow> bool"

section \<open>Parsing\<close>

definition parseMiner :: "parse_library \<Rightarrow> cli_context \<Rightarrow> go_error + address" where
  "parseMiner P c =
     (let minerStringRaw = cctx_String c ''miner'' in
      case pa_NewFromString P minerStringRaw of
        Inl err \<Rightarrow> Inl (wrapf (''failed to parse miner: '' @ minerStringRaw @ '': '') err)
      | Inr miner \<Rightarrow> Inr miner)"

definition parseOneMiner :: "parse_library \<Rightarrow> string \<Rightarrow> go_error + address" where
  "parseOneMiner P ms =
     (case pa_NewFromString P ms of
        Inl err \<Rightarrow> Inl (wrapf (''failed to parse miner '' @ ms @ '': '') err)
      | Inr miner \<Rightarrow> Inr miner)"

definition parseMiners :: "parse_library \<Rightarrow> cli_context \<Rightarrow> go_error + address list" where
  "parseMiners P c =
     (let minerStringsRaw = cctx_StringSlice c ''miners'';
          minerStrings = concat (map (strings_Split (CHR '','')) minerStringsRaw)
      in mapM (parseOneMiner P) minerStrings)"

definition parseVerified :: "cli_context \<Rightarrow> bool" where
  "parseVerified c = cctx_Bool c ''verified''"

definition parseRemoveUnsealed :: "cli_context \<Rightarrow> bool" where
  "parseRemoveUnsealed c = cctx_Bool c ''remove-unsealed''"

text \<open>\<open>fs.ValidPath\<close>: slash-separated elements, none of them empty, a dot or two dots.\<close>

definition fs_ValidPath :: "parse_library \<Rightarrow> string \<Rightarrow> bool" where
  "fs_ValidPath P name \<longleftrightarrow> pa_utf8Valid P name \<and>
     (name = ''.'' \<or> list_all (\<lambda>e. e \<noteq> [] \<and> e \<noteq> ''.'' \<and> e \<noteq> ''..'') (strings_Split (CHR ''/'') name))"

definition parseOutput :: "parse_library \<Rightarrow> cli_context \<Rightarrow> go_error + string" where
  "parseOutput P c =
     (let path = cctx_String c ''output'' in
      if path \<noteq> [] \<and> \<not> fs_ValidPath P path
      then Inl (Errorf (''invalid output location '' @ [CHR 0x27] @ path @ [CHR 0x27]))
      else Inr path)"

definition parseDealUUID :: "parse_library \<Rightarrow> cli_context \<Rightarrow> go_error + string" where
  "parseDealUUID P c =
     (let dealUUIDStr = cctx_String c ''deal-uuid'' in
      if dealUUIDStr = [] then Inr (pa_UUIDNil P)
      else (case pa_UUIDParse P dealUUIDStr of
              Inl err \<Rightarrow> Inl (Errorf (''failed to parse deal UUID '' @ [CHR 0x27] @ dealUUIDStr @ [CHR 0x27]))
            | Inr u \<Rightarrow> Inr u))"

section \<open>Properties\<close>

lemma Split_Join:
  "ms \<noteq> [] \<Longrightarrow> \<forall>m \<in> set ms. sep \<notin> set m \<Longrightarrow> strings_Split sep (strings_Join sep ms) = ms"
  by (induction sep ms rule: strings_Join.induct) (auto simp: strings_Split_no_sep strings_Split_append)

lemma Split_each:
  "\<forall>m \<in> set ms. sep \<notin> set m \<Longrightarrow> concat (map (strings_Split sep) ms) = ms"
  by (induction ms) (auto simp: strings_Split_no_sep)

lemma Split_trailing: "\<exists>ps. ps \<noteq> [] \<and> strings_Split sep (p @ [sep]) = ps @ [[]]"
proof (induction p)
  case Nil
  show ?case by (simp add: exI [of _ "[[]]"])
next
  case (Cons c p)
  then obtain q qs where "strings_Split sep (p @ [sep]) = (q # qs) @ [[]]" by (metis neq_Nil_conv)
  then show ?case
    by (cases "c = sep") (auto intro: exI [of _ "[] # q # qs"] exI [of _ "(c # q) # qs"])
qed

text \<open>The flag with another value.\<close>

definition withMiners :: "string list \<Rightarrow> cli_context \<Rightarrow> cli_context" where
  "withMiners ms c = c\<lparr>cli_slices := (cli_slices c)(''miners'' := ms)\<rparr>"

lemma StringSlice_withMiners:
  "''miners'' \<in> set (cli_declared c) \<Longrightarrow> cctx_StringSlice (withMiners ms c) ''miners'' = ms"
  by (simp add: cctx_StringSlice_def withMiners_def)

text \<open>
  The miners may be given in one flag, separated by commas, or in a flag each, and in any mixture
  of both: the result is the same.
\<close>

theorem miners_flag_forms:
  assumes "''miners'' \<in> set (cli_declared c)" and "\<forall>g \<in> set groups. g \<noteq> [] \<and> (\<forall>m \<in> set g. CHR '','' \<notin> set m)"
  shows "parseMiners P (withMiners (map (strings_Join (CHR '','')) groups) c) =
    parseMiners P (withMiners (concat groups) c)"
proof -
  have "concat (map (strings_Split (CHR '','')) (map (strings_Join (CHR '','')) groups)) = concat groups"
    using assms(2) by (induction groups) (auto simp: Split_Join)
  moreover have "concat (map (strings_Split (CHR '','')) (concat groups)) = concat groups"
    using assms(2) by (intro Split_each) auto
  ultimately show ?thesis by (simp add: parseMiners_def StringSlice_withMiners [OF assms(1)])
qed

text \<open>
  An output location that is accepted stays below the working directory: it is no absolute path and
  none of its elements leads upwards.
\<close>

theorem output_stays_below:
  assumes "parseOutput P c = Inr path" and "path \<noteq> []"
  shows "hd path \<noteq> CHR ''/'' \<and> last path \<noteq> CHR ''/'' \<and> ''..'' \<notin> set (strings_Split (CHR ''/'') path)"
proof -
  have v: "fs_ValidPath P path" using assms by (auto simp: parseOutput_def Let_def split: if_splits)
  show ?thesis
  proof (cases "path = ''.''")
    case True
    then show ?thesis by simp
  next
    case False
    let ?es = "strings_Split (CHR ''/'') path"
    have es: "\<forall>e \<in> set ?es. e \<noteq> [] \<and> e \<noteq> ''..''" using v False by (auto simp: fs_ValidPath_def list_all_iff)
    have "hd path \<noteq> CHR ''/''"
      using es assms(2) by (cases path) (auto split: if_splits list.splits)
    moreover have "last path \<noteq> CHR ''/''"
    proof
      assume "last path = CHR ''/''"
      then obtain p where p: "path = p @ [CHR ''/'']" using assms(2) by (metis append_butlast_last_id)
      have "[] \<in> set (strings_Split (CHR ''/'') (p @ [CHR ''/'']))"
        using Split_trailing [of "CHR ''/''" p] by auto
      with es p show False by blast
    qed
    ultimately show ?thesis using es by blast
  qed
qed

definition sampleParse :: parse_library where
  "sampleParse = \<lparr>pa_NewFromString = (\<lambda>s. Inr s), pa_UUIDParse = (\<lambda>s. Inr s), pa_UUIDNil = ''nil'',
     pa_utf8Valid = (\<lambda>_. True)\<rparr>"

definition sampleCli :: cli_context where
  "sampleCli = \<lparr>cli_declared = [''miners'', ''output''], cli_strings = (\<lambda>_. ''out/file''), cli_slices = (\<lambda>_. []),
     cli_bools = (\<lambda>_. True), cli_args = []\<rparr>"

theorem miners_flag_forms_witness:
  "parseMiners sampleParse (withMiners [''f01,f02'', ''f03''] sampleCli) = Inr [''f01'', ''f02'', ''f03'']"
proof -
  have d: "''miners'' \<in> set (cli_declared sampleCli)" by (simp add: sampleCli_def)
  have "\<forall>g \<in> set [[''f01'', ''f02''], [''f03'']]. g \<noteq> [] \<and> (\<forall>m \<in> set g. CHR '','' \<notin> set m)" by simp
  from miners_flag_forms [OF d this, of sampleParse] show ?thesis
    by (simp add: parseMiners_def StringSlice_withMiners [OF d] parseOneMiner_def sampleParse_def)
qed

theorem output_stays_below_witness:
  "hd ''out/file'' \<noteq> CHR ''/'' \<and> ''..'' \<notin> set (strings_Split (CHR ''/'') ''out/file'')"
proof -
  have "parseOutput sampleParse sampleCli = Inr ''out/file''"
    by (simp add: parseOutput_def cctx_String_def fs_ValidPath_def sampleParse_def sampleCli_def)
  from output_stays_below [OF this] show ?thesis by simp
qed

end
