(* ===== verification/FilcFlags.thy ===== *)
theory FilcFlags
  imports FilcParse
begin

text \<open>
  The flags of the command line (\<open>filc/flags.go\<close>, the \<open>Flags\<close> of the commands in \<open>filc/cmds.go\<close> and of the
  application in \<open>filc/main.go\<close>) as the data they are, and the names under which an action can read them.
\<close>

section \<open>Declarations\<close>

text \<open>The fields the program sets of \<open>cli.StringFlag\<close>, \<open>cli.StringSliceFlag\<close> and \<open>cli.BoolFlag\<close>.\<close>

record flag_decl =
  fd_Name :: string
  fd_Aliases :: "string list"
  fd_Usage :: string
  fd_Required :: bool
  fd_DefaultText :: string
  fd_Value :: string

datatype cli_flag = StringFlag flag_decl | StringSliceFlag flag_decl | BoolFlag flag_decl

fun flagDecl :: "cli_flag \<Rightarrow> flag_decl" where
  "flagDecl (StringFlag f) = f"
| "flagDecl (StringSliceFlag f) = f"
| "flagDecl (BoolFlag f) = f"

text \<open>A flag of which only the name is set; the other fields have their zero values.\<close>

definition flagNamed :: "string \<Rightarrow> flag_decl" where
  "flagNamed name = \<lparr>fd_Name = name, fd_Aliases = [], fd_Usage = [], fd_Required = False,
     fd_DefaultText = [], fd_Value = []\<rparr>"

definition flagMiner :: flag_decl where
  "flagMiner = (flagNamed ''miner'')\<lparr>fd_Aliases := [''m'']\<rparr>"

definition flagMinerRequired :: flag_decl where
  "flagMinerRequired = (flagNamed (fd_Name flagMiner))\<lparr>fd_Aliases := fd_Aliases flagMiner, fd_Required := True\<rparr>"

definition flagMiners :: flag_decl where
  "flagMiners = (flagNamed ''miners'')\<lparr>fd_Aliases := [''miner'', ''m'']\<rparr>"

definition flagMinersRequired :: flag_decl where
  "flagMinersRequired = (flagNamed (fd_Name flagMiners))\<lparr>fd_Aliases := fd_Aliases flagMiners, fd_Required := True\<rparr>"

definition flagVerified :: flag_decl where
  "flagVerified = flagNamed ''verified''"

definition removeUnsealed :: flag_decl where
  "removeUnsealed = flagNamed ''remove-unsealed''"

definition flagOutput :: flag_decl where
  "flagOutput = (flagNamed ''output'')\<lparr>fd_Aliases := [''o'']\<rparr>"

definition NetworkFIL :: string where "NetworkFIL = ''fil''"
definition NetworkIPFS :: string where "NetworkIPFS = ''ipfs''"
definition NetworkAuto :: string where "NetworkAuto = ''auto''"

lemmas network_names = NetworkFIL_def NetworkIPFS_def NetworkAuto_def

definition flagNetwork :: flag_decl where
  "flagNetwork = (flagNamed ''network'')\<lparr>fd_Aliases := [''n''],
     fd_Usage := ''which network to retrieve from [fil|ipfs|auto]'',
     fd_DefaultText := NetworkAuto, fd_Value := NetworkAuto\<rparr>"

definition flagCar :: flag_decl where
  "flagCar = flagNamed ''car''"

definition flagDealUUID :: flag_decl where
  "flagDealUUID = flagNamed ''deal-uuid''"

definition flagDmPathSel :: flag_decl where
  "flagDmPathSel = (flagNamed ''datamodel-path-selector'')\<lparr>
     fd_Usage := ''a rudimentary (DM-level-only) text-path selector, allowing for sub-selection within a deal''\<rparr>"

section \<open>The flags of the commands\<close>

definition flagAnnounce :: flag_decl where
  "flagAnnounce = (flagNamed ''announce'')\<lparr>
     fd_Usage := ''the public multi-address from which to download the data (for deals with protocol v120)''\<rparr>"

definition dealFlags :: "cli_flag list" where
  "dealFlags = [StringFlag flagMinerRequired, BoolFlag flagVerified, StringFlag flagAnnounce]"

definition dealStatusFlags :: "cli_flag list" where
  "dealStatusFlags = [StringFlag flagMinerRequired, StringFlag flagDealUUID]"

definition retrieveFlags :: "cli_flag list" where
  "retrieveFlags = [StringSliceFlag flagMiners, StringFlag flagOutput, StringFlag flagNetwork,
     StringFlag flagDmPathSel, BoolFlag flagCar]"

definition queryRetrievalFlags :: "cli_flag list" where
  "queryRetrievalFlags = [StringFlag flagMiner]"

definition appFlags :: "cli_flag list" where
  "appFlags = [StringFlag ((flagNamed ''repo'')\<lparr>fd_Value := ''~/.lotus''\<rparr>)]"

section \<open>Names\<close>

text \<open>A flag is known by its name and its aliases; a command knows its own flags and those of the application.\<close>

definition flagNames :: "cli_flag \<Rightarrow> string list" where
  "flagNames f = fd_Name (flagDecl f) # fd_Aliases (flagDecl f)"

definition declared :: "cli_flag list \<Rightarrow> string list" where
  "declared flags = concat (map flagNames (flags @ appFlags))"

lemmas flag_defs =
  flagNamed_def flagMiner_def flagMinerRequired_def flagMiners_def flagMinersRequired_def flagVerified_def
  removeUnsealed_def flagOutput_def NetworkFIL_def NetworkIPFS_def NetworkAuto_def flagNetwork_def flagCar_def
  flagDealUUID_def flagDmPathSel_def flagAnnounce_def

lemmas command_flag_defs =
  dealFlags_def dealStatusFlags_def retrieveFlags_def queryRetrievalFlags_def appFlags_def

lemma declared_names:
  "declared dealFlags = [''miner'', ''m'', ''verified'', ''announce'', ''repo'']"
  "declared dealStatusFlags = [''miner'', ''m'', ''deal-uuid'', ''repo'']"
  "declared retrieveFlags = [''miners'', ''miner'', ''m'', ''output'', ''o'', ''network'', ''n'',
     ''datamodel-path-selector'', ''car'', ''repo'']"
  "declared queryRetrievalFlags = [''miner'', ''m'', ''repo'']"
  by (simp_all add: declared_def flagNames_def command_flag_defs flag_defs)

end
