(* ===== verification/FilcRetrieval.thy ===== *)
theory FilcRetrieval
  imports FilcQueries FilcIpfs FilcFlags
begin

text \<open>
  Retrieving from the command line: the public calls around the retrieval of \<open>filclient.go\<close>,
  \<open>RetrievalProposalForAsk\<close> of \<open>retrievehelper/params.go\<close>, and the attempts of \<open>filc/retrieval.go\<close> with the
  choice of the networks in \<open>filc/cmds.go\<close>.  A whole retrieval is one run of the transition system of
  theory \<open>RetrievalRun\<close>; which run it is, is given by its list of labels, and \<open>None\<close> means that these
  labels are not a complete run.  The queries of the candidates and the IPFS attempt are theories
  \<open>FilcQueries\<close> and \<open>FilcIpfs\<close>.
\<close>

section \<open>The public calls\<close>

type_synonym 'a outcome = "((go_error + 'a) \<times> world) option"

definition retrieveContent ::
  "(u64 \<Rightarrow> 64 word \<Rightarrow> u64) \<Rightarrow> library \<Rightarrow> FilClient \<Rightarrow> peer \<Rightarrow> address \<Rightarrow> retrieval_proposal \<Rightarrow> label list
     \<Rightarrow> world \<Rightarrow> RetrievalStats outcome" where
  "retrieveContent avgSpeed L fc peerID minerWallet proposal sched w =
     (case run_state (retrievalSetup L fc peerID minerWallet proposal) w of
        (Inl err, w1) \<Rightarrow> Some (Inl err, w1)
      | (Inr P, w1) \<Rightarrow>
          (case rrun avgSpeed fc P (startRetrieval (w_trace w1)) sched of
             Some (Returned r, s) \<Rightarrow> Some (r, \<lparr>w_trace = w_trace s\<rparr>)
           | _ \<Rightarrow> None))"

definition RetrieveContentFromPeerWithProgressCallback where
  "RetrieveContentFromPeerWithProgressCallback = retrieveContent"

definition RetrieveContentWithProgressCallback ::
  "(u64 \<Rightarrow> 64 word \<Rightarrow> u64) \<Rightarrow> library \<Rightarrow> FilClient \<Rightarrow> address \<Rightarrow> retrieval_proposal \<Rightarrow> label list
     \<Rightarrow> world \<Rightarrow> RetrievalStats outcome" where
  "RetrieveContentWithProgressCallback avgSpeed L fc miner proposal sched w =
     (case run_state (MinerPeer L fc miner) w of
        (Inl err, w1) \<Rightarrow> Some (Inl err, w1)
      | (Inr minerPeer, w1) \<Rightarrow>
          (case run_state (minerOwner fc miner) w1 of
             (Inl err, w2) \<Rightarrow> Some (Inl err, w2)
           | (Inr owner, w2) \<Rightarrow>
               RetrieveContentFromPeerWithProgressCallback avgSpeed L fc (ai_ID minerPeer) owner proposal sched w2))"

text \<open>Without a callback the progress calls go nowhere; the model records them either way.\<close>

definition RetrieveContent where
  "RetrieveContent = RetrieveContentWithProgressCallback"

section \<open>Proposals for an ask\<close>

text \<open>
  A selector is an IPLD node, or the null node.  The default selector and the encoding of the
  parameters, which may fail, belong to the market library.
\<close>

datatype ipld_node = NullNode | SelectorNode string

record ask_library =
  al_ExploreAll :: ipld_node
  al_NewParamsV1 :: "int \<Rightarrow> u64 \<Rightarrow> u64 \<Rightarrow> ipld_node \<Rightarrow> int \<Rightarrow> go_error + string"
  al_NextDealID :: "trace \<Rightarrow> u64"

definition RetrievalProposalForAsk ::
  "ask_library \<Rightarrow> trace \<Rightarrow> query_response \<Rightarrow> cid \<Rightarrow> ipld_node option \<Rightarrow> go_error + retrieval_proposal" where
  "RetrievalProposalForAsk A t ask c optionalSelector =
     (let sel = (case optionalSelector of None \<Rightarrow> al_ExploreAll A | Some s \<Rightarrow> s) in
      case al_NewParamsV1 A (qr_MinPricePerByte ask) (qr_MaxPaymentInterval ask)
             (qr_MaxPaymentIntervalIncrease ask) sel (qr_UnsealPrice ask) of
        Inl err \<Rightarrow> Inl err
      | Inr encoded \<Rightarrow>
          Inr \<lparr>rp_PayloadCID = c, rp_ID = al_NextDealID A t, rp_PricePerByte = qr_MinPricePerByte ask,
               rp_UnsealPrice = qr_UnsealPrice ask, rp_PaymentInterval = qr_MaxPaymentInterval ask,
               rp_PaymentIntervalIncrease = qr_MaxPaymentIntervalIncrease ask, rp_Selector = encoded\<rparr>)"

section \<open>Candidates\<close>

definition totalCost :: "query_response \<Rightarrow> int" where
  "totalCost qres = qr_MinPricePerByte qres * uint (qr_Size qres) + qr_UnsealPrice qres"

text \<open>
  The function given to \<open>sort.Slice\<close>; both responses are read at index \<open>i\<close>.
\<close>

definition lessQuery :: "CandidateQuery list \<Rightarrow> nat \<Rightarrow> nat \<Rightarrow> bool" where
  "lessQuery queries i j =
     (let a = cq_Response (queries ! i);
          b = cq_Response (queries ! i)
      in if qr_UnsealPrice a = 0 \<and> \<not> qr_UnsealPrice b = 0 then True
         else if totalCost a \<noteq> totalCost b then totalCost a < totalCost b
         else if qr_Size a \<noteq> qr_Size b then qr_Size a < qr_Size b
         else False)"

text \<open>
  \<open>sort.Slice\<close> of the standard library.  Up to twelve elements it compares at distance six first and
  then does an insertion sort, exchanging neighbours; for longer slices the order it produces is that
  of \<open>quick\<close>, of which only what the documentation says is known.  The comparison reads the slice as
  it is at the time.
\<close>

definition exchange :: "nat \<Rightarrow> nat \<Rightarrow> 'a list \<Rightarrow> 'a list" where
  "exchange i j xs = xs[i := xs ! j, j := xs ! i]"

fun sinkDown :: "('a list \<Rightarrow> nat \<Rightarrow> nat \<Rightarrow> bool) \<Rightarrow> nat \<Rightarrow> 'a list \<Rightarrow> 'a list" where
  "sinkDown lessAt 0 xs = xs"
| "sinkDown lessAt (Suc j) xs =
     (if lessAt xs (Suc j) j then sinkDown lessAt j (exchange (Suc j) j xs) else xs)"

definition shellPass :: "('a list \<Rightarrow> nat \<Rightarrow> nat \<Rightarrow> bool) \<Rightarrow> 'a list \<Rightarrow> 'a list" where
  "shellPass lessAt xs =
     fold (\<lambda>i ys. if lessAt ys i (i - 6) then exchange i (i - 6) ys else ys) [6..<length xs] xs"

definition insertionPass :: "('a list \<Rightarrow> nat \<Rightarrow> nat \<Rightarrow> bool) \<Rightarrow> 'a list \<Rightarrow> 'a list" where
  "insertionPass lessAt xs = fold (\<lambda>i ys. sinkDown lessAt i ys) [1..<length xs] xs"

definition sort_Slice ::
  "('a list \<Rightarrow> 'a list) \<Rightarrow> ('a list \<Rightarrow> nat \<Rightarrow> nat \<Rightarrow> bool) \<Rightarrow> 'a list \<Rightarrow> 'a list" where
  "sort_Slice quick lessAt xs =
     (if length xs \<le> 12 then insertionPass lessAt (shellPass lessAt xs) else quick xs)"

section \<open>The FIL attempt\<close>

text \<open>What the attempt works with: the client, the libraries, and the sort of long slices.\<close>

record fil_env =
  fe_library :: library
  fe_client :: FilClient
  fe_ctx :: ctx
  fe_ask :: ask_library
  fe_avgSpeed :: "u64 \<Rightarrow> 64 word \<Rightarrow> u64"
  fe_quick :: "CandidateQuery list \<Rightarrow> CandidateQuery list"

text \<open>
  The retrievals, from first to last until one works; \<open>scheds\<close> gives the run of each retrieval in
  turn.  The result is \<open>None\<close> when no retrieval worked.
\<close>

fun tryCandidates ::
  "fil_env \<Rightarrow> ipld_node option \<Rightarrow> CandidateQuery list \<Rightarrow> label list list \<Rightarrow> world
     \<Rightarrow> (RetrievalStats option \<times> world) option" where
  "tryCandidates E selNode [] scheds w = Some (None, w)"
| "tryCandidates E selNode (query # queries) scheds w =
     (case RetrievalProposalForAsk (fe_ask E) (w_trace w) (cq_Response query)
             (cand_RootCid (cq_Candidate query)) selNode of
        Inl err \<Rightarrow> tryCandidates E selNode queries scheds w
      | Inr proposal \<Rightarrow>
          (case scheds of
             [] \<Rightarrow> None
           | sched # rest \<Rightarrow>
               (case RetrieveContentWithProgressCallback (fe_avgSpeed E) (fe_library E) (fe_client E)
                       (cand_Miner (cq_Candidate query)) proposal sched w of
                  None \<Rightarrow> None
                | Some (Inl err, w1) \<Rightarrow> tryCandidates E selNode queries rest w1
                | Some (Inr stats, w1) \<Rightarrow> Some (Some stats, w1))))"

record FILRetrievalAttempt =
  at_Candidates :: "FILRetrievalCandidate list"
  at_SelNode :: "ipld_node option"
  at_NoSort :: bool

text \<open>\<open>qsched\<close> gives the steps of the goroutines that query the candidates.\<close>

definition filRetrieve ::
  "fil_env \<Rightarrow> FILRetrievalAttempt \<Rightarrow> query_label list \<Rightarrow> label list list \<Rightarrow> world
     \<Rightarrow> RetrievalStats outcome" where
  "filRetrieve E attempt qsched scheds w =
     (if at_Candidates attempt = [] then
        Some (Inl (Errorf ''retrieval failed: no miners were provided''), w)
      else
        (case queryCandidates (fe_library E) (fe_client E) (fe_ctx E) (at_Candidates attempt) qsched w of
           None \<Rightarrow> None
         | Some (queries, w1) \<Rightarrow>
             if queries = [] then Some (Inl (Errorf ''retrieval failed: queries failed for all miners''), w1)
             else
               (let queries' = (if \<not> at_NoSort attempt then sort_Slice (fe_quick E) lessQuery queries
                                else queries) in
                case tryCandidates E (at_SelNode attempt) queries' scheds w1 of
                  None \<Rightarrow> None
                | Some (None, w2) \<Rightarrow> Some (Inl (Errorf ''retrieval failed for all miners''), w2)
                | Some (Some stats, w2) \<Rightarrow> Some (Inr stats, w2))))"

section \<open>The attempts of one command\<close>

datatype attempt = IPFSAttempt cid | FILAttempt FILRetrievalAttempt
datatype tool_stats = IPFSStats IPFSRetrievalStats | FILStats RetrievalStats

text \<open>
  The interface \<open>RetrievalStats\<close> and its two implementations; \<open>fquot\<close> is the division of the bytes by the
  seconds in floating point.
\<close>

definition FIL_GetByteSize :: "RetrievalStats \<Rightarrow> u64" where
  "FIL_GetByteSize stats = rs_Size stats"

definition FIL_GetDuration :: "RetrievalStats \<Rightarrow> 64 word" where
  "FIL_GetDuration stats = rs_Duration stats"

definition FIL_GetAverageBytesPerSecond :: "RetrievalStats \<Rightarrow> u64" where
  "FIL_GetAverageBytesPerSecond stats = rs_AverageSpeed stats"

definition IPFS_GetByteSize :: "IPFSRetrievalStats \<Rightarrow> u64" where
  "IPFS_GetByteSize stats = is_ByteSize stats"

definition IPFS_GetDuration :: "IPFSRetrievalStats \<Rightarrow> 64 word" where
  "IPFS_GetDuration stats = is_Duration stats"

definition IPFS_GetAverageBytesPerSecond :: "(u64 \<Rightarrow> 64 word \<Rightarrow> u64) \<Rightarrow> IPFSRetrievalStats \<Rightarrow> u64" where
  "IPFS_GetAverageBytesPerSecond fquot stats = fquot (is_ByteSize stats) (is_Duration stats)"

fun GetByteSize :: "tool_stats \<Rightarrow> u64" where
  "GetByteSize (FILStats st) = FIL_GetByteSize st"
| "GetByteSize (IPFSStats st) = IPFS_GetByteSize st"

fun GetDuration :: "tool_stats \<Rightarrow> 64 word" where
  "GetDuration (FILStats st) = FIL_GetDuration st"
| "GetDuration (IPFSStats st) = IPFS_GetDuration st"

fun GetAverageBytesPerSecond :: "(u64 \<Rightarrow> 64 word \<Rightarrow> u64) \<Rightarrow> tool_stats \<Rightarrow> u64" where
  "GetAverageBytesPerSecond fquot (FILStats st) = FIL_GetAverageBytesPerSecond st"
| "GetAverageBytesPerSecond fquot (IPFSStats st) = IPFS_GetAverageBytesPerSecond fquot st"

text \<open>\<open>log.Fatal\<close> ends the process; it is the value \<open>Panic\<close> here.\<close>

definition networkAttempts ::
  "string \<Rightarrow> ipld_node option \<Rightarrow> cid \<Rightarrow> FILRetrievalCandidate list \<Rightarrow> go_error + attempt list" where
  "networkAttempts network selNode c candidates =
     (let fil = (if network = NetworkFIL \<or> network = NetworkAuto
                 then [FILAttempt \<lparr>at_Candidates = candidates, at_SelNode = selNode, at_NoSort = False\<rparr>]
                 else []);
          hasSelector = (selNode \<noteq> None \<and> selNode \<noteq> Some NullNode)
      in if network = NetworkIPFS \<and> hasSelector then
           Inl (Panic ''IPFS is not compatible with selector node'')
         else
           let networks = (if (network = NetworkIPFS \<or> network = NetworkAuto) \<and> \<not> hasSelector
                           then [IPFSAttempt c] else []) @ fil
           in if networks = [] then
                Inl (Panic (''Unknown --network value '' @ [CHR 0x22] @ network @ [CHR 0x22]))
              else Inr networks)"

text \<open>Progress of an IPFS retrieval is shown like that of the others.\<close>

definition attemptRetrieve ::
  "ipfs_env \<Rightarrow> fil_env \<Rightarrow> query_label list \<Rightarrow> label list list \<Rightarrow> attempt \<Rightarrow> world
     \<Rightarrow> tool_stats outcome" where
  "attemptRetrieve I E qsched scheds a w =
     (case a of
        IPFSAttempt c \<Rightarrow> (case ipfsRetrieve I c of
            None \<Rightarrow> None
          | Some (r, progress) \<Rightarrow> Some (map_sum id IPFSStats r, \<lparr>w_trace = w_trace w @ map Progress progress\<rparr>))
      | FILAttempt f \<Rightarrow> (case filRetrieve E f qsched scheds w of
            None \<Rightarrow> None
          | Some (r, w1) \<Rightarrow> Some (map_sum id FILStats r, w1)))"

fun RetrieveFromBestCandidate ::
  "('a \<Rightarrow> world \<Rightarrow> 's outcome) \<Rightarrow> 'a list \<Rightarrow> world \<Rightarrow> 's outcome" where
  "RetrieveFromBestCandidate retrieve [] w = Some (Inl (Errorf ''all retrieval attempts failed''), w)"
| "RetrieveFromBestCandidate retrieve (attempt # attempts) w =
     (case retrieve attempt w of
        None \<Rightarrow> None
      | Some (Inr stats, w1) \<Rightarrow> Some (Inr stats, w1)
      | Some (Inl err, w1) \<Rightarrow> RetrieveFromBestCandidate retrieve attempts w1)"

text \<open>
  The candidates of the command: the miners of the flag for the requested CID, or what the retrieval
  endpoint knows.
\<close>

definition chooseCandidates ::
  "(cid \<Rightarrow> go_error + FILRetrievalCandidate list) \<Rightarrow> address list \<Rightarrow> cid \<Rightarrow> go_error + FILRetrievalCandidate list" where
  "chooseCandidates getRetrievalCandidates miners c =
     (if miners \<noteq> [] then
        Inr (map (\<lambda>m. \<lparr>cand_Miner = m, cand_RootCid = c, cand_DealID = 0\<rparr>) miners)
      else (case getRetrievalCandidates c of
              Inl err \<Rightarrow> Inl (wrapf ''failed to get retrieval candidates: '' err)
            | Inr cs \<Rightarrow> Inr cs))"

text \<open>
  \<open>GetRetrievalCandidates\<close>: the URL, the request and the JSON decoding are library calls; a status
  other than 200 is an error.
\<close>

record http_library =
  hl_JoinURL :: "string \<Rightarrow> string \<Rightarrow> go_error + string"
  hl_Get :: "string \<Rightarrow> go_error + int \<times> bytes"
  hl_Decode :: "bytes \<Rightarrow> go_error + FILRetrievalCandidate list"
  hl_ShowInt :: "int \<Rightarrow> string"

definition GetRetrievalCandidates ::
  "http_library \<Rightarrow> library \<Rightarrow> string \<Rightarrow> cid \<Rightarrow> go_error + FILRetrievalCandidate list" where
  "GetRetrievalCandidates H L endpoint c =
     (case hl_JoinURL H endpoint (lib_cidString L c) of
        Inl err \<Rightarrow> Inl (Errorf (''endpoint '' @ endpoint @ '' is not a valid url''))
      | Inr url \<Rightarrow>
          (case hl_Get H url of
             Inl err \<Rightarrow> Inl err
           | Inr (code, body) \<Rightarrow>
               if code \<noteq> 200 then
                 Inl (Errorf (''http request to endpoint '' @ url @ '' got status '' @ hl_ShowInt H code))
               else (case hl_Decode H body of
                       Inl err \<Rightarrow> Inl (Errorf (''could not unmarshal http response for cid '' @ lib_cidString L c))
                     | Inr res \<Rightarrow> Inr res)))"

end
