(* ===== verification/RetrieveAsync.thy ===== *)
theory RetrieveAsync
  imports FilcRetrieval Runs "HOL-Library.Sublist"
begin

text \<open>
  \<open>RetrieveContentFromPeerAsync\<close> of \<open>filclient.go\<close>: a goroutine runs the retrieval of theory \<open>RetrievalRun\<close> and
  talks to its caller over three channels.  \<open>resultChan\<close> and \<open>gracefulShutdownChan\<close> have one place,
  \<open>progressChan\<close> has none, so the progress callback waits for the caller or for the end of the internal context.
  The steps of the retrieval, of the callbacks and of the caller are one transition system; the properties
  say which result the caller gets, what progress it sees, and who may be left waiting.
\<close>

section \<open>The model\<close>

record RetrievalResult =
  res_Stats :: "RetrievalStats option"
  res_Err :: "go_error option"

definition toResult :: "go_error + RetrievalStats \<Rightarrow> RetrievalResult" where
  "toResult r = (case r of Inl err \<Rightarrow> \<lparr>res_Stats = None, res_Err = Some err\<rparr>
     | Inr stats \<Rightarrow> \<lparr>res_Stats = Some stats, res_Err = None\<rparr>)"

text \<open>The arguments of the call and the client.\<close>

record async_call =
  ac_avgSpeed :: "u64 \<Rightarrow> 64 word \<Rightarrow> u64"
  ac_library :: library
  ac_client :: FilClient
  ac_peerID :: peer
  ac_minerWallet :: address
  ac_proposal :: retrieval_proposal

text \<open>
  The goroutine: before the retrieval, in it, sending the result, before the deferred \<open>internalCancel\<close>,
  after its return.
\<close>

datatype worker =
    WSetup world
  | WRunning rparams "pc \<times> rstate"
  | WSending RetrievalResult
  | WCancelling
  | WFinished

text \<open>
  \<open>as_calls\<close> are the callbacks that wait in their \<open>select\<close>, \<open>as_shutdowns\<close> counts the calls of the shutdown function
  that have not returned; \<open>as_results\<close> and \<open>as_progress\<close> are what the caller has received.  The internal
  context ends with that of the caller (\<open>as_ctx\<close>) or by \<open>internalCancel\<close>.
\<close>

record async_state =
  as_worker :: worker
  as_resultChan :: "RetrievalResult option"
  as_shutdownChan :: bool
  as_shutdowns :: nat
  as_calls :: "u64 list"
  as_ctx :: "go_error option"
  as_cancelled :: bool
  as_results :: "RetrievalResult list"
  as_progress :: "u64 list"

definition startAsync :: "world \<Rightarrow> async_state" where
  "startAsync w = \<lparr>as_worker = WSetup w, as_resultChan = None, as_shutdownChan = False, as_shutdowns = 0,
     as_calls = [], as_ctx = None, as_cancelled = False, as_results = [], as_progress = []\<rparr>"

definition internalDone :: "async_state \<Rightarrow> bool" where
  "internalDone s \<longleftrightarrow> as_ctx s \<noteq> None \<or> as_cancelled s"

datatype async_label =
    RSetup
  | RInner label
  | RSend
  | RCancel
  | RSkip u64          \<comment> \<open>a callback sees the end of the internal context\<close>
  | RProgress u64      \<comment> \<open>the caller receives progress\<close>
  | RReceive           \<comment> \<open>the caller receives the result\<close>
  | RShutdown          \<comment> \<open>the caller calls the shutdown function\<close>
  | RShutdownSent      \<comment> \<open>which puts its request into the channel\<close>
  | RCtxDone go_error  \<comment> \<open>the context of the caller ends\<close>

text \<open>The progress a step of the retrieval reports.\<close>

definition progressOf :: "trace \<Rightarrow> u64 list" where
  "progressOf t = concat (map (\<lambda>c. case c of Progress n \<Rightarrow> [n] | _ \<Rightarrow> []) t)"

definition newProgress :: "rstate \<Rightarrow> rstate \<Rightarrow> u64 list" where
  "newProgress st st' = progressOf (drop (length (w_trace st)) (w_trace st'))"

text \<open>
  The \<open>select\<close> of the retrieval takes a shutdown request only from the channel, and the end of the context
  only when it has ended.
\<close>

definition ready :: "async_state \<Rightarrow> label \<Rightarrow> bool" where
  "ready s l = (case l of
     LGraceful \<Rightarrow> as_shutdownChan s
   | LCtxDone err \<Rightarrow> as_ctx s = Some err
   | _ \<Rightarrow> True)"

definition runSetup :: "async_call \<Rightarrow> world \<Rightarrow> (go_error + rparams) \<times> world" where
  "runSetup A w =
     run_state (retrievalSetup (ac_library A) (ac_client A) (ac_peerID A) (ac_minerWallet A) (ac_proposal A)) w"

definition setupStep :: "async_call \<Rightarrow> world \<Rightarrow> async_state \<Rightarrow> async_state" where
  "setupStep A w s =
     (case runSetup A w of
        (Inl err, w1) \<Rightarrow> s\<lparr>as_worker := WSending (toResult (Inl err))\<rparr>
      | (Inr P, w1) \<Rightarrow> s\<lparr>as_worker := WRunning P (startRetrieval (w_trace w1))\<rparr>)"

definition innerStep :: "async_call \<Rightarrow> rparams \<Rightarrow> pc \<times> rstate \<Rightarrow> label \<Rightarrow> async_state \<Rightarrow> async_state option" where
  "innerStep A P c l s =
     (case rnext (ac_avgSpeed A) (ac_client A) P c l of
        None \<Rightarrow> None
      | Some c' \<Rightarrow> Some (s\<lparr>
          as_worker := (case fst c' of Returned r \<Rightarrow> WSending (toResult r) | _ \<Rightarrow> WRunning P c'),
          as_calls := as_calls s @ newProgress (snd c) (snd c'),
          as_shutdownChan := (as_shutdownChan s \<and> l \<noteq> LGraceful)\<rparr>))"

definition anext :: "async_call \<Rightarrow> async_state \<Rightarrow> async_label \<Rightarrow> async_state option" where
  "anext A s l =
     (case l of
        RSetup \<Rightarrow> (case as_worker s of WSetup w \<Rightarrow> Some (setupStep A w s) | _ \<Rightarrow> None)
      | RInner k \<Rightarrow> (case as_worker s of
            WRunning P c \<Rightarrow> if ready s k then innerStep A P c k s else None
          | _ \<Rightarrow> None)
      | RSend \<Rightarrow> (case (as_worker s, as_resultChan s) of
            (WSending r, None) \<Rightarrow> Some (s\<lparr>as_resultChan := Some r, as_worker := WCancelling\<rparr>)
          | _ \<Rightarrow> None)
      | RCancel \<Rightarrow> if as_worker s = WCancelling
          then Some (s\<lparr>as_cancelled := True, as_worker := WFinished\<rparr>) else None
      | RSkip n \<Rightarrow> if n \<in> set (as_calls s) \<and> internalDone s
          then Some (s\<lparr>as_calls := remove1 n (as_calls s)\<rparr>) else None
      | RProgress n \<Rightarrow> if n \<in> set (as_calls s)
          then Some (s\<lparr>as_calls := remove1 n (as_calls s), as_progress := as_progress s @ [n]\<rparr>) else None
      | RReceive \<Rightarrow> (case as_resultChan s of
            Some r \<Rightarrow> Some (s\<lparr>as_resultChan := None, as_results := as_results s @ [r]\<rparr>)
          | None \<Rightarrow> None)
      | RShutdown \<Rightarrow> Some (s\<lparr>as_shutdowns := as_shutdowns s + 1\<rparr>)
      | RShutdownSent \<Rightarrow> if 0 < as_shutdowns s \<and> \<not> as_shutdownChan s
          then Some (s\<lparr>as_shutdowns := as_shutdowns s - 1, as_shutdownChan := True\<rparr>) else None
      | RCtxDone err \<Rightarrow> if as_ctx s = None then Some (s\<lparr>as_ctx := Some err\<rparr>) else None)"

lemma anext_cases:
  assumes "anext A s l = Some s'"
  obtains (setting_up) w where "l = RSetup" "as_worker s = WSetup w" "s' = setupStep A w s"
  | (inner) P c k where "l = RInner k" "as_worker s = WRunning P c" "ready s k" "innerStep A P c k s = Some s'"
  | (send) r where "l = RSend" "as_worker s = WSending r" "as_resultChan s = None"
      "s' = s\<lparr>as_resultChan := Some r, as_worker := WCancelling\<rparr>"
  | (cancel) "l = RCancel" "as_worker s = WCancelling" "s' = s\<lparr>as_cancelled := True, as_worker := WFinished\<rparr>"
  | (skip) n where "l = RSkip n" "n \<in> set (as_calls s)" "internalDone s" "s' = s\<lparr>as_calls := remove1 n (as_calls s)\<rparr>"
  | (progress) n where "l = RProgress n" "n \<in> set (as_calls s)"
      "s' = s\<lparr>as_calls := remove1 n (as_calls s), as_progress := as_progress s @ [n]\<rparr>"
  | (receive) r where "l = RReceive" "as_resultChan s = Some r"
      "s' = s\<lparr>as_resultChan := None, as_results := as_results s @ [r]\<rparr>"
  | (shutdown) "l = RShutdown" "s' = s\<lparr>as_shutdowns := as_shutdowns s + 1\<rparr>"
  | (sent) "l = RShutdownSent" "0 < as_shutdowns s" "\<not> as_shutdownChan s"
      "s' = s\<lparr>as_shutdowns := as_shutdowns s - 1, as_shutdownChan := True\<rparr>"
  | (ctx) err where "l = RCtxDone err" "as_ctx s = None" "s' = s\<lparr>as_ctx := Some err\<rparr>"
  using assms by (cases l) (auto simp: anext_def split: worker.splits if_splits option.splits)

section \<open>The result\<close>

text \<open>The steps of the retrieval among those of the whole.\<close>

definition innerLabels :: "async_label list \<Rightarrow> label list" where
  "innerLabels ls = concat (map (\<lambda>l. case l of RInner k \<Rightarrow> [k] | _ \<Rightarrow> []) ls)"

lemma innerLabels_simps [simp]:
  "innerLabels [] = []"
  "innerLabels (ls @ [l]) = innerLabels ls @ (case l of RInner k \<Rightarrow> [k] | _ \<Rightarrow> [])"
  by (simp_all add: innerLabels_def)

text \<open>What the call of the retrieval returns.\<close>

definition retrievalReturns :: "async_call \<Rightarrow> world \<Rightarrow> label list \<Rightarrow> RetrievalResult \<Rightarrow> bool" where
  "retrievalReturns A w ks r \<longleftrightarrow> (\<exists>x w'. r = toResult x \<and>
     retrieveContent (ac_avgSpeed A) (ac_library A) (ac_client A) (ac_peerID A) (ac_minerWallet A) (ac_proposal A) ks w
       = Some (x, w'))"

lemma returns_early: "runSetup A w = (Inl err, w1) \<Longrightarrow> retrievalReturns A w ks (toResult (Inl err))"
  by (auto simp: retrievalReturns_def retrieveContent_def runSetup_def)

lemma returns_run:
  "runSetup A w = (Inr P, w1) \<Longrightarrow>
   rrun (ac_avgSpeed A) (ac_client A) P (startRetrieval (w_trace w1)) ks = Some (Returned x, st) \<Longrightarrow>
   retrievalReturns A w ks (toResult x)"
  by (auto simp: retrievalReturns_def retrieveContent_def runSetup_def)

text \<open>The result so far: received by the caller, or waiting in its channel.\<close>

definition delivered :: "async_state \<Rightarrow> RetrievalResult list" where
  "delivered s = as_results s @ (case as_resultChan s of None \<Rightarrow> [] | Some r \<Rightarrow> [r])"

definition workerInv ::
  "async_call \<Rightarrow> world \<Rightarrow> label list \<Rightarrow> RetrievalResult list \<Rightarrow> worker \<Rightarrow> bool" where
  "workerInv A w ks got wk \<longleftrightarrow>
     (case wk of
        WSetup w0 \<Rightarrow> w0 = w \<and> ks = [] \<and> got = []
      | WRunning P c \<Rightarrow> got = [] \<and> \<not> returned (fst c) \<and> (\<exists>w1. runSetup A w = (Inr P, w1)
          \<and> rrun (ac_avgSpeed A) (ac_client A) P (startRetrieval (w_trace w1)) ks = Some c)
      | WSending r \<Rightarrow> got = [] \<and> retrievalReturns A w ks r
      | _ \<Rightarrow> (\<exists>r. got = [r] \<and> retrievalReturns A w ks r))"

definition resultInv :: "async_call \<Rightarrow> world \<Rightarrow> async_label list \<Rightarrow> async_state \<Rightarrow> bool" where
  "resultInv A w ls s \<longleftrightarrow> workerInv A w (innerLabels ls) (delivered s) (as_worker s)"

lemma resultInv_inner:
  assumes "workerInv A w ks (delivered s) (as_worker s)" and "as_worker s = WRunning P c"
    and "innerStep A P c k s = Some s'"
  shows "workerInv A w (ks @ [k]) (delivered s') (as_worker s')"
proof -
  from assms(3) obtain p st where c': "rnext (ac_avgSpeed A) (ac_client A) P c k = Some (p, st)"
    and s': "s' = s\<lparr>as_worker := (case p of Returned r \<Rightarrow> WSending (toResult r) | _ \<Rightarrow> WRunning P (p, st)),
          as_calls := as_calls s @ newProgress (snd c) st,
          as_shutdownChan := (as_shutdownChan s \<and> k \<noteq> LGraceful)\<rparr>"
    by (auto simp: innerStep_def split: option.splits)
  from assms(1,2) obtain w1 where got: "delivered s = []" and w1: "runSetup A w = (Inr P, w1)"
      "rrun (ac_avgSpeed A) (ac_client A) P (startRetrieval (w_trace w1)) ks = Some c"
    by (auto simp: workerInv_def)
  have run: "rrun (ac_avgSpeed A) (ac_client A) P (startRetrieval (w_trace w1)) (ks @ [k]) = Some (p, st)"
    using w1(2) c' by (simp add: steps_append)
  have "delivered s' = []" using got s' by (simp add: delivered_def split: option.splits)
  with run w1(1) s' show ?thesis
    by (cases p) (auto simp: workerInv_def intro: returns_run)
qed

lemma resultInv_step:
  assumes "resultInv A w ls s" and "anext A s l = Some s'"
  shows "resultInv A w (ls @ [l]) s'"
  using assms(2)
proof (cases rule: anext_cases)
  case (setting_up w0)
  obtain r w1 where r: "runSetup A w = (r, w1)" by fastforce
  from assms(1) setting_up have "w0 = w" "innerLabels ls = []" "delivered s = []"
    by (auto simp: resultInv_def workerInv_def)
  with setting_up r returns_early [of A w _ w1 "[]"] show ?thesis
    by (cases r) (auto simp: resultInv_def workerInv_def setupStep_def delivered_def startRetrieval_def)
next
  case (inner P c k)
  with assms(1) resultInv_inner show ?thesis by (simp add: resultInv_def)
next
  case (send r)
  with assms(1) show ?thesis by (auto simp: resultInv_def workerInv_def delivered_def)
next
  case cancel
  with assms(1) show ?thesis by (simp add: resultInv_def workerInv_def delivered_def)
next
  case (receive r)
  then have "delivered s' = delivered s" by (simp add: delivered_def)
  with receive assms(1) show ?thesis by (simp add: resultInv_def)
qed (use assms(1) in \<open>simp_all add: resultInv_def delivered_def\<close>)

lemma resultInv_run: "steps (anext A) (startAsync w) ls = Some s \<Longrightarrow> resultInv A w ls s"
proof (induction rule: steps_induct)
  case start
  show ?case by (simp add: resultInv_def workerInv_def startAsync_def delivered_def)
qed (rule resultInv_step)

text \<open>
  C15: The caller receives at most one result, and it is what the retrieval itself returns in the run
  that its own steps make: the goroutine and the channels add and lose nothing.
\<close>

theorem async_result:
  assumes "steps (anext A) (startAsync w) ls = Some s"
  shows "length (as_results s) \<le> 1 \<and> (\<forall>r \<in> set (as_results s). \<exists>x w'. r = toResult x
    \<and> retrieveContent (ac_avgSpeed A) (ac_library A) (ac_client A) (ac_peerID A) (ac_minerWallet A) (ac_proposal A)
        (innerLabels ls) w = Some (x, w'))"
  using resultInv_run [OF assms]
  by (auto simp: resultInv_def workerInv_def delivered_def retrievalReturns_def Cons_eq_append_conv append_eq_Cons_conv
      split: worker.splits)

section \<open>The goroutines end\<close>

lemma skip_all:
  "internalDone s \<Longrightarrow> steps (anext A) s (map RSkip (as_calls s)) = Some (s\<lparr>as_calls := []\<rparr>)"
proof (induction "as_calls s" arbitrary: s)
  case Nil
  then show ?case by (cases s) simp
next
  case (Cons n ns)
  let ?s = "s\<lparr>as_calls := ns\<rparr>"
  have "internalDone ?s" using Cons.prems by (simp add: internalDone_def)
  with Cons.hyps(1) [of ?s] have "steps (anext A) ?s (map RSkip ns) = Some (?s\<lparr>as_calls := []\<rparr>)" by simp
  moreover have "anext A s (RSkip n) = Some ?s"
    using Cons.prems by (simp add: anext_def Cons.hyps(2) [symmetric])
  ultimately show ?case by (simp add: Cons.hyps(2) [symmetric])
qed

text \<open>
  C24: When the retrieval has returned, the goroutine and every waiting callback end without the help of the
  caller, who may have stopped listening: the place of the result channel is free, and the
  cancelled context releases the callbacks.
\<close>

theorem async_goroutines_end:
  assumes "steps (anext A) (startAsync w) ls = Some s" and "as_worker s = WSending r"
  shows "\<exists>ms s'. steps (anext A) s ms = Some s' \<and> set ms \<subseteq> {RSend, RCancel} \<union> range RSkip
    \<and> as_worker s' = WFinished \<and> as_calls s' = [] \<and> as_resultChan s' = Some r"
proof -
  from resultInv_run [OF assms(1)] assms(2) have "as_resultChan s = None"
    by (auto simp: resultInv_def workerInv_def delivered_def split: option.splits)
  let ?s1 = "s\<lparr>as_resultChan := Some r, as_worker := WFinished, as_cancelled := True\<rparr>"
  have 1: "steps (anext A) s [RSend, RCancel] = Some ?s1"
    using assms(2) \<open>as_resultChan s = None\<close> by (simp add: anext_def)
  have "internalDone ?s1" by (simp add: internalDone_def)
  from skip_all [OF this] have "steps (anext A) s ([RSend, RCancel] @ map RSkip (as_calls s)) = Some (?s1\<lparr>as_calls := []\<rparr>)"
    by (simp only: steps_append 1 option.case) simp
  then show ?thesis
    by (intro exI [of _ "[RSend, RCancel] @ map RSkip (as_calls s)"] exI [of _ "?s1\<lparr>as_calls := []\<rparr>"]) auto
qed

section \<open>The progress\<close>

lemma progressOf_simps [simp]:
  "progressOf [] = []" "progressOf (t @ u) = progressOf t @ progressOf u"
  "progressOf (c # t) = (case c of Progress n \<Rightarrow> [n] | _ \<Rightarrow> []) @ progressOf t"
  by (simp_all add: progressOf_def)

definition quiet :: "rstate \<Rightarrow> rstate \<Rightarrow> bool" where
  "quiet s s' \<longleftrightarrow> (\<exists>u. w_trace s' = w_trace s @ u \<and> progressOf u = [])"

lemma quietI: "w_trace s' = w_trace s @ u \<Longrightarrow> progressOf u = [] \<Longrightarrow> quiet s s'"
  by (auto simp: quiet_def)

lemma quiet_refl [simp]: "quiet s s"
  by (rule quietI [where u = "[]"]) simp_all

lemma quiet_newProgress: "quiet s s' \<Longrightarrow> newProgress s s' = []"
  by (auto simp: quiet_def newProgress_def)

lemma quiet_finish [simp]: "quiet s (finishCell r s)" 
  by (rule quietI [where u = "[]"]) (auto simp: finishCell_def split: option.splits)

lemma quiet_pay: 
  assumes "run_state (payForRetrieval fc P chid resp) s = ((), s')" shows "quiet s s'"
  using assms
proof (cases rule: payForRetrieval_cases)
  case (failed err u)
  then show ?thesis
    by (intro quietI [where u = "Pch (PCreateVoucher (rq_pchAddr P) (nextVoucher P resp s)) # u"])
      (auto simp: failedSend_def finishCell_def split: option.splits)
next
  case (sent pay)
  then show ?thesis by (auto simp: quiet_def)
qed

lemma quiet_response: "quiet s (snd (run_state (onDealResponse fc P chid resp) s))"
proof -
  have pay: "quiet s (snd (run_state (payForRetrieval fc P chid resp) s))"
    by (rule quiet_pay [of fc P chid resp]) (simp add: prod_eq_iff)
  have pub: "quiet s (s\<lparr>w_trace := w_trace s @ [Publish ev]\<rparr>)" for ev
    by (rule quietI [where u = "[Publish ev]"]) simp_all
  have flag: "quiet s (s\<lparr>r_dealComplete := True\<rparr>)" by (rule quietI [where u = "[]"]) simp_all
  show ?thesis
    by (cases "rdr_Status resp") (auto simp: onDealResponse_def run_simps finish_def publish_def pay pub flag)
qed

text \<open>The byte counts of the progress events heard on the retrieval's channel.\<close>

definition progressHeard :: "label list \<Rightarrow> u64 list" where
  "progressHeard ks = concat (map (\<lambda>(ev, st). if evt_Code ev = DataReceivedProgress then [dtc_Received st] else []) (heard ks))"

lemma onEvent_progress:
  fixes s :: rstate
  assumes "dtc_ChannelID st = r_chanid s"
  shows "newProgress s (snd (run_state (onEvent fc P ev st) s))
    = (if evt_Code ev = DataReceivedProgress then [dtc_Received st] else [])"
proof (cases "evt_Code ev")
  case DataReceivedProgress
  then show ?thesis using assms by (simp add: onEvent_def run_simps publish_def newProgress_def)
next
  case NewVoucherResult
  then have "quiet s (snd (run_state (onEvent fc P ev st) s))"
    using assms quiet_response by (simp add: onEvent_def run_simps split: voucher_result.splits)
  with NewVoucherResult show ?thesis by (simp add: quiet_newProgress)
next
  case FinishTransfer
  have flag: "quiet s (s\<lparr>r_allBytesReceived := True\<rparr>)" by (rule quietI [where u = "[]"]) simp_all
  from FinishTransfer have "quiet s (snd (run_state (onEvent fc P ev st) s))"
    using assms flag by (simp add: onEvent_def run_simps finish_def)
  with FinishTransfer show ?thesis by (simp add: quiet_newProgress)
qed (use assms in \<open>simp_all add: onEvent_def run_simps finish_def quiet_newProgress\<close>)

lemma quiet_main:
  assumes "rstep avgSpeed fc P (p, s) l (p', s')" and "\<And>ev st. l \<noteq> LEvent ev st"
  shows "quiet s s'"
  using assms(1)
proof (cases rule: rstep.cases)
  case (event ev st)
  then show ?thesis using assms(2) by blast
next
  case open_pull
  then show ?thesis
    by (auto simp: openPull_def run_simps publishFailure_def publish_def quiet_def split: sum.splits prod.splits if_splits)
next
  case take
  then show ?thesis
    by (auto simp: takeResult_def run_simps publishFailure_def publish_def quiet_def split: option.splits)
next
  case (confirm dur r s1)
  then show ?thesis
    by (auto simp: confirmRetrieval_def run_simps publishFailure_def publish_def quiet_def
        split: sum.splits if_splits prod.splits)
qed (auto simp: quiet_def publish_def run_simps)

lemma step_progress:
  assumes "rnext avgSpeed fc P c k = Some c'" and "r_chanid (snd c) = listeningTo ks"
  shows "progressHeard (ks @ [k]) = progressHeard ks @ newProgress (snd c) (snd c')"
proof (cases "\<exists>ev st. k = LEvent ev st")
  case True
  then obtain ev st where k: "k = LEvent ev st" by blast
  from assms(1) have s': "snd c' = snd (run_state (onEvent fc P ev st) (snd c))"
    by (auto simp: k rnext_def split: prod.splits if_splits)
  show ?thesis
    using assms(2) onEvent_progress [of st "snd c" fc P ev]
    by (cases "dtc_ChannelID st = r_chanid (snd c)")
      (auto simp: k s' progressHeard_def onEvent_other newProgress_def)
next
  case False
  obtain p s p' s' where c: "c = (p, s)" "c' = (p', s')" by fastforce
  from assms(1) have "rstep avgSpeed fc P (p, s) k (p', s')" by (simp add: rstep_iff_rnext c)
  then have "quiet s s'" by (rule quiet_main) (use False in blast)
  with False c show ?thesis by (cases k) (auto simp: progressHeard_def quiet_newProgress)
qed

text \<open>
  The data-transfer manager tells a subscriber the events of a channel one after the other: while a
  call of the handler waits in the progress callback, the next event is not delivered.
\<close>

definition serialNext :: "async_call \<Rightarrow> async_state \<Rightarrow> async_label \<Rightarrow> async_state option" where
  "serialNext A s l =
     (case l of
        RInner (LEvent ev st) \<Rightarrow> if as_calls s = [] then anext A s l else None
      | _ \<Rightarrow> anext A s l)"

lemma serial_anext: "serialNext A s l = Some s' \<Longrightarrow> anext A s l = Some s'"
  by (auto simp: serialNext_def split: async_label.splits label.splits if_splits)

lemma serial_run: "steps (serialNext A) s ls = Some s' \<Longrightarrow> steps (anext A) s ls = Some s'"
  by (induction ls arbitrary: s) (auto dest: serial_anext split: option.splits)

definition progressInv :: "async_label list \<Rightarrow> async_state \<Rightarrow> bool" where
  "progressInv ls s \<longleftrightarrow> length (as_calls s) \<le> 1
     \<and> subseq (as_progress s @ as_calls s) (progressHeard (innerLabels ls))
     \<and> (\<not> internalDone s \<longrightarrow> as_progress s @ as_calls s = progressHeard (innerLabels ls))"

lemma progressInv_inner:
  assumes "progressInv ls s" and "resultInv A w ls s" and "serialNext A s (RInner k) = Some s'"
  shows "progressInv (ls @ [RInner k]) s'"
proof -
  from serial_anext [OF assms(3)] obtain P c where wk: "as_worker s = WRunning P c" and i: "innerStep A P c k s = Some s'"
    by (cases rule: anext_cases) auto
  from i obtain c' where c': "rnext (ac_avgSpeed A) (ac_client A) P c k = Some c'"
    and s': "as_calls s' = as_calls s @ newProgress (snd c) (snd c')" "as_progress s' = as_progress s"
      "internalDone s' = internalDone s"
    by (auto simp: innerStep_def internalDone_def split: option.splits)
  from assms(2) wk obtain w1 :: world where "rrun (ac_avgSpeed A) (ac_client A) P (startRetrieval (w_trace w1)) (innerLabels ls) = Some c"
    by (auto simp: resultInv_def workerInv_def)
  then have "r_chanid (snd c) = listeningTo (innerLabels ls)"
    using payInv_run by (fastforce simp: rexec_iff_rrun [symmetric] payInv_def)
  from step_progress [OF c' this]
  have heard: "progressHeard (innerLabels (ls @ [RInner k])) = progressHeard (innerLabels ls) @ newProgress (snd c) (snd c')"
    by simp
  have one: "length (as_calls s') \<le> 1"
  proof (cases "\<exists>ev st. k = LEvent ev st")
    case True
    then obtain ev st where k: "k = LEvent ev st" by blast
    with assms(3) have "as_calls s = []" by (auto simp: serialNext_def split: if_splits)
    moreover from c' have "snd c' = snd (run_state (onEvent (ac_client A) P ev st) (snd c))"
      by (auto simp: k rnext_def split: prod.splits if_splits)
    then have "length (newProgress (snd c) (snd c')) \<le> 1"
      using onEvent_progress [of st "snd c" "ac_client A" P ev]
      by (cases "dtc_ChannelID st = r_chanid (snd c)") (auto simp: onEvent_other newProgress_def)
    ultimately show ?thesis by (simp add: s')
  next
    case False
    obtain p st p' st' where c: "c = (p, st)" "c' = (p', st')" by fastforce
    from c' have "rstep (ac_avgSpeed A) (ac_client A) P (p, st) k (p', st')" by (simp add: rstep_iff_rnext c)
    then have "quiet st st'" by (rule quiet_main) (use False in blast)
    then show ?thesis using assms(1) by (simp add: s' c quiet_newProgress progressInv_def)
  qed
  let ?n = "newProgress (snd c) (snd c')"
  have "subseq ((as_progress s @ as_calls s) @ ?n) (progressHeard (innerLabels ls) @ ?n)"
    using assms(1) by (intro list_emb_append_mono) (auto simp: progressInv_def)
  then have "subseq (as_progress s' @ as_calls s') (progressHeard (innerLabels (ls @ [RInner k])))"
    by (simp only: s' heard append_assoc)
  with assms(1) one s' heard show ?thesis
    unfolding progressInv_def by (metis append_assoc)
qed

lemma subseq_init: "subseq (xs @ ys) zs \<Longrightarrow> subseq xs zs"
  by (meson prefix_imp_subseq prefixI subseq_order.trans)

lemma progressInv_step:
  assumes "progressInv ls s" and "resultInv A w ls s" and "serialNext A s l = Some s'"
  shows "progressInv (ls @ [l]) s'"
  using serial_anext [OF assms(3)]
proof (cases rule: anext_cases)
  case (setting_up w0)
  with assms(1) show ?thesis
    by (auto simp: progressInv_def setupStep_def internalDone_def split: prod.splits sum.splits)
next
  case (inner P c k)
  with assms progressInv_inner show ?thesis by metis
next
  case (skip n)
  with assms(1) have "as_calls s = [n]" by (cases "as_calls s") (auto simp: progressInv_def)
  with skip assms(1) show ?thesis
    by (auto simp: progressInv_def internalDone_def dest: subseq_init)
next
  case (progress n)
  with assms(1) have "as_calls s = [n]" by (cases "as_calls s") (auto simp: progressInv_def)
  with progress assms(1) show ?thesis by (auto simp: progressInv_def internalDone_def)
qed (use assms(1) in \<open>auto simp: progressInv_def internalDone_def\<close>)

lemma progressInv_run: "steps (serialNext A) (startAsync w) ls = Some s \<Longrightarrow> progressInv ls s"
proof (induction rule: steps_induct)
  case start
  show ?case by (simp add: progressInv_def startAsync_def progressHeard_def heard_def)
next
  case (step ls s l s')
  then show ?case using progressInv_step resultInv_run [OF serial_run] by blast
qed

text \<open>
  C22: The caller sees the byte counts of the progress events of the retrieval's channel in their order,
  and as long as its context has not ended and the retrieval has not returned it misses none but the one that is
  waiting to be received.
\<close>

theorem async_progress:
  assumes "steps (serialNext A) (startAsync w) ls = Some s"
  shows "subseq (as_progress s) (progressHeard (innerLabels ls))
    \<and> (\<not> internalDone s \<longrightarrow> length (as_calls s) \<le> 1 \<and> as_progress s @ as_calls s = progressHeard (innerLabels ls))"
proof -
  have "progressInv ls s" by (rule progressInv_run [OF assms])
  then show ?thesis using subseq_init by (auto simp: progressInv_def)
qed

section \<open>Who is left waiting\<close>

text \<open>
  A caller that waits for the result alone: it neither receives progress nor ends its context.
\<close>

definition deafNext :: "async_call \<Rightarrow> async_state \<Rightarrow> async_label \<Rightarrow> async_state option" where
  "deafNext A s l =
     (case l of RProgress n \<Rightarrow> None | RCtxDone err \<Rightarrow> None | _ \<Rightarrow> serialNext A s l)"

definition unheard :: "async_state \<Rightarrow> bool" where
  "unheard s \<longleftrightarrow> as_calls s \<noteq> [] \<and> \<not> internalDone s \<and> delivered s = []
     \<and> (\<exists>P st. as_worker s = WRunning P (Waiting, st) \<and> r_dtRes st = None)"

lemma unheard_inner:
  assumes "unheard s" and "serialNext A s (RInner k) = Some s'"
  shows "unheard s'"
proof -
  from assms(1) obtain P st where wk: "as_worker s = WRunning P (Waiting, st)" and st: "r_dtRes st = None"
    and u: "as_calls s \<noteq> []" "\<not> internalDone s" "delivered s = []"
    by (auto simp: unheard_def)
  from assms(2) u wk have k: "ready s k" "\<And>ev st. k \<noteq> LEvent ev st" and i: "innerStep A P (Waiting, st) k s = Some s'"
    by (auto simp: serialNext_def anext_def split: label.splits if_splits)
  from k u have "\<And>err. k \<noteq> LCtxDone err" by (auto simp: ready_def internalDone_def)
  with i k(2) st have "k = LGraceful" by (auto simp: innerStep_def rnext_def takeResult_def split: label.splits option.splits)
  with i u st show ?thesis
    by (auto simp: innerStep_def rnext_def unheard_def internalDone_def delivered_def run_simps)
qed

interpretation deaf: guarded "deafNext A" unheard for A
proof
  fix s l s'
  assume u: "unheard s" and d: "deafNext A s l = Some s'"
  then have n: "serialNext A s l = Some s'" "\<And>n. l \<noteq> RProgress n" "\<And>err. l \<noteq> RCtxDone err"
    by (auto simp: deafNext_def split: async_label.splits)
  show "unheard s'"
    using serial_anext [OF n(1)]
  proof (cases rule: anext_cases)
    case (inner P c k)
    with unheard_inner [OF u] n(1) show ?thesis by blast
  qed (use u n in \<open>auto simp: unheard_def internalDone_def delivered_def split: option.splits\<close>)
qed

text \<open>
  Whoever waits for the result has to receive the progress as well: once a callback waits and no result has
  been put into the inner channel, no result arrives unless the progress is received or the context ends.
\<close>

theorem unread_progress_blocks:
  assumes "unheard s" and "steps (deafNext A) s ms = Some s'"
  shows "as_results s' = [] \<and> as_resultChan s' = None"
  using deaf.inv_run [OF assms(2,1)] by (auto simp: unheard_def delivered_def split: option.splits)

text \<open>
  A request for a shutdown that finds the place of the channel filled after the retrieval has returned is
  never taken: the call of the shutdown function does not return.
\<close>

definition lateShutdown :: "async_state \<Rightarrow> bool" where
  "lateShutdown s \<longleftrightarrow> as_shutdownChan s \<and> 0 < as_shutdowns s
     \<and> (case as_worker s of WSetup w \<Rightarrow> False | WRunning P c \<Rightarrow> False | _ \<Rightarrow> True)"

interpretation late: guarded "anext A" lateShutdown for A
proof
  fix s l s'
  assume l: "lateShutdown s" and n: "anext A s l = Some s'"
  show "lateShutdown s'"
    using n by (cases rule: anext_cases) (use l in \<open>auto simp: lateShutdown_def\<close>)
qed

lemma second_shutdown_waits:
  "lateShutdown s \<Longrightarrow> steps (anext A) s ms = Some s' \<Longrightarrow> 0 < as_shutdowns s'"
  using late.inv_run [of A s ms s'] by (simp add: lateShutdown_def)

section \<open>A run\<close>

text \<open>
  The retrieval of theory \<open>RetrievalProps\<close> with a caller that receives the first progress, not the second, and then
  the result.
\<close>

definition sampleAsync :: async_call where
  "sampleAsync = \<lparr>ac_avgSpeed = (\<lambda>n d. n div d), ac_library = sampleLibrary, ac_client = sampleClient,
     ac_peerID = ''12D3miner'', ac_minerWallet = ''f3pay'', ac_proposal = sampleProposal\<rparr>"

definition asyncLabels :: "async_label list" where
  "asyncLabels = RSetup # map RInner (take 6 sampleLabels) @ [RProgress (dtc_Received sampleDtChannel)]
     @ map RInner (drop 6 sampleLabels)"

definition asyncSent :: async_state where
  "asyncSent = the (steps (anext sampleAsync) (startAsync \<lparr>w_trace = []\<rparr>) asyncLabels)"

definition asyncWaiting :: async_state where
  "asyncWaiting = the (steps (serialNext sampleAsync) (startAsync \<lparr>w_trace = []\<rparr>) (take 7 asyncLabels))"

definition asyncEnd :: async_state where
  "asyncEnd = the (steps (anext sampleAsync) (startAsync \<lparr>w_trace = []\<rparr>) (asyncLabels @ [RSend, RReceive]))"

lemma sample_async_runs:
  "steps (serialNext sampleAsync) (startAsync \<lparr>w_trace = []\<rparr>) (take 7 asyncLabels) = Some asyncWaiting"
  "steps (anext sampleAsync) (startAsync \<lparr>w_trace = []\<rparr>) (asyncLabels @ [RSend, RReceive]) = Some asyncEnd"
  unfolding asyncWaiting_def asyncEnd_def by code_simp+

theorem async_result_witness:
  "length (as_results asyncEnd) = 1 \<and> (\<exists>x w'. hd (as_results asyncEnd) = toResult (Inr x)
     \<and> retrieveContent (\<lambda>n d. n div d) sampleLibrary sampleClient ''12D3miner'' ''f3pay'' sampleProposal sampleLabels
         \<lparr>w_trace = []\<rparr> = Some (Inr x, w'))"
proof -
  have n: "length (as_results asyncEnd) = 1" "res_Err (hd (as_results asyncEnd)) = None" by code_simp+
  have i: "innerLabels (asyncLabels @ [RSend, RReceive]) = sampleLabels" by code_simp
  from n have "hd (as_results asyncEnd) \<in> set (as_results asyncEnd)" by (cases "as_results asyncEnd") auto
  with async_result [OF sample_async_runs(2)] i obtain x w' where x: "hd (as_results asyncEnd) = toResult x"
    "retrieveContent (\<lambda>n d. n div d) sampleLibrary sampleClient ''12D3miner'' ''f3pay'' sampleProposal sampleLabels
         \<lparr>w_trace = []\<rparr> = Some (x, w')"
    by (auto simp: sampleAsync_def)
  with n show ?thesis by (cases x) (auto simp: toResult_def)
qed

theorem async_goroutines_end_witness:
  "\<exists>ms s'. steps (anext sampleAsync) asyncSent ms = Some s' \<and> as_worker s' = WFinished \<and> as_calls asyncSent \<noteq> []
    \<and> as_calls s' = []"
proof -
  have r: "steps (anext sampleAsync) (startAsync \<lparr>w_trace = []\<rparr>) asyncLabels = Some asyncSent"
    unfolding asyncSent_def by code_simp
  have "(case as_worker asyncSent of WSending x \<Rightarrow> True | _ \<Rightarrow> False) \<and> as_calls asyncSent \<noteq> []" by code_simp
  then obtain x where "as_worker asyncSent = WSending x" "as_calls asyncSent \<noteq> []" by (auto split: worker.splits)
  with async_goroutines_end [OF r this(1)] show ?thesis by blast
qed

theorem async_progress_witness:
  "as_progress asyncWaiting @ as_calls asyncWaiting = [dtc_Received sampleDtChannel]
    \<and> progressHeard (innerLabels (take 7 asyncLabels)) = [dtc_Received sampleDtChannel]"
proof -
  have d: "\<not> internalDone asyncWaiting" by code_simp
  have h: "progressHeard (innerLabels (take 7 asyncLabels)) = [dtc_Received sampleDtChannel]" by code_simp
  from async_progress [OF sample_async_runs(1)] d h show ?thesis by simp
qed

theorem unread_progress_blocks_witness:
  "as_results (the (steps (deafNext sampleAsync) asyncWaiting [RShutdown, RShutdownSent, RInner LGraceful])) = []"
proof -
  have c: "as_calls asyncWaiting \<noteq> []" "\<not> internalDone asyncWaiting" "delivered asyncWaiting = []" by code_simp+
  have "(case as_worker asyncWaiting of WRunning P c \<Rightarrow> fst c = Waiting \<and> r_dtRes (snd c) = None | _ \<Rightarrow> False)"
    by code_simp
  then have u: "unheard asyncWaiting" using c by (auto simp: unheard_def split: worker.splits)
  have "steps (deafNext sampleAsync) asyncWaiting [RShutdown, RShutdownSent, RInner LGraceful] \<noteq> None" by code_simp
  then obtain s' where s': "steps (deafNext sampleAsync) asyncWaiting [RShutdown, RShutdownSent, RInner LGraceful] = Some s'"
    by blast
  from unread_progress_blocks [OF u s'] show ?thesis by (simp only: s' option.sel)
qed

end
