(* ===== verification/Funds.thy ===== *)
theory Funds
  imports MsgPusher Connect
begin

text \<open>
  The small operations of \<open>filclient.go\<close> on funds, chain deals and running transfers: \<open>Balance\<close>,
  \<open>LockMarketFunds\<close>, \<open>CheckChainDeal\<close>, \<open>StartDataTransfer\<close>, \<open>RestartTransfer\<close>, \<open>V110TransfersInProgress\<close>
  and \<open>CheckOngoingTransfer\<close> with its \<open>recover\<close>.
\<close>

section \<open>Balances and the market\<close>

record Balance =
  bal_Account :: address
  bal_Balance :: int
  bal_MarketEscrow :: int
  bal_MarketLocked :: int
  bal_MarketAvailable :: int
  bal_VerifiedClientBalance :: "int option"

definition getActor :: "FilClient \<Rightarrow> ('w world_scheme, go_error + actor) state" where
  "getActor fc = perform (\<lambda>t. g_StateGetActor (api fc) t (ClientAddr fc)) (\<lambda>_. Api (AStateGetActor (ClientAddr fc)))"

definition client_Balance :: "FilClient \<Rightarrow> ('w world_scheme, go_error + Balance) state" where
  "client_Balance fc =
     bindE (getActor fc) (\<lambda>act.
     bindE (perform (\<lambda>t. g_StateMarketBalance (api fc) t (ClientAddr fc))
              (\<lambda>_. Api (AStateMarketBalance (ClientAddr fc)))) (\<lambda>market.
     bindE (perform (\<lambda>t. g_VerifiedClientStatus (api fc) t (ClientAddr fc))
              (\<lambda>_. Api (AVerifiedClientStatus (ClientAddr fc)))) (\<lambda>vcstatus.
     let avail = mb_Escrow market - mb_Locked market in
     ret (Inr \<lparr>bal_Account = ClientAddr fc, bal_Balance = act_Balance act,
       bal_MarketEscrow = mb_Escrow market, bal_MarketLocked = mb_Locked market,
       bal_MarketAvailable = avail, bal_VerifiedClientBalance = vcstatus\<rparr>))))"

text \<open>
  The built-in actors' constants, the address of the market actor and the number of its method
  \<open>AddBalance\<close>, are arguments; so is the text of a FIL amount (in \<open>L\<close>).
\<close>

definition LockMarketFunds ::
  "library \<Rightarrow> address \<Rightarrow> u64 \<Rightarrow> FilClient \<Rightarrow> int \<Rightarrow> ('w pusher_scheme, go_error + cid) state" where
  "LockMarketFunds L marketActor addBalance fc amt =
     bindE (getActor fc) (\<lambda>act.
     if amt > act_Balance act then
       ret (Inl (Errorf (''not enough funds to add: '' @ lib_FILString L (act_Balance act)
         @ '' < '' @ lib_FILString L amt)))
     else
       bindE (ret (lib_DumpAddress L (ClientAddr fc))) (\<lambda>encAddr.
       let msg = \<lparr>msg_From = ClientAddr fc, msg_To = marketActor, msg_Method = addBalance,
                  msg_Value = amt, msg_Params = encAddr, msg_Nonce = act_Nonce act,
                  msg_GasLimit = 0, msg_GasFeeCap = 0, msg_GasPremium = 0\<rparr> in
       bindE (MpoolPushMessage L (api fc) (wallet fc) msg) (\<lambda>smsg.
       ret (Inr (lib_SignedMessageCid L smsg)))))"

definition CheckChainDeal ::
  "FilClient \<Rightarrow> u64 \<Rightarrow> ('w world_scheme, go_error + bool \<times> market_deal option) state" where
  "CheckChainDeal fc dealid = do {
     r \<leftarrow> perform (\<lambda>t. g_StateMarketStorageDeal (api fc) t dealid) (\<lambda>_. Api (AMarketStorageDeal dealid));
     case r of
       Inl err \<Rightarrow>
         if isPanic err then ret (Inl err)
         else if strings_Contains (errorText err) (''deal '' @ fmt_u64 dealid @ '' not found'')
         then ret (Inr (False, None)) else ret (Inl err)
     | Inr deal \<Rightarrow> ret (Inr (True, Some deal))
   }"

section \<open>Transfers\<close>

definition V110TransfersInProgress ::
  "FilClient \<Rightarrow> ('w world_scheme, go_error + (channel_id \<times> dt_channel) list) state" where
  "V110TransfersInProgress fc = perform (\<lambda>t. d_InProgressChannels (dataTransfer fc) t) (\<lambda>_. Dt DInProgressChannels)"

definition RestartTransfer :: "FilClient \<Rightarrow> channel_id \<Rightarrow> ('w world_scheme, go_error + unit) state" where
  "RestartTransfer fc chanid = performE (\<lambda>t. d_RestartChannel (dataTransfer fc) t chanid) (Dt (DRestart chanid))"

definition StartDataTransfer ::
  "library \<Rightarrow> FilClient \<Rightarrow> address \<Rightarrow> cid \<Rightarrow> cid \<Rightarrow> ('w world_scheme, go_error + channel_id) state" where
  "StartDataTransfer L fc miner propCid dataCid =
     bindE (ConnectToMiner L fc miner) (\<lambda>mpid.
     do { emit (Host (HProtect mpid ''transferring''));
          mapE (wrapf ''opening push data channel: '')
            (perform (\<lambda>t. d_OpenPushDataChannel (dataTransfer fc) t mpid propCid dataCid)
               (\<lambda>_. Dt (DOpenPush mpid propCid dataCid))) })"

text \<open>A deferred \<open>recover\<close>: a panic of the body becomes an error value.\<close>

definition recovered :: "string \<Rightarrow> ('s, go_error + 'a) state \<Rightarrow> ('s, go_error + 'a) state" where
  "recovered prefix m = do {
     r \<leftarrow> m;
     ret (case r of Inl (Panic p) \<Rightarrow> Inl (Errorf (prefix @ p)) | _ \<Rightarrow> r) }"

definition CheckOngoingTransfer ::
  "library \<Rightarrow> FilClient \<Rightarrow> address \<Rightarrow> ChannelState \<Rightarrow> ('w world_scheme, go_error + unit) state" where
  "CheckOngoingTransfer L fc miner st =
     recovered ''panic while checking transfer: '' (do {
       connected \<leftarrow> perform (\<lambda>t. h_Connected (host fc) t (cs_RemotePeer st))
                     (\<lambda>_. Host (HConnectedness (cs_RemotePeer st)));
       bindE (if connected then ret (Inr ())
              else bindE (ConnectToMiner L fc miner) (\<lambda>mpid.
                if mpid \<noteq> cs_RemotePeer st then
                  ret (Inl (Errorf ''miner peer ID is different than RemotePeer in data transfer channel''))
                else ret (Inr ()))) (\<lambda>_.
       RestartTransfer fc (cs_ChannelID st)) })"

lemmas funds_defs =
  getActor_def client_Balance_def LockMarketFunds_def CheckChainDeal_def RestartTransfer_def
  StartDataTransfer_def recovered_def CheckOngoingTransfer_def

section \<open>Properties\<close>

text \<open>The estimate of the gateway fills in the gas fields and leaves the rest of the message.\<close>

definition fills_gas :: "gateway_service \<Rightarrow> bool" where
  "fills_gas gapi \<longleftrightarrow> (\<forall>t m m'. g_GasEstimateMessageGas gapi t m = Inr m' \<longrightarrow>
     msg_From m' = msg_From m \<and> msg_To m' = msg_To m \<and> msg_Method m' = msg_Method m
     \<and> msg_Value m' = msg_Value m \<and> msg_Params m' = msg_Params m \<and> msg_Nonce m' = msg_Nonce m)"

lemma push_accepted:
  assumes "run_state (MpoolPushMessage L gapi wal msg) w = (Inr smsg, w')"
  shows "\<exists>t n e. g_GasEstimateMessageGas gapi t (msg\<lparr>msg_Nonce := n\<rparr>) = Inr e
    \<and> sm_Message smsg = e\<lparr>msg_GasFeeCap := 4000000000, msg_GasPremium := msg_GasPremium e * 2\<rparr>
    \<and> pushedMsgs (w_trace w') = pushedMsgs (w_trace w) @ [sm_Message smsg]"
proof -
  from assms obtain t n e where "g_GasEstimateMessageGas gapi t (msg\<lparr>msg_Nonce := n\<rparr>) = Inr e"
    and "sm_Message smsg = e\<lparr>msg_GasFeeCap := 4000000000, msg_GasPremium := msg_GasPremium e * 2\<rparr>"
    by (auto simp: MpoolPushMessage_def run_simps Let_def
        split: sum.splits option.splits prod.splits)
  moreover have "pushedMsgs (w_trace w') = pushedMsgs (w_trace w) @ [sm_Message smsg]"
    using assms
    by (auto simp: MpoolPushMessage_def nextNonce_def run_simps Let_def
        split: sum.splits option.splits prod.splits)
  ultimately show ?thesis by blast
qed

text \<open>
  Locking funds that succeeds has found at least the amount in the client's account and has had
  exactly one message accepted: from the client to the market actor, of that amount, with the client's
  serialized address as parameter.
\<close>

theorem lock_funds_message:
  assumes "run_state (LockMarketFunds L marketActor addBalance fc amt) w = (Inr c, w')"
    and "fills_gas (api fc)"
  shows "\<exists>act enc msg. g_StateGetActor (api fc) (w_trace w) (ClientAddr fc) = Inr act
    \<and> amt \<le> act_Balance act \<and> lib_DumpAddress L (ClientAddr fc) = Inr enc
    \<and> pushedMsgs (w_trace w') = pushedMsgs (w_trace w) @ [msg]
    \<and> msg_From msg = ClientAddr fc \<and> msg_To msg = marketActor \<and> msg_Method msg = addBalance
    \<and> msg_Value msg = amt \<and> msg_Params msg = enc"
proof -
  from assms(1) obtain act enc smsg where act: "g_StateGetActor (api fc) (w_trace w) (ClientAddr fc) = Inr act"
    and le: "amt \<le> act_Balance act" and enc: "lib_DumpAddress L (ClientAddr fc) = Inr enc"
    and push: "run_state (MpoolPushMessage L (api fc) (wallet fc)
      \<lparr>msg_From = ClientAddr fc, msg_To = marketActor, msg_Method = addBalance, msg_Value = amt,
       msg_Params = enc, msg_Nonce = act_Nonce act, msg_GasLimit = 0, msg_GasFeeCap = 0, msg_GasPremium = 0\<rparr>)
      (w\<lparr>w_trace := w_trace w @ [Api (AStateGetActor (ClientAddr fc))]\<rparr>) = (Inr smsg, w')"
    by (auto simp: LockMarketFunds_def getActor_def run_simps Let_def
        split: sum.splits prod.splits if_splits)
  from push_accepted [OF push] obtain t n e where
    e: "g_GasEstimateMessageGas (api fc) t
      \<lparr>msg_From = ClientAddr fc, msg_To = marketActor, msg_Method = addBalance, msg_Value = amt,
       msg_Params = enc, msg_Nonce = n, msg_GasLimit = 0, msg_GasFeeCap = 0, msg_GasPremium = 0\<rparr> = Inr e"
    and m: "sm_Message smsg = e\<lparr>msg_GasFeeCap := 4000000000, msg_GasPremium := msg_GasPremium e * 2\<rparr>"
    and p: "pushedMsgs (w_trace w') = pushedMsgs (w_trace w) @ [sm_Message smsg]"
    by auto
  from assms(2) [unfolded fills_gas_def, rule_format, OF e]
  have "msg_From e = ClientAddr fc" "msg_To e = marketActor" "msg_Method e = addBalance"
    "msg_Value e = amt" "msg_Params e = enc" by simp_all
  then show ?thesis using act le enc m p
    by (intro exI [of _ act] exI [of _ enc] exI [of _ "sm_Message smsg"]) simp
qed

theorem lock_funds_message_witness:
  "\<exists>msg. pushedMsgs (w_trace (snd (run_state (LockMarketFunds sampleLibrary ''f05'' 2 sampleClient 4000)
     (NewMsgPusher [])))) = [msg] \<and> msg_To msg = ''f05'' \<and> msg_Value msg = 4000"
proof -
  let ?run = "run_state (LockMarketFunds sampleLibrary ''f05'' 2 sampleClient 4000) (NewMsgPusher [])"
  have "fst ?run = Inr ''bafymsg''" by code_simp
  then have r: "?run = (Inr ''bafymsg'', snd ?run)" by (simp add: prod_eq_iff)
  have "fills_gas (api sampleClient)"
    by (simp add: fills_gas_def sampleClient_def sampleGateway_def)
  from lock_funds_message [OF r this] show ?thesis by (auto simp: NewMsgPusher_def)
qed

text \<open>
  An amount above the account's balance is refused before anything is signed or sent.
\<close>

theorem lock_funds_refused:
  assumes "g_StateGetActor (api fc) (w_trace w) (ClientAddr fc) = Inr act" and "amt > act_Balance act"
  shows "run_state (LockMarketFunds L marketActor addBalance fc amt) w =
    (Inl (Errorf (''not enough funds to add: '' @ lib_FILString L (act_Balance act) @ '' < '' @ lib_FILString L amt)),
     w\<lparr>w_trace := w_trace w @ [Api (AStateGetActor (ClientAddr fc))]\<rparr>)"
  using assms by (simp add: LockMarketFunds_def getActor_def run_simps)

theorem lock_funds_refused_witness:
  "pushedMsgs (w_trace (snd (run_state (LockMarketFunds sampleLibrary ''f05'' 2 sampleClient 5001)
     (NewMsgPusher [])))) = []"
proof -
  have "g_StateGetActor (api sampleClient) (w_trace (NewMsgPusher [])) (ClientAddr sampleClient) =
      Inr \<lparr>act_Balance = 5000, act_Nonce = 3\<rparr>"
    by (simp add: sampleClient_def sampleGateway_def)
  from lock_funds_refused [OF this, of 5001 sampleLibrary "''f05''" 2] show ?thesis
    by (simp add: NewMsgPusher_def)
qed

text \<open>
  A chain deal is reported missing exactly when the chain's error text contains "deal N not
  found" for its number N, and any other error of the chain is passed on unchanged.
\<close>

theorem missing_deal_exact:
  assumes "g_StateMarketStorageDeal (api fc) (w_trace w) dealid = Inl err" and "\<not> isPanic err"
  shows "(fst (run_state (CheckChainDeal fc dealid) w) = Inr (False, None) \<longleftrightarrow>
      (\<exists>a b. errorText err = a @ ''deal '' @ fmt_u64 dealid @ '' not found'' @ b))
    \<and> (fst (run_state (CheckChainDeal fc dealid) w) \<noteq> Inr (False, None) \<longrightarrow>
      fst (run_state (CheckChainDeal fc dealid) w) = Inl err)"
  using assms by (auto simp: CheckChainDeal_def run_simps strings_Contains_iff)

theorem missing_deal_exact_witness:
  "fst (run_state (CheckChainDeal (sampleClient\<lparr>api := sampleGateway\<lparr>g_StateMarketStorageDeal :=
      \<lambda>_ _. Inl (Opaque ''lookup: deal 42 not found at head'')\<rparr>\<rparr>) 42) \<lparr>w_trace = []\<rparr>) = Inr (False, None)"
proof -
  let ?fc = "sampleClient\<lparr>api := sampleGateway\<lparr>g_StateMarketStorageDeal :=
      \<lambda>_ _. Inl (Opaque ''lookup: deal 42 not found at head'')\<rparr>\<rparr>"
  have h: "g_StateMarketStorageDeal (api ?fc) (w_trace \<lparr>w_trace = []\<rparr>) 42 =
      Inl (Opaque ''lookup: deal 42 not found at head'')" by simp
  have "\<not> isPanic (Opaque ''lookup: deal 42 not found at head'')" by simp
  note exact = missing_deal_exact [OF h this]
  have "fmt_u64 42 = ''42''" by code_simp
  then have "errorText (Opaque ''lookup: deal 42 not found at head'') =
      ''lookup: '' @ ''deal '' @ fmt_u64 42 @ '' not found'' @ '' at head''" by simp
  with exact show ?thesis by blast
qed

lemma recovered_no_panic: "fst (run_state (recovered x m) s) = Inl e \<Longrightarrow> \<not> isPanic e"
  by (auto simp: recovered_def split: sum.splits go_error.splits prod.splits)

text \<open>
  Checking a transfer never panics, and a check that succeeds ended by restarting the channel on a
  live connection to the right peer: either the host was already connected, or it has just connected
  to the miner and the miner's peer is the one of the transfer.
\<close>

theorem check_transfer_safe:
  assumes "run_state (CheckOngoingTransfer L fc miner st) w = (r, w')"
  shows "(\<forall>e. r = Inl e \<longrightarrow> \<not> isPanic e)
    \<and> (r = Inr () \<longrightarrow> h_Connected (host fc) (w_trace w) (cs_RemotePeer st)
        \<or> fst (run_state (ConnectToMiner L fc miner) (w\<lparr>w_trace := w_trace w @
             [Host (HConnectedness (cs_RemotePeer st))]\<rparr>)) = Inr (cs_RemotePeer st))
    \<and> (r = Inr () \<longrightarrow> last (w_trace w') = Dt (DRestart (cs_ChannelID st)))"
proof -
  have "fst (run_state (CheckOngoingTransfer L fc miner st) w) = r" by (simp add: assms)
  then have "\<forall>e. r = Inl e \<longrightarrow> \<not> isPanic e" 
    unfolding CheckOngoingTransfer_def using recovered_no_panic by metis
  moreover have "(r = Inr () \<longrightarrow> h_Connected (host fc) (w_trace w) (cs_RemotePeer st)
        \<or> fst (run_state (ConnectToMiner L fc miner) (w\<lparr>w_trace := w_trace w @
             [Host (HConnectedness (cs_RemotePeer st))]\<rparr>)) = Inr (cs_RemotePeer st))
    \<and> (r = Inr () \<longrightarrow> last (w_trace w') = Dt (DRestart (cs_ChannelID st)))"
    using assms
    by (cases "h_Connected (host fc) (w_trace w) (cs_RemotePeer st)")
      (auto simp: CheckOngoingTransfer_def recovered_def RestartTransfer_def run_simps ofErr_def
        split: prod.splits sum.splits go_error.splits option.splits if_splits)
  ultimately show ?thesis by blast
qed

definition sampleTransfer :: ChannelState where
  "sampleTransfer = \<lparr>cs_SelfPeer = ''12D3me'', cs_RemotePeer = ''12D3miner'', cs_Status = Ongoing,
     cs_StatusStr = ''Ongoing'', cs_Sent = 0, cs_Received = 0, cs_Message = [], cs_BaseCid = ''bafyroot'',
     cs_ChannelID = sampleChannel, cs_TransferID = [], cs_Stages = None, cs_TransferType = GraphsyncTransfer\<rparr>"

theorem check_transfer_safe_witness:
  "let fc = sampleClient\<lparr>host := sampleHost\<lparr>h_Connected := \<lambda>_ _. False\<rparr>\<rparr>;
       run = run_state (CheckOngoingTransfer sampleLibrary fc ''f01000'' sampleTransfer) \<lparr>w_trace = []\<rparr>
   in fst run = Inr () \<and> last (w_trace (snd run)) = Dt (DRestart sampleChannel)"
proof -
  let ?fc = "sampleClient\<lparr>host := sampleHost\<lparr>h_Connected := \<lambda>_ _. False\<rparr>\<rparr>"
  let ?run = "run_state (CheckOngoingTransfer sampleLibrary ?fc ''f01000'' sampleTransfer) \<lparr>w_trace = []\<rparr>"
  have f: "fst ?run = Inr ()"
    by (simp add: CheckOngoingTransfer_def recovered_def RestartTransfer_def connect_defs run_simps
        sample_defs sampleTransfer_def Let_def)
  then have "?run = (Inr (), snd ?run)" by (simp add: prod_eq_iff)
  from check_transfer_safe [OF this] f show ?thesis by (simp add: sampleTransfer_def)
qed

text \<open>
  Starting a transfer leaves its peer protected under the tag "transferring" when it returns, also
  when opening the channel has failed.
\<close>

theorem transfer_protection_kept:
  assumes "run_state (ConnectToMiner L fc miner) w = (Inr mpid, w1)"
  shows "(mpid, ''transferring'') \<in>
    held (w_trace (snd (run_state (StartDataTransfer L fc miner propCid dataCid) w)))"
  using assms by (simp add: StartDataTransfer_def run_simps held_def split: sum.splits)

theorem transfer_protection_kept_witness:
  "(''12D3miner'', ''transferring'') \<in> held (w_trace (snd (run_state
     (StartDataTransfer sampleLibrary (sampleClient\<lparr>dataTransfer := sampleDataTransfer\<lparr>d_OpenPushDataChannel :=
        \<lambda>_ _ _ _. Inl (Opaque ''refused'')\<rparr>\<rparr>) ''f01000'' ''bafyprop'' ''bafyroot'') \<lparr>w_trace = []\<rparr>)))"
proof -
  let ?fc = "sampleClient\<lparr>dataTransfer := sampleDataTransfer\<lparr>d_OpenPushDataChannel :=
        \<lambda>_ _ _ _. Inl (Opaque ''refused'')\<rparr>\<rparr>"
  let ?run = "run_state (ConnectToMiner sampleLibrary ?fc ''f01000'') \<lparr>w_trace = []\<rparr>"
  have "?run = (Inr ''12D3miner'', snd ?run)"
    by (simp add: connect_defs run_simps sample_defs Let_def)
  from transfer_protection_kept [OF this] show ?thesis by simp
qed

end
