(* ===== verification/Keystore.thy ===== *)
theory Keystore
  imports GoErrors
begin

text \<open>
  \<open>keystore/keystore.go\<close>: the wallet's keys on disk, one file per key whose name is the base32 text of
  the key's name.  The state is the keystore's directory: whether it exists and its files with their
  permission bits.  The base32 codec, the JSON codec of a key and the faults of the operating system
  are arguments.  The properties relate the four operations to a finite map of keys and say what the
  permission bits and the empty name do.
\<close>

unbundle bit_operations_syntax

section \<open>The directory\<close>

record key_info =
  ki_Type :: string
  ki_PrivateKey :: string

record keyfile =
  kf_mode :: "32 word"
  kf_data :: string

record disk =
  dk_exists :: bool
  dk_files :: "string \<rightharpoonup> keyfile"

datatype os_op = OsStat | OsOpen | OsRead | OsWrite | OsWritePartial | OsRemove | OsMkdir | OsReaddir

record os_env =
  oe_enc :: "string \<Rightarrow> string"
  oe_dec :: "string \<Rightarrow> go_error + string"
  oe_marshal :: "key_info \<Rightarrow> go_error + string"
  oe_unmarshal :: "string \<Rightarrow> go_error + key_info"
  oe_umask :: "32 word"
  oe_octal :: "32 word \<Rightarrow> string"
  oe_fault :: "os_op \<Rightarrow> string \<Rightarrow> go_error option"

abbreviation (input) ErrKeyExists :: go_error where
  "ErrKeyExists \<equiv> Sentinel ''ErrKeyExists'' ''key already exists''"
abbreviation (input) ErrKeyInfoNotFound :: go_error where
  "ErrKeyInfoNotFound \<equiv> Sentinel ''ErrKeyInfoNotFound'' ''key info not found''"
abbreviation (input) NotExist :: go_error where
  "NotExist \<equiv> Sentinel ''ErrNotExist'' ''no such file or directory''"

definition quoted :: "string \<Rightarrow> string \<Rightarrow> string" where
  "quoted msg name = msg @ [CHR 0x27] @ name @ [CHR 0x27] @ '': ''"

text \<open>
  \<open>os.Stat\<close> of a key's path.  The empty name has an empty file name, whose path is the directory's; the
  directory is made with mode 0700.
\<close>

definition dirMode :: "32 word" where "dirMode = 448"
definition keyMode :: "32 word" where "keyMode = 384"

definition stat :: "os_env \<Rightarrow> string \<Rightarrow> disk \<Rightarrow> go_error + 32 word" where
  "stat E encName d =
     (case oe_fault E OsStat encName of
        Some e \<Rightarrow> Inl e
      | None \<Rightarrow>
          if \<not> dk_exists d then Inl NotExist
          else if encName = [] then Inr (dirMode AND NOT (oe_umask E))
          else (case dk_files d encName of None \<Rightarrow> Inl NotExist | Some f \<Rightarrow> Inr (kf_mode f)))"

definition IsNotExist :: "go_error \<Rightarrow> bool" where
  "IsNotExist e = errors_Is e ''ErrNotExist''"

definition tooRelaxed :: "32 word \<Rightarrow> bool" where
  "tooRelaxed mode \<longleftrightarrow> mode AND 63 \<noteq> 0"

definition permissionError :: "os_env \<Rightarrow> string \<Rightarrow> 32 word \<Rightarrow> go_error" where
  "permissionError E name mode = Errorf (''permissions of key: '' @ [CHR 0x27] @ name @ [CHR 0x27]
     @ '' are too relaxed, required: 0600, got: '' @ oe_octal E mode)"

section \<open>The operations\<close>

definition OpenOrInitKeystore :: "os_env \<Rightarrow> disk \<Rightarrow> (go_error + unit) \<times> disk" where
  "OpenOrInitKeystore E d =
     (case stat E [] d of
        Inr _ \<Rightarrow> (Inr (), d)
      | Inl err \<Rightarrow>
          if \<not> IsNotExist err then (Inl err, d)
          else (case oe_fault E OsMkdir [] of
                  Some e \<Rightarrow> (Inl e, d)
                | None \<Rightarrow> (Inr (), \<lparr>dk_exists = True, dk_files = Map.empty\<rparr>)))"

fun listFiles :: "os_env \<Rightarrow> (string \<times> keyfile) list \<Rightarrow> go_error + string list" where
  "listFiles E [] = Inr []"
| "listFiles E ((n, f) # fs) =
     (if tooRelaxed (kf_mode f) then Inl (permissionError E n (kf_mode f))
      else case oe_dec E n of
        Inl err \<Rightarrow> Inl (wrapf (quoted ''decoding key: '' n) err)
      | Inr name \<Rightarrow> (case listFiles E fs of Inl e \<Rightarrow> Inl e | Inr names \<Rightarrow> Inr (name # names)))"

text \<open>\<open>entries\<close> is the directory in the order it is read.\<close>

definition key_List :: "os_env \<Rightarrow> (string \<times> keyfile) list \<Rightarrow> disk \<Rightarrow> go_error + string list" where
  "key_List E entries d =
     (case (if \<not> dk_exists d then Some NotExist else oe_fault E OsOpen []) of
        Some err \<Rightarrow> Inl (wrapf ''opening dir to list keystore: '' err)
      | None \<Rightarrow>
          (case oe_fault E OsReaddir [] of
             Some err \<Rightarrow> Inl (wrapf ''reading keystore dir: '' err)
           | None \<Rightarrow> listFiles E entries))"

definition readKey :: "os_env \<Rightarrow> string \<Rightarrow> disk \<Rightarrow> go_error + string" where
  "readKey E encName d =
     (case oe_fault E OsRead encName of
        Some e \<Rightarrow> Inl e
      | None \<Rightarrow>
          (case dk_files d encName of
             None \<Rightarrow> Inl (Opaque ''is a directory'')
           | Some f \<Rightarrow> Inr (kf_data f)))"

definition key_Get :: "os_env \<Rightarrow> string \<Rightarrow> disk \<Rightarrow> go_error + key_info" where
  "key_Get E name d =
     (let encName = oe_enc E name in
      case stat E encName d of
        Inl err \<Rightarrow>
          if IsNotExist err then Inl (wrapf (quoted ''opening key '' name) ErrKeyInfoNotFound)
          else Inl (wrapf (quoted ''opening key '' name) err)
      | Inr mode \<Rightarrow>
          if tooRelaxed mode then Inl (permissionError E name mode)
          else (case oe_fault E OsOpen encName of
              Some err \<Rightarrow> Inl (wrapf (quoted ''opening key '' name) err)
            | None \<Rightarrow>
                (case readKey E encName d of
                   Inl err \<Rightarrow> Inl (wrapf (quoted ''reading key '' name) err)
                 | Inr data \<Rightarrow>
                     (case oe_unmarshal E data of
                        Inl err \<Rightarrow> Inl (wrapf (quoted ''decoding key '' name) err)
                      | Inr res \<Rightarrow> Inr res))))"

text \<open>\<open>WriteFile\<close> of a new file: a fault may leave an empty file behind.\<close>

definition writeFile :: "os_env \<Rightarrow> string \<Rightarrow> string \<Rightarrow> disk \<Rightarrow> go_error option \<times> disk" where
  "writeFile E encName data d =
     (case (if \<not> dk_exists d then Some NotExist else oe_fault E OsWrite encName) of
        Some e \<Rightarrow> (Some e, d)
      | None \<Rightarrow>
          (case oe_fault E OsWritePartial encName of
             Some e \<Rightarrow> (Some e, d\<lparr>dk_files := (dk_files d)(encName \<mapsto>
                 \<lparr>kf_mode = keyMode AND NOT (oe_umask E), kf_data = []\<rparr>)\<rparr>)
           | None \<Rightarrow> (None, d\<lparr>dk_files := (dk_files d)(encName \<mapsto>
                 \<lparr>kf_mode = keyMode AND NOT (oe_umask E), kf_data = data\<rparr>)\<rparr>)))"

definition key_Put :: "os_env \<Rightarrow> string \<Rightarrow> key_info \<Rightarrow> disk \<Rightarrow> (go_error + unit) \<times> disk" where
  "key_Put E name info d =
     (let encName = oe_enc E name in
      case stat E encName d of
        Inr _ \<Rightarrow> (Inl (wrapf (quoted ''checking key before put '' name) ErrKeyExists), d)
      | Inl err \<Rightarrow>
          if \<not> IsNotExist err then (Inl (wrapf (quoted ''checking key before put '' name) err), d)
          else (case oe_marshal E info of
              Inl err \<Rightarrow> (Inl (wrapf (quoted ''encoding key '' name) err), d)
            | Inr keyData \<Rightarrow>
                (case writeFile E encName keyData d of
                   (Some err, d') \<Rightarrow> (Inl (wrapf (quoted ''writing key '' name) err), d')
                 | (None, d') \<Rightarrow> (Inr (), d'))))"

text \<open>Removing the directory succeeds when it is empty.\<close>

definition removePath :: "os_env \<Rightarrow> string \<Rightarrow> disk \<Rightarrow> go_error option \<times> disk" where
  "removePath E encName d =
     (case oe_fault E OsRemove encName of
        Some e \<Rightarrow> (Some e, d)
      | None \<Rightarrow>
          if encName = [] then
            (if dk_files d = Map.empty then (None, d\<lparr>dk_exists := False\<rparr>)
             else (Some (Opaque ''directory not empty''), d))
          else (None, d\<lparr>dk_files := (dk_files d)(encName := None)\<rparr>))"

definition key_Delete :: "os_env \<Rightarrow> string \<Rightarrow> disk \<Rightarrow> (go_error + unit) \<times> disk" where
  "key_Delete E name d =
     (let encName = oe_enc E name in
      case stat E encName d of
        Inl err \<Rightarrow>
          if IsNotExist err then (Inl (wrapf (quoted ''checking key before delete '' name) ErrKeyInfoNotFound), d)
          else (Inl (wrapf (quoted ''checking key before delete '' name) err), d)
      | Inr _ \<Rightarrow>
          (case removePath E encName d of
             (Some err, d') \<Rightarrow> (Inl (wrapf (quoted ''deleting key '' name) err), d')
           | (None, d') \<Rightarrow> (Inr (), d')))"

lemmas key_defs =
  stat_def key_List_def readKey_def key_Get_def writeFile_def key_Put_def removePath_def key_Delete_def

section \<open>The abstract store\<close>

text \<open>
  The contract of the codecs and an operating system without faults; then the keys a directory holds
  and the directories that the operations lead to.
\<close>

definition envOk :: "os_env \<Rightarrow> bool" where
  "envOk E \<longleftrightarrow> (\<forall>s. oe_dec E (oe_enc E s) = Inr s) \<and> (\<forall>s. oe_enc E s = [] \<longleftrightarrow> s = [])
     \<and> (\<forall>k. \<exists>data. oe_marshal E k = Inr data \<and> oe_unmarshal E data = Inr k)
     \<and> (\<forall>f n. oe_fault E f n = None)"

definition keysOf :: "os_env \<Rightarrow> disk \<Rightarrow> string \<rightharpoonup> key_info" where
  "keysOf E d name =
     (if name = [] then None
      else case dk_files d (oe_enc E name) of
        None \<Rightarrow> None
      | Some f \<Rightarrow> (case oe_unmarshal E (kf_data f) of Inl _ \<Rightarrow> None | Inr k \<Rightarrow> Some k))"

definition diskOk :: "os_env \<Rightarrow> disk \<Rightarrow> bool" where
  "diskOk E d \<longleftrightarrow> dk_exists d \<and> (\<forall>n f. dk_files d n = Some f \<longrightarrow>
     \<not> tooRelaxed (kf_mode f) \<and> (\<exists>name k. n = oe_enc E name \<and> name \<noteq> [] \<and> oe_unmarshal E (kf_data f) = Inr k))"

lemma envOkD:
  assumes "envOk E"
  shows "oe_dec E (oe_enc E s) = Inr s" and "oe_enc E s = oe_enc E t \<longleftrightarrow> s = t"
    and "oe_enc E s = [] \<longleftrightarrow> s = []" and "oe_fault E f n = None"
    and "\<exists>data. oe_marshal E k = Inr data \<and> oe_unmarshal E data = Inr k"
proof -
  have dec: "\<forall>s. oe_dec E (oe_enc E s) = Inr s" using assms unfolding envOk_def by blast
  then show "oe_dec E (oe_enc E s) = Inr s" by blast
  show "oe_enc E s = oe_enc E t \<longleftrightarrow> s = t" using dec by (metis sum.inject(2))
qed (use assms in \<open>unfold envOk_def, blast+\<close>)

lemma written_mode: "\<not> tooRelaxed (keyMode AND NOT u)"
proof -
  have "(keyMode AND NOT u) AND 63 = (keyMode AND 63) AND NOT u" by (metis and.assoc and.commute)
  also have "keyMode AND 63 = 0" by (simp add: keyMode_def)
  finally show ?thesis by (simp add: tooRelaxed_def)
qed

lemma stat_key:
  assumes "envOk E" and "diskOk E d" and "name \<noteq> []"
  shows "case keysOf E d name of
      None \<Rightarrow> stat E (oe_enc E name) d = Inl NotExist \<and> dk_files d (oe_enc E name) = None
    | Some k \<Rightarrow> \<exists>f. stat E (oe_enc E name) d = Inr (kf_mode f) \<and> dk_files d (oe_enc E name) = Some f
        \<and> \<not> tooRelaxed (kf_mode f) \<and> oe_unmarshal E (kf_data f) = Inr k"
  using assms envOkD(3,4) [OF assms(1)]
  by (fastforce simp: stat_def keysOf_def diskOk_def split: option.splits sum.splits)

text \<open>
  C9: On every directory the keystore itself has built, the operations are those of a map from names
  to keys: \<open>Get\<close> returns what is stored and reports a missing key as such, \<open>Put\<close> adds a key and refuses to
  replace one, \<open>Delete\<close> removes a key and reports a missing one; a failed call changes nothing, and the
  directory stays well formed.
\<close>

theorem keystore_refines_map:
  assumes "envOk E" and "diskOk E d" and "name \<noteq> []"
  shows "key_Get E name d = (case keysOf E d name of
      Some k \<Rightarrow> Inr k | None \<Rightarrow> Inl (wrapf (quoted ''opening key '' name) ErrKeyInfoNotFound))
    \<and> fst (key_Put E name info d) = (case keysOf E d name of
      Some k \<Rightarrow> Inl (wrapf (quoted ''checking key before put '' name) ErrKeyExists) | None \<Rightarrow> Inr ())
    \<and> keysOf E (snd (key_Put E name info d)) =
        (if keysOf E d name = None then (keysOf E d)(name \<mapsto> info) else keysOf E d)
    \<and> diskOk E (snd (key_Put E name info d))
    \<and> fst (key_Delete E name d) = (case keysOf E d name of
      Some k \<Rightarrow> Inr () | None \<Rightarrow> Inl (wrapf (quoted ''checking key before delete '' name) ErrKeyInfoNotFound))
    \<and> keysOf E (snd (key_Delete E name d)) = (keysOf E d)(name := None)
    \<and> diskOk E (snd (key_Delete E name d))"
proof -
  note env = envOkD [OF assms(1)]
  have ex: "dk_exists d" using assms(2) by (simp add: diskOk_def)
  obtain data where data: "oe_marshal E info = Inr data" "oe_unmarshal E data = Inr info"
    using env(5) by blast
  note [simp] = env(2,3,4) assms(3)
  have ne: "IsNotExist NotExist" by (simp add: IsNotExist_def)
  show ?thesis
  proof (cases "keysOf E d name")
    case None
    with stat_key [OF assms] have st: "stat E (oe_enc E name) d = Inl NotExist"
      and f: "dk_files d (oe_enc E name) = None" by auto
    let ?f = "\<lparr>kf_mode = keyMode AND NOT (oe_umask E), kf_data = data\<rparr>"
    have put: "key_Put E name info d = (Inr (), d\<lparr>dk_files := (dk_files d)(oe_enc E name \<mapsto> ?f)\<rparr>)"
      using st ne ex data by (simp add: key_Put_def writeFile_def Let_def)
    have "keysOf E (d\<lparr>dk_files := (dk_files d)(oe_enc E name \<mapsto> ?f)\<rparr>) = (keysOf E d)(name \<mapsto> info)"
      using data by (auto simp: keysOf_def fun_eq_iff)
    moreover have "diskOk E (d\<lparr>dk_files := (dk_files d)(oe_enc E name \<mapsto> ?f)\<rparr>)"
      using assms(2) data written_mode assms(3) unfolding diskOk_def by auto
    moreover have "(keysOf E d)(name := None) = keysOf E d" using None by auto
    ultimately show ?thesis using st ne put None assms(2)
      by (simp add: key_Get_def key_Delete_def Let_def)
  next
    case (Some k)
    with stat_key [OF assms] obtain f where st: "stat E (oe_enc E name) d = Inr (kf_mode f)"
      and f: "dk_files d (oe_enc E name) = Some f" "\<not> tooRelaxed (kf_mode f)" "oe_unmarshal E (kf_data f) = Inr k"
      by auto
    have del: "key_Delete E name d = (Inr (), d\<lparr>dk_files := (dk_files d)(oe_enc E name := None)\<rparr>)"
      using st by (simp add: key_Delete_def removePath_def Let_def)
    have "keysOf E (d\<lparr>dk_files := (dk_files d)(oe_enc E name := None)\<rparr>) = (keysOf E d)(name := None)"
      by (auto simp: keysOf_def fun_eq_iff)
    moreover have "diskOk E (d\<lparr>dk_files := (dk_files d)(oe_enc E name := None)\<rparr>)"
      using assms(2) by (auto simp: diskOk_def)
    ultimately show ?thesis using st f del Some assms(2)
      by (simp add: key_Get_def key_Put_def readKey_def Let_def)
  qed
qed

text \<open>
  Listing a directory the keystore has built gives the names of its keys, each once.
\<close>

theorem keystore_list:
  assumes "envOk E" and "diskOk E d" and "map_of entries = dk_files d" and "distinct (map fst entries)"
  shows "\<exists>names. key_List E entries d = Inr names \<and> distinct names \<and> set names = dom (keysOf E d)"
proof -
  note env = envOkD [OF assms(1)]
  have files: "\<forall>(n, f) \<in> set entries. \<not> tooRelaxed (kf_mode f)
      \<and> (\<exists>name k. n = oe_enc E name \<and> name \<noteq> [] \<and> oe_unmarshal E (kf_data f) = Inr k)"
  proof (rule ballI, clarify)
    fix n f assume "(n, f) \<in> set entries"
    then have "dk_files d n = Some f" using map_of_eq_Some_iff [OF assms(4)] assms(3) by simp
    then show "\<not> tooRelaxed (kf_mode f)
        \<and> (\<exists>name k. n = oe_enc E name \<and> name \<noteq> [] \<and> oe_unmarshal E (kf_data f) = Inr k)"
      using assms(2) unfolding diskOk_def by blast
  qed
  have "\<exists>names. listFiles E es = Inr names \<and> map (oe_enc E) names = map fst es"
    if "set es \<subseteq> set entries" for es
    using that
  proof (induction es)
    case (Cons x es)
    obtain n f where x: "x = (n, f)" by fastforce
    with Cons.prems files obtain name where n: "\<not> tooRelaxed (kf_mode f)" "n = oe_enc E name" by fastforce
    from Cons obtain names where "listFiles E es = Inr names" "map (oe_enc E) names = map fst es" by auto
    with n show ?case by (simp add: x env(1))
  qed simp
  then obtain names where names: "listFiles E entries = Inr names" "map (oe_enc E) names = map fst entries"
    by blast
  have "distinct (map (oe_enc E) names)" using assms(4) names(2) by simp
  then have dist: "distinct names" by (simp add: distinct_map)
  have "name \<in> set names \<longleftrightarrow> keysOf E d name \<noteq> None" for name
  proof -
    have "name \<in> set names \<longleftrightarrow> oe_enc E name \<in> set (map (oe_enc E) names)" using env(2) by auto
    also have "\<dots> \<longleftrightarrow> dk_files d (oe_enc E name) \<noteq> None"
      unfolding names(2) assms(3) [symmetric] by (auto simp: map_of_eq_None_iff)
    also have "\<dots> \<longleftrightarrow> keysOf E d name \<noteq> None"
    proof (cases "dk_files d (oe_enc E name)")
      case None
      then show ?thesis by (simp add: keysOf_def)
    next
      case (Some f)
      with assms(2) obtain name' k where "oe_enc E name = oe_enc E name'" "name' \<noteq> []"
        "oe_unmarshal E (kf_data f) = Inr k" unfolding diskOk_def by blast
      then show ?thesis using Some env(2) by (simp add: keysOf_def)
    qed
    finally show ?thesis .
  qed
  then have "set names = dom (keysOf E d)" by auto
  then show ?thesis using names(1) dist assms(2) env(4) by (auto simp: key_List_def diskOk_def)
qed

text \<open>
  A file that the group or others may read, write or execute is never used: \<open>Get\<close> of its key fails
  with the permission error, and so does every listing of a directory that has it as the first entry.
\<close>

theorem relaxed_permissions_refused:
  assumes "dk_exists d" and "dk_files d (oe_enc E name) = Some f" and "kf_mode f AND 63 \<noteq> 0"
    and "oe_enc E name \<noteq> []" and "\<forall>op n. oe_fault E op n = None"
  shows "key_Get E name d = Inl (permissionError E name (kf_mode f))
    \<and> key_List E ((oe_enc E name, f) # es) d = Inl (permissionError E (oe_enc E name) (kf_mode f))"
  using assms by (simp add: key_Get_def key_List_def stat_def tooRelaxed_def Let_def)

text \<open>
  The empty name is not a key: its path is the keystore's directory.  \<open>Put\<close> says such a key exists,
  \<open>Get\<close> fails to read it, and \<open>Delete\<close> of the empty name removes the directory of an empty keystore, after
  which no key can be stored.
\<close>

theorem empty_name_is_directory:
  assumes "envOk E" and "dk_exists d" and "dk_files d = Map.empty"
  shows "\<not> isOk (fst (key_Put E [] info d)) \<and> \<not> isOk (key_Get E [] d)
    \<and> key_Delete E [] d = (Inr (), d\<lparr>dk_exists := False\<rparr>)
    \<and> fst (key_Put E name info (d\<lparr>dk_exists := False\<rparr>)) = Inl (wrapf (quoted ''writing key '' name) NotExist)"
proof -
  have e: "oe_enc E [] = []" using envOkD(3) [OF assms(1)] by blast
  have nofault: "oe_fault E op n = None" for op n by (rule envOkD(4) [OF assms(1)])
  obtain data where data: "oe_marshal E info = Inr data" using envOkD(5) [OF assms(1)] by blast
  have st: "stat E [] d = Inr (dirMode AND NOT (oe_umask E))"
    by (simp add: stat_def nofault assms(2))
  have "\<not> isOk (fst (key_Put E [] info d))" by (simp add: key_Put_def e st)
  moreover have "\<not> isOk (key_Get E [] d)"
    by (simp add: key_Get_def e st readKey_def nofault assms(3) Let_def)
  moreover have "key_Delete E [] d = (Inr (), d\<lparr>dk_exists := False\<rparr>)"
    by (simp add: key_Delete_def e st removePath_def nofault assms(3))
  moreover have "stat E (oe_enc E name) (d\<lparr>dk_exists := False\<rparr>) = Inl NotExist"
    by (simp add: stat_def nofault)
  then have "fst (key_Put E name info (d\<lparr>dk_exists := False\<rparr>)) = Inl (wrapf (quoted ''writing key '' name) NotExist)"
    by (simp add: key_Put_def IsNotExist_def data writeFile_def Let_def)
  ultimately show ?thesis by blast
qed

section \<open>A keystore\<close>

text \<open>
  A codec that keeps only the type of a key is no inverse, so the sample pairs the two fields with
  their lengths' difference marked by a letter that neither codec of names uses.
\<close>

fun sampleDecode :: "string \<Rightarrow> string \<Rightarrow> go_error + key_info" where
  "sampleDecode acc [] = Inl (Opaque ''json'')"
| "sampleDecode acc (c # s) =
     (if c = CHR ''1'' then (case s of [] \<Rightarrow> Inl (Opaque ''json'') | x # r \<Rightarrow> sampleDecode (acc @ [x]) r)
      else Inr \<lparr>ki_Type = acc, ki_PrivateKey = s\<rparr>)"

definition sampleEncode :: "key_info \<Rightarrow> string" where
  "sampleEncode k = concat (map (\<lambda>x. [CHR ''1'', x]) (ki_Type k)) @ [CHR ''0''] @ ki_PrivateKey k"

lemma sampleDecode_encode: "sampleDecode acc (sampleEncode k) =
    Inr \<lparr>ki_Type = acc @ ki_Type k, ki_PrivateKey = ki_PrivateKey k\<rparr>"
proof -
  have "sampleDecode acc (concat (map (\<lambda>x. [CHR ''1'', x]) t) @ [CHR ''0''] @ p) =
      Inr \<lparr>ki_Type = acc @ t, ki_PrivateKey = p\<rparr>" for t p
    by (induction t arbitrary: acc) simp_all
  then show ?thesis by (simp add: sampleEncode_def)
qed

definition sampleEnv :: os_env where
  "sampleEnv = \<lparr>oe_enc = rev, oe_dec = (\<lambda>s. Inr (rev s)), oe_marshal = (\<lambda>k. Inr (sampleEncode k)),
     oe_unmarshal = sampleDecode [], oe_umask = 18, oe_octal = (\<lambda>_. ''0644''), oe_fault = (\<lambda>_ _. None)\<rparr>"

definition sampleKey :: key_info where
  "sampleKey = \<lparr>ki_Type = ''bls'', ki_PrivateKey = ''secret''\<rparr>"

definition emptyDisk :: disk where
  "emptyDisk = \<lparr>dk_exists = True, dk_files = Map.empty\<rparr>"

definition sampleFile :: keyfile where
  "sampleFile = \<lparr>kf_mode = 384, kf_data = sampleEncode sampleKey\<rparr>"

definition sampleDisk :: disk where
  "sampleDisk = \<lparr>dk_exists = True, dk_files = [rev ''k'' \<mapsto> sampleFile]\<rparr>"

lemma sample_ok: "envOk sampleEnv" "diskOk sampleEnv emptyDisk" "diskOk sampleEnv sampleDisk"
proof -
  show "envOk sampleEnv" by (simp add: envOk_def sampleEnv_def sampleDecode_encode)
  show "diskOk sampleEnv emptyDisk" by (simp add: diskOk_def emptyDisk_def)
  have "oe_unmarshal sampleEnv (kf_data sampleFile) = Inr sampleKey"
    by (simp add: sampleEnv_def sampleFile_def sampleDecode_encode sampleKey_def)
  then show "diskOk sampleEnv sampleDisk"
    by (auto simp: diskOk_def sampleDisk_def tooRelaxed_def sampleFile_def sampleEnv_def intro!: exI [of _ "''k''"])
qed

theorem keystore_refines_map_witness:
  "keysOf sampleEnv (snd (key_Put sampleEnv ''k'' sampleKey emptyDisk)) ''k'' = Some sampleKey
   \<and> fst (key_Put sampleEnv ''k'' sampleKey emptyDisk) = Inr ()"
proof -
  have "''k'' \<noteq> []" by simp
  note r = keystore_refines_map [OF sample_ok(1,2) this, of sampleKey]
  have "keysOf sampleEnv emptyDisk ''k'' = None" by (simp add: keysOf_def emptyDisk_def)
  with r show ?thesis by simp
qed

theorem keystore_list_witness:
  "\<exists>names. key_List sampleEnv [(rev ''k'', sampleFile)] sampleDisk = Inr names \<and> distinct names"
proof -
  have "map_of [(rev ''k'', sampleFile)] = dk_files sampleDisk" "distinct (map fst [(rev ''k'', sampleFile)])"
    by (simp_all add: sampleDisk_def)
  from keystore_list [OF sample_ok(1,3) this] show ?thesis by blast
qed

theorem relaxed_permissions_refused_witness:
  "key_Get sampleEnv ''k'' \<lparr>dk_exists = True, dk_files = [rev ''k'' \<mapsto> sampleFile\<lparr>kf_mode := 420\<rparr>]\<rparr>
     = Inl (permissionError sampleEnv ''k'' 420)"
proof -
  let ?f = "sampleFile\<lparr>kf_mode := 420\<rparr>"
  let ?d = "\<lparr>dk_exists = True, dk_files = [rev ''k'' \<mapsto> ?f]\<rparr>"
  have "dk_exists ?d" "dk_files ?d (oe_enc sampleEnv ''k'') = Some ?f" "kf_mode ?f AND 63 \<noteq> 0"
    "oe_enc sampleEnv ''k'' \<noteq> []" "\<forall>op n. oe_fault sampleEnv op n = None"
    by (simp_all add: sampleEnv_def)
  from relaxed_permissions_refused [OF this] show ?thesis by simp
qed

theorem empty_name_is_directory_witness:
  "key_Delete sampleEnv [] emptyDisk = (Inr (), emptyDisk\<lparr>dk_exists := False\<rparr>)"
proof -
  have "dk_exists emptyDisk" "dk_files emptyDisk = Map.empty" by (simp_all add: emptyDisk_def)
  from empty_name_is_directory [OF sample_ok(1) this] show ?thesis by blast
qed

end
