(* ===== verification/Publisher.thy ===== *)
theory Publisher
  imports RepEvents "HOL-Library.Sublist" "HOL-Library.Multiset"
begin

text \<open>
  \<open>rep/publisher.go\<close>: the publisher of retrieval events.  Publishers put events into a channel of
  sixteen places, one goroutine takes them out, copies the list of subscribers and calls each of
  them.  The map of subscribers is the interface \<open>registry\<close>; the goroutine, its clients and the end of
  the context are the step relation \<open>pstep\<close>, whose state logs what was published, taken and
  delivered.
\<close>

section \<open>A registry\<close>

text \<open>
  What a client of the publisher relies on: a subscription adds one member under a key that is not in
  use and will not be given out again, and its function removes that member alone.
\<close>

locale registry =
  fixes add :: "'m \<Rightarrow> 's \<Rightarrow> nat \<times> 's" and remove :: "nat \<Rightarrow> 's \<Rightarrow> 's"
    and lookup :: "'s \<Rightarrow> nat \<Rightarrow> 'm option" and ok :: "'s \<Rightarrow> bool"
  assumes add_ok: "ok s \<Longrightarrow> ok (snd (add x s))"
    and remove_ok: "ok s \<Longrightarrow> ok (remove i s)"
    and add_fresh: "ok s \<Longrightarrow> lookup s (fst (add x s)) = None"
    and add_lookup: "ok s \<Longrightarrow> lookup (snd (add x s)) = (lookup s)(fst (add x s) \<mapsto> x)"
    and remove_lookup: "lookup (remove i s) = (lookup s)(i := None)"
    and add_once: "ok s \<Longrightarrow> fst (add y (remove i (snd (add x s)))) \<noteq> fst (add x s)"
begin

lemma remove_add: "ok s \<Longrightarrow> lookup (remove (fst (add x s)) (snd (add x s))) = lookup s"
  using add_fresh by (auto simp: remove_lookup add_lookup)

lemma remove_twice: "lookup (remove i (remove i s)) = lookup (remove i s)"
  by (simp add: remove_lookup)

text \<open>The function of a member that has left does not touch one that came after it.\<close>

lemma stale_remove:
  fixes x y s
  assumes "ok s" and "add x s = (i, s1)" and "s' = remove i s1"
  shows "lookup (remove i (snd (add y s'))) = lookup (snd (add y s'))"
proof -
  have ok: "ok s'" using add_ok [OF assms(1), of x] by (simp add: assms(2,3) remove_ok)
  have "fst (add y s') \<noteq> i" using add_once [OF assms(1), of y i x] by (simp add: assms(2,3))
  moreover have "lookup s' i = None" by (simp add: assms(3) remove_lookup)
  ultimately show ?thesis by (auto simp: remove_lookup add_lookup [OF ok])
qed

lemma dom_add:
  assumes "ok s" and "finite (dom (lookup s))"
  shows "card (dom (lookup (snd (add x s)))) = Suc (card (dom (lookup s)))"
proof -
  have "fst (add x s) \<notin> dom (lookup s)" using add_fresh [OF assms(1)] by auto
  then show ?thesis using assms by (simp add: add_lookup)
qed

end

section \<open>State and operations\<close>

text \<open>A subscriber is an interface value; the model identifies it by a number.\<close>

type_synonym subscriber = nat

datatype loop_pc = Idle | Delivering RetrievalEvent "subscriber list" | Stopped

record publisher =
  ep_done :: bool
  ep_subscribers :: "(nat \<times> subscriber) list"
  ep_idx :: nat
  ep_events :: "RetrievalEvent list"
  ep_loop :: loop_pc
  ep_published :: "RetrievalEvent list"
  ep_taken :: "RetrievalEvent list"
  ep_delivered :: "(subscriber \<times> RetrievalEvent) list"

definition newPublisher :: publisher where
  "newPublisher = \<lparr>ep_done = False, ep_subscribers = [], ep_idx = 0, ep_events = [], ep_loop = Idle,
     ep_published = [], ep_taken = [], ep_delivered = []\<rparr>"

definition ep_Subscribe :: "subscriber \<Rightarrow> publisher \<Rightarrow> nat \<times> publisher" where
  "ep_Subscribe x s = (ep_idx s, s\<lparr>ep_idx := ep_idx s + 1,
     ep_subscribers := ep_subscribers s @ [(ep_idx s, x)]\<rparr>)"

definition ep_Unsubscribe :: "nat \<Rightarrow> publisher \<Rightarrow> publisher" where
  "ep_Unsubscribe idx s = s\<lparr>ep_subscribers := filter (\<lambda>p. fst p \<noteq> idx) (ep_subscribers s)\<rparr>"

definition SubscriberCount :: "publisher \<Rightarrow> nat" where
  "SubscriberCount s = length (ep_subscribers s)"

definition ep_lookup :: "publisher \<Rightarrow> nat \<Rightarrow> subscriber option" where
  "ep_lookup s = map_of (ep_subscribers s)"

text \<open>The keys in the map are different and below the next index.\<close>

definition ep_ok :: "publisher \<Rightarrow> bool" where
  "ep_ok s \<longleftrightarrow> distinct (map fst (ep_subscribers s)) \<and> list_all (\<lambda>p. fst p < ep_idx s) (ep_subscribers s)"

lemma map_of_filter_fst: "map_of (filter (\<lambda>p. fst p \<noteq> i) xs) = (map_of xs)(i := None)"
  by (induction xs) auto

interpretation subscribers: registry ep_Subscribe ep_Unsubscribe ep_lookup ep_ok
proof unfold_locales
  fix s :: publisher and x y i
  show "ep_lookup (ep_Unsubscribe i s) = (ep_lookup s)(i := None)"
    by (simp add: ep_lookup_def ep_Unsubscribe_def map_of_filter_fst)
  assume ok: "ep_ok s"
  then show "ep_ok (snd (ep_Subscribe x s))" "ep_ok (ep_Unsubscribe i s)"
    by (auto simp: ep_ok_def ep_Subscribe_def ep_Unsubscribe_def list_all_iff distinct_map_filter)
  have new: "ep_idx s \<notin> fst ` set (ep_subscribers s)" using ok by (auto simp: ep_ok_def list_all_iff)
  then show none: "ep_lookup s (fst (ep_Subscribe x s)) = None"
    by (simp add: ep_lookup_def ep_Subscribe_def map_of_eq_None_iff)
  show "ep_lookup (snd (ep_Subscribe x s)) = (ep_lookup s)(fst (ep_Subscribe x s) \<mapsto> x)"
    using none by (auto simp: ep_lookup_def ep_Subscribe_def fun_eq_iff map_add_def split: option.splits)
  show "fst (ep_Subscribe y (ep_Unsubscribe i (snd (ep_Subscribe x s)))) \<noteq> fst (ep_Subscribe x s)"
    by (simp add: ep_Subscribe_def ep_Unsubscribe_def)
qed

section \<open>The steps\<close>

datatype plabel =
    PSubscribe subscriber
  | PUnsubscribe nat
  | PPublish RetrievalEvent
  | PTake "subscriber list"
  | PDeliver
  | PCancel
  | PStop

definition chanCapacity :: nat where "chanCapacity = 16"

text \<open>
  The copy of the subscribers is made under the lock with the event just taken; a Go map is visited in
  any order, so the copy is any permutation of the members.  With the context done \<open>Publish\<close> may give
  up the event.
\<close>

inductive pstep :: "publisher \<Rightarrow> plabel \<Rightarrow> publisher \<Rightarrow> bool" where
  subscribe: "pstep s (PSubscribe x) (snd (ep_Subscribe x s))"
| unsubscribe: "pstep s (PUnsubscribe i) (ep_Unsubscribe i s)"
| publish: "length (ep_events s) < chanCapacity \<Longrightarrow>
    pstep s (PPublish ev) (s\<lparr>ep_events := ep_events s @ [ev], ep_published := ep_published s @ [ev]\<rparr>)"
| give_up: "ep_done s \<Longrightarrow> pstep s (PPublish ev) s"
| take: "ep_loop s = Idle \<Longrightarrow> ep_events s = ev # evs \<Longrightarrow> mset subs = mset (map snd (ep_subscribers s)) \<Longrightarrow>
    pstep s (PTake subs) (s\<lparr>ep_events := evs, ep_loop := Delivering ev subs, ep_taken := ep_taken s @ [ev]\<rparr>)"
| deliver: "ep_loop s = Delivering ev (x # xs) \<Longrightarrow>
    pstep s PDeliver (s\<lparr>ep_loop := Delivering ev xs, ep_delivered := ep_delivered s @ [(x, ev)]\<rparr>)"
| finish: "ep_loop s = Delivering ev [] \<Longrightarrow> pstep s PDeliver (s\<lparr>ep_loop := Idle\<rparr>)"
| cancel: "pstep s PCancel (s\<lparr>ep_done := True\<rparr>)"
| stop: "ep_done s \<Longrightarrow> ep_loop s = Idle \<Longrightarrow> pstep s PStop (s\<lparr>ep_loop := Stopped\<rparr>)"

inductive pexec :: "plabel list \<Rightarrow> publisher \<Rightarrow> bool" where
  start: "pexec [] newPublisher"
| step: "pexec ls s \<Longrightarrow> pstep s l s' \<Longrightarrow> pexec (ls @ [l]) s'"

inductive_cases pexecE: "pexec ls s"

section \<open>Invariants\<close>

text \<open>The events delivered to a subscriber, in order.\<close>

definition got :: "subscriber \<Rightarrow> publisher \<Rightarrow> RetrievalEvent list" where
  "got x s = map snd (filter (\<lambda>p. fst p = x) (ep_delivered s))"

definition pubInv :: "publisher \<Rightarrow> bool" where
  "pubInv s \<longleftrightarrow> ep_published s = ep_taken s @ ep_events s \<and> length (ep_events s) \<le> chanCapacity \<and> ep_ok s"

lemma pubInv_step: "pstep s l s' \<Longrightarrow> pubInv s \<Longrightarrow> pubInv s'"
proof (induction rule: pstep.induct)
  case (subscribe s x)
  then show ?case using subscribers.add_ok [of s x] by (simp add: pubInv_def ep_Subscribe_def)
next
  case (unsubscribe s i)
  then show ?case using subscribers.remove_ok [of s i] by (simp add: pubInv_def ep_Unsubscribe_def)
qed (auto simp: pubInv_def ep_ok_def)

lemma pubInv_exec: "pexec ls s \<Longrightarrow> pubInv s"
proof (induction rule: pexec.induct)
  case start
  show ?case by (simp add: pubInv_def newPublisher_def ep_ok_def)
qed (use pubInv_step in blast)

text \<open>How often a subscriber has been put into the map.\<close>

definition timesSubscribed :: "subscriber \<Rightarrow> plabel list \<Rightarrow> nat" where
  "timesSubscribed x ls = length (filter (\<lambda>l. l = PSubscribe x) ls)"

definition orderInv :: "subscriber \<Rightarrow> plabel list \<Rightarrow> publisher \<Rightarrow> bool" where
  "orderInv x ls s \<longleftrightarrow>
     count (mset (map snd (ep_subscribers s))) x \<le> timesSubscribed x ls
     \<and> (timesSubscribed x ls \<le> 1 \<longrightarrow>
         (case ep_loop s of
            Delivering ev subs \<Rightarrow> (\<exists>tk. ep_taken s = tk @ [ev] \<and> count (mset subs) x \<le> 1
              \<and> subseq (got x s) (if x \<in> set subs then tk else ep_taken s))
          | _ \<Rightarrow> subseq (got x s) (ep_taken s)))"

lemma count_filter_snd: "count (mset (map snd (filter P xs))) x \<le> count (mset (map snd xs)) x"
  by (induction xs) auto

lemma timesSubscribed_snoc:
  "timesSubscribed x (ls @ [l]) = timesSubscribed x ls + (if l = PSubscribe x then 1 else 0)"
  by (simp add: timesSubscribed_def)

lemma got_append: "got x (s\<lparr>ep_delivered := d @ [(y, ev)]\<rparr>) = map snd (filter (\<lambda>p. fst p = x) d) @ (if y = x then [ev] else [])"
  by (simp add: got_def)

lemma orderInv_step:
  assumes "orderInv x ls s" and "pstep s l s'"
  shows "orderInv x (ls @ [l]) s'"
  using assms(2,1)
proof (cases rule: pstep.cases)
  case (subscribe y)
  then show ?thesis using assms(1)
    by (auto simp: orderInv_def ep_Subscribe_def timesSubscribed_snoc got_def split: loop_pc.splits)
next
  case (unsubscribe i)
  then show ?thesis using assms(1) count_filter_snd [of "\<lambda>p. fst p \<noteq> i" "ep_subscribers s" x]
    by (auto simp: orderInv_def ep_Unsubscribe_def timesSubscribed_snoc got_def split: loop_pc.splits)
next
  case (take ev evs subs)
  have le: "count (mset subs) x \<le> timesSubscribed x ls"
    using assms(1) take(5) by (simp add: orderInv_def)
  show ?thesis
    unfolding orderInv_def timesSubscribed_snoc
  proof (intro conjI impI)
    show "count (mset (map snd (ep_subscribers s'))) x \<le> timesSubscribed x ls + (if l = PSubscribe x then 1 else 0)"
      using assms(1) take by (simp add: orderInv_def)
    assume one: "timesSubscribed x ls + (if l = PSubscribe x then 1 else 0) \<le> 1"
    then have "subseq (got x s) (ep_taken s)" using assms(1) take by (simp add: orderInv_def)
    then show "case ep_loop s' of
            Delivering ev subs \<Rightarrow> (\<exists>tk. ep_taken s' = tk @ [ev] \<and> count (mset subs) x \<le> 1
              \<and> subseq (got x s') (if x \<in> set subs then tk else ep_taken s'))
          | _ \<Rightarrow> subseq (got x s') (ep_taken s')"
      using take le one by (auto simp: got_def)
  qed
next
  case (deliver ev y ys)
  have keep: "count (mset (map snd (ep_subscribers s'))) x \<le> timesSubscribed x (ls @ [l])"
    using assms(1) deliver by (simp add: orderInv_def timesSubscribed_snoc)
  show ?thesis
  proof (cases "timesSubscribed x ls \<le> 1")
    case False
    then show ?thesis using keep by (simp add: orderInv_def timesSubscribed_snoc)
  next
    case True
    with assms(1) deliver obtain tk where tk: "ep_taken s = tk @ [ev]" "count (mset (y # ys)) x \<le> 1"
      "subseq (got x s) (if x \<in> set (y # ys) then tk else ep_taken s)" by (auto simp: orderInv_def)
    have "subseq (got x s') (if x \<in> set ys then tk else ep_taken s)"
    proof (cases "y = x")
      case True
      then have "x \<notin> set ys" using tk(2) by (auto simp: count_eq_zero_iff)
      moreover have "got x s' = got x s @ [ev]" using deliver True by (simp add: got_def)
      ultimately show ?thesis using tk(1,3) True by simp
    next
      case False
      moreover have "got x s' = got x s" using deliver False by (simp add: got_def)
      ultimately show ?thesis using tk(3) by simp
    qed
    moreover have "count (mset ys) x \<le> count (mset (y # ys)) x" by simp
    then have "count (mset ys) x \<le> 1" using tk(2) by (rule le_trans)
    ultimately show ?thesis using keep deliver tk(1) by (auto simp: orderInv_def split: if_splits)
  qed
qed (auto simp: orderInv_def timesSubscribed_snoc got_def split: loop_pc.splits if_splits)

lemma orderInv_exec: "pexec ls s \<Longrightarrow> orderInv x ls s"
proof (induction rule: pexec.induct)
  case start
  show ?case by (simp add: orderInv_def newPublisher_def timesSubscribed_def got_def)
qed (use orderInv_step in blast)

text \<open>
  Whatever the order in which publishers, subscribers and the delivering goroutine run, a
  subscriber that subscribes once gets published events only, in the order they were published, each
  at most as often as it was published; and no more than sixteen published events wait.
\<close>

theorem delivery_in_order:
  assumes "pexec ls s" and "timesSubscribed x ls \<le> 1"
  shows "subseq (got x s) (ep_published s) \<and> length (ep_events s) \<le> 16"
proof -
  from pubInv_exec [OF assms(1)] have p: "ep_published s = ep_taken s @ ep_events s"
    "length (ep_events s) \<le> 16" by (auto simp: pubInv_def chanCapacity_def)
  have "subseq (got x s) (ep_taken s)"
    using orderInv_exec [OF assms(1), of x] assms(2)
    by (auto simp: orderInv_def split: loop_pc.splits if_splits intro: subseq_order.trans)
  then have "subseq (got x s) (ep_taken s @ ep_events s)" by (meson list_emb_append2 subseq_order.trans subseq_rev_drop_many list_emb_prefix)
  with p show ?thesis by simp
qed

text \<open>The first subscriber of a run, who never leaves.\<close>

definition firstStays :: "subscriber \<Rightarrow> plabel list \<Rightarrow> bool" where
  "firstStays x ls \<longleftrightarrow> (case ls of
      [] \<Rightarrow> False
    | l # rest \<Rightarrow> l = PSubscribe x \<and> list_all (\<lambda>k. k \<noteq> PSubscribe x \<and> k \<noteq> PUnsubscribe 0) rest)"

definition firstInv :: "subscriber \<Rightarrow> publisher \<Rightarrow> bool" where
  "firstInv x s \<longleftrightarrow> filter (\<lambda>p. snd p = x) (ep_subscribers s) = [(0, x)] \<and> 0 < ep_idx s
     \<and> (case ep_loop s of
          Delivering ev subs \<Rightarrow> (\<exists>tk. ep_taken s = tk @ [ev] \<and> count (mset subs) x \<le> 1
            \<and> got x s = (if x \<in> set subs then tk else ep_taken s))
        | _ \<Rightarrow> got x s = ep_taken s)"

lemma count_filter_len: "count (mset (map snd xs)) x = length (filter (\<lambda>p. snd p = x) xs)"
  by (induction xs) auto

lemma firstInv_step:
  assumes "firstInv x s" and "pstep s l s'" and "l \<noteq> PSubscribe x" and "l \<noteq> PUnsubscribe 0"
  shows "firstInv x s'"
  using assms(2)
proof (cases rule: pstep.cases)
  case (unsubscribe i)
  have "filter (\<lambda>p. snd p = x) (filter (\<lambda>p. fst p \<noteq> i) (ep_subscribers s)) =
      filter (\<lambda>p. fst p \<noteq> i) (filter (\<lambda>p. snd p = x) (ep_subscribers s))"
    by (simp add: conj_commute)
  also have "\<dots> = [(0, x)]" using assms(1,4) unsubscribe by (auto simp: firstInv_def)
  finally have "filter (\<lambda>p. snd p = x) (ep_subscribers s') = [(0, x)]"
    using unsubscribe by (simp add: ep_Unsubscribe_def del: filter_filter)
  then show ?thesis using assms unsubscribe
    by (auto simp: firstInv_def ep_Unsubscribe_def got_def simp del: filter_filter split: loop_pc.splits)
next
  case (take ev evs subs)
  have "count (mset (map snd (ep_subscribers s))) x = 1"
    using assms(1) by (simp only: count_filter_len firstInv_def) simp
  with take have "count (mset subs) x = 1" by (simp only:)
  moreover from this have "x \<in> set subs" by (metis count_eq_zero_iff set_mset_mset zero_neq_one)
  ultimately show ?thesis using assms(1) take by (auto simp: firstInv_def got_def)
next
  case (deliver ev y ys)
  with assms(1) obtain tk where tk: "ep_taken s = tk @ [ev]" "count (mset (y # ys)) x \<le> 1"
    "got x s = (if x \<in> set (y # ys) then tk else ep_taken s)" by (auto simp: firstInv_def)
  have "count (mset ys) x \<le> count (mset (y # ys)) x" by simp
  then have c: "count (mset ys) x \<le> 1" using tk(2) by (rule le_trans)
  have "got x s' = (if x \<in> set ys then tk else ep_taken s)"
  proof (cases "y = x")
    case True
    then have "x \<notin> set ys" using tk(2) by (auto simp: count_eq_zero_iff)
    moreover have "got x s' = got x s @ [ev]" using deliver True by (simp add: got_def)
    ultimately show ?thesis using tk(1,3) True by simp
  next
    case False
    moreover have "got x s' = got x s" using deliver False by (simp add: got_def)
    ultimately show ?thesis using tk(3) by simp
  qed
  then show ?thesis using assms(1) deliver tk(1) c by (simp add: firstInv_def)
qed (use assms in \<open>auto simp: firstInv_def ep_Subscribe_def got_def split: loop_pc.splits if_splits\<close>)

lemma firstInv_exec: "pexec ls s \<Longrightarrow> firstStays x ls \<Longrightarrow> firstInv x s"
proof (induction rule: pexec.induct)
  case start
  then show ?case by (simp add: firstStays_def)
next
  case (step ls s l s')
  show ?case
  proof (cases ls)
    case Nil
    then have "s = newPublisher" using step.hyps(1) by (auto elim: pexec.cases)
    moreover have "l = PSubscribe x" using step.prems Nil by (simp add: firstStays_def)
    ultimately show ?thesis using step.hyps(2)
      by (auto elim!: pstep.cases simp: firstInv_def ep_Subscribe_def newPublisher_def got_def)
  next
    case (Cons k ks)
    then have "firstStays x ls" "l \<noteq> PSubscribe x" "l \<noteq> PUnsubscribe 0"
      using step.prems by (auto simp: firstStays_def)
    with step firstInv_step show ?thesis by blast
  qed
qed

text \<open>
  C11: The client itself, which subscribes right after it has made the publisher and never leaves,
  receives every event in the order of publication: what it has received and what still waits in the
  channel is exactly what was published, whenever the goroutine is between two events.
\<close>

theorem first_subscriber_gets_all:
  assumes "pexec ls s" and "firstStays x ls" and "ep_loop s = Idle"
  shows "ep_published s = got x s @ ep_events s"
  using pubInv_exec [OF assms(1)] firstInv_exec [OF assms(1,2)] assms(3)
  by (simp add: pubInv_def firstInv_def)

text \<open>
  The function returned by \<open>Subscribe\<close> removes that subscription only, and called again later it
  removes nothing, whoever has subscribed since.
\<close>

theorem unsubscribe_exact:
  assumes "ep_ok s" and "ep_Subscribe x s = (i, s1)"
  shows "ep_lookup (ep_Unsubscribe i s1) = ep_lookup s
    \<and> ep_lookup (ep_Unsubscribe i (snd (ep_Subscribe y (ep_Unsubscribe i s1)))) =
        ep_lookup (snd (ep_Subscribe y (ep_Unsubscribe i s1)))"
  using subscribers.remove_add [OF assms(1), of x] subscribers.stale_remove [OF assms refl, of y] assms(2)
  by simp

section \<open>A publisher can always deliver\<close>

lemma deliver_one:
  assumes "pexec ls s" and "ep_subscribers s = [(0, x)]" and "ep_loop s = Idle" and "ep_events s = []"
  shows "\<exists>s'. pexec (ls @ [PPublish ev, PTake [x], PDeliver, PDeliver]) s' \<and> ep_subscribers s' = [(0, x)]
    \<and> ep_loop s' = Idle \<and> ep_events s' = [] \<and> ep_published s' = ep_published s @ [ev]"
proof -
  let ?s1 = "s\<lparr>ep_events := [ev], ep_published := ep_published s @ [ev]\<rparr>"
  let ?s2 = "?s1\<lparr>ep_events := [], ep_loop := Delivering ev [x], ep_taken := ep_taken s @ [ev]\<rparr>"
  let ?s3 = "?s2\<lparr>ep_loop := Delivering ev [], ep_delivered := ep_delivered s @ [(x, ev)]\<rparr>"
  let ?s4 = "?s3\<lparr>ep_loop := Idle\<rparr>"
  have 1: "pexec (ls @ [PPublish ev]) ?s1"
    using pexec.step [OF assms(1) pstep.publish [of s ev]] assms(4) by (simp add: chanCapacity_def)
  have "pstep ?s1 (PTake [x]) ?s2" using pstep.take [of ?s1 ev "[]" "[x]"] assms(2,3) by simp
  from pexec.step [OF 1 this] have 2: "pexec (ls @ [PPublish ev, PTake [x]]) ?s2" by simp
  have "pstep ?s2 PDeliver ?s3" using pstep.deliver [of ?s2 ev x "[]"] by simp
  from pexec.step [OF 2 this] have 3: "pexec (ls @ [PPublish ev, PTake [x], PDeliver]) ?s3" by simp
  have "pstep ?s3 PDeliver ?s4" using pstep.finish [of ?s3 ev] by simp
  from pexec.step [OF 3 this] have "pexec (ls @ [PPublish ev, PTake [x], PDeliver, PDeliver]) ?s4" by simp
  then show ?thesis using assms(2) by (intro exI [of _ ?s4]) simp
qed

lemma publisher_delivers:
  "\<exists>ls s. pexec ls s \<and> firstStays x ls \<and> ep_subscribers s = [(0, x)] \<and> ep_loop s = Idle \<and> ep_events s = []
    \<and> ep_published s = evs"
proof (induction evs rule: rev_induct)
  case Nil
  have "pexec ([] @ [PSubscribe x]) (snd (ep_Subscribe x newPublisher))"
    by (rule pexec.step [OF pexec.start pstep.subscribe])
  then show ?case
    by (intro exI [of _ "[PSubscribe x]"] exI [of _ "snd (ep_Subscribe x newPublisher)"])
      (simp add: firstStays_def ep_Subscribe_def newPublisher_def)
next
  case (snoc ev evs)
  then obtain ls s where "pexec ls s" "firstStays x ls" and s: "ep_subscribers s = [(0, x)]" "ep_loop s = Idle"
    "ep_events s = []" "ep_published s = evs" by blast
  from deliver_one [OF this(1) s(1-3), of ev] obtain s' where s': "pexec (ls @ [PPublish ev, PTake [x], PDeliver, PDeliver]) s'"
    "ep_subscribers s' = [(0, x)]" "ep_loop s' = Idle" "ep_events s' = []" "ep_published s' = ep_published s @ [ev]" by blast
  have "firstStays x (ls @ [PPublish ev, PTake [x], PDeliver, PDeliver])"
    using \<open>firstStays x ls\<close> by (cases ls) (auto simp: firstStays_def)
  with s' s(4) show ?case by blast
qed

section \<open>A run\<close>

definition sampleEv :: "string \<Rightarrow> RetrievalEvent" where
  "sampleEv c = NewRetrievalEventProposed RetrievalPhase c ''12D3miner'' []"

definition samplePublisher :: publisher where
  "samplePublisher = \<lparr>ep_done = False, ep_subscribers = [(0, 7)], ep_idx = 1, ep_events = [sampleEv ''b''],
     ep_loop = Idle, ep_published = [sampleEv ''a'', sampleEv ''b''], ep_taken = [sampleEv ''a''],
     ep_delivered = [(7, sampleEv ''a'')]\<rparr>"

definition sampleSteps :: "plabel list" where
  "sampleSteps = [PSubscribe 7, PPublish (sampleEv ''a''), PTake [7], PPublish (sampleEv ''b''), PDeliver, PDeliver]"

lemma sample_exec: "pexec sampleSteps samplePublisher"
proof -
  let ?s1 = "snd (ep_Subscribe 7 newPublisher)"
  let ?a = "sampleEv ''a''" let ?b = "sampleEv ''b''"
  let ?s2 = "?s1\<lparr>ep_events := [?a], ep_published := [?a]\<rparr>"
  let ?s3 = "?s2\<lparr>ep_events := [], ep_loop := Delivering ?a [7], ep_taken := [?a]\<rparr>"
  let ?s4 = "?s3\<lparr>ep_events := [?b], ep_published := [?a, ?b]\<rparr>"
  let ?s5 = "?s4\<lparr>ep_loop := Delivering ?a [], ep_delivered := [(7, ?a)]\<rparr>"
  let ?s6 = "?s5\<lparr>ep_loop := Idle\<rparr>"
  note new = newPublisher_def ep_Subscribe_def chanCapacity_def
  have 1: "pexec [PSubscribe 7] ?s1" using pexec.step [OF pexec.start pstep.subscribe] by simp
  have "pstep ?s1 (PPublish ?a) ?s2" using pstep.publish [of ?s1 ?a] by (simp add: new)
  from pexec.step [OF 1 this] have 2: "pexec [PSubscribe 7, PPublish ?a] ?s2" by simp
  have "pstep ?s2 (PTake [7]) ?s3" using pstep.take [of ?s2 ?a "[]" "[7]"] by (simp add: new)
  from pexec.step [OF 2 this] have 3: "pexec [PSubscribe 7, PPublish ?a, PTake [7]] ?s3" by simp
  have "pstep ?s3 (PPublish ?b) ?s4" using pstep.publish [of ?s3 ?b] by (simp add: new)
  from pexec.step [OF 3 this] have 4: "pexec [PSubscribe 7, PPublish ?a, PTake [7], PPublish ?b] ?s4" by simp
  have "pstep ?s4 PDeliver ?s5" using pstep.deliver [of ?s4 ?a 7 "[]"] by (simp add: new)
  from pexec.step [OF 4 this] have 5: "pexec [PSubscribe 7, PPublish ?a, PTake [7], PPublish ?b, PDeliver] ?s5" by simp
  have "pstep ?s5 PDeliver ?s6" using pstep.finish [of ?s5 ?a] by simp
  from pexec.step [OF 5 this] show ?thesis by (simp add: sampleSteps_def samplePublisher_def new)
qed

theorem delivery_in_order_witness:
  "subseq [sampleEv ''a''] [sampleEv ''a'', sampleEv ''b'']"
proof -
  have "timesSubscribed 7 sampleSteps \<le> 1" by (simp add: timesSubscribed_def sampleSteps_def)
  from delivery_in_order [OF sample_exec this] show ?thesis
    by (simp add: got_def samplePublisher_def)
qed

theorem first_subscriber_gets_all_witness:
  "ep_published samplePublisher = got 7 samplePublisher @ ep_events samplePublisher
   \<and> got 7 samplePublisher = [sampleEv ''a'']"
proof -
  have "firstStays 7 sampleSteps" "ep_loop samplePublisher = Idle"
    by (simp_all add: firstStays_def sampleSteps_def samplePublisher_def)
  from first_subscriber_gets_all [OF sample_exec this] show ?thesis
    by (simp add: got_def samplePublisher_def)
qed

theorem unsubscribe_exact_witness:
  "ep_lookup (ep_Unsubscribe 1 (snd (ep_Subscribe 8 samplePublisher))) = ep_lookup samplePublisher"
proof -
  have "ep_ok samplePublisher" by (simp add: ep_ok_def samplePublisher_def)
  moreover have "ep_Subscribe 8 samplePublisher = (1, snd (ep_Subscribe 8 samplePublisher))"
    by (simp add: ep_Subscribe_def samplePublisher_def)
  ultimately show ?thesis using unsubscribe_exact by blast
qed

end
