(* ===== verification/Xfer.thy ===== *)
theory Xfer
  imports Retrieval
begin

text \<open>
  \<open>libp2ptransfermgr.go\<close>: the manager of the transfers over libp2p.  It listens to the events of the CAR
  server, keeps the completed transfers in a datastore, tells one listener of the client about
  changes, and on a timer fails the transfers whose auth token has expired.  The server, the auth
  database and the datastore are packages outside the repository: the record \<open>xfer_service\<close>, whose
  answers may depend on all earlier calls.  The listener is a function value; the model keeps a
  number that stands for it and records each call of it in the trace.
\<close>

section \<open>The services and the state\<close>

record xfer_service =
  x_ServerID :: string
  x_Start :: "trace \<Rightarrow> go_error option"
  x_Get :: "trace \<Rightarrow> string \<Rightarrow> go_error + libp2p_transfer"
  x_CancelTransfer :: "trace \<Rightarrow> string \<Rightarrow> go_error option"
  x_Transfers :: "trace \<Rightarrow> go_error + libp2p_transfer list"
  x_DeleteExpired :: "trace \<Rightarrow> int \<Rightarrow> go_error + auth_value list"
  x_AuthPut :: "trace \<Rightarrow> string \<Rightarrow> auth_value \<Rightarrow> go_error option"
  x_AuthDelete :: "trace \<Rightarrow> string \<Rightarrow> go_error option"
  x_DsGet :: "trace \<Rightarrow> string \<Rightarrow> go_error + bytes"
  x_DsPut :: "trace \<Rightarrow> string \<Rightarrow> bytes \<Rightarrow> go_error option"
  x_DsQuery :: "trace \<Rightarrow> go_error + (string \<times> bytes) list"

text \<open>Pure functions of the packages.\<close>

record xfer_library =
  xl_NewKey :: "string \<Rightarrow> string"
  xl_Marshal :: "transfer_state \<Rightarrow> go_error + bytes"
  xl_Unmarshal :: "bytes \<Rightarrow> go_error + transfer_state"
  xl_PeerDecode :: "string \<Rightarrow> go_error + peer"
  xl_Statuses :: "dt_status \<Rightarrow> string"
  xl_CidString :: "cid \<Rightarrow> string"

record xfer_mgr =
  x_service :: xfer_service
  x_library :: xfer_library
  x_TimeoutText :: string

record xstate = world +
  x_listener :: "nat option"

abbreviation (input) ErrTransferNotFound :: string where "ErrTransferNotFound \<equiv> ''transfer not found''"
abbreviation (input) ErrNotFound :: string where "ErrNotFound \<equiv> ''datastore: key not found''"

section \<open>Conversion\<close>

definition parsePeerID :: "xfer_library \<Rightarrow> string \<Rightarrow> peer" where
  "parsePeerID L s = (case xl_PeerDecode L s of Inl _ \<Rightarrow> [] | Inr p \<Rightarrow> p)"

definition toDTState :: "xfer_library \<Rightarrow> transfer_state \<Rightarrow> ChannelState" where
  "toDTState L st =
     (let status = (case ts_Status st of
            TransferStatusStarted \<Rightarrow> Requested
          | TransferStatusCompleted \<Rightarrow> Completed
          | TransferStatusFailed \<Rightarrow> Failed
          | _ \<Rightarrow> Ongoing);
          xferid = fst (ParseUint (ts_ID st));
          remoteAddr = (if ts_RemoteAddr st = [] then ts_LocalAddr st else ts_RemoteAddr st);
          chid = \<lparr>ch_Initiator = parsePeerID L (ts_LocalAddr st),
                  ch_Responder = parsePeerID L remoteAddr, ch_ID = xferid\<rparr>
      in \<lparr>cs_SelfPeer = parsePeerID L (ts_LocalAddr st), cs_RemotePeer = parsePeerID L remoteAddr,
          cs_Status = status, cs_StatusStr = xl_Statuses L status, cs_Sent = ts_Sent st,
          cs_Received = ts_Received st, cs_Message = ts_Message st,
          cs_BaseCid = xl_CidString L (ts_PayloadCid st), cs_ChannelID = chid,
          cs_TransferID = ts_ID st, cs_Stages = None, cs_TransferType = BoostTransfer\<rparr>)"

section \<open>The completed transfers\<close>

definition getCompletedTransfer ::
  "xfer_mgr \<Rightarrow> string \<Rightarrow> ('w world_scheme, go_error + transfer_state) state" where
  "getCompletedTransfer m tid =
     (let key = xl_NewKey (x_library m) tid
      in do {
        r \<leftarrow> perform (\<lambda>t. x_DsGet (x_service m) t key) (\<lambda>_. Xfer (XDsGet key));
        ret (case r of
          Inl err \<Rightarrow>
            if errors_Is err ErrNotFound
            then Inl (wrapf (''getting transfer status for id '' @ [CHR 0x27] @ tid @ [CHR 0x27] @ '': '') err)
            else Inl (wrapf (''getting transfer status for id '' @ [CHR 0x27] @ tid @ [CHR 0x27] @ '' from datastore: '') err)
        | Inr data \<Rightarrow>
            (case xl_Unmarshal (x_library m) data of
               Inl err \<Rightarrow> Inl (wrapf ''unmarshaling transfer status: '' err)
             | Inr st \<Rightarrow> Inr st))
      })"

definition saveCompletedTransfer ::
  "xfer_mgr \<Rightarrow> string \<Rightarrow> transfer_state \<Rightarrow> ('w world_scheme, go_error + unit) state" where
  "saveCompletedTransfer m tid st =
     (let key = xl_NewKey (x_library m) tid
      in case xl_Marshal (x_library m) st of
           Inl err \<Rightarrow> ret (Inl (wrapf ''json marshalling transfer status: '' err))
         | Inr data \<Rightarrow> do {
             r \<leftarrow> perform (\<lambda>t. x_DsPut (x_service m) t key data) (\<lambda>r. Xfer (XDsPut key data r));
             ret (case r of
               Some err \<Rightarrow> Inl (wrapf ''storing transfer status to datastore: '' err)
             | None \<Rightarrow> Inr ())
           })"

text \<open>\<open>key[0]\<close> of an empty key is a panic.\<close>

fun removeLeadingSlash :: "string \<Rightarrow> go_error + string" where
  "removeLeadingSlash [] = Inl (Panic ''index out of range [0] with length 0'')"
| "removeLeadingSlash (c # k) = Inr (if c = CHR ''/'' then k else c # k)"

text \<open>
  The loop over the stored entries; the callback works on the variables \<open>'a\<close> it captures and says
  whether to go on.
\<close>

fun eachCompleted ::
  "xfer_library \<Rightarrow> (string \<Rightarrow> transfer_state \<Rightarrow> 'a \<Rightarrow> bool \<times> 'a) \<Rightarrow> (string \<times> bytes) list \<Rightarrow> 'a
     \<Rightarrow> go_error option \<times> 'a" where
  "eachCompleted L cb [] a = (None, a)"
| "eachCompleted L cb ((key, value) # rs) a =
     (case xl_Unmarshal L value of
        Inl err \<Rightarrow> (Some (wrapf ''unmarshaling json from datastore: '' err), a)
      | Inr st \<Rightarrow>
          (case removeLeadingSlash key of
             Inl e \<Rightarrow> (Some e, a)
           | Inr k \<Rightarrow> (case cb k st a of
               (False, a') \<Rightarrow> (None, a')
             | (True, a') \<Rightarrow> eachCompleted L cb rs a')))"

definition forEachCompletedTransfer ::
  "xfer_mgr \<Rightarrow> (string \<Rightarrow> transfer_state \<Rightarrow> 'a \<Rightarrow> bool \<times> 'a) \<Rightarrow> 'a
     \<Rightarrow> ('w world_scheme, go_error option \<times> 'a) state" where
  "forEachCompletedTransfer m cb a = do {
     q \<leftarrow> perform (\<lambda>t. x_DsQuery (x_service m) t) (\<lambda>_. Xfer XDsQuery);
     ret (case q of
       Inl err \<Rightarrow> (Some (wrapf ''query error: '' err), a)
     | Inr rs \<Rightarrow> eachCompleted (x_library m) cb rs a)
   }"

section \<open>Queries\<close>

type_synonym transfer_map = "string \<Rightarrow> ChannelState option"

text \<open>
  \<open>Matching\<close> of the server calls the function on the active transfers and returns those it accepts;
  the function given by \<open>All\<close> accepts everything and fills the map.
\<close>

definition matching ::
  "xfer_mgr \<Rightarrow> ('w world_scheme, go_error + libp2p_transfer list) state" where
  "matching m = perform (\<lambda>t. x_Transfers (x_service m) t) (\<lambda>_. Xfer XMatching)"

definition activeMap :: "xfer_library \<Rightarrow> libp2p_transfer list \<Rightarrow> transfer_map" where
  "activeMap L xs = fold (\<lambda>x m. m(lt_ID x \<mapsto> toDTState L (lt_State x))) xs Map.empty"

definition All :: "xfer_mgr \<Rightarrow> ('w world_scheme, go_error option \<times> transfer_map) state" where
  "All m = do {
     r \<leftarrow> matching m;
     case r of
       Inl err \<Rightarrow> ret (Some err, Map.empty)
     | Inr xs \<Rightarrow>
         forEachCompletedTransfer m (\<lambda>k st all. (True, all(k \<mapsto> toDTState (x_library m) st)))
           (activeMap (x_library m) xs)
   }"

definition byId :: "xfer_mgr \<Rightarrow> string \<Rightarrow> ('w world_scheme, go_error + ChannelState) state" where
  "byId m tid = do {
     r \<leftarrow> perform (\<lambda>t. x_Get (x_service m) t tid) (\<lambda>_. Xfer (XGet tid));
     case r of
       Inr xfer \<Rightarrow> ret (Inr (toDTState (x_library m) (lt_State xfer)))
     | Inl err \<Rightarrow>
         if \<not> errors_Is err ErrTransferNotFound then ret (Inl err)
         else bindE (getCompletedTransfer m tid) (\<lambda>st. ret (Inr (toDTState (x_library m) st)))
   }"

text \<open>
  The callback of the second lookup stores a match in the captured variable and returns \<open>true\<close>, and
  returns \<open>false\<close> for anything else.
\<close>

definition contentCallback ::
  "xfer_library \<Rightarrow> string \<Rightarrow> cid \<Rightarrow> string \<Rightarrow> transfer_state \<Rightarrow> ChannelState option
     \<Rightarrow> bool \<times> ChannelState option" where
  "contentCallback L remoteAddr payloadCid k st chanst =
     (if ts_RemoteAddr st = remoteAddr \<and> ts_PayloadCid st = payloadCid
      then (True, Some (toDTState L st)) else (False, chanst))"

definition byRemoteAddrAndPayloadCid ::
  "xfer_mgr \<Rightarrow> string \<Rightarrow> cid \<Rightarrow> ('w world_scheme, go_error option \<times> ChannelState option) state" where
  "byRemoteAddrAndPayloadCid m remoteAddr payloadCid = do {
     r \<leftarrow> matching m;
     case r of
       Inl err \<Rightarrow> ret (Some err, None)
     | Inr xs \<Rightarrow>
         (case filter (\<lambda>x. lt_RemoteAddr x = remoteAddr \<and> lt_PayloadCid x = payloadCid) xs of
            x # _ \<Rightarrow> ret (None, Some (toDTState (x_library m) (lt_State x)))
          | [] \<Rightarrow> forEachCompletedTransfer m
                    (contentCallback (x_library m) remoteAddr payloadCid) None)
   }"

section \<open>Auth tokens\<close>

definition PrepareForDataRequest ::
  "xfer_mgr \<Rightarrow> u64 \<Rightarrow> string \<Rightarrow> cid \<Rightarrow> cid \<Rightarrow> u64 \<Rightarrow> ('w world_scheme, go_error + unit) state" where
  "PrepareForDataRequest m tid authToken proposalCid payloadCid sz =
     (let v = \<lparr>av_ID = fmt_u64 tid, av_ProposalCid = proposalCid, av_PayloadCid = payloadCid,
               av_Size = sz\<rparr>
      in do {
        r \<leftarrow> perform (\<lambda>t. x_AuthPut (x_service m) t authToken v) (\<lambda>r. Xfer (XAuthPut authToken v r));
        ret (case r of Some err \<Rightarrow> Inl (wrapf ''adding new auth token: '' err) | None \<Rightarrow> Inr ())
      })"

definition cancelTransfer :: "xfer_mgr \<Rightarrow> string \<Rightarrow> ('w world_scheme, go_error option) state" where
  "cancelTransfer m tid =
     perform (\<lambda>t. x_CancelTransfer (x_service m) t tid) (\<lambda>_. Xfer (XCancelTransfer tid))"

definition CleanupPreparedRequest ::
  "xfer_mgr \<Rightarrow> u64 \<Rightarrow> string \<Rightarrow> ('w world_scheme, go_error + unit) state" where
  "CleanupPreparedRequest m dbid authToken = do {
     delerr \<leftarrow> perform (\<lambda>t. x_AuthDelete (x_service m) t authToken) (\<lambda>_. Xfer (XAuthDelete authToken));
     c \<leftarrow> cancelTransfer m (fmt_u64 dbid);
     let cancelerr = (case c of
           Some e \<Rightarrow> if errors_Is e ErrTransferNotFound then None else Some e
         | None \<Rightarrow> None);
     ret (case delerr of Some e \<Rightarrow> Inl e | None \<Rightarrow> ofErr cancelerr)
   }"

section \<open>The listener and the events of the server\<close>

definition Subscribe :: "nat \<Rightarrow> ('w xstate_scheme, go_error + unit) state" where
  "Subscribe listener = do {
     l \<leftarrow> gets x_listener;
     if l \<noteq> None then ret (Inl (Errorf ''only one listener allowed''))
     else do { modify (\<lambda>s. s\<lparr>x_listener := Some listener\<rparr>); ret (Inr ()) }
   }"

text \<open>The function \<open>Subscribe\<close> returns; it does not look whose listener it removes.\<close>

definition unsubscribe :: "('w xstate_scheme, unit) state" where
  "unsubscribe = modify (\<lambda>s. s\<lparr>x_listener := None\<rparr>)"

definition notify :: "xfer_mgr \<Rightarrow> u64 \<Rightarrow> transfer_state \<Rightarrow> ('w xstate_scheme, unit) state" where
  "notify m dbid st = do {
     l \<leftarrow> gets x_listener;
     case l of
       None \<Rightarrow> ret ()
     | Some who \<Rightarrow> emit (Xfer (XListener who dbid (toDTState (x_library m) st)))
   }"

definition onServerEvent :: "xfer_mgr \<Rightarrow> string \<Rightarrow> transfer_state \<Rightarrow> ('w xstate_scheme, unit) state" where
  "onServerEvent m dbidstr st =
     (case ParseUint dbidstr of
        (_, Some err) \<Rightarrow> ret ()
      | (dbid, None) \<Rightarrow>
          if ts_Status st = TransferStatusFailed then ret ()
          else do {
            (if ts_Status st = TransferStatusCompleted
             then do { saveCompletedTransfer m dbidstr st; ret () } else ret ());
            notify m dbid st
          })"

section \<open>The expiry check\<close>

text \<open>The state that is saved and reported for a transfer that timed out.\<close>

definition timedOut :: "xfer_mgr \<Rightarrow> string \<Rightarrow> libp2p_transfer option \<Rightarrow> transfer_state" where
  "timedOut m tid activeXfer =
     (let st0 = (case activeXfer of
            Some x \<Rightarrow> lt_State x
          | None \<Rightarrow> \<lparr>ts_ID = tid, ts_LocalAddr = x_ServerID (x_service m), ts_RemoteAddr = [],
                     ts_Status = TransferStatusOther [], ts_Sent = 0, ts_Received = 0,
                     ts_Message = [], ts_PayloadCid = cid_Undef\<rparr>);
          st1 = st0\<lparr>ts_Status := TransferStatusFailed\<rparr>
      in if ts_Message st1 = []
         then st1\<lparr>ts_Message := ''timed out waiting '' @ x_TimeoutText m @ '' for transfer to complete''\<rparr>
         else st1)"

text \<open>After the active transfer has been dealt with.\<close>

definition failExpired ::
  "xfer_mgr \<Rightarrow> string \<Rightarrow> libp2p_transfer option \<Rightarrow> ('w xstate_scheme, unit) state" where
  "failExpired m tid activeXfer = do {
     completed \<leftarrow> getCompletedTransfer m tid;
     case completed of
       Inl err \<Rightarrow>
         if \<not> errors_Is err ErrNotFound then ret ()
         else (case ParseUint tid of
             (_, Some e) \<Rightarrow> ret ()
           | (dbid, None) \<Rightarrow> do {
               r \<leftarrow> saveCompletedTransfer m tid (timedOut m tid activeXfer);
               case r of Inl e \<Rightarrow> ret () | Inr _ \<Rightarrow> notify m dbid (timedOut m tid activeXfer)
             })
     | Inr c \<Rightarrow>
         if ts_Status c = TransferStatusCompleted then ret ()
         else (case ParseUint tid of
             (_, Some e) \<Rightarrow> ret ()
           | (dbid, None) \<Rightarrow> notify m dbid (timedOut m tid activeXfer))
   }"

text \<open>One expired token.\<close>

definition checkExpired :: "xfer_mgr \<Rightarrow> string \<Rightarrow> ('w xstate_scheme, unit) state" where
  "checkExpired m tid = do {
     r \<leftarrow> perform (\<lambda>t. x_Get (x_service m) t tid) (\<lambda>_. Xfer (XGet tid));
     case r of
       Inl err \<Rightarrow> if \<not> errors_Is err ErrTransferNotFound then ret () else failExpired m tid None
     | Inr x \<Rightarrow> do {
         c \<leftarrow> cancelTransfer m tid;
         case c of
           Some err \<Rightarrow> if \<not> errors_Is err ErrTransferNotFound then ret () else failExpired m tid (Some x)
         | None \<Rightarrow> failExpired m tid (Some x)
       }
   }"

fun checkAll :: "xfer_mgr \<Rightarrow> auth_value list \<Rightarrow> ('w xstate_scheme, unit) state" where
  "checkAll m [] = ret ()"
| "checkAll m (v # vs) = do { checkExpired m (av_ID v); checkAll m vs }"

definition checkTransferExpiry :: "xfer_mgr \<Rightarrow> int \<Rightarrow> ('w xstate_scheme, unit) state" where
  "checkTransferExpiry m cutoff = do {
     expired \<leftarrow> perform (\<lambda>t. x_DeleteExpired (x_service m) t cutoff) (\<lambda>_. Xfer (XDeleteExpired cutoff));
     case expired of Inl err \<Rightarrow> ret () | Inr vs \<Rightarrow> checkAll m vs
   }"

section \<open>Starting and stopping\<close>

definition Start :: "xfer_mgr \<Rightarrow> ('w xstate_scheme, go_error + unit) state" where
  "Start m = do { emit (Xfer XSubscribe); performE (\<lambda>t. x_Start (x_service m) t) (Xfer XStart) }"

definition Stop :: "('w xstate_scheme, unit) state" where
  "Stop = emit (Xfer XUnsubscribe)"

end
