(* ===== verification/XferProps.thy ===== *)
theory XferProps
  imports Xfer
begin

text \<open>
  What the manager of the libp2p transfers guarantees: the saved states are found again, a transfer
  stored as completed is never reported as failed, what one expired token leads to on each path, what
  the lookup by content really returns, and the single listener.
\<close>

section \<open>The datastore contract\<close>

text \<open>
  \<open>storedAt t key\<close> is the value the successful \<open>Put\<close> calls of a trace leave at a key.  A manager is
  \<open>storeOk\<close> when its datastore answers \<open>Get\<close> with that value, as \<open>go-datastore\<close> documents, when
  unmarshalling inverts marshalling, and when different ids have different keys.
\<close>

fun store :: "call \<Rightarrow> (string \<Rightarrow> bytes option) \<Rightarrow> string \<Rightarrow> bytes option" where
  "store (Xfer (XDsPut key data None)) m = m(key \<mapsto> data)"
| "store _ m = m"

definition storedAt :: "trace \<Rightarrow> string \<Rightarrow> bytes option" where
  "storedAt t = fold store t Map.empty"

lemma storedAt_simps [simp]:
  "storedAt [] = Map.empty" "storedAt (t @ [c]) = store c (storedAt t)"
  by (simp_all add: storedAt_def)

definition storeOk :: "xfer_mgr \<Rightarrow> bool" where
  "storeOk m \<longleftrightarrow>
     (\<forall>t key. case storedAt t key of
        Some data \<Rightarrow> x_DsGet (x_service m) t key = Inr data
      | None \<Rightarrow> (\<exists>e. x_DsGet (x_service m) t key = Inl e \<and> errors_Is e ErrNotFound))
     \<and> (\<forall>st data. xl_Marshal (x_library m) st = Inr data \<longrightarrow> xl_Unmarshal (x_library m) data = Inr st)
     \<and> inj (xl_NewKey (x_library m))"

lemma storeOkD:
  assumes "storeOk m"
  shows "storedAt t key = Some data \<Longrightarrow> x_DsGet (x_service m) t key = Inr data"
    and "storedAt t key = None \<Longrightarrow> \<exists>e. x_DsGet (x_service m) t key = Inl e \<and> errors_Is e ErrNotFound"
    and "xl_Marshal (x_library m) st = Inr data \<Longrightarrow> xl_Unmarshal (x_library m) data = Inr st"
    and "xl_NewKey (x_library m) i = xl_NewKey (x_library m) j \<longleftrightarrow> i = j"
  using assms by (auto simp: storeOk_def inj_eq split: option.splits dest!: spec [of _ t] spec [of _ key])

text \<open>The state stored for a transfer.\<close>

definition recorded :: "xfer_mgr \<Rightarrow> string \<Rightarrow> 'w world_scheme \<Rightarrow> transfer_state option" where
  "recorded m tid w =
     (case storedAt (w_trace w) (xl_NewKey (x_library m) tid) of
        None \<Rightarrow> None
      | Some data \<Rightarrow> (case xl_Unmarshal (x_library m) data of Inl _ \<Rightarrow> None | Inr st \<Rightarrow> Some st))"

lemma getCompleted_recorded:
  assumes "storeOk m" and "recorded m tid w = Some st"
  shows "run_state (getCompletedTransfer m tid) w =
    (Inr st, w\<lparr>w_trace := w_trace w @ [Xfer (XDsGet (xl_NewKey (x_library m) tid))]\<rparr>)"
  using assms storeOkD(1) [OF assms(1)]
  by (auto simp: recorded_def getCompletedTransfer_def run_simps Let_def
      split: option.splits sum.splits)

lemma save_recorded:
  assumes "storeOk m" and "run_state (saveCompletedTransfer m tid st) w = (r, w')"
  shows "recorded m j w' = (if r = Inr () \<and> j = tid then Some st else recorded m j w)"
proof (cases "xl_Marshal (x_library m) st")
  case (Inl e)
  then show ?thesis using assms(2) by (auto simp: saveCompletedTransfer_def run_simps Let_def)
next
  case (Inr data)
  let ?key = "xl_NewKey (x_library m) tid"
  show ?thesis
  proof (cases "x_DsPut (x_service m) (w_trace w) ?key data")
    case (Some e)
    then show ?thesis using assms(2) Inr
      by (auto simp: saveCompletedTransfer_def run_simps Let_def recorded_def)
  next
    case None
    with assms(2) Inr have "r = Inr ()" "w_trace w' = w_trace w @ [Xfer (XDsPut ?key data None)]"
      by (auto simp: saveCompletedTransfer_def run_simps Let_def)
    then show ?thesis
      by (simp add: recorded_def storeOkD(3) [OF assms(1) Inr] storeOkD(4) [OF assms(1)])
  qed
qed

text \<open>
  Once the manager has seen the completion of a transfer and stored it, asking for that transfer
  by id after the server has forgotten it gives the completed state with its id and byte counts.
\<close>

theorem completed_transfer_found:
  assumes "storeOk m" and "ParseUint tid = (dbid, None)" and "ts_Status st = TransferStatusCompleted"
    and "run_state (onServerEvent m tid st) s = ((), s')"
    and "xl_Marshal (x_library m) st = Inr data"
    and "x_DsPut (x_service m) (w_trace s) (xl_NewKey (x_library m) tid) data = None"
    and "x_Get (x_service m) (w_trace s') tid = Inl e" and "errors_Is e ErrTransferNotFound"
  shows "fst (run_state (byId m tid) s') = Inr (toDTState (x_library m) st)
    \<and> cs_Status (toDTState (x_library m) st) = Completed
    \<and> cs_Sent (toDTState (x_library m) st) = ts_Sent st
    \<and> cs_TransferID (toDTState (x_library m) st) = ts_ID st"
proof -
  obtain r w where save: "run_state (saveCompletedTransfer m tid st) s = (r, w)" by fastforce
  with assms(5,6) have r: "r = Inr ()" by (auto simp: saveCompletedTransfer_def run_simps Let_def)
  from save_recorded [OF assms(1) save] r have rec: "recorded m tid w = Some st" by simp
  have s': "s' = snd (run_state (notify m dbid st) w)"
    using assms(2,3,4) by (simp add: onServerEvent_def save)
  have "recorded m tid s' = Some st"
    using rec by (auto simp: s' notify_def run_simps recorded_def split: option.splits)
  then have "recorded m tid (s'\<lparr>w_trace := w_trace s' @ [Xfer (XGet tid)]\<rparr>) = Some st"
    by (simp add: recorded_def)
  from getCompleted_recorded [OF assms(1) this] assms(7,8) show ?thesis
    by (simp add: byId_def run_simps toDTState_def Let_def assms(3))
qed

section \<open>Sequences of operations\<close>

datatype xop =
    ServerEvent string transfer_state
  | ExpiryCheck int
  | Prepare u64 string cid cid u64
  | Cleanup u64 string
  | Listen nat
  | Unlisten

fun runOp :: "xfer_mgr \<Rightarrow> xop \<Rightarrow> ('w xstate_scheme, unit) state" where
  "runOp m (ServerEvent tid st) = onServerEvent m tid st"
| "runOp m (ExpiryCheck cutoff) = checkTransferExpiry m cutoff"
| "runOp m (Prepare tid tok prop payload sz) =
     do { PrepareForDataRequest m tid tok prop payload sz; ret () }"
| "runOp m (Cleanup tid tok) = do { CleanupPreparedRequest m tid tok; ret () }"
| "runOp m (Listen l) = do { Subscribe l; ret () }"
| "runOp m Unlisten = unsubscribe"

fun runOps :: "xfer_mgr \<Rightarrow> xop list \<Rightarrow> ('w xstate_scheme, unit) state" where
  "runOps m [] = ret ()"
| "runOps m (p # ps) = do { runOp m p; runOps m ps }"

text \<open>
  An action is safe for a transfer that is recorded as completed: it stays so, and the listener is
  not told that the transfer failed.
\<close>

definition reportsFailure :: "u64 \<Rightarrow> call \<Rightarrow> bool" where
  "reportsFailure dbid c =
     (case c of Xfer (XListener who d cst) \<Rightarrow> d = dbid \<and> cs_Status cst = Failed | _ \<Rightarrow> False)"

definition finished :: "xfer_mgr \<Rightarrow> u64 \<Rightarrow> 'w world_scheme \<Rightarrow> bool" where
  "finished m dbid w \<longleftrightarrow> (\<exists>st. recorded m (fmt_u64 dbid) w = Some st \<and> ts_Status st = TransferStatusCompleted)"

definition safe :: "xfer_mgr \<Rightarrow> u64 \<Rightarrow> ('w world_scheme, 'a) state \<Rightarrow> bool" where
  "safe m dbid a \<longleftrightarrow> (\<forall>w. finished m dbid w \<longrightarrow> finished m dbid (snd (run_state a w))
     \<and> (\<exists>u. w_trace (snd (run_state a w)) = w_trace w @ u \<and> list_all (\<lambda>c. \<not> reportsFailure dbid c) u))"

named_theorems safe_intros \<open>which actions are safe for a completed transfer\<close>

lemma safe_ret [safe_intros]: "safe m dbid (ret r)"
  by (simp add: safe_def)

lemma safe_bind [safe_intros]:
  fixes a :: "('w world_scheme, 'r) state"
  assumes "safe m dbid a" and "\<And>r. safe m dbid (k r)"
  shows "safe m dbid (a \<bind> k)"
  unfolding safe_def
proof (intro allI impI)
  fix w :: "'w world_scheme"
  assume d: "finished m dbid w"
  obtain r w1 where a: "run_state a w = (r, w1)" by fastforce
  from assms(1) d obtain u where u: "finished m dbid w1" "w_trace w1 = w_trace w @ u"
    "list_all (\<lambda>c. \<not> reportsFailure dbid c) u" unfolding safe_def by (metis a snd_conv)
  from assms(2) u(1) obtain v where "finished m dbid (snd (run_state (k r) w1))"
    "w_trace (snd (run_state (k r) w1)) = w_trace w1 @ v" "list_all (\<lambda>c. \<not> reportsFailure dbid c) v"
    unfolding safe_def by metis
  with u show "finished m dbid (snd (run_state (a \<bind> k) w)) \<and>
      (\<exists>u. w_trace (snd (run_state (a \<bind> k) w)) = w_trace w @ u \<and> list_all (\<lambda>c. \<not> reportsFailure dbid c) u)"
    by (intro conjI exI [of _ "u @ v"]) (simp_all add: a)
qed

lemma safe_gets [safe_intros]: "safe m dbid (gets f)"
  by (simp add: safe_def run_gets)

lemma safe_if [safe_intros]: "safe m dbid a \<Longrightarrow> safe m dbid b \<Longrightarrow> safe m dbid (if c then a else b)"
  by simp

lemma safe_perform [safe_intros]:
  assumes "\<And>r. \<not> reportsFailure dbid (c r)" and "\<And>r f. store (c r) f = f"
  shows "safe m dbid (perform f c)"
  using assms by (auto simp: safe_def run_simps finished_def recorded_def)

lemma safe_getCompleted [safe_intros]: "safe m dbid (getCompletedTransfer m tid)"
  unfolding getCompletedTransfer_def Let_def
  by (intro safe_intros) (simp_all add: reportsFailure_def)

lemma safe_save:
  assumes "storeOk m" and "tid = fmt_u64 dbid \<Longrightarrow> ts_Status st = TransferStatusCompleted"
  shows "safe m dbid (saveCompletedTransfer m tid st)"
  unfolding safe_def
proof (intro allI impI conjI)
  fix w assume d: "finished m dbid w"
  obtain r w' where r: "run_state (saveCompletedTransfer m tid st) w = (r, w')" by fastforce
  show "finished m dbid (snd (run_state (saveCompletedTransfer m tid st) w))"
    using d assms(2) by (auto simp: r finished_def save_recorded [OF assms(1) r])
  show "\<exists>u. w_trace (snd (run_state (saveCompletedTransfer m tid st) w)) = w_trace w @ u
      \<and> list_all (\<lambda>c. \<not> reportsFailure dbid c) u"
    by (auto simp: saveCompletedTransfer_def run_simps Let_def reportsFailure_def split: sum.splits)
qed

lemma safe_notify:
  assumes "d \<noteq> dbid \<or> ts_Status st \<noteq> TransferStatusFailed"
  shows "safe m dbid (notify m d st)"
proof -
  have "cs_Status (toDTState (x_library m) st) \<noteq> Failed" if "ts_Status st \<noteq> TransferStatusFailed"
    using that by (auto simp: toDTState_def Let_def split: transfer_status.splits)
  then show ?thesis using assms
    by (auto simp: safe_def notify_def run_simps reportsFailure_def finished_def recorded_def split: option.splits)
qed

lemma safe_onServerEvent [safe_intros]:
  assumes "storeOk m" shows "safe m dbid (onServerEvent m tid st)"
  unfolding onServerEvent_def
  by (auto split: prod.split option.split
      intro!: safe_intros safe_save [OF assms] safe_notify)

text \<open>The ids in the auth database are those \<open>PrepareForDataRequest\<close> writes, decimal numbers.\<close>

definition tokensOk :: "xfer_mgr \<Rightarrow> bool" where
  "tokensOk m \<longleftrightarrow> (\<forall>t cutoff vs. x_DeleteExpired (x_service m) t cutoff = Inr vs \<longrightarrow>
     (\<forall>v \<in> set vs. \<exists>n. av_ID v = fmt_u64 n))"

lemma safe_failExpired:
  assumes "storeOk m" and "tid = fmt_u64 n"
  shows "safe m dbid (failExpired m tid x)"
proof (cases "n = dbid")
  case True
  show ?thesis
    unfolding safe_def
  proof (intro allI impI)
    fix w :: "'a xstate_scheme"
    assume d: "finished m dbid w"
    then obtain st where st: "recorded m tid w = Some st" "ts_Status st = TransferStatusCompleted"
      by (auto simp: finished_def assms(2) True)
    have "run_state (failExpired m tid x) w =
        ((), w\<lparr>w_trace := w_trace w @ [Xfer (XDsGet (xl_NewKey (x_library m) tid))]\<rparr>)"
      using st by (simp add: failExpired_def getCompleted_recorded [OF assms(1) st(1)])
    with d show "finished m dbid (snd (run_state (failExpired m tid x) w)) \<and>
      (\<exists>u. w_trace (snd (run_state (failExpired m tid x) w)) = w_trace w @ u \<and>
        list_all (\<lambda>c. \<not> reportsFailure dbid c) u)"
      by (simp add: finished_def recorded_def reportsFailure_def)
  qed
next
  case False
  then have "tid \<noteq> fmt_u64 dbid" by (simp add: assms(2) fmt_u64_inj)
  then show ?thesis using False
    unfolding failExpired_def
    by (auto simp: assms(2) split: sum.split intro!: safe_intros safe_save [OF assms(1)] safe_notify)
qed

lemma safe_checkExpired:
  assumes "storeOk m" and "tid = fmt_u64 n"
  shows "safe m dbid (checkExpired m tid)"
  unfolding checkExpired_def cancelTransfer_def
  by (auto simp: reportsFailure_def split: sum.split option.split
      intro!: safe_intros safe_failExpired [OF assms])

lemma safe_checkAll:
  assumes "storeOk m" and "\<forall>v \<in> set vs. \<exists>n. av_ID v = fmt_u64 n"
  shows "safe m dbid (checkAll m vs)"
  using assms(2)
proof (induction vs)
  case Nil
  then show ?case by (simp add: safe_ret)
next
  case (Cons v vs)
  from Cons.prems obtain n where "av_ID v = fmt_u64 n" by auto
  from safe_checkExpired [OF assms(1) this] Cons show ?case by (auto intro!: safe_bind)
qed

lemma safe_checkTransferExpiry:
  fixes m :: xfer_mgr
  assumes "storeOk m" and "tokensOk m"
  shows "safe m dbid (checkTransferExpiry m cutoff :: ('w xstate_scheme, unit) state)"
  unfolding safe_def
proof (intro allI impI)
  fix w :: "'w xstate_scheme"
  assume d: "finished m dbid w"
  let ?w1 = "w\<lparr>w_trace := w_trace w @ [Xfer (XDeleteExpired cutoff)]\<rparr>"
  have d1: "finished m dbid ?w1" using d by (simp add: finished_def recorded_def)
  show "finished m dbid (snd (run_state (checkTransferExpiry m cutoff) w)) \<and>
      (\<exists>u. w_trace (snd (run_state (checkTransferExpiry m cutoff) w)) = w_trace w @ u \<and>
        list_all (\<lambda>c. \<not> reportsFailure dbid c) u)"
  proof (cases "x_DeleteExpired (x_service m) (w_trace w) cutoff")
    case (Inl e)
    then show ?thesis using d1 by (simp add: checkTransferExpiry_def run_simps reportsFailure_def)
  next
    case (Inr vs)
    with assms(2) have "\<forall>v \<in> set vs. \<exists>n. av_ID v = fmt_u64 n" by (auto simp: tokensOk_def)
    from safe_checkAll [OF assms(1) this, of dbid] d1 obtain u where
      u: "finished m dbid (snd (run_state (checkAll m vs) ?w1))"
      "w_trace (snd (run_state (checkAll m vs) ?w1)) = w_trace ?w1 @ u"
      "list_all (\<lambda>c. \<not> reportsFailure dbid c) u"
      unfolding safe_def by blast
    then show ?thesis using Inr
      by (simp add: checkTransferExpiry_def run_simps reportsFailure_def)
  qed
qed

lemma safe_listener [safe_intros]: "safe m dbid (Subscribe l)" "safe m dbid unsubscribe"
  by (auto simp: safe_def Subscribe_def unsubscribe_def run_simps finished_def recorded_def)

lemma safe_tokens [safe_intros]:
  "safe m dbid (PrepareForDataRequest m tid tok prop payload sz)"
  "safe m dbid (CleanupPreparedRequest m tid tok)"
  unfolding PrepareForDataRequest_def CleanupPreparedRequest_def cancelTransfer_def Let_def
  by (intro safe_intros; simp add: reportsFailure_def)+

lemma safe_runOp: "storeOk m \<Longrightarrow> tokensOk m \<Longrightarrow> safe m dbid (runOp m p)"
  by (cases p) (auto intro!: safe_intros safe_checkTransferExpiry)

lemma safe_runOps: "storeOk m \<Longrightarrow> tokensOk m \<Longrightarrow> safe m dbid (runOps m ps)"
  by (induction ps) (auto intro!: safe_intros safe_runOp)


section \<open>One expired token\<close>

text \<open>The notifications among a list of calls.\<close>

definition notified :: "trace \<Rightarrow> (nat \<times> u64 \<times> ChannelState) list" where
  "notified t = concat (map (\<lambda>c. case c of Xfer (XListener who d st) \<Rightarrow> [(who, d, st)] | _ \<Rightarrow> []) t)"

lemma notified_simps [simp]:
  "notified [] = []" "notified (t @ u) = notified t @ notified u"
  "notified (c # t) = (case c of Xfer (XListener who d st) \<Rightarrow> [(who, d, st)] | _ \<Rightarrow> []) @ notified t"
  by (simp_all add: notified_def)


text \<open>
  An error of the server other than "not found" ends the check of a token whose entry has just
  been deleted from the auth database: nothing is stored and nobody is told, although the failure of
  the transfer is only ever reported by this check.
\<close>

theorem expired_token_dropped:
  assumes "x_DeleteExpired (x_service m) (w_trace s) cutoff = Inr [v]"
    and "x_Get (x_service m) (w_trace s @ [Xfer (XDeleteExpired cutoff)]) (av_ID v) = Inl e"
    and "\<not> errors_Is e ErrTransferNotFound"
  shows "run_state (checkTransferExpiry m cutoff) s =
    ((), s\<lparr>w_trace := w_trace s @ [Xfer (XDeleteExpired cutoff), Xfer (XGet (av_ID v))]\<rparr>)"
  using assms by (simp add: checkTransferExpiry_def checkExpired_def run_simps)

section \<open>Events of the server\<close>

text \<open>
  What the manager does with an event of the server: an id that is no number and a failure lead to
  nothing at all (the failure is reported by the expiry check); everything else is passed on once,
  never as a failure; a completion is put into the store before the listener hears of it, and the
  listener hears of it even when that fails.
\<close>

theorem server_event_delivery:
  assumes "run_state (onServerEvent m tid st) s = ((), s')" and "w_trace s' = w_trace s @ u"
    and "x_listener s = Some who"
  shows "(snd (ParseUint tid) \<noteq> None \<or> ts_Status st = TransferStatusFailed \<longrightarrow> u = [])
    \<and> (snd (ParseUint tid) = None \<and> ts_Status st \<noteq> TransferStatusFailed \<longrightarrow>
        notified u = [(who, fst (ParseUint tid), toDTState (x_library m) st)]
        \<and> cs_Status (toDTState (x_library m) st) \<noteq> Failed
        \<and> (ts_Status st \<noteq> TransferStatusCompleted \<longrightarrow> length u = 1)
        \<and> (\<forall>data. ts_Status st = TransferStatusCompleted \<and> xl_Marshal (x_library m) st = Inr data \<longrightarrow>
            u = [Xfer (XDsPut (xl_NewKey (x_library m) tid) data
                   (x_DsPut (x_service m) (w_trace s) (xl_NewKey (x_library m) tid) data)),
                 Xfer (XListener who (fst (ParseUint tid)) (toDTState (x_library m) st))]))"
proof -
  obtain d er where p: "ParseUint tid = (d, er)" by fastforce
  have "cs_Status (toDTState (x_library m) st) \<noteq> Failed" if "ts_Status st \<noteq> TransferStatusFailed"
    using that by (auto simp: toDTState_def Let_def split: transfer_status.splits)
  note failed = this
  show ?thesis
  proof (cases "er = None \<and> ts_Status st \<noteq> TransferStatusFailed")
    case False
    then show ?thesis using assms by (auto simp: onServerEvent_def p split: option.splits)
  next
    case True
    let ?save = "if ts_Status st = TransferStatusCompleted
      then saveCompletedTransfer m tid st \<bind> (\<lambda>_. ret ()) else ret ()"
    have "\<exists>v. run_state ?save s = ((), s\<lparr>w_trace := w_trace s @ v\<rparr>) \<and> notified v = []
        \<and> (ts_Status st \<noteq> TransferStatusCompleted \<longrightarrow> v = [])
        \<and> (\<forall>data. ts_Status st = TransferStatusCompleted \<and> xl_Marshal (x_library m) st = Inr data \<longrightarrow>
            v = [Xfer (XDsPut (xl_NewKey (x_library m) tid) data
                   (x_DsPut (x_service m) (w_trace s) (xl_NewKey (x_library m) tid) data))])"
      by (auto simp: saveCompletedTransfer_def run_simps Let_def split: sum.splits
          intro: exI [of _ "[]"])
    then obtain v where v: "run_state ?save s = ((), s\<lparr>w_trace := w_trace s @ v\<rparr>)"
      "notified v = []" "ts_Status st \<noteq> TransferStatusCompleted \<longrightarrow> v = []"
      "\<forall>data. ts_Status st = TransferStatusCompleted \<and> xl_Marshal (x_library m) st = Inr data \<longrightarrow>
            v = [Xfer (XDsPut (xl_NewKey (x_library m) tid) data
                   (x_DsPut (x_service m) (w_trace s) (xl_NewKey (x_library m) tid) data))]" by blast
    have "run_state (onServerEvent m tid st) s =
        run_state (notify m d st) (s\<lparr>w_trace := w_trace s @ v\<rparr>)"
      using True v(1) by (simp add: onServerEvent_def p)
    then have "u = v @ [Xfer (XListener who d (toDTState (x_library m) st))]"
      using assms by (auto simp: notify_def run_simps)
    with True v(2-4) failed show ?thesis by (auto simp: p)
  qed
qed

section \<open>Lookup by content\<close>

lemma eachCompleted_content:
  assumes "list_all2 (\<lambda>(key, data) st. xl_Unmarshal L data = Inr st \<and> key \<noteq> []) rs sts"
  shows "eachCompleted L (contentCallback L ra pc) rs a =
    (None, case rev (takeWhile (\<lambda>st. ts_RemoteAddr st = ra \<and> ts_PayloadCid st = pc) sts) of
       [] \<Rightarrow> a | st # _ \<Rightarrow> Some (toDTState L st))"
  using assms
proof (induction rs sts arbitrary: a rule: list_all2_induct)
  case Nil
  then show ?case by simp
next
  case (Cons r rs st sts)
  obtain key data where r: "r = (key, data)" by fastforce
  with Cons.hyps obtain k where k: "removeLeadingSlash key = Inr k" by (cases key) auto
  show ?case
    using Cons.hyps(1) Cons.IH
    by (auto simp: r k contentCallback_def split: list.splits)
qed

text \<open>
  The lookup of a stored transfer by remote address and payload stops at the first entry that
  does not match and goes on after one that does: it returns the last of the matching entries the
  query begins with, so a matching entry behind another one is not found.
\<close>

theorem content_lookup:
  assumes "x_Transfers (x_service m) (w_trace w) = Inr xs"
    and "\<forall>x \<in> set xs. \<not> (lt_RemoteAddr x = ra \<and> lt_PayloadCid x = pc)"
    and "x_DsQuery (x_service m) (w_trace w @ [Xfer XMatching]) = Inr rs"
    and "list_all2 (\<lambda>(key, data) st. xl_Unmarshal (x_library m) data = Inr st \<and> key \<noteq> []) rs sts"
  shows "fst (run_state (byRemoteAddrAndPayloadCid m ra pc) w) =
    (None, case rev (takeWhile (\<lambda>st. ts_RemoteAddr st = ra \<and> ts_PayloadCid st = pc) sts) of
       [] \<Rightarrow> None | st # _ \<Rightarrow> Some (toDTState (x_library m) st))"
proof -
  have "filter (\<lambda>x. lt_RemoteAddr x = ra \<and> lt_PayloadCid x = pc) xs = []"
    using assms(2) by (simp add: filter_empty_conv)
  then show ?thesis using assms(1,3) eachCompleted_content [OF assms(4)]
    by (simp add: byRemoteAddrAndPayloadCid_def matching_def forEachCompletedTransfer_def run_simps)
qed

section \<open>All transfers\<close>

lemma eachCompleted_all:
  assumes "list_all2 (\<lambda>(key, data) (k, st). removeLeadingSlash key = Inr k \<and> xl_Unmarshal L data = Inr st) rs kvs"
  shows "eachCompleted L (\<lambda>k st all. (True, all(k \<mapsto> toDTState L st))) rs a =
    (None, a ++ map_of (rev (map (\<lambda>(k, st). (k, toDTState L st)) kvs)))"
  using assms
proof (induction rs kvs arbitrary: a rule: list_all2_induct)
  case (Cons r rs kv kvs)
  obtain key data k st where r: "r = (key, data)" "kv = (k, st)" by fastforce
  show ?case using Cons.hyps(1) Cons.IH by (simp add: r del: fun_upd_apply)
qed simp

lemma map_of_rev_distinct: "distinct (map fst xs) \<Longrightarrow> map_of (rev xs) = map_of xs"
proof (induction xs)
  case (Cons x xs)
  have "map_of xs (fst x) = None" using Cons.prems by (simp add: map_of_eq_None_iff)
  then show ?case using Cons by (auto simp: fun_eq_iff map_add_def split: option.splits)
qed simp

lemma map_of_pairs: "map_of (map (\<lambda>(k, v). (k, f v)) xs) k = map_option f (map_of xs k)"
  by (induction xs) auto

lemma activeMap_eq:
  "activeMap L xs = map_of (rev (map (\<lambda>x. (lt_ID x, toDTState L (lt_State x))) xs))"
proof -
  have "fold (\<lambda>x m. m(lt_ID x \<mapsto> toDTState L (lt_State x))) xs m0 =
      m0 ++ map_of (rev (map (\<lambda>x. (lt_ID x, toDTState L (lt_State x))) xs))" for m0
    by (induction xs arbitrary: m0) (auto simp del: fun_upd_apply simp: map_add_upd_left)
  then show ?thesis by (simp add: activeMap_def)
qed

text \<open>
  When every stored entry can be read, \<open>All\<close> gives the stored transfers, and the active ones that
  have no stored entry, each under its id.
\<close>

theorem all_transfers:
  assumes "x_Transfers (x_service m) (w_trace w) = Inr xs"
    and "x_DsQuery (x_service m) (w_trace w @ [Xfer XMatching]) = Inr rs"
    and "list_all2 (\<lambda>(key, data) (k, st). removeLeadingSlash key = Inr k
          \<and> xl_Unmarshal (x_library m) data = Inr st) rs kvs"
    and "distinct (map lt_ID xs)" and "distinct (map fst kvs)"
  shows "\<exists>all. fst (run_state (All m) w) = (None, all)
    \<and> (\<forall>k. all k = (case map_of kvs k of
          Some st \<Rightarrow> Some (toDTState (x_library m) st)
        | None \<Rightarrow> map_option (toDTState (x_library m)) (map_of (map (\<lambda>x. (lt_ID x, lt_State x)) xs) k)))"
proof -
  let ?T = "toDTState (x_library m)"
  let ?all = "activeMap (x_library m) xs ++ map_of (rev (map (\<lambda>(k, st). (k, ?T st)) kvs))"
  have d1: "distinct (map fst (map (\<lambda>x. (lt_ID x, ?T (lt_State x))) xs))"
    using assms(4) by (simp add: comp_def)
  have d2: "distinct (map fst (map (\<lambda>(k, st). (k, ?T st)) kvs))"
    using assms(5) by (simp add: comp_def split_beta)
  have a: "activeMap (x_library m) xs k = map_option ?T (map_of (map (\<lambda>x. (lt_ID x, lt_State x)) xs) k)" for k
    unfolding activeMap_eq map_of_rev_distinct [OF d1] by (induction xs) auto
  have c: "map_of (rev (map (\<lambda>(k, st). (k, ?T st)) kvs)) k = map_option ?T (map_of kvs k)" for k
    by (simp only: map_of_rev_distinct [OF d2] map_of_pairs)
  have "fst (run_state (All m) w) = (None, ?all)"
    using assms(1,2) eachCompleted_all [OF assms(3)]
    by (simp add: All_def matching_def forEachCompletedTransfer_def run_simps)
  moreover have "?all k = (case map_of kvs k of
          Some st \<Rightarrow> Some (?T st)
        | None \<Rightarrow> map_option ?T (map_of (map (\<lambda>x. (lt_ID x, lt_State x)) xs) k))" for k
    by (simp add: map_add_def c a split: option.splits)
  ultimately show ?thesis by blast
qed

section \<open>The listener\<close>

interpretation listener_cell: once_cell "\<lambda>l s. snd (run_state (Subscribe l) s)" x_listener
  by unfold_locales (simp_all add: Subscribe_def run_simps)

text \<open>
  Only the first of any number of subscriptions takes effect while no listener is removed; the
  function returned to it removes whoever listens, so after a second client has subscribed in its
  place a second call of the first client's function silences that one.
\<close>

theorem one_listener:
  "x_listener (fold (\<lambda>l s. snd (run_state (Subscribe l) s)) ls s)
     = (case x_listener s of Some l \<Rightarrow> Some l | None \<Rightarrow> (case ls of [] \<Rightarrow> None | l # _ \<Rightarrow> Some l))
   \<and> isOk (fst (run_state (Subscribe l) s)) = (x_listener s = None)
   \<and> x_listener (snd (run_state (do { unsubscribe; Subscribe l; unsubscribe }) s)) = None"
  using listener_cell.content_fold [of ls s]
  by (simp add: Subscribe_def unsubscribe_def run_simps)

section \<open>Errors of a cleanup\<close>

text \<open>
  A cleanup always both deletes the token and cancels the transfer; it reports the error of the
  deletion first, and never that the transfer was not found.
\<close>

theorem cleanup_errors:
  assumes "run_state (CleanupPreparedRequest m dbid tok) w = (r, w')"
  shows "w_trace w' = w_trace w @ [Xfer (XAuthDelete tok), Xfer (XCancelTransfer (fmt_u64 dbid))]
    \<and> r = (case x_AuthDelete (x_service m) (w_trace w) tok of
        Some e \<Rightarrow> Inl e
      | None \<Rightarrow> (case x_CancelTransfer (x_service m) (w_trace w @ [Xfer (XAuthDelete tok)]) (fmt_u64 dbid) of
          Some e \<Rightarrow> if errors_Is e ErrTransferNotFound then Inr () else Inl e
        | None \<Rightarrow> Inr ()))"
  using assms
  by (auto simp: CleanupPreparedRequest_def cancelTransfer_def run_simps split: option.splits)

section \<open>A manager\<close>

definition sampleDone :: transfer_state where
  "sampleDone = \<lparr>ts_ID = ''7'', ts_LocalAddr = ''12D3me'', ts_RemoteAddr = ''12D3miner'',
     ts_Status = TransferStatusCompleted, ts_Sent = 2048, ts_Received = 0, ts_Message = [],
     ts_PayloadCid = ''bafyroot''\<rparr>"

definition sampleTimedOut :: transfer_state where
  "sampleTimedOut = \<lparr>ts_ID = ''7'', ts_LocalAddr = ''12D3me'', ts_RemoteAddr = [],
     ts_Status = TransferStatusFailed, ts_Sent = 0, ts_Received = 0,
     ts_Message = ''timed out waiting 24h0m0s for transfer to complete'', ts_PayloadCid = []\<rparr>"

definition sampleToken :: auth_value where
  "sampleToken = \<lparr>av_ID = ''7'', av_ProposalCid = ''bafyprop'', av_PayloadCid = ''bafyroot'', av_Size = 2048\<rparr>"

definition sampleXferService :: xfer_service where
  "sampleXferService = \<lparr>x_ServerID = ''12D3me'', x_Start = (\<lambda>_. None),
     x_Get = (\<lambda>_ _. Inl (Sentinel ErrTransferNotFound ''transfer not found'')),
     x_CancelTransfer = (\<lambda>_ _. Some (Sentinel ErrTransferNotFound ''transfer not found'')),
     x_Transfers = (\<lambda>_. Inr []),
     x_DeleteExpired = (\<lambda>_ _. Inr [sampleToken]),
     x_AuthPut = (\<lambda>_ _ _. None), x_AuthDelete = (\<lambda>_ _. None),
     x_DsGet = (\<lambda>t k. case storedAt t k of Some d \<Rightarrow> Inr d
        | None \<Rightarrow> Inl (Sentinel ErrNotFound ''datastore: key not found'')),
     x_DsPut = (\<lambda>_ _ _. None),
     x_DsQuery = (\<lambda>_. Inr [(''/7'', ''done''), (''/8'', ''timedout''), (''/9'', ''done'')])\<rparr>"

definition sampleXferLibrary :: xfer_library where
  "sampleXferLibrary = \<lparr>xl_NewKey = (\<lambda>k. CHR ''/'' # k),
     xl_Marshal = (\<lambda>st. if st = sampleDone then Inr ''done''
        else if st = sampleTimedOut then Inr ''timedout'' else Inl (Opaque ''json'')),
     xl_Unmarshal = (\<lambda>d. if d = ''done'' then Inr sampleDone
        else if d = ''timedout'' then Inr sampleTimedOut else Inl (Opaque ''json'')),
     xl_PeerDecode = (\<lambda>s. Inr s), xl_Statuses = (\<lambda>_. ''status''), xl_CidString = (\<lambda>c. c)\<rparr>"

definition sampleMgr :: xfer_mgr where
  "sampleMgr = \<lparr>x_service = sampleXferService, x_library = sampleXferLibrary, x_TimeoutText = ''24h0m0s''\<rparr>"

definition sampleXstate :: xstate where
  "sampleXstate = \<lparr>w_trace = [], x_listener = Some 1\<rparr>"

lemma sampleMgr_ok: "storeOk sampleMgr" "tokensOk sampleMgr"
proof -
  show "storeOk sampleMgr"
    by (auto simp: storeOk_def sampleMgr_def sampleXferService_def sampleXferLibrary_def inj_def
        sampleDone_def sampleTimedOut_def split: option.splits if_splits)
  have "fmt_u64 7 = ''7''" by code_simp
  then show "tokensOk sampleMgr"
    by (auto simp: tokensOk_def sampleMgr_def sampleXferService_def sampleToken_def intro!: exI [of _ 7])
qed

lemma sample_id: "fmt_u64 7 = ''7''" "ParseUint ''7'' = (7, None)"
  by code_simp+

theorem completed_transfer_found_witness:
  "fst (run_state (byId sampleMgr ''7'') (snd (run_state (onServerEvent sampleMgr ''7'' sampleDone) sampleXstate)))
     = Inr (toDTState sampleXferLibrary sampleDone)
   \<and> cs_Sent (toDTState sampleXferLibrary sampleDone) = 2048"
proof -
  let ?s = "snd (run_state (onServerEvent sampleMgr ''7'' sampleDone) sampleXstate)"
  have run: "run_state (onServerEvent sampleMgr ''7'' sampleDone) sampleXstate = ((), ?s)"
    by (simp add: prod_eq_iff)
  have st: "ts_Status sampleDone = TransferStatusCompleted" "ts_Sent sampleDone = 2048"
    by (simp_all add: sampleDone_def)
  have h: "xl_Marshal (x_library sampleMgr) sampleDone = Inr ''done''"
    "x_DsPut (x_service sampleMgr) t k d = None"
    "x_Get (x_service sampleMgr) t i = Inl (Sentinel ErrTransferNotFound ''transfer not found'')"
    "errors_Is (Sentinel ErrTransferNotFound ''transfer not found'') ErrTransferNotFound"
    "x_library sampleMgr = sampleXferLibrary" for t k d i
    by (simp_all add: sampleMgr_def sampleXferLibrary_def sampleXferService_def)
  from completed_transfer_found [OF sampleMgr_ok(1) sample_id(2) st(1) run h(1,2,3,4)] st h(5)
  show ?thesis by simp
qed



theorem expired_token_dropped_witness:
  "let m = sampleMgr\<lparr>x_service := sampleXferService\<lparr>x_Get := \<lambda>_ _. Inl (Opaque ''busy'')\<rparr>\<rparr>
   in run_state (checkTransferExpiry m 100) sampleXstate =
     ((), sampleXstate\<lparr>w_trace := [Xfer (XDeleteExpired 100), Xfer (XGet ''7'')]\<rparr>)"
proof -
  let ?m = "sampleMgr\<lparr>x_service := sampleXferService\<lparr>x_Get := \<lambda>_ _. Inl (Opaque ''busy'')\<rparr>\<rparr>"
  have h: "x_DeleteExpired (x_service ?m) (w_trace sampleXstate) 100 = Inr [sampleToken]"
    "x_Get (x_service ?m) (w_trace sampleXstate @ [Xfer (XDeleteExpired 100)]) (av_ID sampleToken)
       = Inl (Opaque ''busy'')"
    "\<not> errors_Is (Opaque ''busy'') ErrTransferNotFound"
    by (simp_all add: sampleXferService_def)
  from expired_token_dropped [OF h] show ?thesis
    by (simp add: sampleXstate_def sampleToken_def)
qed

theorem server_event_delivery_witness:
  "notified (w_trace (snd (run_state (onServerEvent sampleMgr ''7'' sampleDone) sampleXstate)))
     = [(1, 7, toDTState sampleXferLibrary sampleDone)]"
proof -
  let ?s' = "snd (run_state (onServerEvent sampleMgr ''7'' sampleDone) sampleXstate)"
  have run: "run_state (onServerEvent sampleMgr ''7'' sampleDone) sampleXstate = ((), ?s')"
    by (simp add: prod_eq_iff)
  have w: "w_trace ?s' = w_trace sampleXstate @ w_trace ?s'" by (simp add: sampleXstate_def)
  have l: "x_listener sampleXstate = Some 1" by (simp add: sampleXstate_def)
  from server_event_delivery [OF run w l] show ?thesis
    by (simp add: sample_id(2) sampleDone_def sampleMgr_def)
qed

theorem content_lookup_witness:
  "fst (run_state (byRemoteAddrAndPayloadCid sampleMgr [] []) \<lparr>w_trace = []\<rparr>) = (None, None)
   \<and> ts_RemoteAddr sampleTimedOut = [] \<and> ts_PayloadCid sampleTimedOut = []"
proof -
  have h: "x_Transfers (x_service sampleMgr) (w_trace \<lparr>w_trace = []\<rparr>) = Inr []"
    "\<forall>x \<in> set ([] :: libp2p_transfer list). \<not> (lt_RemoteAddr x = [] \<and> lt_PayloadCid x = [])"
    "x_DsQuery (x_service sampleMgr) (w_trace \<lparr>w_trace = []\<rparr> @ [Xfer XMatching]) =
       Inr [(''/7'', ''done''), (''/8'', ''timedout''), (''/9'', ''done'')]"
    "list_all2 (\<lambda>(key, data) st. xl_Unmarshal (x_library sampleMgr) data = Inr st \<and> key \<noteq> [])
       [(''/7'', ''done''), (''/8'', ''timedout''), (''/9'', ''done'')]
       [sampleDone, sampleTimedOut, sampleDone]"
    by (simp_all add: sampleMgr_def sampleXferService_def sampleXferLibrary_def)
  from content_lookup [OF h] show ?thesis
    by (simp add: sampleDone_def sampleTimedOut_def)
qed

theorem all_transfers_witness:
  "\<exists>all. fst (run_state (All sampleMgr) \<lparr>w_trace = []\<rparr>) = (None, all)
     \<and> all ''8'' = Some (toDTState sampleXferLibrary sampleTimedOut) \<and> all ''5'' = None"
proof -
  have h: "x_Transfers (x_service sampleMgr) (w_trace \<lparr>w_trace = []\<rparr>) = Inr []"
    "x_DsQuery (x_service sampleMgr) (w_trace \<lparr>w_trace = []\<rparr> @ [Xfer XMatching]) =
       Inr [(''/7'', ''done''), (''/8'', ''timedout''), (''/9'', ''done'')]"
    "list_all2 (\<lambda>(key, data) (k, st). removeLeadingSlash key = Inr k
          \<and> xl_Unmarshal (x_library sampleMgr) data = Inr st)
       [(''/7'', ''done''), (''/8'', ''timedout''), (''/9'', ''done'')]
       [(''7'', sampleDone), (''8'', sampleTimedOut), (''9'', sampleDone)]"
    "distinct (map lt_ID [])" "distinct (map fst [(''7'', sampleDone), (''8'', sampleTimedOut), (''9'', sampleDone)])"
    by (simp_all add: sampleMgr_def sampleXferService_def sampleXferLibrary_def)
  from all_transfers [OF h] show ?thesis by (auto simp: sampleMgr_def)
qed

theorem cleanup_errors_witness:
  "fst (run_state (CleanupPreparedRequest sampleMgr 7 ''token'') \<lparr>w_trace = []\<rparr>) = Inr ()"
proof -
  let ?run = "run_state (CleanupPreparedRequest sampleMgr 7 ''token'') \<lparr>w_trace = []\<rparr>"
  have "?run = (fst ?run, snd ?run)" by simp
  from cleanup_errors [OF this] show ?thesis
    by (simp add: sampleMgr_def sampleXferService_def)
qed

end
