(* ===== verification/Transfers.thy ===== *)
theory Transfers
  imports XferProps Funds
begin

text \<open>
  \<open>channelid.go\<close> and the transfer queries of \<open>filclient.go\<close>: the text of a channel id and its parser,
  the common \<open>ChannelState\<close>, the transfers in progress over both protocols, the status of one transfer
  by channel, id or content, and the diagnostics of \<open>generateTransfers\<close>.  A Go map is an association
  list in the order the loop over it visits the keys.
\<close>

section \<open>Channel ids\<close>

text \<open>
  The codec of peer ids is an argument, \<open>enc\<close> its printer and \<open>dec\<close> its parser; \<open>ChannelID_String\<close> is the
  \<open>String\<close> method of the data-transfer package, \<open>"%s-%s-%d"\<close>.
\<close>

definition ChannelID_String :: "(peer \<Rightarrow> string) \<Rightarrow> channel_id \<Rightarrow> string" where
  "ChannelID_String enc c =
     enc (ch_Initiator c) @ ''-'' @ enc (ch_Responder c) @ ''-'' @ fmt_u64 (ch_ID c)"

definition quoted :: "string \<Rightarrow> string" where
  "quoted s = [CHR 0x27] @ s @ [CHR 0x27]"

definition ChannelIDFromString ::
  "(string \<Rightarrow> go_error + peer) \<Rightarrow> string \<Rightarrow> go_error + channel_id" where
  "ChannelIDFromString dec tid =
     (if tid = [] then Inl (Errorf ''cannot parse empty string as channel id'')
      else case strings_Split (CHR ''-'') tid of
        [p0, p1, p2] \<Rightarrow>
          (case dec p0 of
             Inl err \<Rightarrow> Inl (Errorf (''parsing initiator peer id '' @ quoted p0 @ '' in channel id '' @ quoted tid))
           | Inr initiator \<Rightarrow>
               (case dec p1 of
                  Inl err \<Rightarrow> Inl (Errorf (''parsing responder peer id '' @ quoted p1 @ '' in channel id '' @ quoted tid))
                | Inr responder \<Rightarrow>
                    (case ParseUint p2 of
                       (_, Some err) \<Rightarrow> Inl (Errorf (''parsing transfer id '' @ quoted p2 @ '' in channel id '' @ quoted tid))
                     | (xferid, None) \<Rightarrow>
                         Inr \<lparr>ch_Initiator = initiator, ch_Responder = responder, ch_ID = xferid\<rparr>)))
      | _ \<Rightarrow> Inl (Errorf (''cannot parse channel id '' @ quoted tid
               @ '': expected format '' @ quoted ''initiator-responder-transferid'')))"

text \<open>The contract of the codec for one peer: a text without a dash that decodes to the peer.\<close>

definition encodes :: "(peer \<Rightarrow> string) \<Rightarrow> (string \<Rightarrow> go_error + peer) \<Rightarrow> peer \<Rightarrow> bool" where
  "encodes enc dec p \<longleftrightarrow> dec (enc p) = Inr p \<and> CHR ''-'' \<notin> set (enc p)"

lemma split_three:
  assumes "CHR ''-'' \<notin> set a" and "CHR ''-'' \<notin> set b" and "CHR ''-'' \<notin> set c"
  shows "strings_Split (CHR ''-'') (a @ ''-'' @ b @ ''-'' @ c) = [a, b, c]"
  using assms by (simp add: strings_Split_append strings_Split_no_sep)

lemma split_three_iff:
  "strings_Split (CHR ''-'') s = [a, b, c] \<longleftrightarrow> s = a @ ''-'' @ b @ ''-'' @ c
     \<and> CHR ''-'' \<notin> set a \<and> CHR ''-'' \<notin> set b \<and> CHR ''-'' \<notin> set c"
proof
  assume h: "strings_Split (CHR ''-'') s = [a, b, c]"
  then have "s = strings_Join (CHR ''-'') [a, b, c]" by (metis strings_Join_Split)
  moreover have "\<forall>p \<in> {a, b, c}. CHR ''-'' \<notin> set p"
    using h strings_Split_parts [of _ "CHR ''-''" s] by auto
  ultimately show "s = a @ ''-'' @ b @ ''-'' @ c
     \<and> CHR ''-'' \<notin> set a \<and> CHR ''-'' \<notin> set b \<and> CHR ''-'' \<notin> set c" by simp
qed (simp add: strings_Split_append strings_Split_no_sep)

text \<open>
  C39: A channel id between two peers the codec can print is parsed back from its text.
\<close>

theorem channel_id_roundtrip:
  assumes "encodes enc dec (ch_Initiator c)" and "encodes enc dec (ch_Responder c)"
  shows "ChannelIDFromString dec (ChannelID_String enc c) = Inr c"
  using assms split_three [OF _ _ fmt_u64_no_dash [of "ch_ID c"]]
  by (simp add: ChannelIDFromString_def ChannelID_String_def encodes_def)

theorem channel_id_roundtrip_witness:
  "ChannelIDFromString (\<lambda>s. Inr (rev s)) (ChannelID_String rev sampleChannel) = Inr sampleChannel"
proof -
  have "encodes rev (\<lambda>s. Inr (rev s)) (ch_Initiator sampleChannel)"
    "encodes rev (\<lambda>s. Inr (rev s)) (ch_Responder sampleChannel)"
    by (simp_all add: encodes_def sampleChannel_def)
  then show ?thesis by (rule channel_id_roundtrip)
qed

text \<open>
  A text is accepted exactly when it consists of three parts without dashes, two peer ids and a
  decimal number below 2^64; the text of a number alone, the form of the transfer ids of the libp2p
  protocol, never is.
\<close>

theorem channel_id_accepted:
  "(ChannelIDFromString dec tid = Inr c) =
     (\<exists>a b d. tid = a @ ''-'' @ b @ ''-'' @ d \<and> CHR ''-'' \<notin> set a \<and> CHR ''-'' \<notin> set b
        \<and> dec a = Inr (ch_Initiator c) \<and> dec b = Inr (ch_Responder c) \<and> d \<noteq> []
        \<and> list_all (\<lambda>x. digitVal x \<noteq> None) d \<and> dec_val 0 d < 2 ^ 64 \<and> ch_ID c = of_nat (dec_val 0 d))
   \<and> \<not> isOk (ChannelIDFromString dec (fmt_u64 n))"
proof -
  have dash: "CHR ''-'' \<notin> set d" if "list_all (\<lambda>x. digitVal x \<noteq> None) d" for d
    using that by (auto simp: list_all_iff digitVal_def)
  have accepted: "ChannelIDFromString dec tid = Inr c \<longleftrightarrow>
      (\<exists>a b d. strings_Split (CHR ''-'') tid = [a, b, d] \<and> dec a = Inr (ch_Initiator c)
         \<and> dec b = Inr (ch_Responder c) \<and> ParseUint d = (ch_ID c, None))"
    by (cases c)
      (auto simp: ChannelIDFromString_def split: list.splits sum.splits prod.splits option.splits)
  have "ChannelIDFromString dec tid = Inr c \<longleftrightarrow>
     (\<exists>a b d. tid = a @ ''-'' @ b @ ''-'' @ d \<and> CHR ''-'' \<notin> set a \<and> CHR ''-'' \<notin> set b
        \<and> dec a = Inr (ch_Initiator c) \<and> dec b = Inr (ch_Responder c) \<and> d \<noteq> []
        \<and> list_all (\<lambda>x. digitVal x \<noteq> None) d \<and> dec_val 0 d < 2 ^ 64 \<and> ch_ID c = of_nat (dec_val 0 d))"
    unfolding accepted split_three_iff ParseUint_ok_iff using dash by (auto simp: list_all_iff)
  moreover have "strings_Split (CHR ''-'') (fmt_u64 n) = [fmt_u64 n]"
    by (rule strings_Split_no_sep [OF fmt_u64_no_dash])
  then have "\<not> isOk (ChannelIDFromString dec (fmt_u64 n))" by (simp add: ChannelIDFromString_def)
  ultimately show ?thesis by blast
qed

section \<open>The state of a channel\<close>

definition ChannelStateConv ::
  "(dt_status \<Rightarrow> string) \<Rightarrow> (cid \<Rightarrow> string) \<Rightarrow> (peer \<Rightarrow> string) \<Rightarrow> dt_channel \<Rightarrow> ChannelState" where
  "ChannelStateConv statuses cidStr enc st =
     \<lparr>cs_SelfPeer = dtc_SelfPeer st, cs_RemotePeer = dtc_OtherPeer st, cs_Status = dtc_Status st,
      cs_StatusStr = statuses (dtc_Status st), cs_Sent = dtc_Sent st, cs_Received = dtc_Received st,
      cs_Message = dtc_Message st, cs_BaseCid = cidStr (dtc_BaseCID st),
      cs_ChannelID = dtc_ChannelID st, cs_TransferID = ChannelID_String enc (dtc_ChannelID st),
      cs_Stages = dtc_Stages st, cs_TransferType = GraphsyncTransfer\<rparr>"

definition conv :: "xfer_mgr \<Rightarrow> (peer \<Rightarrow> string) \<Rightarrow> dt_channel \<Rightarrow> ChannelState" where
  "conv m enc st = ChannelStateConv (xl_Statuses (x_library m)) (xl_CidString (x_library m)) enc st"

definition TransfersInProgress ::
  "FilClient \<Rightarrow> xfer_mgr \<Rightarrow> (peer \<Rightarrow> string) \<Rightarrow> ('w world_scheme, go_error + transfer_map) state" where
  "TransfersInProgress fc m enc =
     bindE (V110TransfersInProgress fc) (\<lambda>v1dts. do {
       r \<leftarrow> All m;
       case r of
         (Some err, _) \<Rightarrow> ret (Inl err)
       | (None, v2dts) \<Rightarrow>
           let dts = fold (\<lambda>(c, dt) dts. dts(ChannelID_String enc c \<mapsto> conv m enc dt)) v1dts Map.empty
           in ret (Inr (dts ++ v2dts))
     })"

definition TransferStatus ::
  "FilClient \<Rightarrow> xfer_mgr \<Rightarrow> (peer \<Rightarrow> string) \<Rightarrow> channel_id \<Rightarrow> ('w world_scheme, go_error + ChannelState) state" where
  "TransferStatus fc m enc chanid =
     bindE (perform (\<lambda>t. d_ChannelState (dataTransfer fc) t chanid) (\<lambda>_. Dt (DChannelState chanid)))
       (\<lambda>st. ret (Inr (conv m enc st)))"

definition TransferStatusByID ::
  "FilClient \<Rightarrow> xfer_mgr \<Rightarrow> (peer \<Rightarrow> string) \<Rightarrow> (string \<Rightarrow> go_error + peer) \<Rightarrow> string
     \<Rightarrow> ('w world_scheme, go_error + ChannelState) state" where
  "TransferStatusByID fc m enc dec tid =
     (case ChannelIDFromString dec tid of
        Inr chid \<Rightarrow> TransferStatus fc m enc chid
      | Inl err \<Rightarrow> byId m tid)"

definition ErrNoTransferFound :: go_error where
  "ErrNoTransferFound = Sentinel ''ErrNoTransferFound'' ''no transfer found''"

text \<open>The loop over the channels in progress.\<close>

fun contentLoop ::
  "(dt_channel \<Rightarrow> ChannelState) \<Rightarrow> peer \<Rightarrow> cid \<Rightarrow> (channel_id \<times> dt_channel) list \<Rightarrow> go_error + ChannelState" where
  "contentLoop cv pid content [] = Inl ErrNoTransferFound"
| "contentLoop cv pid content ((chanid, st) # rest) =
     (if ch_Responder chanid = pid then
        (if dtc_IsPull st then contentLoop cv pid content rest
         else if dtc_BaseCID st = content then Inr (cv st)
         else contentLoop cv pid content rest)
      else contentLoop cv pid content rest)"

definition TransferStatusForContent ::
  "library \<Rightarrow> FilClient \<Rightarrow> xfer_mgr \<Rightarrow> (peer \<Rightarrow> string) \<Rightarrow> cid \<Rightarrow> address
     \<Rightarrow> ('w world_scheme, go_error + ChannelState) state" where
  "TransferStatusForContent L fc m enc content miner =
     bindE (MinerPeer L fc miner) (\<lambda>mpid. do {
       r \<leftarrow> byRemoteAddrAndPayloadCid m (enc (ai_ID mpid)) content;
       case r of
         (Some err, _) \<Rightarrow> ret (Inl err)
       | (None, Some xfer) \<Rightarrow> ret (Inr xfer)
       | (None, None) \<Rightarrow>
           bindE (V110TransfersInProgress fc) (\<lambda>inprog.
             ret (contentLoop (conv m enc) (ai_ID mpid) content inprog))
     })"

section \<open>Diagnostics\<close>

type_synonym request_id = string

text \<open>
  The field \<open>ChannelID\<close> is a pointer.  The only pointer the program stores there is the address of the
  variable of its loop over the channels; in the language version of the module (Go 1.18) all
  iterations share that variable.
\<close>

datatype chan_ref = NilChannel | LoopVariable

record GraphSyncDataTransfer =
  gd_RequestID :: request_id
  gd_RequestState :: string
  gd_IsCurrentChannelRequest :: bool
  gd_ChannelID :: chan_ref
  gd_ChannelState :: "ChannelState option"
  gd_Diagnostics :: "string list"

definition readChannel :: "channel_id \<Rightarrow> chan_ref \<Rightarrow> channel_id option" where
  "readChannel loopVar r = (case r of NilChannel \<Rightarrow> None | LoopVariable \<Rightarrow> Some loopVar)"

record channel_requests =
  cr_Current :: request_id
  cr_Previous :: "request_id list"

text \<open>The state of the graphsync peer: request states by their text, diagnostics.\<close>

record gs_peer_state =
  gp_States :: "(request_id \<times> string) list"
  gp_Diagnostics :: "(request_id \<times> string list) list"

record transferConverter =
  tc_matchedRequests :: "request_id \<rightharpoonup> GraphSyncDataTransfer"
  tc_transfers :: "GraphSyncDataTransfer list"

definition newConverter :: transferConverter where
  "newConverter = \<lparr>tc_matchedRequests = Map.empty, tc_transfers = []\<rparr>"

text \<open>\<open>channelID\<close> is the id the pointer shows at the time of the call.\<close>

definition convertTransfer ::
  "(request_id \<Rightarrow> string) \<Rightarrow> (peer \<Rightarrow> string) \<Rightarrow> gs_peer_state \<Rightarrow> channel_id option \<Rightarrow> ChannelState option
     \<Rightarrow> string list \<Rightarrow> request_id \<Rightarrow> bool \<Rightarrow> transferConverter \<Rightarrow> transferConverter" where
  "convertTransfer ridStr enc gs channelID channelState baseDiagnostics requestID isCurrent tc =
     (let stateOpt = map_of (gp_States gs) requestID;
          stateString = (case stateOpt of Some s \<Rightarrow> s | None \<Rightarrow> ''no graphsync state found'');
          own = (case channelID of
              None \<Rightarrow> [''No data transfer channel id for GraphSync request ID '' @ ridStr requestID]
            | Some c \<Rightarrow>
                if stateOpt = None
                then [''No current request state for data transfer channel id '' @ ChannelID_String enc c]
                else []);
          gsd = (case map_of (gp_Diagnostics gs) requestID of Some ds \<Rightarrow> ds | None \<Rightarrow> []);
          tr = \<lparr>gd_RequestID = requestID, gd_RequestState = stateString,
                gd_IsCurrentChannelRequest = isCurrent,
                gd_ChannelID = (if channelID = None then NilChannel else LoopVariable),
                gd_ChannelState = channelState, gd_Diagnostics = baseDiagnostics @ own @ gsd\<rparr>
      in tc\<lparr>tc_transfers := tc_transfers tc @ [tr],
            tc_matchedRequests := (tc_matchedRequests tc)(requestID \<mapsto> tr)\<rparr>)"

fun collectLoop ::
  "(request_id \<Rightarrow> string) \<Rightarrow> (peer \<Rightarrow> string) \<Rightarrow> gs_peer_state \<Rightarrow> request_id list
     \<Rightarrow> transferConverter \<Rightarrow> transferConverter" where
  "collectLoop ridStr enc gs [] tc = tc"
| "collectLoop ridStr enc gs (r # rs) tc =
     collectLoop ridStr enc gs rs
       (if tc_matchedRequests tc r = None then convertTransfer ridStr enc gs None None [] r False tc else tc)"

definition collectRemainingTransfers ::
  "(request_id \<Rightarrow> string) \<Rightarrow> (peer \<Rightarrow> string) \<Rightarrow> gs_peer_state \<Rightarrow> transferConverter \<Rightarrow> transferConverter" where
  "collectRemainingTransfers ridStr enc gs tc =
     collectLoop ridStr enc gs (map fst (gp_Diagnostics gs))
       (collectLoop ridStr enc gs (map fst (gp_States gs)) tc)"

text \<open>One iteration of the loop over the channels of the transport.\<close>

definition channelTransfers ::
  "FilClient \<Rightarrow> xfer_mgr \<Rightarrow> (request_id \<Rightarrow> string) \<Rightarrow> (peer \<Rightarrow> string) \<Rightarrow> gs_peer_state
     \<Rightarrow> channel_id \<Rightarrow> channel_requests \<Rightarrow> transferConverter \<Rightarrow> ('w world_scheme, transferConverter) state" where
  "channelTransfers fc m ridStr enc gs channelID reqs tc = do {
     r \<leftarrow> TransferStatus fc m enc channelID;
     let base = (case r of
           Inl err \<Rightarrow> [''Unable to lookup channel state: '' @ errorText err] | Inr _ \<Rightarrow> []);
     let st = (case r of Inl _ \<Rightarrow> None | Inr st \<Rightarrow> Some st);
     ret (fold (\<lambda>q. convertTransfer ridStr enc gs (Some channelID) st base q False) (cr_Previous reqs)
       (convertTransfer ridStr enc gs (Some channelID) st base (cr_Current reqs) True tc))
   }"

text \<open>The loop returns the value its variable holds at the end.\<close>

fun channelLoop ::
  "FilClient \<Rightarrow> xfer_mgr \<Rightarrow> (request_id \<Rightarrow> string) \<Rightarrow> (peer \<Rightarrow> string) \<Rightarrow> gs_peer_state
     \<Rightarrow> (channel_id \<times> channel_requests) list \<Rightarrow> channel_id \<Rightarrow> transferConverter
     \<Rightarrow> ('w world_scheme, channel_id \<times> transferConverter) state" where
  "channelLoop fc m ridStr enc gs [] loopVar tc = ret (loopVar, tc)"
| "channelLoop fc m ridStr enc gs ((c, reqs) # cs) loopVar tc =
     do { tc' \<leftarrow> channelTransfers fc m ridStr enc gs c reqs tc;
          channelLoop fc m ridStr enc gs cs c tc' }"

definition generateTransfers ::
  "FilClient \<Rightarrow> xfer_mgr \<Rightarrow> (request_id \<Rightarrow> string) \<Rightarrow> (peer \<Rightarrow> string)
     \<Rightarrow> (channel_id \<times> channel_requests) list \<Rightarrow> gs_peer_state
     \<Rightarrow> ('w world_scheme, channel_id \<times> GraphSyncDataTransfer list) state" where
  "generateTransfers fc m ridStr enc chans gs = do {
     (loopVar, tc) \<leftarrow> channelLoop fc m ridStr enc gs chans zeroChannelID newConverter;
     ret (loopVar, tc_transfers (collectRemainingTransfers ridStr enc gs tc))
   }"

text \<open>What the transport and graphsync know about a peer are arguments.\<close>

record MinerTransferDiagnostics =
  mt_ReceivingTransfers :: "channel_id \<times> GraphSyncDataTransfer list"
  mt_SendingTransfers :: "channel_id \<times> GraphSyncDataTransfer list"

definition client_MinerTransferDiagnostics ::
  "library \<Rightarrow> FilClient \<Rightarrow> xfer_mgr \<Rightarrow> (request_id \<Rightarrow> string) \<Rightarrow> (peer \<Rightarrow> string)
     \<Rightarrow> (peer \<Rightarrow> (channel_id \<times> channel_requests) list) \<Rightarrow> (peer \<Rightarrow> (channel_id \<times> channel_requests) list)
     \<Rightarrow> (peer \<Rightarrow> gs_peer_state) \<Rightarrow> (peer \<Rightarrow> gs_peer_state) \<Rightarrow> address
     \<Rightarrow> ('w world_scheme, go_error + MinerTransferDiagnostics) state" where
  "client_MinerTransferDiagnostics L fc m ridStr enc sending receiving incoming outgoing miner =
     bindE (MinerPeer L fc miner) (\<lambda>mpid. do {
       s \<leftarrow> generateTransfers fc m ridStr enc (sending (ai_ID mpid)) (incoming (ai_ID mpid));
       r \<leftarrow> generateTransfers fc m ridStr enc (receiving (ai_ID mpid)) (outgoing (ai_ID mpid));
       ret (Inr \<lparr>mt_ReceivingTransfers = r, mt_SendingTransfers = s\<rparr>)
     })"

section \<open>Properties of the queries\<close>

definition storageTransfer :: "peer \<Rightarrow> cid \<Rightarrow> channel_id \<times> dt_channel \<Rightarrow> bool" where
  "storageTransfer pid content x \<longleftrightarrow>
     ch_Responder (fst x) = pid \<and> \<not> dtc_IsPull (snd x) \<and> dtc_BaseCID (snd x) = content"

lemma contentLoop_filter:
  "contentLoop cv pid content inprog =
     (case filter (storageTransfer pid content) inprog of
        [] \<Rightarrow> Inl ErrNoTransferFound | x # _ \<Rightarrow> Inr (cv (snd x)))"
  by (induction inprog) (auto simp: storageTransfer_def)

text \<open>
  The status of a transfer by content is that of the libp2p transfer the manager finds; without
  one it is the first channel in progress to the provider's peer that is not a retrieval and has that
  payload, and "no transfer found" exactly when there is no such channel.
\<close>

theorem content_status:
  assumes "run_state (MinerPeer L fc miner) w = (Inr mpid, w1)"
    and "run_state (byRemoteAddrAndPayloadCid m (enc (ai_ID mpid)) content) w1 = ((None, x), w2)"
    and "d_InProgressChannels (dataTransfer fc) (w_trace w2) = Inr inprog"
  shows "fst (run_state (TransferStatusForContent L fc m enc content miner) w) =
    (case x of Some st \<Rightarrow> Inr st
     | None \<Rightarrow> (case filter (storageTransfer (ai_ID mpid) content) inprog of
         [] \<Rightarrow> Inl ErrNoTransferFound | y # _ \<Rightarrow> Inr (conv m enc (snd y))))"
  using assms
  by (auto simp: TransferStatusForContent_def V110TransfersInProgress_def run_simps contentLoop_filter
      split: option.splits)

definition sampleInProgress :: "(channel_id \<times> dt_channel) list" where
  "sampleInProgress = [(sampleChannel, sampleDtChannel), (sampleChannel, sampleDtChannel\<lparr>dtc_IsPull := False\<rparr>)]"

definition busyClient :: FilClient where
  "busyClient = sampleClient\<lparr>dataTransfer := sampleDataTransfer\<lparr>d_InProgressChannels := \<lambda>_. Inr sampleInProgress\<rparr>\<rparr>"

definition emptyMgr :: xfer_mgr where
  "emptyMgr = sampleMgr\<lparr>x_service := sampleXferService\<lparr>x_DsQuery := \<lambda>_. Inr []\<rparr>\<rparr>"

theorem content_status_witness:
  "fst (run_state (TransferStatusForContent sampleLibrary busyClient emptyMgr (\<lambda>p. p) ''bafyroot'' ''f01000'')
     \<lparr>w_trace = []\<rparr>) = Inr (conv emptyMgr (\<lambda>p. p) (sampleDtChannel\<lparr>dtc_IsPull := False\<rparr>))"
proof -
  let ?mp = "\<lparr>ai_ID = ''12D3miner'', ai_Addrs = [''/ip4/1.2.3.4'']\<rparr>"
  let ?r1 = "run_state (MinerPeer sampleLibrary busyClient ''f01000'') \<lparr>w_trace = []\<rparr>"
  let ?r2 = "run_state (byRemoteAddrAndPayloadCid emptyMgr (ai_ID ?mp) ''bafyroot'') (snd ?r1)"
  have "fst ?r1 = Inr ?mp" "fst ?r2 = (None, None)" by code_simp+
  then have 1: "?r1 = (Inr ?mp, snd ?r1)" and 2: "?r2 = ((None, None), snd ?r2)"
    by (simp_all add: prod_eq_iff)
  have 3: "d_InProgressChannels (dataTransfer busyClient) (w_trace (snd ?r2)) = Inr sampleInProgress"
    by (simp add: busyClient_def)
  have f: "filter (storageTransfer (ai_ID ?mp) ''bafyroot'') sampleInProgress =
      [(sampleChannel, sampleDtChannel\<lparr>dtc_IsPull := False\<rparr>)]" by code_simp
  show ?thesis by (subst content_status [where enc = "\<lambda>p. p" and m = emptyMgr, OF 1 2 3]) (simp only: f option.case list.case snd_conv)
qed

section \<open>Well-formed reports\<close>

text \<open>
  The report of a transfer, as its two sources make it: of graphsync, named after its channel, or of
  boost, with a channel made up from the number that names it, without stages and in one of four
  states.
\<close>

definition wellTyped :: "xfer_mgr \<Rightarrow> (peer \<Rightarrow> string) \<Rightarrow> ChannelState \<Rightarrow> bool" where
  "wellTyped m enc st \<longleftrightarrow> cs_StatusStr st = xl_Statuses (x_library m) (cs_Status st)
     \<and> (cs_TransferType st = GraphsyncTransfer \<and> cs_TransferID st = ChannelID_String enc (cs_ChannelID st)
      \<or> cs_TransferType st = BoostTransfer \<and> cs_Stages st = None
        \<and> ch_ID (cs_ChannelID st) = fst (ParseUint (cs_TransferID st))
        \<and> ch_Initiator (cs_ChannelID st) = cs_SelfPeer st \<and> ch_Responder (cs_ChannelID st) = cs_RemotePeer st
        \<and> cs_Status st \<in> {Requested, Ongoing, Completed, Failed})"

lemma wellTyped_conv: "wellTyped m enc (conv m enc st)"
  by (simp add: wellTyped_def conv_def ChannelStateConv_def)

lemma wellTyped_toDTState: "wellTyped m enc (toDTState (x_library m) st)"
  by (auto simp: wellTyped_def toDTState_def Let_def split: transfer_status.splits)

lemma eachCompleted_keeps:
  assumes "\<And>k st a. Q a \<Longrightarrow> Q (snd (cb k st a))"
  shows "Q a \<Longrightarrow> Q (snd (eachCompleted L cb rs a))"
proof (induction rs arbitrary: a)
  case (Cons r rs)
  obtain key data where r: "r = (key, data)" by fastforce
  have "Q (snd (cb k st a))" for k st using assms Cons.prems by blast
  then show ?case using Cons by (auto simp: r split: sum.splits prod.splits bool.splits) (metis snd_conv)+
qed simp

lemma fold_upd_typed:
  assumes "\<And>x. P (g x)"
  shows "\<forall>k st. mp k = Some st \<longrightarrow> P st \<Longrightarrow>
    \<forall>k st. fold (\<lambda>x mp. mp(h x \<mapsto> g x)) xs mp k = Some st \<longrightarrow> P st"
proof (induction xs arbitrary: mp)
  case (Cons x xs)
  have "\<forall>k st. (mp(h x \<mapsto> g x)) k = Some st \<longrightarrow> P st" using Cons.prems assms by simp
  then show ?case using Cons.IH by simp
qed simp

lemma All_typed:
  assumes "run_state (All m) w = ((e, all), w')" and "all k = Some st"
  shows "wellTyped m enc st"
proof -
  let ?Q = "\<lambda>mp. \<forall>k st. mp k = Some st \<longrightarrow> wellTyped m enc st"
  have a: "?Q (activeMap (x_library m) xs)" for xs
    unfolding activeMap_def by (rule fold_upd_typed) (simp_all add: wellTyped_toDTState)
  have c: "?Q (snd (eachCompleted (x_library m) (\<lambda>k st all. (True, all(k \<mapsto> toDTState (x_library m) st))) rs
      (activeMap (x_library m) xs)))" for rs xs
    by (rule eachCompleted_keeps [where Q = ?Q, OF _ a]) (simp add: wellTyped_toDTState)
  have "?Q (snd (fst (run_state (All m) w)))"
  proof (cases "x_Transfers (x_service m) (w_trace w)")
    case (Inl err)
    then show ?thesis by (simp add: All_def matching_def run_simps)
  next
    case (Inr xs)
    show ?thesis
    proof (cases "x_DsQuery (x_service m) (w_trace w @ [Xfer XMatching])")
      case (Inl err)
      then show ?thesis using Inr a by (simp add: All_def matching_def forEachCompletedTransfer_def run_simps)
    next
      case (Inr rs)
      then show ?thesis using \<open>x_Transfers _ _ = Inr xs\<close> c [of rs xs]
        by (simp add: All_def matching_def forEachCompletedTransfer_def run_simps)
    qed
  qed
  with assms show ?thesis by simp
qed

text \<open>
  C32: Every report among the transfers in progress is well formed.
\<close>

theorem transfers_well_typed:
  assumes "run_state (TransfersInProgress fc m enc) w = (Inr dts, w')" and "dts k = Some st"
  shows "wellTyped m enc st"
proof -
  let ?v1 = "\<lambda>v1. fold (\<lambda>(c, dt) dts. dts(ChannelID_String enc c \<mapsto> conv m enc dt)) v1 Map.empty"
  obtain v1 where v1: "d_InProgressChannels (dataTransfer fc) (w_trace w) = Inr v1"
    using assms(1) by (auto simp: TransfersInProgress_def V110TransfersInProgress_def run_simps split: sum.splits)
  obtain e v2 w2 where all: "run_state (All m) (w\<lparr>w_trace := w_trace w @ [Dt DInProgressChannels]\<rparr>) = ((e, v2), w2)"
    by (metis prod.exhaust)
  have dts: "dts = ?v1 v1 ++ v2"
    using assms(1) v1 all
    by (simp add: TransfersInProgress_def V110TransfersInProgress_def run_simps Let_def split: option.splits)
  have "\<forall>k st. ?v1 v1 k = Some st \<longrightarrow> wellTyped m enc st"
    unfolding split_beta by (rule fold_upd_typed) (simp_all add: wellTyped_conv)
  then show ?thesis using assms(2) All_typed [OF all] unfolding dts map_add_Some_iff by blast
qed

theorem transfers_well_typed_witness:
  "\<exists>dts st. fst (run_state (TransfersInProgress busyClient sampleMgr (\<lambda>p. p)) \<lparr>w_trace = []\<rparr>) = Inr dts
     \<and> dts ''7'' = Some st \<and> wellTyped sampleMgr (\<lambda>p. p) st \<and> cs_TransferType st = BoostTransfer"
proof -
  let ?run = "run_state (TransfersInProgress busyClient sampleMgr (\<lambda>p. p)) \<lparr>w_trace = []\<rparr>"
  obtain dts st where dts: "fst ?run = Inr dts" "dts ''7'' = Some st" "cs_TransferType st = BoostTransfer"
    by (simp add: TransfersInProgress_def V110TransfersInProgress_def All_def matching_def forEachCompletedTransfer_def
        run_simps sampleMgr_def sampleXferService_def sampleXferLibrary_def sampleDone_def sampleTimedOut_def toDTState_def
        Let_def activeMap_def busyClient_def)
  then have "?run = (Inr dts, snd ?run)" by (simp add: prod_eq_iff)
  from transfers_well_typed [OF this dts(2)] dts show ?thesis by blast
qed

section \<open>Properties of the diagnostics\<close>

definition matchedOk :: "transferConverter \<Rightarrow> bool" where
  "matchedOk tc \<longleftrightarrow> dom (tc_matchedRequests tc) = set (map gd_RequestID (tc_transfers tc))"

definition shown :: "transferConverter \<Rightarrow> (request_id \<times> chan_ref) list" where
  "shown tc = map (\<lambda>t. (gd_RequestID t, gd_ChannelID t)) (tc_transfers tc)"

lemma matchedOk_shown: "matchedOk tc \<longleftrightarrow> dom (tc_matchedRequests tc) = set (map fst (shown tc))"
  by (simp add: matchedOk_def shown_def comp_def)

lemma convertTransfer_shown:
  "shown (convertTransfer ridStr enc gs c st base q cur tc) =
     shown tc @ [(q, if c = None then NilChannel else LoopVariable)]"
  "matchedOk tc \<Longrightarrow> matchedOk (convertTransfer ridStr enc gs c st base q cur tc)"
  by (simp_all add: shown_def matchedOk_def convertTransfer_def Let_def)

lemma convert_fold_shown:
  "shown (fold (\<lambda>q. convertTransfer ridStr enc gs (Some c) st base q False) qs tc) =
     shown tc @ map (\<lambda>q. (q, LoopVariable)) qs
   \<and> (matchedOk tc \<longrightarrow> matchedOk (fold (\<lambda>q. convertTransfer ridStr enc gs (Some c) st base q False) qs tc))"
  by (induction qs arbitrary: tc) (auto simp: convertTransfer_shown)

text \<open>The requests of the channels, in order.\<close>

definition channelRequests :: "(channel_id \<times> channel_requests) list \<Rightarrow> request_id list" where
  "channelRequests chans = concat (map (\<lambda>(c, r). cr_Current r # cr_Previous r) chans)"

lemma channelLoop_shown:
  assumes "run_state (channelLoop fc m ridStr enc gs chans lv tc) w = ((lv', tc'), w')" and "matchedOk tc"
  shows "lv' = (if chans = [] then lv else fst (last chans))
    \<and> shown tc' = shown tc @ map (\<lambda>q. (q, LoopVariable)) (channelRequests chans) \<and> matchedOk tc'"
  using assms
proof (induction chans arbitrary: lv tc w)
  case Nil
  then show ?case by (simp add: channelRequests_def)
next
  case (Cons ch chans)
  obtain c reqs where ch: "ch = (c, reqs)" by fastforce
  obtain tc1 w1 where one: "run_state (channelTransfers fc m ridStr enc gs c reqs tc) w = (tc1, w1)" by fastforce
  then obtain st base where tc1: "tc1 = fold (\<lambda>q. convertTransfer ridStr enc gs (Some c) st base q False) (cr_Previous reqs)
       (convertTransfer ridStr enc gs (Some c) st base (cr_Current reqs) True tc)"
    by (auto simp: channelTransfers_def Let_def split: prod.splits)
  have sh: "shown tc1 = shown tc @ map (\<lambda>q. (q, LoopVariable)) (cr_Current reqs # cr_Previous reqs)"
    and ok: "matchedOk tc1"
    using convert_fold_shown [of ridStr enc gs c st base "cr_Previous reqs"
        "convertTransfer ridStr enc gs (Some c) st base (cr_Current reqs) True tc"]
      convertTransfer_shown(2) [OF Cons.prems(2)]
    by (simp_all add: tc1 convertTransfer_shown)
  have "run_state (channelLoop fc m ridStr enc gs chans c tc1) w1 = ((lv', tc'), w')"
    using Cons.prems(1) by (simp add: ch one)
  from Cons.IH [OF this ok] sh show ?case by (simp add: ch channelRequests_def)
qed

lemma collectLoop_shown:
  assumes "matchedOk tc"
  shows "\<exists>ns. shown (collectLoop ridStr enc gs rs tc) = shown tc @ map (\<lambda>q. (q, NilChannel)) ns
    \<and> distinct ns \<and> set ns = set rs - set (map fst (shown tc)) \<and> matchedOk (collectLoop ridStr enc gs rs tc)"
  using assms
proof (induction rs arbitrary: tc)
  case Nil
  then show ?case by simp
next
  case (Cons r rs)
  show ?case
  proof (cases "tc_matchedRequests tc r = None")
    case False
    then have "r \<in> set (map fst (shown tc))" using Cons.prems unfolding matchedOk_shown by blast
    with False Cons.IH [OF Cons.prems] show ?thesis by auto
  next
    case True
    let ?tc = "convertTransfer ridStr enc gs None None [] r False tc"
    have new: "r \<notin> set (map fst (shown tc))" using True Cons.prems unfolding matchedOk_shown by blast
    have "matchedOk ?tc" by (rule convertTransfer_shown(2) [OF Cons.prems])
    from Cons.IH [OF this] obtain ns where
      ns: "shown (collectLoop ridStr enc gs rs ?tc) = shown ?tc @ map (\<lambda>q. (q, NilChannel)) ns"
      "distinct ns" "set ns = set rs - set (map fst (shown ?tc))" "matchedOk (collectLoop ridStr enc gs rs ?tc)"
      by blast
    with True new show ?thesis
      by (intro exI [of _ "r # ns"]) (auto simp: convertTransfer_shown)
  qed
qed

lemma generateTransfers_shown:
  assumes "run_state (generateTransfers fc m ridStr enc chans gs) w = ((lv, trs), w')"
  shows "\<exists>ns. map (\<lambda>t. (gd_RequestID t, gd_ChannelID t)) trs =
      map (\<lambda>q. (q, LoopVariable)) (channelRequests chans) @ map (\<lambda>q. (q, NilChannel)) ns
    \<and> distinct ns
    \<and> set ns = (fst ` set (gp_States gs) \<union> fst ` set (gp_Diagnostics gs)) - set (channelRequests chans)
    \<and> lv = (if chans = [] then zeroChannelID else fst (last chans))"
proof -
  obtain lv1 tc w1 where loop: "run_state (channelLoop fc m ridStr enc gs chans zeroChannelID newConverter) w = ((lv1, tc), w1)"
    by (metis prod.collapse)
  have new: "shown newConverter = []" "matchedOk newConverter"
    by (simp_all add: shown_def newConverter_def matchedOk_def)
  note l = channelLoop_shown [OF loop new(2), unfolded new(1)]
  let ?t1 = "collectLoop ridStr enc gs (map fst (gp_States gs)) tc"
  let ?t2 = "collectLoop ridStr enc gs (map fst (gp_Diagnostics gs)) ?t1"
  from l collectLoop_shown [of tc ridStr enc gs "map fst (gp_States gs)"] obtain ns1 where
    n1: "shown ?t1 = shown tc @ map (\<lambda>q. (q, NilChannel)) ns1" "distinct ns1"
      "set ns1 = fst ` set (gp_States gs) - set (map fst (shown tc))" "matchedOk ?t1" by auto
  from collectLoop_shown [OF n1(4), of ridStr enc gs "map fst (gp_Diagnostics gs)"] obtain ns2 where
    n2: "shown ?t2 = shown ?t1 @ map (\<lambda>q. (q, NilChannel)) ns2" "distinct ns2"
      "set ns2 = fst ` set (gp_Diagnostics gs) - set (map fst (shown ?t1))" by auto
  have "trs = tc_transfers ?t2" "lv = lv1"
    using assms by (auto simp: generateTransfers_def loop collectRemainingTransfers_def)
  then show ?thesis using l n1 n2
    by (intro exI [of _ "ns1 @ ns2"]) (auto simp: shown_def [symmetric] comp_def)
qed

text \<open>
  C40: The diagnostics show every graphsync request of the peer: the current and previous requests of
  each channel, in order, then each request that graphsync knows a state or a diagnostic of and that
  belongs to no channel, once.
\<close>

theorem every_request_shown:
  "\<exists>ns. map gd_RequestID (snd (fst (run_state (generateTransfers fc m ridStr enc chans gs) w))) =
      channelRequests chans @ ns
    \<and> distinct ns
    \<and> set ns = (fst ` set (gp_States gs) \<union> fst ` set (gp_Diagnostics gs)) - set (channelRequests chans)"
proof -
  obtain lv trs w' where r: "run_state (generateTransfers fc m ridStr enc chans gs) w = ((lv, trs), w')"
    by (metis prod.collapse)
  from generateTransfers_shown [OF r] obtain ns where
    "map (\<lambda>t. (gd_RequestID t, gd_ChannelID t)) trs =
      map (\<lambda>q. (q, LoopVariable)) (channelRequests chans) @ map (\<lambda>q. (q, NilChannel)) ns"
    and ns: "distinct ns"
      "set ns = (fst ` set (gp_States gs) \<union> fst ` set (gp_Diagnostics gs)) - set (channelRequests chans)" by blast
  from arg_cong [OF this(1), of "map fst"] have "map gd_RequestID trs = channelRequests chans @ ns"
    by (simp add: comp_def)
  with ns show ?thesis by (auto simp: r)
qed

text \<open>
  Whatever channel a request belongs to, the channel id the diagnostics show for it is the one of
  the channel visited last, since the field points to the variable of the loop.
\<close>

theorem channel_ids_aliased:
  assumes "run_state (generateTransfers fc m ridStr enc (chans @ [(c, r)]) gs) w = ((lv, trs), w')"
  shows "map (\<lambda>t. readChannel lv (gd_ChannelID t)) (take (length (channelRequests (chans @ [(c, r)]))) trs) =
      replicate (length (channelRequests (chans @ [(c, r)]))) (Some c)"
proof -
  let ?q = "channelRequests (chans @ [(c, r)])"
  from generateTransfers_shown [OF assms] obtain ns where
    e: "map (\<lambda>t. (gd_RequestID t, gd_ChannelID t)) trs = map (\<lambda>q. (q, LoopVariable)) ?q @ map (\<lambda>q. (q, NilChannel)) ns"
    and lv: "lv = c" by auto
  from arg_cong [OF e, of "map (readChannel lv \<circ> snd)"]
  have "map (\<lambda>t. readChannel lv (gd_ChannelID t)) trs = map (\<lambda>_. Some c) ?q @ map (\<lambda>_. None) ns"
    by (simp add: comp_def readChannel_def lv)
  then show ?thesis by (simp add: take_map [symmetric] map_replicate_const)
qed

theorem channel_ids_aliased_witness:
  "let other = \<lparr>ch_Initiator = ''12D3me'', ch_Responder = ''12D3miner'', ch_ID = 6\<rparr>;
       res = fst (run_state (generateTransfers sampleClient sampleMgr (\<lambda>q. q) (\<lambda>p. p)
         [(sampleChannel, \<lparr>cr_Current = ''r1'', cr_Previous = []\<rparr>), (other, \<lparr>cr_Current = ''r2'', cr_Previous = []\<rparr>)]
         \<lparr>gp_States = [], gp_Diagnostics = []\<rparr>) \<lparr>w_trace = []\<rparr>)
   in map (\<lambda>t. readChannel (fst res) (gd_ChannelID t)) (take 2 (snd res)) = [Some other, Some other]"
proof -
  let ?other = "\<lparr>ch_Initiator = ''12D3me'', ch_Responder = ''12D3miner'', ch_ID = 6\<rparr>"
  let ?cs = "[(sampleChannel, \<lparr>cr_Current = ''r1'', cr_Previous = []\<rparr>)]"
  let ?run = "run_state (generateTransfers sampleClient sampleMgr (\<lambda>q. q) (\<lambda>p. p)
         (?cs @ [(?other, \<lparr>cr_Current = ''r2'', cr_Previous = []\<rparr>)])
         \<lparr>gp_States = [], gp_Diagnostics = []\<rparr>) \<lparr>w_trace = []\<rparr>"
  have "?run = ((fst (fst ?run), snd (fst ?run)), snd ?run)" by simp
  from channel_ids_aliased [OF this] show ?thesis
    by (simp add: channelRequests_def numeral_2_eq_2)
qed

end
