(* ===== verification/FilcDeals.thy ===== *)
theory FilcDeals
  imports SendDeal Transfers Runs
begin

text \<open>
  Making a deal from the command line (\<open>filc/cmds.go\<close>): the choice of the protocol, \<open>logStatus\<close>, the
  polling of \<open>makev110Deal\<close>, and \<open>makev120Deal\<close> as a transition system of the command and the listener it
  gives to the transfer manager.  A printed line is recorded as \<open>Tpr\<close> with its format string and the
  texts of its arguments (the time that \<open>tpr\<close> puts in front is left out).
\<close>

section \<open>Printing\<close>

definition tpr :: "string \<Rightarrow> string list \<Rightarrow> ('w world_scheme, unit) state" where
  "tpr s args = emit (Tpr s args)"

definition logStatus :: "ChannelState \<Rightarrow> bool \<Rightarrow> go_error + string" where
  "logStatus status changed =
     (case cs_Status status of
        Failed \<Rightarrow> Inl (Errorf (''data transfer failed: '' @ cs_Message status))
      | Cancelled \<Rightarrow> Inl (Errorf (''transfer cancelled: '' @ cs_Message status))
      | Failing \<Rightarrow> Inr (''data transfer failing... '' @ cs_Message status)
      | Requested \<Rightarrow> Inr (if changed then ''data transfer requested'' else [])
      | TransferFinished \<Rightarrow> Inr (if changed then ''current state: '' @ cs_StatusStr status else [])
      | Finalizing \<Rightarrow> Inr (if changed then ''current state: '' @ cs_StatusStr status else [])
      | Completing \<Rightarrow> Inr (if changed then ''current state: '' @ cs_StatusStr status else [])
      | Completed \<Rightarrow> Inr ''transfer complete!''
      | Ongoing \<Rightarrow> Inr (''transfer progress: '' @ fmt_u64 (cs_Sent status))
      | OtherStatus n \<Rightarrow> Inr (''Unexpected data transfer state: '' @ fmt_u64 n @ '' (msg = ''
                           @ cs_Message status @ '')''))"

text \<open>\<open>if logstr != "" { tpr(logstr) }\<close>: the text is used as the format string.\<close>

definition tprStatus :: "string \<Rightarrow> ('w world_scheme, unit) state" where
  "tprStatus logstr = (if logstr \<noteq> [] then tpr logstr [] else ret ())"

definition tprCompleted :: "library \<Rightarrow> address \<Rightarrow> cid \<Rightarrow> ('w world_scheme, unit) state" where
  "tprCompleted L miner propCid =
     tpr ''transfer completed, miner: %s, propcid: %s'' [lib_addrString L miner, lib_cidString L propCid]"

section \<open>Deals over protocol v1.1.0\<close>

text \<open>
  The loop that polls the status of the transfer every 100 milliseconds.  It has no bound in the
  source; \<open>None\<close> means that the fuel, a number of polls, is used up.
\<close>

fun pollTransfer ::
  "nat \<Rightarrow> library \<Rightarrow> FilClient \<Rightarrow> xfer_mgr \<Rightarrow> (peer \<Rightarrow> string) \<Rightarrow> address \<Rightarrow> cid \<Rightarrow> channel_id \<Rightarrow> dt_status
     \<Rightarrow> ('w world_scheme, (go_error + unit) option) state" where
  "pollTransfer 0 L fc m enc miner propCid chanid lastStatus = ret None"
| "pollTransfer (Suc n) L fc m enc miner propCid chanid lastStatus = do {
     r \<leftarrow> TransferStatus fc m enc chanid;
     case r of
       Inl err \<Rightarrow> ret (Some (Inl err))
     | Inr status \<Rightarrow>
         (case logStatus status (cs_Status status \<noteq> lastStatus) of
            Inl err \<Rightarrow> ret (Some (Inl err))
          | Inr logstr \<Rightarrow> do {
              tprStatus logstr;
              if cs_Status status = Completed then do {
                tprCompleted L miner propCid;
                ret (Some (Inr ()))
              } else pollTransfer n L fc m enc miner propCid chanid (cs_Status status)
            })
   }"

text \<open>\<open>var lastStatus\<close> starts as the zero value, which is \<open>Requested\<close>.\<close>

definition makev110Deal ::
  "nat \<Rightarrow> library \<Rightarrow> FilClient \<Rightarrow> xfer_mgr \<Rightarrow> (peer \<Rightarrow> string) \<Rightarrow> ctx \<Rightarrow> address \<Rightarrow> net_proposal \<Rightarrow> cid \<Rightarrow> cid
     \<Rightarrow> ('w world_scheme, (go_error + unit) option) state" where
  "makev110Deal fuel L fc m enc cx miner proposal propCid dataCid = do {
     r \<leftarrow> SendProposalV110 L fc cx proposal propCid;
     case r of
       Inl (_, err) \<Rightarrow> ret (Some (Inl err))
     | Inr _ \<Rightarrow> do {
         tpr ''miner accepted the deal!'' [];
         tpr ''starting data transfer... %s'' [lib_cidString L propCid];
         c \<leftarrow> StartDataTransfer L fc miner propCid dataCid;
         case c of
           Inl err \<Rightarrow> ret (Some (Inl err))
         | Inr chanid \<Rightarrow> pollTransfer fuel L fc m enc miner propCid chanid Requested
       }
   }"

section \<open>Deals over protocol v1.2.0\<close>

text \<open>
  The address to announce: the flag and the host's peer id, parsed by the multiaddr package
  (\<open>newMultiaddr\<close>).
\<close>

definition announceAddr ::
  "(string \<Rightarrow> go_error + multiaddr) \<Rightarrow> string \<Rightarrow> string \<Rightarrow> go_error + multiaddr" where
  "announceAddr newMultiaddr hostID announce =
     (if announce = [] then
        Inl (Errorf (''must specify announce address to make deals over deal v1.2.0 protocol '' @ DealProtocolv120))
      else
        let announceStr = announce @ ''/p2p/'' @ hostID in
        (case newMultiaddr announceStr of
           Inl err \<Rightarrow> Inl (wrapf (''parsing announce address '' @ [CHR 0x27] @ announceStr @ [CHR 0x27] @ '': '') err)
         | Inr a \<Rightarrow> Inr a))"

text \<open>What one run of the command works with; \<open>dl_send\<close> are the arguments of \<open>SendProposalV120\<close>.\<close>

record deal_run =
  dl_library :: library
  dl_client :: FilClient
  dl_mgr :: xfer_mgr
  dl_ctx :: ctx
  dl_marshal :: "string \<Rightarrow> string \<Rightarrow> go_error + bytes"
  dl_basicAuth :: "string \<Rightarrow> string \<Rightarrow> string"
  dl_fresh :: uuid
  dl_dbid :: u64
  dl_dealUUID :: uuid
  dl_announce :: multiaddr
  dl_miner :: address
  dl_netprop :: net_proposal
  dl_propCid :: cid
  dl_listener :: nat

text \<open>
  Where the command is.  \<open>VUnsub\<close> is the return with its deferred call of the function that
  \<open>Subscribe\<close> gave out.
\<close>

datatype v120_pc =
    VInit
  | VToken
  | VPrepare string
  | VSend string
  | VWait
  | VUnsub "go_error option"
  | VDone "go_error option"

text \<open>
  \<open>v_sending\<close> is the value the listener is about to send into the unbuffered channel \<open>pullComplete\<close>.
  The manager calls the listener with its lock \<open>listenerLk\<close> held, so as long as the send waits for a
  receiver the lock is taken.
\<close>

record v120 = xstate +
  v_pc :: v120_pc
  v_last :: dt_status
  v_sending :: "go_error option option"

abbreviation lockFree :: "'w v120_scheme \<Rightarrow> bool" where
  "lockFree s \<equiv> v_sending s = None"

text \<open>The listener: the body of the function passed to \<open>Subscribe\<close>.\<close>

definition pullEvent :: "deal_run \<Rightarrow> u64 \<Rightarrow> ChannelState \<Rightarrow> v120 \<Rightarrow> v120" where
  "pullEvent D evtdbid st s =
     (if dl_dbid D \<noteq> evtdbid then s
      else case logStatus st (cs_Status st \<noteq> v_last s) of
          Inl err \<Rightarrow> s\<lparr>v_sending := Some (Some err)\<rparr>
        | Inr logstr \<Rightarrow>
            let s1 = snd (run_state (tprStatus logstr) s) in
            if cs_Status st = Completed then
              (snd (run_state (tprCompleted (dl_library D) (dl_miner D) (dl_propCid D)) s1))
                \<lparr>v_sending := Some None\<rparr>
            else s1\<lparr>v_last := cs_Status st\<rparr>)"

text \<open>The manager tells its listener about a transfer.\<close>

definition notified_of :: "deal_run \<Rightarrow> u64 \<Rightarrow> transfer_state \<Rightarrow> v120 \<Rightarrow> v120" where
  "notified_of D dbid ts s =
     (let s1 = snd (run_state (notify (dl_mgr D) dbid ts) s) in
      if x_listener s = Some (dl_listener D)
      then pullEvent D dbid (toDTState (x_library (dl_mgr D)) ts) s1 else s1)"

datatype v120_label =
    LSubscribe
  | LToken "go_error + string"
  | LPrepare
  | LSend
  | LNotify u64 transfer_state
  | LReceive
  | LDone go_error
  | LUnsub

text \<open>After the subscription \<open>keepConnection\<close> starts (theory \<open>ConnWatcher\<close>), and the proposal is announced.\<close>

definition subscribeStep :: "deal_run \<Rightarrow> v120 \<Rightarrow> v120" where
  "subscribeStep D s =
     (case run_state (Subscribe (dl_listener D)) s of
        (Inl err, s1) \<Rightarrow> s1\<lparr>v_pc := VDone (Some err)\<rparr>
      | (Inr _, s1) \<Rightarrow>
          (snd (run_state (tpr ''sending v1.2.0 deal proposal with dbid %d, deal uuid %s''
             [fmt_u64 (dl_dbid D), dl_dealUUID D]) s1))\<lparr>v_pc := VToken\<rparr>)"

definition tokenStep :: "go_error + string \<Rightarrow> v120 \<Rightarrow> v120" where
  "tokenStep r s =
     (case r of
        Inl err \<Rightarrow> s\<lparr>v_pc := VUnsub (Some (wrapf ''generating auth token for deal: '' err))\<rparr>
      | Inr authToken \<Rightarrow> s\<lparr>v_pc := VPrepare authToken\<rparr>)"

definition prepareStep :: "deal_run \<Rightarrow> string \<Rightarrow> v120 \<Rightarrow> v120" where
  "prepareStep D authToken s =
     (case run_state (PrepareForDataRequest (dl_mgr D) (dl_dbid D) authToken (dl_propCid D)
              (dr_Root (np_Piece (dl_netprop D))) (dr_RawBlockSize (np_Piece (dl_netprop D)))) s of
        (Inl err, s1) \<Rightarrow> s1\<lparr>v_pc := VUnsub (Some (wrapf ''preparing for data request: '' err))\<rparr>
      | (Inr _, s1) \<Rightarrow> s1\<lparr>v_pc := VSend authToken\<rparr>)"

definition sendStep :: "deal_run \<Rightarrow> string \<Rightarrow> v120 \<Rightarrow> v120" where
  "sendStep D authToken s =
     (case run_state (SendProposalV120 (dl_marshal D) (dl_basicAuth D) (dl_library D) (dl_client D) (dl_ctx D)
              (dl_fresh D) (dl_dbid D) (dl_netprop D) (dl_dealUUID D) (dl_announce D) authToken) s of
        (Inl (_, err), s1) \<Rightarrow>
          (snd (run_state (CleanupPreparedRequest (dl_mgr D) (dl_dbid D) authToken) s1))\<lparr>v_pc := VUnsub (Some err)\<rparr>
      | (Inr _, s1) \<Rightarrow> (snd (run_state (tpr ''miner accepted the deal!'' []) s1))\<lparr>v_pc := VWait\<rparr>)"

text \<open>The rendezvous on \<open>pullComplete\<close>; after sending \<open>nil\<close> the listener still stores the status.\<close>

definition receiveStep :: "go_error option \<Rightarrow> v120 \<Rightarrow> v120" where
  "receiveStep v s =
     s\<lparr>v_pc := VUnsub v, v_sending := None, v_last := (if v = None then Completed else v_last s)\<rparr>"

definition vnext :: "deal_run \<Rightarrow> v120 \<Rightarrow> v120_label \<Rightarrow> v120 option" where
  "vnext D s l =
     (case l of
        LSubscribe \<Rightarrow> if v_pc s = VInit \<and> lockFree s then Some (subscribeStep D s) else None
      | LToken r \<Rightarrow> if v_pc s = VToken then Some (tokenStep r s) else None
      | LPrepare \<Rightarrow> (case v_pc s of VPrepare tok \<Rightarrow> Some (prepareStep D tok s) | _ \<Rightarrow> None)
      | LSend \<Rightarrow> (case v_pc s of VSend tok \<Rightarrow> Some (sendStep D tok s) | _ \<Rightarrow> None)
      | LNotify dbid ts \<Rightarrow> if lockFree s then Some (notified_of D dbid ts s) else None
      | LReceive \<Rightarrow> if v_pc s = VWait then map_option (\<lambda>v. receiveStep v s) (v_sending s) else None
      | LDone err \<Rightarrow> if v_pc s = VWait then Some (s\<lparr>v_pc := VUnsub (Some err)\<rparr>) else None
      | LUnsub \<Rightarrow> (case v_pc s of
            VUnsub r \<Rightarrow> if lockFree s then Some ((snd (run_state unsubscribe s))\<lparr>v_pc := VDone r\<rparr>) else None
          | _ \<Rightarrow> None))"

abbreviation vrun :: "deal_run \<Rightarrow> v120 \<Rightarrow> v120_label list \<Rightarrow> v120 option" where
  "vrun D \<equiv> steps (vnext D)"

definition startDeal :: "trace \<Rightarrow> v120" where
  "startDeal t = \<lparr>w_trace = t, x_listener = None, v_pc = VInit, v_last = Requested, v_sending = None\<rparr>"

end
