(* ===== verification/FilcDealsProps.thy ===== *)
theory FilcDealsProps
  imports FilcDeals
begin

text \<open>
  What the deal command promises.  For protocol v1.1.0: when the polling returns, and that success
  means a completed transfer of an accepted proposal.  For protocol v1.2.0: invariants of the reachable
  states of the command and its listener, and the state in which both wait for each other.
\<close>

section \<open>The texts of a status\<close>

lemma logStatus_cases:
  "logStatus st ch = Inl e \<longleftrightarrow>
     (cs_Status st = Failed \<and> e = Errorf (''data transfer failed: '' @ cs_Message st)
      \<or> cs_Status st = Cancelled \<and> e = Errorf (''transfer cancelled: '' @ cs_Message st))"
  by (auto simp: logStatus_def split: dt_status.splits)

definition isFinal :: "dt_status \<Rightarrow> bool" where
  "isFinal st \<longleftrightarrow> st = Completed \<or> st = Failed \<or> st = Cancelled"

section \<open>Polling\<close>

lemma cs_Status_conv [simp]: "cs_Status (conv m enc st) = dtc_Status st"
  by (simp add: conv_def ChannelStateConv_def)

lemma run_TransferStatus [run_simps]:
  "run_state (TransferStatus fc m enc chanid) w =
     (case d_ChannelState (dataTransfer fc) (w_trace w) chanid of
        Inl err \<Rightarrow> Inl err | Inr st \<Rightarrow> Inr (conv m enc st),
      w\<lparr>w_trace := w_trace w @ [Dt (DChannelState chanid)]\<rparr>)"
  by (simp add: TransferStatus_def run_simps split: sum.splits)

lemma run_tprStatus [run_simps]:
  "run_state (tprStatus s) w = ((), w\<lparr>w_trace := w_trace w @ (if s = [] then [] else [Tpr s []])\<rparr>)"
  by (simp add: tprStatus_def tpr_def run_simps)

lemma run_tprCompleted [run_simps]:
  "run_state (tprCompleted L miner c) w = ((), w\<lparr>w_trace := w_trace w @
     [Tpr ''transfer completed, miner: %s, propcid: %s'' [lib_addrString L miner, lib_cidString L c]]\<rparr>)"
  by (simp add: tprCompleted_def tpr_def run_simps)

text \<open>How often the status of the channel has been asked for.\<close>

definition polls :: "channel_id \<Rightarrow> trace \<Rightarrow> nat" where
  "polls c t = count_if (\<lambda>x. x = Dt (DChannelState c)) t"

lemma polls_simps [simp]:
  "polls c [] = 0" "polls c (t @ u) = polls c t + polls c u"
  "polls c (x # t) = (if x = Dt (DChannelState c) then Suc (polls c t) else polls c t)"
  by (simp_all add: polls_def)

text \<open>
  A data-transfer manager that reports an error or a final status for the channel by the poll with
  number \<open>n\<close> at the latest (the polls are counted from 0).
\<close>

definition endsBy :: "dt_service \<Rightarrow> channel_id \<Rightarrow> nat \<Rightarrow> bool" where
  "endsBy d c n \<longleftrightarrow> (\<forall>t. n \<le> polls c t \<longrightarrow>
     (case d_ChannelState d t c of Inl _ \<Rightarrow> True | Inr st \<Rightarrow> isFinal (dtc_Status st)))"

lemma poll_final:
  assumes "d_ChannelState (dataTransfer fc) (w_trace w) c = Inr st" and "isFinal (dtc_Status st)"
  shows "\<exists>r. fst (run_state (pollTransfer (Suc k) L fc m enc miner p c old) w) = Some r"
  using assms by (auto simp: run_simps isFinal_def logStatus_def)

lemma poll_returns_lemma:
  assumes "endsBy (dataTransfer fc) c n" and "n < polls c (w_trace w) + fuel"
    and "fuel \<noteq> 0"
  shows "\<exists>r. fst (run_state (pollTransfer fuel L fc m enc miner p c old) w) = Some r"
  using assms(2,3)
proof (induction fuel arbitrary: w old)
  case 0
  then show ?case by simp
next
  case (Suc k)
  show ?case
  proof (cases "d_ChannelState (dataTransfer fc) (w_trace w) c")
    case (Inl err)
    then show ?thesis by (simp add: run_simps)
  next
    case (Inr st)
    show ?thesis
    proof (cases "isFinal (dtc_Status st)")
      case True
      with Inr show ?thesis by (rule poll_final)
    next
      case False
      with Inr assms(1) have "polls c (w_trace w) < n" unfolding endsBy_def
        by (metis (no_types, lifting) not_le sum.simps(6))
      with Suc.prems have k: "k \<noteq> 0" by auto
      obtain logstr where l: "logStatus (conv m enc st) (dtc_Status st \<noteq> old) = Inr logstr"
        using False logStatus_cases [of "conv m enc st"] unfolding isFinal_def
        by (metis cs_Status_conv obj_sumE)
      let ?w = "w\<lparr>w_trace := w_trace w @ [Dt (DChannelState c)] @
        (if logstr = [] then [] else [Tpr logstr []])\<rparr>"
      have "n < polls c (w_trace ?w) + k" using Suc.prems by simp
      from Suc.IH [OF this k] have "\<exists>r. fst (run_state (pollTransfer k L fc m enc miner p c (dtc_Status st)) ?w) = Some r" .
      then show ?thesis using False Inr l by (simp add: run_simps isFinal_def)
    qed
  qed
qed

text \<open>
  C20: The polling of a transfer ends: with a manager that reports an error or a final status by its
  poll number \<open>n\<close>, \<open>n + 1\<close> polls are enough for the loop to return.
\<close>

theorem polling_returns:
  assumes "endsBy (dataTransfer fc) c (polls c (w_trace w) + n)"
  shows "\<exists>r. fst (run_state (pollTransfer (Suc n) L fc m enc miner p c old) w) = Some r"
  using poll_returns_lemma [OF assms, of w "Suc n"] by simp

text \<open>More fuel does not change a result.\<close>

lemma poll_more_fuel:
  "run_state (pollTransfer k L fc m enc miner p c old) w = (Some r, w') \<Longrightarrow>
   run_state (pollTransfer (k + j) L fc m enc miner p c old) w = (Some r, w')"
proof (induction k arbitrary: w old)
  case 0
  then show ?case by simp
next
  case (Suc k)
  then show ?case by (auto simp: run_simps split: sum.splits if_splits)
qed

lemma poll_success:
  "run_state (pollTransfer k L fc m enc miner p c old) w = (Some (Inr ()), w') \<Longrightarrow>
   \<exists>v st x. d_ChannelState (dataTransfer fc) v c = Inr st \<and> dtc_Status st = Completed
     \<and> w_trace w' = v @ [Dt (DChannelState c), Tpr ''transfer complete!'' [], x]"
proof (induction k arbitrary: w old)
  case 0
  then show ?case by simp
next
  case (Suc k)
  then show ?case by (auto simp: run_simps logStatus_def split: sum.splits if_splits dt_status.splits)
qed

text \<open>
  C7: The command reports a v1.1.0 deal as done only after the provider has accepted this proposal
  and the last status read for the channel of its transfer was \<open>Completed\<close>.
\<close>

theorem v110_deal_done:
  assumes "run_state (makev110Deal fuel L fc m enc cx miner np propCid dataCid) w = (Some (Inr ()), w')"
  shows "(\<exists>t s resp. h_ReadSignedResponse (host fc) t s = Inr resp \<and> sr_Proposal resp = propCid
      \<and> sr_State resp \<in> {StorageDealWaitingForData, StorageDealProposalAccepted})
    \<and> (\<exists>v c st x. d_ChannelState (dataTransfer fc) v c = Inr st \<and> dtc_Status st = Completed
      \<and> w_trace w' = v @ [Dt (DChannelState c), Tpr ''transfer complete!'' [], x])"
proof -
  obtain r w1 where send: "run_state (SendProposalV110 L fc cx np propCid) w = (r, w1)" by fastforce
  with assms have r: "r = Inr ()" by (auto simp: makev110Deal_def split: sum.splits)
  let ?w2 = "w1\<lparr>w_trace := w_trace w1 @ [Tpr ''miner accepted the deal!'' [],
    Tpr ''starting data transfer... %s'' [lib_cidString L propCid]]\<rparr>"
  obtain q w3 where start: "run_state (StartDataTransfer L fc miner propCid dataCid) ?w2 = (q, w3)" by fastforce
  with assms send r obtain c where "q = Inr c"
    and "run_state (pollTransfer fuel L fc m enc miner propCid c Requested) w3 = (Some (Inr ()), w')"
    by (auto simp: makev110Deal_def tpr_def run_simps split: sum.splits)
  from poll_success [OF this(2)] send_v110_accepted [OF send [unfolded r]] show ?thesis by blast
qed

section \<open>The reachable states of a v1.2.0 deal\<close>

inductive vreach :: "deal_run \<Rightarrow> v120 \<Rightarrow> v120_label list \<Rightarrow> v120 \<Rightarrow> bool" for D s0 where
  vreach_start: "vreach D s0 [] s0"
| vreach_step: "vreach D s0 ls s \<Longrightarrow> vnext D s l = Some s' \<Longrightarrow> vreach D s0 (ls @ [l]) s'"

lemma vreach_run: "vrun D s0 ls = Some s \<Longrightarrow> vreach D s0 ls s"
proof (induction ls arbitrary: s rule: rev_induct)
  case Nil
  then show ?case by (simp add: vreach_start)
next
  case (snoc l ls)
  then show ?case by (auto simp: steps_append intro: vreach_step split: option.splits)
qed

text \<open>What the listener and the manager leave alone.\<close>

lemma notified_of_keeps:
  "v_pc (notified_of D d ts s) = v_pc s \<and> x_listener (notified_of D d ts s) = x_listener s"
  by (simp add: notified_of_def notify_def pullEvent_def run_simps Let_def split: option.splits sum.splits)

fun isNotice :: "call \<Rightarrow> bool" where
  "isNotice (Tpr _ _) = True"
| "isNotice (Xfer (XListener _ _ _)) = True"
| "isNotice _ = False"

lemma notified_of_trace:
  "\<exists>u. w_trace (notified_of D d ts s) = w_trace s @ u \<and> list_all isNotice u"
  by (auto simp: notified_of_def notify_def pullEvent_def run_simps Let_def split: option.splits sum.splits)

lemma notified_of_sends:
  assumes "v_sending s = None" and "v_sending (notified_of D d ts s) = Some v"
  shows "d = dl_dbid D \<and> (v = None \<longrightarrow> ts_Status ts = TransferStatusCompleted)
    \<and> (v \<noteq> None \<longrightarrow> ts_Status ts = TransferStatusFailed)"
proof -
  have st: "cs_Status (toDTState K ts) = Completed \<longleftrightarrow> ts_Status ts = TransferStatusCompleted"
    "cs_Status (toDTState K ts) = Failed \<longleftrightarrow> ts_Status ts = TransferStatusFailed"
    "cs_Status (toDTState K ts) \<noteq> Cancelled" for K
    by (auto simp: toDTState_def Let_def split: transfer_status.splits)
  from assms show ?thesis
    by (auto simp: notified_of_def notify_def pullEvent_def run_simps Let_def st logStatus_cases
        split: option.splits sum.splits if_splits)
qed

section \<open>Success\<close>

definition acceptedBy :: "deal_run \<Rightarrow> bool" where
  "acceptedBy D \<longleftrightarrow> (\<exists>t s resp. h_ReadDealResponse (host (dl_client D)) t s = Inr resp \<and> dresp_Accepted resp)"

definition heardCompleted :: "deal_run \<Rightarrow> v120_label list \<Rightarrow> bool" where
  "heardCompleted D ls \<longleftrightarrow>
     (\<exists>ts. LNotify (dl_dbid D) ts \<in> set ls \<and> ts_Status ts = TransferStatusCompleted)"

definition doneInv :: "deal_run \<Rightarrow> v120_label list \<Rightarrow> v120 \<Rightarrow> bool" where
  "doneInv D ls s \<longleftrightarrow>
     (v_pc s \<in> {VWait, VUnsub None, VDone None} \<longrightarrow> acceptedBy D)
     \<and> (v_sending s = Some None \<or> v_pc s \<in> {VUnsub None, VDone None} \<longrightarrow> heardCompleted D ls)"

lemma heardCompleted_mono: "heardCompleted D ls \<Longrightarrow> heardCompleted D (ls @ [l])"
  by (auto simp: heardCompleted_def)

text \<open>What a step of the command does, by label.\<close>

lemma vnext_cases [consumes 1, case_names subscribe token prepare send notify receive ended unsub]:
  assumes "vnext D s l = Some s'"
  obtains "l = LSubscribe" "v_pc s = VInit" "v_sending s = None" "s' = subscribeStep D s"
  | r where "l = LToken r" "v_pc s = VToken" "s' = tokenStep r s"
  | tok where "l = LPrepare" "v_pc s = VPrepare tok" "s' = prepareStep D tok s"
  | tok where "l = LSend" "v_pc s = VSend tok" "s' = sendStep D tok s"
  | d ts where "l = LNotify d ts" "v_sending s = None" "s' = notified_of D d ts s"
  | v where "l = LReceive" "v_pc s = VWait" "v_sending s = Some v" "s' = receiveStep v s"
  | err where "l = LDone err" "v_pc s = VWait" "s' = s\<lparr>v_pc := VUnsub (Some err)\<rparr>"
  | r where "l = LUnsub" "v_pc s = VUnsub r" "v_sending s = None"
      "s' = (snd (run_state unsubscribe s))\<lparr>v_pc := VDone r\<rparr>"
  using assms by (cases l) (auto simp: vnext_def split: if_splits v120_pc.splits)

lemma subscribeStep_effect:
  "(\<exists>u. w_trace (subscribeStep D s) = w_trace s @ u \<and> list_all isNotice u)
   \<and> v_sending (subscribeStep D s) = v_sending s
   \<and> v_pc (subscribeStep D s) \<in> {VToken} \<union> range (\<lambda>e. VDone (Some e))"
  by (auto simp: subscribeStep_def Subscribe_def tpr_def run_simps)

lemma tokenStep_effect:
  "\<exists>p. tokenStep r s = s\<lparr>v_pc := p\<rparr> \<and> (p \<in> range VPrepare \<or> p \<in> range (\<lambda>e. VUnsub (Some e)))"
  by (auto simp: tokenStep_def split: sum.splits)

lemma prepareStep_effect:
  "\<exists>v q p. prepareStep D tok s = s\<lparr>w_trace := w_trace s @ [Xfer (XAuthPut tok v q)], v_pc := p\<rparr>
     \<and> (p = VSend tok \<and> q = None \<or> p \<in> range (\<lambda>e. VUnsub (Some e)) \<and> q \<noteq> None)"
proof -
  let ?v = "\<lparr>av_ID = fmt_u64 (dl_dbid D), av_ProposalCid = dl_propCid D,
    av_PayloadCid = dr_Root (np_Piece (dl_netprop D)), av_Size = dr_RawBlockSize (np_Piece (dl_netprop D))\<rparr>"
  show ?thesis
  proof (cases "x_AuthPut (x_service (dl_mgr D)) (w_trace s) tok ?v")
    case None
    then show ?thesis
      by (intro exI [of _ ?v] exI [of _ None] exI [of _ "VSend tok"])
        (simp add: prepareStep_def PrepareForDataRequest_def run_simps Let_def)
  next
    case (Some e)
    then show ?thesis
      by (intro exI [of _ ?v] exI [of _ "Some e"] exI [of _ "VUnsub (Some (wrapf ''preparing for data request: ''
            (wrapf ''adding new auth token: '' e)))"])
        (simp add: prepareStep_def PrepareForDataRequest_def run_simps Let_def)
  qed
qed

lemma sendStep_effect:
  "\<exists>u p. list_all hostOrChain u \<and>
     (sendStep D tok s = s\<lparr>w_trace := w_trace s @ u @ [Tpr ''miner accepted the deal!'' []], v_pc := VWait\<rparr>
        \<and> acceptedBy D
      \<or> p \<in> range (\<lambda>e. VUnsub (Some e)) \<and> sendStep D tok s = s\<lparr>w_trace := w_trace s @ u
          @ [Xfer (XAuthDelete tok), Xfer (XCancelTransfer (fmt_u64 (dl_dbid D)))], v_pc := p\<rparr>)"
proof -
  let ?send = "SendProposalV120 (dl_marshal D) (dl_basicAuth D) (dl_library D) (dl_client D) (dl_ctx D)
              (dl_fresh D) (dl_dbid D) (dl_netprop D) (dl_dealUUID D) (dl_announce D) tok"
  obtain r s1 where run: "run_state ?send s = (r, s1)" by fastforce
  from onlyD [OF only_send(2) run] obtain u
    where u: "s1 = s\<lparr>w_trace := w_trace s @ u\<rparr>" "list_all hostOrChain u" .
  show ?thesis
  proof (cases r)
    case (Inl x)
    obtain b e where x: "x = (b, e)" by fastforce
    have "sendStep D tok s = s\<lparr>w_trace := w_trace s @ u
        @ [Xfer (XAuthDelete tok), Xfer (XCancelTransfer (fmt_u64 (dl_dbid D)))], v_pc := VUnsub (Some e)\<rparr>"
      using run u(1) Inl x
      by (simp add: sendStep_def CleanupPreparedRequest_def cancelTransfer_def run_simps)
    then show ?thesis using u(2) by blast
  next
    case (Inr x)
    have "acceptedBy D" using send_v120_accepted [of _ _ _ _ _ _ _ _ _ _ _ s s1] run Inr
      unfolding acceptedBy_def by simp
    moreover have "sendStep D tok s = s\<lparr>w_trace := w_trace s @ u @ [Tpr ''miner accepted the deal!'' []], v_pc := VWait\<rparr>"
      using run u(1) Inr by (simp add: sendStep_def tpr_def run_simps)
    ultimately show ?thesis using u(2) by blast
  qed
qed

lemma doneInv_step:
  assumes "doneInv D ls s" and "vnext D s l = Some s'"
  shows "doneInv D (ls @ [l]) s'"
  using assms(2)
proof (cases rule: vnext_cases)
  case subscribe
  then show ?thesis using assms(1) subscribeStep_effect [of D s] by (auto simp: doneInv_def)
next
  case (token r)
  then show ?thesis using assms(1) tokenStep_effect [of r s] by (auto simp: doneInv_def heardCompleted_mono)
next
  case (prepare tok)
  then show ?thesis using assms(1) prepareStep_effect [of D tok s] by (auto simp: doneInv_def heardCompleted_mono)
next
  case (send tok)
  then show ?thesis using assms(1) sendStep_effect [of D tok s] by (auto simp: doneInv_def heardCompleted_mono)
next
  case (notify d ts)
  have "heardCompleted D (ls @ [l])" if "v_sending s' = Some None"
    using notified_of_sends [of s D d ts None] notify that by (auto simp: heardCompleted_def)
  then show ?thesis using assms(1) notify notified_of_keeps [of D d ts s]
    by (auto simp: doneInv_def heardCompleted_mono)
next
  case (receive v)
  then show ?thesis using assms(1) by (auto simp: doneInv_def receiveStep_def heardCompleted_mono)
next
  case (ended err)
  then show ?thesis using assms(1) by (auto simp: doneInv_def heardCompleted_mono)
next
  case (unsub r)
  then show ?thesis using assms(1) by (auto simp: doneInv_def unsubscribe_def run_simps heardCompleted_mono)
qed

lemma doneInv_reach: "vreach D (startDeal t) ls s \<Longrightarrow> doneInv D ls s"
proof (induction rule: vreach.induct)
  case vreach_start
  show ?case by (simp add: doneInv_def startDeal_def)
qed (use doneInv_step in blast)

text \<open>
  C6: The command reports a v1.2.0 deal as done only after the provider has accepted the proposal and
  the transfer manager has told the listener that the transfer of this deal is completed.
\<close>

theorem v120_deal_done:
  assumes "vreach D (startDeal t) ls s" and "v_pc s = VDone None"
  shows "acceptedBy D \<and> heardCompleted D ls"
  using doneInv_reach [OF assms(1)] assms(2) by (simp add: doneInv_def)

section \<open>The auth token\<close>

definition putToken :: "trace \<Rightarrow> string \<Rightarrow> bool" where
  "putToken u tok \<longleftrightarrow> (\<exists>v. Xfer (XAuthPut tok v None) \<in> set u)"

definition cleanedUp :: "deal_run \<Rightarrow> trace \<Rightarrow> string \<Rightarrow> bool" where
  "cleanedUp D u tok \<longleftrightarrow>
     Xfer (XAuthDelete tok) \<in> set u \<and> Xfer (XCancelTransfer (fmt_u64 (dl_dbid D))) \<in> set u"

fun tokenInv :: "deal_run \<Rightarrow> trace \<Rightarrow> v120_pc \<Rightarrow> bool" where
  "tokenInv D u (VSend tok) = (\<forall>tok'. putToken u tok' \<longrightarrow> tok' = tok)"
| "tokenInv D u VWait = (Tpr ''miner accepted the deal!'' [] \<in> set u)"
| "tokenInv D u (VUnsub r) = (Tpr ''miner accepted the deal!'' [] \<in> set u \<or> (\<forall>tok. putToken u tok \<longrightarrow> cleanedUp D u tok))"
| "tokenInv D u (VDone r) = (Tpr ''miner accepted the deal!'' [] \<in> set u \<or> (\<forall>tok. putToken u tok \<longrightarrow> cleanedUp D u tok))"
| "tokenInv D u _ = (\<forall>tok. \<not> putToken u tok)"

lemma putToken_append [simp]:
  "putToken [] tok = False" "putToken (u @ v) tok \<longleftrightarrow> putToken u tok \<or> putToken v tok"
  "putToken (c # v) tok \<longleftrightarrow> (\<exists>x. c = Xfer (XAuthPut tok x None)) \<or> putToken v tok"
  by (auto simp: putToken_def)

lemma cleanedUp_append: "cleanedUp D u tok \<Longrightarrow> cleanedUp D (u @ v) tok"
  by (auto simp: cleanedUp_def)

lemma no_putToken: "list_all hostOrChain v \<Longrightarrow> \<not> putToken v tok" "list_all isNotice v \<Longrightarrow> \<not> putToken v tok"
  by (auto simp: putToken_def list_all_iff)

lemma tokenInv_notices:
  assumes "tokenInv D u p" and "list_all isNotice v"
  shows "tokenInv D (u @ v) p"
  using assms no_putToken(2) [OF assms(2)] by (cases p) (auto intro: cleanedUp_append)

lemma tokenInv_step:
  assumes "tokenInv D u (v_pc s)" and "vnext D s l = Some s'" and "w_trace s = t @ u"
  shows "\<exists>u'. w_trace s' = t @ u' \<and> tokenInv D u' (v_pc s')"
  using assms(2)
proof (cases rule: vnext_cases)
  case subscribe
  from subscribeStep_effect [of D s] obtain v where "w_trace s' = w_trace s @ v" "list_all isNotice v"
    and pc: "v_pc s' \<in> {VToken} \<union> range (\<lambda>e. VDone (Some e))" using subscribe by blast
  then show ?thesis using assms(1,3) subscribe(2) no_putToken(2) [of v] by (intro exI [of _ "u @ v"]) auto
next
  case (token r)
  then show ?thesis using assms(1,3) tokenStep_effect [of r s] by auto
next
  case (prepare tok)
  from prepareStep_effect [of D tok s] obtain v q p
    where s': "s' = s\<lparr>w_trace := w_trace s @ [Xfer (XAuthPut tok v q)], v_pc := p\<rparr>"
      and p: "p = VSend tok \<and> q = None \<or> p \<in> range (\<lambda>e. VUnsub (Some e)) \<and> q \<noteq> None"
    using prepare by blast
  then show ?thesis using assms(1,3) prepare(2) by (intro exI [of _ "u @ [Xfer (XAuthPut tok v q)]"]) auto
next
  case (send tok)
  from sendStep_effect [of D tok s] obtain v p where v: "list_all hostOrChain v"
    and s': "s' = s\<lparr>w_trace := w_trace s @ v @ [Tpr ''miner accepted the deal!'' []], v_pc := VWait\<rparr>
      \<or> p \<in> range (\<lambda>e. VUnsub (Some e)) \<and> s' = s\<lparr>w_trace := w_trace s @ v
          @ [Xfer (XAuthDelete tok), Xfer (XCancelTransfer (fmt_u64 (dl_dbid D)))], v_pc := p\<rparr>"
    using send by blast
  from s' show ?thesis
  proof (elim disjE conjE)
    assume "s' = s\<lparr>w_trace := w_trace s @ v @ [Tpr ''miner accepted the deal!'' []], v_pc := VWait\<rparr>"
    then show ?thesis using assms(3) by simp
  next
    let ?e = "v @ [Xfer (XAuthDelete tok), Xfer (XCancelTransfer (fmt_u64 (dl_dbid D)))]"
    assume p: "p \<in> range (\<lambda>e. VUnsub (Some e))" and e: "s' = s\<lparr>w_trace := w_trace s @ ?e, v_pc := p\<rparr>"
    have "\<forall>tok'. putToken (u @ ?e) tok' \<longrightarrow> cleanedUp D (u @ ?e) tok'"
      using assms(1) send(2) no_putToken(1) [OF v] by (auto simp: cleanedUp_def)
    then show ?thesis using assms(3) p e by (intro exI [of _ "u @ ?e"]) auto
  qed
next
  case (notify d ts)
  from notified_of_trace [of D d ts s] obtain v
    where "w_trace s' = w_trace s @ v" "list_all isNotice v" using notify by blast
  then show ?thesis using assms(1,3) notified_of_keeps [of D d ts s] tokenInv_notices notify(3) by fastforce
next
  case (receive v)
  then show ?thesis using assms(1,3) by (auto simp: receiveStep_def)
next
  case (ended err)
  then show ?thesis using assms(1,3) by auto
next
  case (unsub r)
  then show ?thesis using assms(1,3) by (auto simp: unsubscribe_def run_simps)
qed

lemma tokenInv_reach:
  "vreach D (startDeal t) ls s \<Longrightarrow> \<exists>u. w_trace s = t @ u \<and> tokenInv D u (v_pc s)"
proof (induction rule: vreach.induct)
  case vreach_start
  show ?case by (simp add: startDeal_def)
next
  case (vreach_step ls s l s')
  then show ?case using tokenInv_step by blast
qed

text \<open>
  C10: An auth token that the command has put into the database is still there after its return only
  when the provider has accepted the proposal; otherwise it was deleted, and the transfer cancelled.
\<close>

theorem v120_token_cleaned:
  assumes "vreach D (startDeal t) ls s" and "v_pc s = VDone r" and "w_trace s = t @ u"
    and "Xfer (XAuthPut tok v None) \<in> set u"
  shows "Tpr ''miner accepted the deal!'' [] \<in> set u \<or>
    (Xfer (XAuthDelete tok) \<in> set u \<and> Xfer (XCancelTransfer (fmt_u64 (dl_dbid D))) \<in> set u)"
  using tokenInv_reach [OF assms(1)] assms(2-4) by (auto simp: putToken_def cleanedUp_def)

section \<open>A state without successor\<close>

text \<open>
  C38: When the context of the command ends before the transfer does, a later completion of the
  transfer blocks both sides for good: the listener waits for a receiver of its value with the
  manager's lock held, and the deferred removal of the listener waits for that lock.
\<close>

theorem v120_deadlock:
  assumes "v_pc s = VWait" and "v_sending s = None" and "x_listener s = Some (dl_listener D)"
    and "ts_Status ts = TransferStatusCompleted"
  shows "\<exists>s'. vrun D s [LDone err, LNotify (dl_dbid D) ts] = Some s' \<and> v_pc s' = VUnsub (Some err)
    \<and> (\<forall>l. vnext D s' l = None)"
proof -
  have c: "cs_Status (toDTState K ts) = Completed" for K using assms(4) by (simp add: toDTState_def Let_def)
  have l: "logStatus (toDTState K ts) b = Inr ''transfer complete!''" for K b by (simp add: logStatus_def c)
  let ?s1 = "s\<lparr>v_pc := VUnsub (Some err)\<rparr>"
  have "v_sending (notified_of D (dl_dbid D) ts ?s1) = Some None"
    using assms(3) by (simp add: notified_of_def notify_def pullEvent_def run_simps Let_def c l)
  moreover have "v_pc (notified_of D (dl_dbid D) ts ?s1) = VUnsub (Some err)"
    using notified_of_keeps [of D "dl_dbid D" ts ?s1] by simp
  ultimately show ?thesis using assms(1,2)
    by (auto simp: vnext_def split: v120_label.splits)
qed

section \<open>Sample runs\<close>

text \<open>A provider that needs two polls, and one run of the v1.2.0 command.\<close>

definition pollingClient :: FilClient where
  "pollingClient = sampleClient\<lparr>dataTransfer := sampleDataTransfer\<lparr>d_ChannelState :=
     \<lambda>t c. Inr (sampleDtChannel\<lparr>dtc_Status := if polls c t < 2 then Ongoing else Completed\<rparr>)\<rparr>\<rparr>"

definition sampleNetProposal :: net_proposal where
  "sampleNetProposal =
     \<lparr>np_DealProposal = \<lparr>cdp_Proposal = sampleDealProposal, cdp_ClientSignature = []\<rparr>,
      np_Piece = \<lparr>dr_TransferType = [], dr_Root = ''bafyroot'', dr_RawBlockSize = 77\<rparr>,
      np_FastRetrieval = True\<rparr>"

definition sampleDealRun :: deal_run where
  "sampleDealRun =
     \<lparr>dl_library = sampleLibrary, dl_client = sampleClient, dl_mgr = sampleMgr, dl_ctx = emptyCtx,
      dl_marshal = (\<lambda>u a. Inr (u @ a)), dl_basicAuth = (\<lambda>u t. t), dl_fresh = ''fresh'', dl_dbid = 7,
      dl_dealUUID = ''uuid'', dl_announce = ''/ip4/1.2.3.4'', dl_miner = ''f01000'',
      dl_netprop = sampleNetProposal, dl_propCid = ''bafyprop'', dl_listener = 1\<rparr>"

definition rejectedRun :: deal_run where
  "rejectedRun = sampleDealRun\<lparr>dl_client := sampleClient\<lparr>host := sampleHost\<lparr>h_ReadDealResponse :=
     \<lambda>_ _. Inr \<lparr>dresp_Accepted = False, dresp_Message = ''no''\<rparr>\<rparr>\<rparr>\<rparr>"

definition toWait :: "v120_label list" where
  "toWait = [LSubscribe, LToken (Inr ''tok''), LPrepare, LSend]"

theorem polling_returns_witness:
  "fst (run_state (pollTransfer 3 sampleLibrary pollingClient sampleMgr (\<lambda>p. p) ''f01000'' ''bafyprop''
     sampleChannel Requested) \<lparr>w_trace = []\<rparr>) \<noteq> None"
proof -
  have "endsBy (dataTransfer pollingClient) sampleChannel (polls sampleChannel (w_trace \<lparr>w_trace = []\<rparr>) + 2)"
    by (simp add: endsBy_def pollingClient_def isFinal_def)
  from polling_returns [OF this] show ?thesis by (auto simp: numeral_3_eq_3)
qed

theorem v110_deal_done_witness:
  "(\<exists>v c st x. d_ChannelState (dataTransfer pollingClient) v c = Inr st \<and> dtc_Status st = Completed
      \<and> w_trace (snd (run_state (makev110Deal 5 sampleLibrary pollingClient sampleMgr (\<lambda>p. p) emptyCtx ''f01000''
           sampleNetProposal ''bafyprop'' ''bafyroot'') \<lparr>w_trace = []\<rparr>))
        = v @ [Dt (DChannelState c), Tpr ''transfer complete!'' [], x])"
proof -
  let ?run = "run_state (makev110Deal 5 sampleLibrary pollingClient sampleMgr (\<lambda>p. p) emptyCtx ''f01000''
     sampleNetProposal ''bafyprop'' ''bafyroot'') \<lparr>w_trace = []\<rparr>"
  have "fst ?run = Some (Inr ())"
    by (simp add: makev110Deal_def SendProposalV110_def StartDataTransfer_def streamToMiner_def newStream_def
        connect_defs run_withProtected doRpc_def checkV110Response_def run_simps pollingClient_def
        sampleNetProposal_def sample_defs Let_def tpr_def logStatus_def eval_nat_numeral)
  then have "?run = (Some (Inr ()), snd ?run)" by (simp add: prod_eq_iff)
  from v110_deal_done [OF this] show ?thesis by blast
qed

lemma sampleWait:
  "vrun sampleDealRun (startDeal []) toWait \<noteq> None"
  "v_pc (the (vrun sampleDealRun (startDeal []) toWait)) = VWait"
  "v_sending (the (vrun sampleDealRun (startDeal []) toWait)) = None"
  "x_listener (the (vrun sampleDealRun (startDeal []) toWait)) = Some (dl_listener sampleDealRun)"
  by code_simp+

theorem v120_deal_done_witness:
  "acceptedBy sampleDealRun \<and> heardCompleted sampleDealRun (toWait @ [LNotify 7 sampleDone, LReceive, LUnsub])"
proof -
  let ?ls = "toWait @ [LNotify 7 sampleDone, LReceive, LUnsub]"
  have "vrun sampleDealRun (startDeal []) ?ls \<noteq> None" "v_pc (the (vrun sampleDealRun (startDeal []) ?ls)) = VDone None"
    by code_simp+
  then obtain s where "vrun sampleDealRun (startDeal []) ?ls = Some s" "v_pc s = VDone None" by auto
  from v120_deal_done [OF vreach_run [OF this(1)] this(2)] show ?thesis .
qed

theorem v120_token_cleaned_witness:
  "Xfer (XAuthDelete ''tok'') \<in> set (w_trace (the (vrun rejectedRun (startDeal []) (toWait @ [LUnsub]))))"
proof -
  let ?run = "vrun rejectedRun (startDeal []) (toWait @ [LUnsub])"
  have c: "?run \<noteq> None" "v_pc (the ?run) = VDone (Some (Errorf ''deal proposal rejected: no''))"
    "list_ex (\<lambda>c. c = Xfer (XAuthPut ''tok'' \<lparr>av_ID = ''7'', av_ProposalCid = ''bafyprop'',
       av_PayloadCid = ''bafyroot'', av_Size = 77\<rparr> None)) (w_trace (the ?run))"
    "\<not> list_ex (\<lambda>c. c = Tpr ''miner accepted the deal!'' []) (w_trace (the ?run))"
    by code_simp+
  then obtain s where s: "?run = Some s" by auto
  have "v_pc s = VDone (Some (Errorf ''deal proposal rejected: no''))" "w_trace s = [] @ w_trace s"
    "Xfer (XAuthPut ''tok'' \<lparr>av_ID = ''7'', av_ProposalCid = ''bafyprop'',
       av_PayloadCid = ''bafyroot'', av_Size = 77\<rparr> None) \<in> set (w_trace s)"
    using c(2,3) by (auto simp: s list_ex_iff)
  from v120_token_cleaned [OF vreach_run [OF s] this] c(4) show ?thesis by (auto simp: s list_ex_iff)
qed

theorem v120_deadlock_witness:
  "v_pc (the (vrun sampleDealRun (startDeal []) (toWait @ [LDone (Opaque ''context canceled''), LNotify 7 sampleDone])))
     = VUnsub (Some (Opaque ''context canceled''))"
proof -
  obtain s where s: "vrun sampleDealRun (startDeal []) toWait = Some s" using sampleWait(1) by blast
  have "ts_Status sampleDone = TransferStatusCompleted" by (simp add: sampleDone_def)
  moreover have "v_pc s = VWait" "v_sending s = None" "x_listener s = Some (dl_listener sampleDealRun)"
    using sampleWait(2-4) by (simp_all add: s)
  ultimately obtain s' where "vrun sampleDealRun s [LDone (Opaque ''context canceled''),
      LNotify (dl_dbid sampleDealRun) sampleDone] = Some s'"
    and "v_pc s' = VUnsub (Some (Opaque ''context canceled''))" using v120_deadlock by blast
  moreover have "dl_dbid sampleDealRun = 7" by (simp add: sampleDealRun_def)
  ultimately show ?thesis by (simp only: steps_append s option.case option.sel)
qed

end
