(* ===== verification/ConnWatcher.thy ===== *)
theory ConnWatcher
  imports Prelude
begin

text \<open>
  The connection watcher of the deal command (\<open>keepConnection\<close>, \<open>connWatcher.Disconnected\<close> and
  \<open>connWatcher.processDisconnect\<close> of \<open>filc/cmds.go\<close>) as a transition system.  The channel \<open>disconnected\<close> has one
  place; every goroutine in \<open>processDisconnect\<close> is either in its five seconds of sleep or in the call
  of \<open>reconnect\<close>, so the state counts both kinds.  Any number of goroutines may run at the same time.
\<close>

section \<open>The model\<close>

record conn_watcher =
  cw_pid :: peer
  cw_disconnected :: bool
  cw_sleeping :: nat
  cw_reconnecting :: nat

definition newWatcher :: "peer \<Rightarrow> conn_watcher" where
  "newWatcher pid = \<lparr>cw_pid = pid, cw_disconnected = False, cw_sleeping = 0, cw_reconnecting = 0\<rparr>"

text \<open>The non-blocking send; a goroutine is started when the value fits.\<close>

definition onDisconnected :: "peer \<Rightarrow> conn_watcher \<Rightarrow> conn_watcher" where
  "onDisconnected remote c =
     (if remote \<noteq> cw_pid c then c
      else if cw_disconnected c then c
      else c\<lparr>cw_disconnected := True, cw_sleeping := cw_sleeping c + 1\<rparr>)"

text \<open>A goroutine after its sleep: the non-blocking receive decides whether it reconnects.\<close>

definition wakeUp :: "conn_watcher \<Rightarrow> conn_watcher" where
  "wakeUp c =
     (if cw_disconnected c
      then c\<lparr>cw_disconnected := False, cw_sleeping := cw_sleeping c - 1, cw_reconnecting := cw_reconnecting c + 1\<rparr>
      else c\<lparr>cw_sleeping := cw_sleeping c - 1\<rparr>)"

text \<open>\<open>reconnect\<close> has returned; one more goroutine starts in its place.\<close>

definition reconnected :: "conn_watcher \<Rightarrow> conn_watcher" where
  "reconnected c = c\<lparr>cw_reconnecting := cw_reconnecting c - 1, cw_sleeping := cw_sleeping c + 1\<rparr>"

text \<open>The other notifications of the network, for which the watcher has empty methods.\<close>

datatype notification = Listen multiaddr | ListenClose multiaddr | Connected peer | OpenedStream peer | ClosedStream peer

definition onNotification :: "notification \<Rightarrow> conn_watcher \<Rightarrow> conn_watcher" where
  "onNotification n c = (case n of Listen m \<Rightarrow> c | ListenClose m \<Rightarrow> c | Connected p \<Rightarrow> c
     | OpenedStream p \<Rightarrow> c | ClosedStream p \<Rightarrow> c)"

lemma onNotification_same [simp]: "onNotification n c = c"
  by (cases n) (simp_all add: onNotification_def)

datatype cw_label =
    CDisconnected peer
  | CNotified notification
  | CWake bool           \<comment> \<open>whether it goes on to reconnect\<close>
  | CReconnected

inductive cwstep :: "conn_watcher \<Rightarrow> cw_label \<Rightarrow> conn_watcher \<Rightarrow> bool" where
  disconnected: "cwstep c (CDisconnected remote) (onDisconnected remote c)"
| notified: "cwstep c (CNotified n) (onNotification n c)"
| wake: "0 < cw_sleeping c \<Longrightarrow> cwstep c (CWake (cw_disconnected c)) (wakeUp c)"
| reconnect: "0 < cw_reconnecting c \<Longrightarrow> cwstep c CReconnected (reconnected c)"

code_pred cwstep .

inductive_cases cwstepE: "cwstep c l c'"
inductive_simps cwstep_simps:
  "cwstep c (CDisconnected remote) c'" "cwstep c (CWake b) c'" "cwstep c CReconnected c'"

inductive cwexec :: "conn_watcher \<Rightarrow> cw_label list \<Rightarrow> conn_watcher \<Rightarrow> bool" for c0 where
  cw_start: "cwexec c0 [] c0"
| cw_step: "cwexec c0 ls c \<Longrightarrow> cwstep c l c' \<Longrightarrow> cwexec c0 (ls @ [l]) c'"

section \<open>Invariants\<close>

lemma step_pid [simp]: "cwstep c l c' \<Longrightarrow> cw_pid c' = cw_pid c"
  by (auto elim!: cwstepE simp: onDisconnected_def wakeUp_def reconnected_def)

lemma exec_pid: "cwexec c0 ls c \<Longrightarrow> cw_pid c = cw_pid c0"
  by (induction rule: cwexec.induct) auto

text \<open>A filled place always has a goroutine that will look at it.\<close>

definition attended :: "conn_watcher \<Rightarrow> bool" where
  "attended c \<longleftrightarrow> (cw_disconnected c \<longrightarrow> 0 < cw_sleeping c)"

lemma attended_step: "attended c \<Longrightarrow> cwstep c l c' \<Longrightarrow> attended c'"
  by (auto elim!: cwstepE simp: attended_def onDisconnected_def wakeUp_def reconnected_def split: if_splits)

lemma attended_exec: "cwexec (newWatcher pid) ls c \<Longrightarrow> attended c"
proof (induction rule: cwexec.induct)
  case cw_start
  show ?case by (simp add: attended_def newWatcher_def)
qed (use attended_step in blast)

definition reconnects :: "cw_label list \<Rightarrow> nat" where
  "reconnects ls = count_if (\<lambda>l. l = CWake True) ls"

definition disconnects :: "peer \<Rightarrow> cw_label list \<Rightarrow> nat" where
  "disconnects pid ls = count_if (\<lambda>l. l = CDisconnected pid) ls"

lemma counts_append [simp]:
  "reconnects [] = 0" "reconnects (ls @ [l]) = reconnects ls + (if l = CWake True then 1 else 0)"
  "disconnects pid [] = 0"
  "disconnects pid (ls @ [l]) = disconnects pid ls + (if l = CDisconnected pid then 1 else 0)"
  by (simp_all add: reconnects_def disconnects_def)

text \<open>
  Every goroutine goes back to a value put into the channel, and every value is taken out by one
  reconnect at most.
\<close>

definition balanced :: "cw_label list \<Rightarrow> conn_watcher \<Rightarrow> bool" where
  "balanced ls c \<longleftrightarrow>
     reconnects ls + (if cw_disconnected c then 1 else 0) \<le> disconnects (cw_pid c) ls
     \<and> cw_sleeping c + cw_reconnecting c \<le> reconnects ls + (if cw_disconnected c then 1 else 0)"

lemma balanced_exec: "cwexec (newWatcher pid) ls c \<Longrightarrow> balanced ls c"
proof (induction rule: cwexec.induct)
  case cw_start
  show ?case by (simp add: balanced_def newWatcher_def)
next
  case (cw_step ls c l c')
  from cw_step.hyps(2) show ?case using cw_step.IH
    by (cases rule: cwstep.cases)
      (auto simp: balanced_def onDisconnected_def wakeUp_def reconnected_def split: if_splits)
qed

lemma pending_until_reconnect:
  "cwexec c0 ls c \<Longrightarrow> cw_disconnected c0 \<Longrightarrow> reconnects ls = 0 \<Longrightarrow> cw_disconnected c"
proof (induction rule: cwexec.induct)
  case cw_start
  then show ?case by simp
next
  case (cw_step ls c l c')
  then have "cw_disconnected c" "l \<noteq> CWake True" by (auto split: if_splits)
  with cw_step.hyps(2) show ?case
    by (cases rule: cwstep.cases) (auto simp: onDisconnected_def wakeUp_def reconnected_def)
qed

lemma cwexec_trans:
  "cwexec c1 ms c2 \<Longrightarrow> cwexec c0 ls c1 \<Longrightarrow> cwexec c0 (ls @ ms) c2"
proof (induction rule: cwexec.induct)
  case (cw_step ms c l c')
  then show ?case by (metis append_assoc cwexec.cw_step)
qed simp

text \<open>
  C23: No disconnect of the watched peer is lost: as long as no reconnect has begun after it, the place
  of the channel is filled and a goroutine is asleep that will look at it, whatever other events and
  goroutines run in between.
\<close>

theorem disconnect_not_lost:
  assumes "cwexec (newWatcher pid) ls c" and "cwstep c (CDisconnected pid) c1" and "cwexec c1 ms c2"
    and "reconnects ms = 0"
  shows "cw_disconnected c2 \<and> 0 < cw_sleeping c2"
proof -
  have "cw_pid c = pid" using exec_pid [OF assms(1)] by (simp add: newWatcher_def)
  with assms(2) have "cw_disconnected c1" by (auto simp: cwstep_simps onDisconnected_def)
  then have d: "cw_disconnected c2" using pending_until_reconnect [OF assms(3)] assms(4) by simp
  have "cwexec (newWatcher pid) ((ls @ [CDisconnected pid]) @ ms) c2"
    by (rule cwexec_trans [OF assms(3) cw_step [OF assms(1,2)]])
  from attended_exec [OF this] d show ?thesis by (simp add: attended_def)
qed

theorem disconnect_not_lost_witness:
  "cw_disconnected (onDisconnected ''12D3other'' (onDisconnected ''12D3miner'' (newWatcher ''12D3miner'')))
   \<and> 0 < cw_sleeping (onDisconnected ''12D3other'' (onDisconnected ''12D3miner'' (newWatcher ''12D3miner'')))"
proof -
  let ?c1 = "onDisconnected ''12D3miner'' (newWatcher ''12D3miner'')"
  have r: "reconnects ([] @ [CDisconnected ''12D3other'']) = 0" by (simp only: counts_append) simp
  show ?thesis
    by (rule disconnect_not_lost [OF cw_start cwstep.disconnected
          cw_step [OF cw_start cwstep.disconnected [of ?c1 "''12D3other''"]] r])
qed

text \<open>
  C26: The watcher reconnects at most once for each disconnect of its peer, and it never has more
  goroutines than there were disconnects.
\<close>

theorem reconnects_bounded:
  assumes "cwexec (newWatcher pid) ls c"
  shows "reconnects ls \<le> disconnects pid ls \<and> cw_sleeping c + cw_reconnecting c \<le> disconnects pid ls"
  using balanced_exec [OF assms] exec_pid [OF assms]
  by (auto simp: balanced_def newWatcher_def split: if_splits)

theorem reconnects_bounded_witness:
  "reconnects ([CDisconnected ''12D3miner''] @ [CWake True]) \<le> 1
   \<and> cw_reconnecting (wakeUp (onDisconnected ''12D3miner'' (newWatcher ''12D3miner''))) = 1"
proof -
  let ?c1 = "onDisconnected ''12D3miner'' (newWatcher ''12D3miner'')"
  have c1: "cwexec (newWatcher ''12D3miner'') ([] @ [CDisconnected ''12D3miner'']) ?c1"
    by (rule cw_step [OF cw_start cwstep.disconnected])
  have "cwstep ?c1 (CWake (cw_disconnected ?c1)) (wakeUp ?c1)"
    by (rule cwstep.wake) (simp add: onDisconnected_def newWatcher_def)
  then have "cwstep ?c1 (CWake True) (wakeUp ?c1)" by (simp add: onDisconnected_def newWatcher_def)
  from reconnects_bounded [OF cw_step [OF c1 this]] show ?thesis
    by (simp add: disconnects_def wakeUp_def onDisconnected_def newWatcher_def)
qed

end
