(* ===== verification/FilcRetrievalProps.thy ===== *)
theory FilcRetrievalProps
  imports FilcRetrieval
begin

text \<open>
  What the retrieval command promises: a successful attempt has retrieved from a candidate that had
  answered, at the price of its answer and with the root block in the blockstore; the attempts are
  made in order until one succeeds; the sort of the candidates has no effect.
\<close>

section \<open>A single retrieval\<close>

lemma retrievalSetup_proposal:
  "run_state (retrievalSetup L fc p wa prp) w = (Inr P, w') \<Longrightarrow> rq_proposal P = prp"
  by (auto simp: retrievalSetup_def run_simps Let_def split: if_splits sum.splits prod.splits)

lemma returned_price:
  "rexec avgSpeed fc P (startRetrieval t) ls c \<Longrightarrow> fst c = Returned (Inr stats) \<Longrightarrow>
   rs_AskPrice stats = rp_PricePerByte (rq_proposal P)"
proof (induction rule: rexec.induct)
  case start
  then show ?case by (simp add: startRetrieval_def)
next
  case (step ls c l c')
  from step.hyps(2) step.prems step.IH show ?case
    by (cases rule: rstep.cases)
      (auto simp: openPull_def takeResult_def confirmRetrieval_def run_simps
        split: sum.splits option.splits prod.splits if_splits)
qed

lemma retrieveContent_success:
  assumes "retrieveContent avgSpeed L fc p wa prp sched w = Some (Inr stats, w')"
  shows "(\<exists>t. blockstoreHas fc t (rp_PayloadCID prp) = Inr True) \<and> rs_AskPrice stats = rp_PricePerByte prp"
proof -
  obtain r w1 where st: "run_state (retrievalSetup L fc p wa prp) w = (r, w1)" by fastforce
  with assms obtain P s where r: "r = Inr P"
    and run: "rrun avgSpeed fc P (startRetrieval (w_trace w1)) sched = Some (Returned (Inr stats), s)"
    by (auto simp: retrieveContent_def split: sum.splits option.splits pc.splits)
  have P: "rq_proposal P = prp" using retrievalSetup_proposal st r by blast
  have ex: "rexec avgSpeed fc P (startRetrieval (w_trace w1)) sched (Returned (Inr stats), s)"
    using run by (simp add: rexec_iff_rrun)
  show ?thesis using successInv_run [OF ex] returned_price [OF ex] P
    by (auto simp: successInv_def rootCid_def)
qed

lemma RetrieveContent_success:
  assumes "RetrieveContentWithProgressCallback avgSpeed L fc miner prp sched w = Some (Inr stats, w')"
  shows "(\<exists>t. blockstoreHas fc t (rp_PayloadCID prp) = Inr True) \<and> rs_AskPrice stats = rp_PricePerByte prp"
  using assms retrieveContent_success
  by (auto simp: RetrieveContentWithProgressCallback_def RetrieveContentFromPeerWithProgressCallback_def
      split: prod.splits sum.splits)

section \<open>The candidates\<close>

lemma lessQuery_never [simp]: "\<not> lessQuery queries i j"
  by (simp add: lessQuery_def Let_def)

text \<open>A comparison that is always false leaves a short slice as it is.\<close>

lemma sinkDown_never: "(\<And>ys i j. \<not> lessAt ys i j) \<Longrightarrow> sinkDown lessAt n xs = xs"
  by (cases n) auto

lemma fold_same: "(\<And>i ys. f i ys = ys) \<Longrightarrow> fold f is xs = xs"
  by (induction "is") auto

lemma sort_Slice_never:
  assumes "\<And>ys i j. \<not> lessAt ys i j" and "length xs \<le> 12"
  shows "sort_Slice quick lessAt xs = xs"
  using assms by (simp add: sort_Slice_def insertionPass_def shellPass_def fold_same sinkDown_never)

definition answeredBy ::
  "library \<Rightarrow> FilClient \<Rightarrow> ctx \<Rightarrow> FILRetrievalCandidate \<Rightarrow> query_response \<Rightarrow> bool" where
  "answeredBy L fc cx c answer \<longleftrightarrow>
     (\<exists>v v'. run_state (RetrievalQuery L fc cx (cand_Miner c) (cand_RootCid c)) (v :: world) = (Inr answer, v'))"

lemma queryAll_result:
  "run_state (queryAll L fc cx cs queries) w = (queries', w') \<Longrightarrow>
   \<exists>new. queries' = queries @ new \<and> length new \<le> length cs
     \<and> (\<forall>q \<in> set new. cq_Candidate q \<in> set cs
          \<and> answeredBy L fc cx (cq_Candidate q) (cq_Response q))"
proof (induction cs arbitrary: queries w)
  case Nil
  then show ?case by simp
next
  case (Cons c cs)
  obtain r w1 where r: "run_state (RetrievalQuery L fc cx (cand_Miner c) (cand_RootCid c)) w = (r, w1)" by fastforce
  show ?case
  proof (cases r)
    case (Inl e)
    with Cons.prems r have "run_state (queryAll L fc cx cs queries) w1 = (queries', w')" by simp
    from Cons.IH [OF this] obtain new where new: "queries' = queries @ new" "length new \<le> length cs"
      "\<forall>q \<in> set new. cq_Candidate q \<in> set cs
          \<and> answeredBy L fc cx (cq_Candidate q) (cq_Response q)" by blast
    then show ?thesis by (intro exI [of _ new]) auto
  next
    case (Inr a)
    let ?q = "\<lparr>cq_Candidate = c, cq_Response = a\<rparr>"
    from Inr Cons.prems r have "run_state (queryAll L fc cx cs (queries @ [?q])) w1 = (queries', w')" by simp
    from Cons.IH [OF this] obtain new where new: "queries' = (queries @ [?q]) @ new" "length new \<le> length cs"
      "\<forall>q \<in> set new. cq_Candidate q \<in> set cs
          \<and> answeredBy L fc cx (cq_Candidate q) (cq_Response q)" by blast
    moreover have "answeredBy L fc cx c a" using r Inr unfolding answeredBy_def by blast
    ultimately show ?thesis by (intro exI [of _ "?q # new"]) auto
  qed
qed

lemma queries_answered:
  assumes "queryCandidates L fc cx cands sched w = Some (queries, w')"
  shows "length queries \<le> length cands
    \<and> (\<forall>q \<in> set queries. cq_Candidate q \<in> set cands \<and> answeredBy L fc cx (cq_Candidate q) (cq_Response q))"
proof -
  obtain order found where o: "mset order = mset cands" "mset found = mset queries"
    and run: "run_state (queryAll L fc cx order []) w = (found, w')"
    using queries_refine [OF assms] by blast
  from o have "set order = set cands" "length order = length cands" "set found = set queries" "length found = length queries"
    by (metis mset_eq_setD mset_eq_length)+
  with queryAll_result [OF run] show ?thesis by auto
qed

text \<open>
  C37: Sorting the candidates makes no difference: with at most twelve candidates the attempt does the
  same, retrieval by retrieval, as with the sorting switched off, whatever prices were asked.
\<close>

theorem sort_has_no_effect:
  assumes "length (at_Candidates attempt) \<le> 12"
  shows "filRetrieve E attempt qsched scheds w = filRetrieve E (attempt\<lparr>at_NoSort := True\<rparr>) qsched scheds w"
proof (cases "queryCandidates (fe_library E) (fe_client E) (fe_ctx E) (at_Candidates attempt) qsched w")
  case None
  then show ?thesis by (simp add: filRetrieve_def)
next
  case (Some p)
  obtain queries w1 where q: "p = (queries, w1)" by fastforce
  from queries_answered [OF Some [unfolded q]] assms have "length queries \<le> 12" by auto
  then have "sort_Slice (fe_quick E) lessQuery queries = queries" by (simp add: sort_Slice_never)
  then show ?thesis by (simp add: filRetrieve_def Some q Let_def)
qed

lemma tryCandidates_success:
  "tryCandidates E sel queries scheds w = Some (Some stats, w') \<Longrightarrow>
   \<exists>q \<in> set queries. \<exists>t prp sched v. RetrievalProposalForAsk (fe_ask E) t (cq_Response q) (cand_RootCid (cq_Candidate q)) sel = Inr prp
     \<and> RetrieveContentWithProgressCallback (fe_avgSpeed E) (fe_library E) (fe_client E)
         (cand_Miner (cq_Candidate q)) prp sched v = Some (Inr stats, w')"
proof (induction queries arbitrary: scheds w)
  case Nil
  then show ?case by simp
next
  case (Cons q queries)
  show ?case
  proof (cases "RetrievalProposalForAsk (fe_ask E) (w_trace w) (cq_Response q) (cand_RootCid (cq_Candidate q)) sel")
    case (Inl e)
    with Cons.prems have "tryCandidates E sel queries scheds w = Some (Some stats, w')" by simp
    from Cons.IH [OF this] show ?thesis by auto
  next
    case (Inr prp)
    then obtain sched rest where s: "scheds = sched # rest" using Cons.prems by (cases scheds) auto
    let ?r = "RetrieveContentWithProgressCallback (fe_avgSpeed E) (fe_library E) (fe_client E)
         (cand_Miner (cq_Candidate q)) prp sched w"
    from Cons.prems Inr s consider (bad) err w1 where "?r = Some (Inl err, w1)"
        "tryCandidates E sel queries rest w1 = Some (Some stats, w')"
      | (good) "?r = Some (Inr stats, w')"
      by (auto split: option.splits sum.splits)
    then show ?thesis
    proof cases
      case bad
      from Cons.IH [OF bad(2)] show ?thesis by auto
    next
      case good
      with Inr show ?thesis by auto
    qed
  qed
qed

lemma set_exchange: "i < length xs \<Longrightarrow> j < length xs \<Longrightarrow> set (exchange i j xs) = set xs"
  using set_swap [of i xs j] by (simp add: exchange_def)

lemma length_exchange [simp]: "length (exchange i j xs) = length xs"
  by (simp add: exchange_def)

lemma sinkDown_perm:
  "n < length xs \<Longrightarrow> length (sinkDown lessAt n xs) = length xs \<and> set (sinkDown lessAt n xs) = set xs"
  by (induction lessAt n xs rule: sinkDown.induct) (auto simp: set_exchange)

lemma fold_perm:
  assumes "\<And>i ys. i \<in> set is \<Longrightarrow> length ys = n \<Longrightarrow> length (f i ys) = n \<and> set (f i ys) = set ys"
    and "length xs = n"
  shows "length (fold f is xs) = n \<and> set (fold f is xs) = set xs"
  using assms
proof (induction "is" arbitrary: xs)
  case Nil
  then show ?case by simp
next
  case (Cons i js)
  have i: "length (f i xs) = n \<and> set (f i xs) = set xs" using Cons.prems by simp
  have "length (fold f js (f i xs)) = n \<and> set (fold f js (f i xs)) = set (f i xs)"
    using i Cons.prems(1) by (intro Cons.IH) auto
  with i show ?case by simp
qed

lemma sort_Slice_set:
  assumes "\<And>ys. set (quick ys) = set ys"
  shows "set (sort_Slice quick lessAt xs) = set xs"
proof -
  have shell: "length (shellPass lessAt xs) = length xs \<and> set (shellPass lessAt xs) = set xs"
    unfolding shellPass_def by (rule fold_perm) (auto simp: set_exchange)
  have "length (insertionPass lessAt (shellPass lessAt xs)) = length xs
      \<and> set (insertionPass lessAt (shellPass lessAt xs)) = set (shellPass lessAt xs)"
    unfolding insertionPass_def by (rule fold_perm) (auto simp: sinkDown_perm shell)
  with shell assms show ?thesis by (simp add: sort_Slice_def)
qed

lemma filRetrieve_success:
  assumes "filRetrieve E attempt qsched scheds w = Some (Inr stats, w')"
    and "\<forall>qs. set (fe_quick E qs) = set qs"
  shows "\<exists>c \<in> set (at_Candidates attempt). \<exists>answer t.
      answeredBy (fe_library E) (fe_client E) (fe_ctx E) c answer
      \<and> rs_AskPrice stats = qr_MinPricePerByte answer
      \<and> blockstoreHas (fe_client E) t (cand_RootCid c) = Inr True"
proof -
  from assms(1) obtain queries w1
    where q: "queryCandidates (fe_library E) (fe_client E) (fe_ctx E) (at_Candidates attempt) qsched w = Some (queries, w1)"
    by (auto simp: filRetrieve_def split: if_splits option.splits)
  let ?qs = "if \<not> at_NoSort attempt then sort_Slice (fe_quick E) lessQuery queries else queries"
  have tried: "tryCandidates E (at_SelNode attempt) ?qs scheds w1 = Some (Some stats, w')"
    using assms(1) by (auto simp: filRetrieve_def q Let_def split: if_splits option.splits)
  have qs: "set ?qs = set queries" using sort_Slice_set assms(2) by auto
  from tryCandidates_success [OF tried] obtain x t prp sched v where x: "x \<in> set queries"
    and prp: "RetrievalProposalForAsk (fe_ask E) t (cq_Response x) (cand_RootCid (cq_Candidate x)) (at_SelNode attempt) = Inr prp"
    and got: "RetrieveContentWithProgressCallback (fe_avgSpeed E) (fe_library E) (fe_client E)
        (cand_Miner (cq_Candidate x)) prp sched v = Some (Inr stats, w')"
    unfolding qs by blast
  have p: "rp_PayloadCID prp = cand_RootCid (cq_Candidate x)" "rp_PricePerByte prp = qr_MinPricePerByte (cq_Response x)"
    using prp by (auto simp: RetrievalProposalForAsk_def Let_def split: sum.splits)
  from queries_answered [OF q] x have "cq_Candidate x \<in> set (at_Candidates attempt)"
    "answeredBy (fe_library E) (fe_client E) (fe_ctx E) (cq_Candidate x) (cq_Response x)" by auto
  with RetrieveContent_success [OF got] p show ?thesis by metis
qed


section \<open>The attempts\<close>

lemma best_candidate_success:
  "RetrieveFromBestCandidate f ats w = Some (Inr stats, w') \<Longrightarrow> \<exists>a \<in> set ats. \<exists>v. f a v = Some (Inr stats, w')"
  by (induction ats arbitrary: w) (force split: option.splits sum.splits)+

text \<open>Attempts that all fail, one after the other, with the world they leave.\<close>

fun failRun :: "('a \<Rightarrow> world \<Rightarrow> 's outcome) \<Rightarrow> 'a list \<Rightarrow> world \<Rightarrow> world option" where
  "failRun f [] w = Some w"
| "failRun f (a # ats) w =
     (case f a w of Some (Inl err, w1) \<Rightarrow> failRun f ats w1 | _ \<Rightarrow> None)"

text \<open>
  The retrieval command uses the first attempt that succeeds, after every earlier one has failed,
  and reports that all failed exactly when each of them did.
\<close>

theorem best_candidate_first:
  "(RetrieveFromBestCandidate f ats w = Some (Inr stats, w')) =
     (\<exists>pre a post w1. ats = pre @ a # post \<and> failRun f pre w = Some w1 \<and> f a w1 = Some (Inr stats, w'))
   \<and> (RetrieveFromBestCandidate f ats w = Some (Inl err, w')) =
     (failRun f ats w = Some w' \<and> err = Errorf ''all retrieval attempts failed'')"
proof (induction ats arbitrary: w)
  case Nil
  then show ?case by auto
next
  case (Cons a ats)
  show ?case
  proof (cases "f a w")
    case None
    then show ?thesis by (auto simp: Cons_eq_append_conv)
  next
    case (Some p)
    obtain r w1 where p: "p = (r, w1)" by fastforce
    show ?thesis
    proof (cases r)
      case (Inl e)
      have "(\<exists>pre b post w2. a # ats = pre @ b # post \<and> failRun f pre w = Some w2 \<and> f b w2 = Some (Inr stats, w'))
        = (\<exists>pre b post w2. ats = pre @ b # post \<and> failRun f pre w1 = Some w2 \<and> f b w2 = Some (Inr stats, w'))"
        (is "?l = ?r")
      proof
        assume ?l
        then obtain pre b post w2 where l: "a # ats = pre @ b # post" "failRun f pre w = Some w2"
          "f b w2 = Some (Inr stats, w')" by blast
        then show ?r using Some p Inl by (cases pre) auto
      next
        assume ?r
        then obtain pre b post w2 where l: "ats = pre @ b # post" "failRun f pre w1 = Some w2"
          "f b w2 = Some (Inr stats, w')" by blast
        then show ?l using Some p Inl by (intro exI [of _ "a # pre"] exI [of _ b] exI [of _ post] exI [of _ w2]) simp
      qed
      with Cons.IH [of w1] show ?thesis by (simp add: Some p Inl)
    next
      case (Inr st)
      then show ?thesis using Some p by (fastforce simp: Cons_eq_append_conv)
    qed
  qed
qed

section \<open>A sample\<close>

definition sampleAskLibrary :: ask_library where
  "sampleAskLibrary = \<lparr>al_ExploreAll = SelectorNode ''*'', al_NewParamsV1 = (\<lambda>_ _ _ s _. Inr ''*''),
     al_NextDealID = (\<lambda>_. 9)\<rparr>"

definition sampleFilEnv :: fil_env where
  "sampleFilEnv = \<lparr>fe_library = sampleLibrary, fe_client = sampleClient, fe_ctx = emptyCtx, fe_ask = sampleAskLibrary,
     fe_avgSpeed = (\<lambda>n d. n div d), fe_quick = (\<lambda>qs. qs)\<rparr>"

definition sampleAttempt :: FILRetrievalAttempt where
  "sampleAttempt = \<lparr>at_Candidates = sampleCandidates, at_SelNode = None, at_NoSort = False\<rparr>"

lemma sampleTries:
  "tryCandidates sampleFilEnv None sampleQueries [sampleLabels] \<lparr>w_trace = t\<rparr> \<noteq> None"
  "fst (the (tryCandidates sampleFilEnv None sampleQueries [sampleLabels] \<lparr>w_trace = t\<rparr>)) \<noteq> None"
  by code_simp+

lemma sampleFetched:
  "\<exists>stats w. filRetrieve sampleFilEnv sampleAttempt sampleQuerySteps [sampleLabels] \<lparr>w_trace = []\<rparr> = Some (Inr stats, w)"
proof -
  obtain w where q: "queryCandidates sampleLibrary sampleClient emptyCtx sampleCandidates sampleQuerySteps \<lparr>w_trace = []\<rparr>
      = Some (sampleQueries, w)"
    using sampleAnswers by blast
  obtain t where w: "w = \<lparr>w_trace = t\<rparr>" by (cases w) simp
  from sampleTries [of t] obtain stats w2
    where "tryCandidates sampleFilEnv None sampleQueries [sampleLabels] w = Some (Some stats, w2)"
    unfolding w by (metis option.collapse prod.collapse)
  moreover have "sort_Slice (fe_quick sampleFilEnv) lessQuery sampleQueries = sampleQueries"
    by (rule sort_Slice_never) (auto simp: sampleQueries_def)
  ultimately show ?thesis using q
    by (simp add: filRetrieve_def sampleAttempt_def sampleFilEnv_def sampleCandidates_def sampleQueries_def)
qed


theorem sort_has_no_effect_witness:
  "filRetrieve sampleFilEnv sampleAttempt sampleQuerySteps [sampleLabels] \<lparr>w_trace = []\<rparr> =
   filRetrieve sampleFilEnv (sampleAttempt\<lparr>at_NoSort := True\<rparr>) sampleQuerySteps [sampleLabels] \<lparr>w_trace = []\<rparr>
   \<and> \<not> at_NoSort sampleAttempt"
proof -
  have "length (at_Candidates sampleAttempt) \<le> 12" by (simp add: sampleAttempt_def sampleCandidates_def)
  note same = sort_has_no_effect [OF this, of sampleFilEnv sampleQuerySteps "[sampleLabels]" "\<lparr>w_trace = []\<rparr>"]
  moreover have "\<not> at_NoSort sampleAttempt" by (simp add: sampleAttempt_def)
  ultimately show ?thesis by blast
qed

end
