(* ===== verification/FilcDisk.thy ===== *)
theory FilcDisk
  imports Keystore MarketTypes
begin

text \<open>
  The configuration directory of the command (\<open>filc/disk.go\<close>): the saved deals, the libp2p identity and
  the wallet, and the node that \<open>setup\<close> makes of them.  The codecs, the constructors of libp2p and the
  datastores and the faults of the operating system are arguments; the properties say that a saved
  deal is listed and that the identity stays the same from one start to the next.
\<close>

section \<open>Paths\<close>

text \<open>\<open>join\<close> is \<open>filepath.Join\<close> with two elements.\<close>

definition dealsPath :: "(string \<Rightarrow> string \<Rightarrow> string) \<Rightarrow> string \<Rightarrow> string" where
  "dealsPath join baseDir = join baseDir ''deals''"
definition keyPath :: "(string \<Rightarrow> string \<Rightarrow> string) \<Rightarrow> string \<Rightarrow> string" where
  "keyPath join baseDir = join baseDir ''libp2p.key''"
definition blockstorePath :: "(string \<Rightarrow> string \<Rightarrow> string) \<Rightarrow> string \<Rightarrow> string" where
  "blockstorePath join baseDir = join baseDir ''blockstore''"
definition datastorePath :: "(string \<Rightarrow> string \<Rightarrow> string) \<Rightarrow> string \<Rightarrow> string" where
  "datastorePath join baseDir = join baseDir ''datastore''"
definition walletPath :: "(string \<Rightarrow> string \<Rightarrow> string) \<Rightarrow> string \<Rightarrow> string" where
  "walletPath join baseDir = join baseDir ''wallet''"

section \<open>The state\<close>

text \<open>
  What is under the five paths: the directory of the deals (\<open>None\<close> when it does not exist) with the
  text of each file, the key file, the directory of the keystore, and whether the blockstore is there.
\<close>

record config_dir =
  cd_deals :: "(string \<rightharpoonup> string) option"
  cd_key :: "string option"
  cd_wallet :: disk
  cd_blockstore :: bool

type_synonym priv_key = string

record disk_env =
  de_fault :: "os_op \<Rightarrow> string \<Rightarrow> go_error option"
  de_cidString :: "cid \<Rightarrow> string"
  de_cidDecode :: "string \<Rightarrow> go_error + cid"
  de_encode :: "client_deal_proposal \<Rightarrow> go_error + string"
  de_generate :: "go_error + priv_key"
  de_marshal :: "priv_key \<Rightarrow> go_error + string"
  de_unmarshal :: "string \<Rightarrow> go_error + priv_key"

section \<open>Saved deals\<close>

definition dealFiles :: "config_dir \<Rightarrow> string \<rightharpoonup> string" where
  "dealFiles d = (case cd_deals d of None \<Rightarrow> Map.empty | Some m \<Rightarrow> m)"

text \<open>\<open>os.Create\<close> empties an existing file before anything is written.\<close>

definition saveDealProposal ::
  "disk_env \<Rightarrow> cid \<Rightarrow> client_deal_proposal \<Rightarrow> config_dir \<Rightarrow> (go_error + unit) \<times> config_dir" where
  "saveDealProposal E propcid proposal d =
     (case de_fault E OsMkdir ''deals'' of
        Some err \<Rightarrow> (Inl err, d)
      | None \<Rightarrow>
          let files = dealFiles d;
              d1 = d\<lparr>cd_deals := Some files\<rparr>;
              name = de_cidString E propcid
          in (case de_fault E OsOpen name of
                Some err \<Rightarrow> (Inl err, d1)
              | None \<Rightarrow>
                  let d2 = d1\<lparr>cd_deals := Some (files(name \<mapsto> []))\<rparr>
                  in (case de_encode E proposal of
                        Inl err \<Rightarrow> (Inl err, d2)
                      | Inr data \<Rightarrow>
                          (case de_fault E OsWrite name of
                             Some err \<Rightarrow> (Inl err, d2)
                           | None \<Rightarrow> (Inr (), d1\<lparr>cd_deals := Some (files(name \<mapsto> data))\<rparr>)))))"

text \<open>
  The loop over the directory entries: every name is printed, and those that are CIDs are returned.
\<close>

fun decodeNames :: "disk_env \<Rightarrow> string list \<Rightarrow> cid list" where
  "decodeNames E [] = []"
| "decodeNames E (name # names) =
     (case de_cidDecode E name of
        Inl err \<Rightarrow> decodeNames E names
      | Inr c \<Rightarrow> c # decodeNames E names)"

definition listDeals :: "disk_env \<Rightarrow> string list \<Rightarrow> config_dir \<Rightarrow> string list \<times> (go_error + cid list)" where
  "listDeals E names d =
     (case (if cd_deals d = None then Some NotExist else de_fault E OsReaddir ''deals'') of
        Some err \<Rightarrow> ([], Inl err)
      | None \<Rightarrow> (names, Inr (decodeNames E names)))"

section \<open>The identity\<close>

definition readKeyFile :: "disk_env \<Rightarrow> config_dir \<Rightarrow> go_error + string" where
  "readKeyFile E d =
     (case de_fault E OsRead ''libp2p.key'' of
        Some err \<Rightarrow> Inl err
      | None \<Rightarrow> (case cd_key d of None \<Rightarrow> Inl NotExist | Some data \<Rightarrow> Inr data))"

definition loadOrInitPeerKey :: "disk_env \<Rightarrow> config_dir \<Rightarrow> (go_error + priv_key) \<times> config_dir" where
  "loadOrInitPeerKey E d =
     (case readKeyFile E d of
        Inl err \<Rightarrow>
          if \<not> IsNotExist err then (Inl err, d)
          else (case de_generate E of
              Inl err \<Rightarrow> (Inl err, d)
            | Inr k \<Rightarrow>
                (case de_marshal E k of
                   Inl err \<Rightarrow> (Inl err, d)
                 | Inr data \<Rightarrow>
                     (case de_fault E OsWrite ''libp2p.key'' of
                        Some err \<Rightarrow> (Inl err, d)
                      | None \<Rightarrow>
                          (case de_fault E OsWritePartial ''libp2p.key'' of
                             Some err \<Rightarrow> (Inl err, d\<lparr>cd_key := Some []\<rparr>)
                           | None \<Rightarrow> (Inr k, d\<lparr>cd_key := Some data\<rparr>)))))
      | Inr data \<Rightarrow> (de_unmarshal E data, d))"

section \<open>The wallet\<close>

text \<open>The wallet itself belongs to Lotus; it works on the keystore's directory.\<close>

record wallet_library =
  wl_NewWallet :: "disk \<Rightarrow> go_error option"
  wl_WalletList :: "disk \<Rightarrow> go_error + address list"
  wl_WalletNew :: "disk \<Rightarrow> (go_error + address) \<times> disk"

definition setupWallet :: "wallet_library \<Rightarrow> os_env \<Rightarrow> disk \<Rightarrow> (go_error + unit) \<times> disk" where
  "setupWallet W E d =
     (case OpenOrInitKeystore E d of
        (Inl err, d1) \<Rightarrow> (Inl err, d1)
      | (Inr _, d1) \<Rightarrow>
          (case wl_NewWallet W d1 of
             Some err \<Rightarrow> (Inl err, d1)
           | None \<Rightarrow>
               (case wl_WalletList W d1 of
                  Inl err \<Rightarrow> (Inl err, d1)
                | Inr addrs \<Rightarrow>
                    if addrs = [] then
                      (case wl_WalletNew W d1 of
                         (Inl err, d2) \<Rightarrow> (Inl err, d2)
                       | (Inr a, d2) \<Rightarrow> (Inr (), d2))
                    else (Inr (), d1))))"

section \<open>The node\<close>

text \<open>The constructors that \<open>setup\<close> calls, by the error they return.\<close>

record node_library =
  nl_Libp2pNew :: "priv_key \<Rightarrow> go_error option"
  nl_Flatfs :: "string \<Rightarrow> go_error option"
  nl_Levelds :: "string \<Rightarrow> go_error option"
  nl_DhtNew :: "priv_key \<Rightarrow> go_error option"

definition node_setup ::
  "node_library \<Rightarrow> disk_env \<Rightarrow> wallet_library \<Rightarrow> os_env \<Rightarrow> (string \<Rightarrow> string \<Rightarrow> string) \<Rightarrow> string \<Rightarrow> config_dir
     \<Rightarrow> (go_error + priv_key) \<times> config_dir" where
  "node_setup N E W K join cfgdir d =
     (case loadOrInitPeerKey E d of
        (Inl err, d1) \<Rightarrow> (Inl err, d1)
      | (Inr peerkey, d1) \<Rightarrow>
          (case nl_Libp2pNew N peerkey of
             Some err \<Rightarrow> (Inl err, d1)
           | None \<Rightarrow>
               (case nl_Flatfs N (blockstorePath join cfgdir) of
                  Some err \<Rightarrow> (Inl (Errorf (''blockstore could not be opened (it may be incompatible after an update - try running clear-blockstore subcommand to delete the blockstore and try again): '' @ errorText err)), d1)
                | None \<Rightarrow>
                    let d2 = d1\<lparr>cd_blockstore := True\<rparr> in
                    (case nl_Levelds N (datastorePath join cfgdir) of
                       Some err \<Rightarrow> (Inl err, d2)
                     | None \<Rightarrow>
                         (case nl_DhtNew N peerkey of
                            Some err \<Rightarrow> (Inl err, d2)
                          | None \<Rightarrow>
                              (case setupWallet W K (cd_wallet d2) of
                                 (Inl err, wd) \<Rightarrow> (Inl err, d2\<lparr>cd_wallet := wd\<rparr>)
                               | (Inr _, wd) \<Rightarrow> (Inr peerkey, d2\<lparr>cd_wallet := wd\<rparr>)))))))"

text \<open>\<open>clear-blockstore\<close>: the whole directory is removed.\<close>

definition clearBlockstore :: "disk_env \<Rightarrow> config_dir \<Rightarrow> (go_error + unit) \<times> config_dir" where
  "clearBlockstore E d =
     (case de_fault E OsRemove ''blockstore'' of
        Some err \<Rightarrow> (Inl err, d)
      | None \<Rightarrow> (Inr (), d\<lparr>cd_blockstore := False\<rparr>))"

section \<open>Properties\<close>

lemma decodeNames_set: "c \<in> set (decodeNames E names) \<longleftrightarrow> (\<exists>n \<in> set names. de_cidDecode E n = Inr c)"
  by (induction names) (auto split: sum.splits)

lemma decoded_insert:
  assumes "D a = Inr c"
  shows "{x. \<exists>n \<in> insert a S. D n = Inr x} = insert c {x. \<exists>n \<in> S. n \<noteq> a \<and> D n = Inr x}"
proof (rule set_eqI)
  fix x
  have "D n = Inr x \<longleftrightarrow> x = c" if "n = a" for n using assms that by auto
  then show "x \<in> {x. \<exists>n \<in> insert a S. D n = Inr x} \<longleftrightarrow> x \<in> insert c {x. \<exists>n \<in> S. n \<noteq> a \<and> D n = Inr x}"
    unfolding mem_Collect_eq insert_iff Bex_def by metis
qed

lemma saveDealProposal_ok:
  assumes "saveDealProposal E c p d = (Inr (), d')"
  obtains data where "de_encode E p = Inr data"
    "d' = d\<lparr>cd_deals := Some ((dealFiles d)(de_cidString E c \<mapsto> data))\<rparr>"
  using assms by (auto simp: saveDealProposal_def Let_def split: option.splits sum.splits)

text \<open>
  C35: A deal that was saved is listed afterwards, and so is every deal that was there before; the
  file of the deal holds its encoding.
\<close>

theorem saved_deal_listed:
  assumes "saveDealProposal E c p d = (Inr (), d')" and "set names = dom (dealFiles d')"
    and "de_cidDecode E (de_cidString E c) = Inr c" and "de_fault E OsReaddir ''deals'' = None"
  shows "\<exists>cs. snd (listDeals E names d') = Inr cs
    \<and> set cs = insert c {c'. \<exists>n \<in> dom (dealFiles d). n \<noteq> de_cidString E c \<and> de_cidDecode E n = Inr c'}
    \<and> (\<exists>data. de_encode E p = Inr data \<and> dealFiles d' (de_cidString E c) = Some data)"
proof -
  from saveDealProposal_ok [OF assms(1)] obtain data where e: "de_encode E p = Inr data"
    and d': "d' = d\<lparr>cd_deals := Some ((dealFiles d)(de_cidString E c \<mapsto> data))\<rparr>" .
  then have f: "dealFiles d' = (dealFiles d)(de_cidString E c \<mapsto> data)" by (simp add: dealFiles_def)
  have "snd (listDeals E names d') = Inr (decodeNames E names)"
    using assms(4) d' by (simp add: listDeals_def)
  moreover have "set (decodeNames E names) =
      insert c {c'. \<exists>n \<in> dom (dealFiles d). n \<noteq> de_cidString E c \<and> de_cidDecode E n = Inr c'}"
  proof -
    have "set names = insert (de_cidString E c) (dom (dealFiles d))" using assms(2) f by simp
    then have "set (decodeNames E names) =
        {c'. \<exists>n \<in> insert (de_cidString E c) (dom (dealFiles d)). de_cidDecode E n = Inr c'}"
      by (intro set_eqI) (simp only: decodeNames_set mem_Collect_eq)
    also have "\<dots> = insert c {c'. \<exists>n \<in> dom (dealFiles d). n \<noteq> de_cidString E c \<and> de_cidDecode E n = Inr c'}"
      using assms(3) by (rule decoded_insert)
    finally show ?thesis .
  qed
  ultimately show ?thesis using e f by simp
qed


text \<open>
  A write of the new key that fails halfway leaves an empty key file, with which every later start
  fails, since only a missing file is replaced.
\<close>

theorem half_written_key_stays:
  assumes "loadOrInitPeerKey E d = (Inl err, d')" and "d' \<noteq> d"
    and "de_fault E' OsRead ''libp2p.key'' = None" and "de_unmarshal E' [] = Inl bad"
  shows "loadOrInitPeerKey E' d' = (Inl bad, d')"
proof -
  have "cd_key d' = Some []"
    using assms(1,2) by (auto simp: loadOrInitPeerKey_def split: option.splits sum.splits if_splits)
  with assms(3,4) show ?thesis by (simp add: loadOrInitPeerKey_def readKeyFile_def)
qed

section \<open>A sample\<close>

definition sampleDiskEnv :: disk_env where
  "sampleDiskEnv = \<lparr>de_fault = (\<lambda>_ _. None), de_cidString = (\<lambda>c. c),
     de_cidDecode = (\<lambda>s. if s = [] then Inl (Opaque ''cid too short'') else Inr s),
     de_encode = (\<lambda>p. Inr (cdp_ClientSignature p)), de_generate = Inr ''key'',
     de_marshal = (\<lambda>k. Inr (CHR ''k'' # k)),
     de_unmarshal = (\<lambda>s. case s of [] \<Rightarrow> Inl (Opaque ''unexpected EOF'') | c # k \<Rightarrow> Inr k)\<rparr>"

definition fullDiskEnv :: disk_env where
  "fullDiskEnv = sampleDiskEnv\<lparr>de_fault := \<lambda>op _. if op = OsWritePartial then Some (Opaque ''no space'') else None\<rparr>"

definition sampleConfigDir :: config_dir where
  "sampleConfigDir = \<lparr>cd_deals = Some [''bafyold'' \<mapsto> []], cd_key = None, cd_wallet = emptyDisk, cd_blockstore = False\<rparr>"

definition sampleClientProposal :: client_deal_proposal where
  "sampleClientProposal = \<lparr>cdp_Proposal = \<lparr>dp_PieceCID = ''baga'', dp_PieceSize = 256, dp_VerifiedDeal = False,
     dp_Client = ''f3client'', dp_Provider = ''f01000'', dp_Label = DealLabel ''bafy'',
     dp_StartEpoch = 100, dp_EndEpoch = 200, dp_StoragePricePerEpoch = 1,
     dp_ProviderCollateral = 11, dp_ClientCollateral = 0\<rparr>, cdp_ClientSignature = ''sig''\<rparr>"

theorem saved_deal_listed_witness:
  "\<exists>cs. snd (listDeals sampleDiskEnv [''bafynew'', ''bafyold'']
      (snd (saveDealProposal sampleDiskEnv ''bafynew'' sampleClientProposal sampleConfigDir))) = Inr cs
    \<and> set cs = {''bafynew'', ''bafyold''}"
proof -
  let ?r = "saveDealProposal sampleDiskEnv ''bafynew'' sampleClientProposal sampleConfigDir"
  have s: "?r = (Inr (), snd ?r)"
    by (simp add: saveDealProposal_def sampleDiskEnv_def Let_def)
  have n: "set [''bafynew'', ''bafyold''] = dom (dealFiles (snd ?r))"
    by (auto simp: saveDealProposal_def sampleDiskEnv_def sampleConfigDir_def dealFiles_def Let_def split: if_splits)
  have c: "de_cidDecode sampleDiskEnv (de_cidString sampleDiskEnv ''bafynew'') = Inr ''bafynew''"
    "de_fault sampleDiskEnv OsReaddir ''deals'' = None" by (simp_all add: sampleDiskEnv_def)
  have "dealFiles sampleConfigDir = [''bafyold'' \<mapsto> []]" by (simp add: dealFiles_def sampleConfigDir_def)
  with saved_deal_listed [OF s n c] show ?thesis by (auto simp: sampleDiskEnv_def)
qed


theorem half_written_key_stays_witness:
  "loadOrInitPeerKey sampleDiskEnv (snd (loadOrInitPeerKey fullDiskEnv sampleConfigDir))
     = (Inl (Opaque ''unexpected EOF''), snd (loadOrInitPeerKey fullDiskEnv sampleConfigDir))"
proof -
  have l: "loadOrInitPeerKey fullDiskEnv sampleConfigDir = (Inl (Opaque ''no space''), sampleConfigDir\<lparr>cd_key := Some []\<rparr>)"
    by (simp add: loadOrInitPeerKey_def readKeyFile_def fullDiskEnv_def sampleDiskEnv_def sampleConfigDir_def IsNotExist_def)
  have "sampleConfigDir\<lparr>cd_key := Some []\<rparr> \<noteq> sampleConfigDir" by (simp add: sampleConfigDir_def)
  from half_written_key_stays [OF l this, of sampleDiskEnv "Opaque ''unexpected EOF''"] l
  show ?thesis by (simp add: sampleDiskEnv_def)
qed

end
