(* ===== verification/FilcPrint.thy ===== *)
theory FilcPrint
  imports FilcRetrieval
begin

text \<open>
  What the command prints (\<open>filc/printing.go\<close>, and \<open>printProgress\<close> of \<open>filc/retrieval.go\<close>).  One call of
  \<open>fmt.Printf\<close> is one entry of the trace: the first line of its format string and the texts of its
  arguments in order.  The properties say what is shown for a deal, including the crash for a deal
  whose provider sends no proposal, and that a progress line fills the terminal's line.
\<close>

section \<open>Texts of values\<close>

text \<open>
  The texts that packages make: \<open>humanize.IBytes\<close>, \<open>types.FIL\<close> under \<open>%d\<close> (under \<open>%v\<close> and \<open>%s\<close> it is
  \<open>lib_FILString\<close>), the names of the deal states, and the text of a label, which a label of raw bytes
  does not have.
\<close>

record print_library =
  pt_IBytes :: "u64 \<Rightarrow> string"
  pt_FILVerbD :: "int \<Rightarrow> string"
  pt_DealStates :: "storage_deal_status \<Rightarrow> string"
  pt_LabelToString :: "deal_label \<Rightarrow> go_error + string"
  pt_cidOpt :: "cid option \<Rightarrow> string"
  pt_epoch :: "64 word \<Rightarrow> string"
  pt_duration :: "64 word \<Rightarrow> string"
  pt_ipfsSpeed :: "u64 \<Rightarrow> 64 word \<Rightarrow> u64"

definition fmt_t :: "bool \<Rightarrow> string" where
  "fmt_t b = (if b then ''true'' else ''false'')"

section \<open>The print functions\<close>

definition printAskResponse :: "library \<Rightarrow> storage_ask \<Rightarrow> ('w world_scheme, unit) state" where
  "printAskResponse L ask =
     emit (Printf ''ASK RESPONSE''
       [lib_addrString L (sa_Miner ask),
        fmt_int (sa_Price ask), lib_FILString L (sa_Price ask),
        fmt_int (sa_VerifiedPrice ask), lib_FILString L (sa_VerifiedPrice ask),
        fmt_u64 (sa_MinPieceSize ask),
        fmt_u64 (sa_MaxPieceSize ask)])"

definition printMessage :: "string \<Rightarrow> ('w world_scheme, unit) state" where
  "printMessage m = emit (Printf ''Message: %s'' [m])"

definition printProposal ::
  "library \<Rightarrow> print_library \<Rightarrow> string \<Rightarrow> market_deal_proposal \<Rightarrow> ('w world_scheme, unit) state" where
  "printProposal L T label p =
     emit (Printf ''Proposal:''
       [lib_cidString L (dp_PieceCID p),
        fmt_u64 (dp_PieceSize p), pt_IBytes T (dp_PieceSize p),
        fmt_t (dp_VerifiedDeal p),
        lib_addrString L (dp_Client p),
        lib_addrString L (dp_Provider p),
        label,
        pt_epoch T (dp_StartEpoch p),
        pt_epoch T (dp_EndEpoch p),
        fmt_int (dp_StoragePricePerEpoch p), lib_FILString L (dp_StoragePricePerEpoch p),
        fmt_int (dp_ProviderCollateral p), lib_FILString L (dp_ProviderCollateral p),
        fmt_int (dp_ClientCollateral p), pt_FILVerbD T (dp_ClientCollateral p)])"

text \<open>
  The label is read before the proposal is compared with \<open>nil\<close>, so a state without a proposal ends the
  process with a nil dereference.
\<close>

definition printDealStatus ::
  "library \<Rightarrow> print_library \<Rightarrow> provider_deal_state \<Rightarrow> ('w world_scheme, go_error + unit) state" where
  "printDealStatus L T st = do {
     emit (Printf ''DEAL STATUS''
       [pt_DealStates T (pds_State st), pt_cidOpt T (pds_ProposalCid st), pt_cidOpt T (pds_AddFundsCid st),
        pt_cidOpt T (pds_PublishCid st), fmt_u64 (pds_DealID st), fmt_t (pds_FastRetrieval st)]);
     case pds_Proposal st of
       None \<Rightarrow> ret (Inl (Panic ''nil pointer dereference''))
     | Some p \<Rightarrow> do {
         stateProposalLabel \<leftarrow> (case pt_LabelToString T (dp_Label p) of
             Inl err \<Rightarrow> do { printMessage (pds_Message st); ret [] }
           | Inr l \<Rightarrow> ret l);
         printProposal L T stateProposalLabel p;
         (if pds_Message st \<noteq> [] then printMessage (pds_Message st) else ret ());
         ret (Inr ())
       }
   }"

definition printRetrievalStats ::
  "library \<Rightarrow> print_library \<Rightarrow> tool_stats \<Rightarrow> ('w world_scheme, unit) state" where
  "printRetrievalStats L T stats =
     (case stats of
        FILStats st \<Rightarrow> emit (Printf ''RETRIEVAL STATS (FIL)''
          [fmt_u64 (rs_Size st), pt_IBytes T (rs_Size st),
           pt_duration T (rs_Duration st),
           fmt_u64 (rs_AverageSpeed st), pt_IBytes T (rs_AverageSpeed st),
           fmt_int (rs_AskPrice st), lib_FILString L (rs_AskPrice st),
           fmt_int (rs_TotalPayment st), lib_FILString L (rs_TotalPayment st),
           fmt_int (rs_NumPayments st),
           rs_Peer st])
      | IPFSStats st \<Rightarrow> emit (Printf ''RETRIEVAL STATS (IPFS)''
          [fmt_u64 (is_ByteSize st), pt_IBytes T (is_ByteSize st),
           pt_duration T (is_Duration st),
           fmt_u64 (IPFS_GetAverageBytesPerSecond (pt_ipfsSpeed T) st)]))"

text \<open>The values 0, 1 and 2 of both enumerations have names in \<open>retrievalmarket\<close>.\<close>

definition queryStatusText :: "int \<Rightarrow> string" where
  "queryStatusText status =
     (if status = 0 then ''Available'' else if status = 1 then ''Unavailable''
      else if status = 2 then ''Error''
      else ''Unrecognized Status ('' @ fmt_int status @ '')'')"

definition pieceFoundText :: "int \<Rightarrow> string" where
  "pieceFoundText status =
     (if status = 0 then ''Available'' else if status = 1 then ''Unavailable''
      else if status = 2 then ''Unknown''
      else ''Unrecognized ('' @ fmt_int status @ '')'')"

definition printQueryResponse ::
  "library \<Rightarrow> print_library \<Rightarrow> query_response \<Rightarrow> bool \<Rightarrow> ('w world_scheme, unit) state" where
  "printQueryResponse L T query availableOnIPFS = do {
     let total = qr_UnsealPrice query + uint (qr_Size query) * qr_MinPricePerByte query;
     emit (Printf ''QUERY RESPONSE''
       [queryStatusText (qr_Status query),
        pieceFoundText (qr_PieceCIDFound query),
        fmt_u64 (qr_Size query), pt_IBytes T (qr_Size query),
        fmt_int (qr_UnsealPrice query), lib_FILString L (qr_UnsealPrice query),
        fmt_int (qr_MinPricePerByte query), lib_FILString L (qr_MinPricePerByte query),
        fmt_int total, lib_FILString L total,
        lib_addrString L (qr_PaymentAddress query),
        fmt_u64 (qr_MaxPaymentInterval query), pt_IBytes T (qr_MaxPaymentInterval query),
        fmt_u64 (qr_MaxPaymentIntervalIncrease query), pt_IBytes T (qr_MaxPaymentIntervalIncrease query)]);
     (if qr_Message query \<noteq> [] then emit (Printf ''Message: %v'' [qr_Message query]) else ret ());
     if availableOnIPFS then emit (Printf ''-----'' [''Avaiable on IPFS'']) else ret ()
   }"

text \<open>
  \<open>printProgress\<close>: the text is padded or cut to the width of the terminal, when there is one.  Text and
  width are counted in bytes.
\<close>

definition progressText :: "print_library \<Rightarrow> u64 \<Rightarrow> string" where
  "progressText T bytesReceived = fmt_u64 bytesReceived @ '' ('' @ pt_IBytes T bytesReceived @ '')''"

definition printProgress :: "print_library \<Rightarrow> (go_error + nat) \<Rightarrow> u64 \<Rightarrow> string" where
  "printProgress T getSize bytesReceived =
     (let str = progressText T bytesReceived;
          strLen = length str
      in case getSize of
           Inl err \<Rightarrow> str
         | Inr termWidth \<Rightarrow>
             if strLen < termWidth then concat [str, replicate (termWidth - strLen) (CHR '' '')]
             else if strLen > termWidth then take termWidth str
             else str)"

section \<open>Properties\<close>

lemma run_printMessage [run_simps]:
  "run_state (printMessage m) w = ((), w\<lparr>w_trace := w_trace w @ [Printf ''Message: %s'' [m]]\<rparr>)"
  by (simp add: printMessage_def run_simps)

definition messages :: "call list \<Rightarrow> string list" where
  "messages u = concat (map (\<lambda>c. case c of Printf h args \<Rightarrow> (if h = ''Message: %s'' then args else []) | _ \<Rightarrow> []) u)"

text \<open>
  The status of a deal is printed completely exactly when the provider sent a proposal; without
  one the process crashes after the first block.  The provider's message is printed as often as these
  two say: once when the label is no text, even if the message is empty, and once when the message is
  not empty, so a message may be there twice.
\<close>

theorem deal_status_print:
  assumes "run_state (printDealStatus L T st) w = (r, w')"
  shows "\<exists>u. w' = w\<lparr>w_trace := w_trace w @ u\<rparr>
    \<and> r = (if pds_Proposal st = None then Inl (Panic ''nil pointer dereference'') else Inr ())
    \<and> messages u = (case pds_Proposal st of None \<Rightarrow> [] | Some p \<Rightarrow>
       replicate ((if isOk (pt_LabelToString T (dp_Label p)) then 0 else 1) + (if pds_Message st = [] then 0 else 1))
         (pds_Message st))"
  using assms
  by (intro exI [of _ "drop (length (w_trace w)) (w_trace w')"])
    (auto simp: printDealStatus_def printProposal_def messages_def isOk_def run_simps eval_nat_numeral
      split: option.splits sum.splits if_splits)

text \<open>
  On a terminal a progress line has exactly the width of the terminal, so it covers the line
  before it, and as much of the text as fits is at its start.
\<close>

theorem progress_fills_line:
  assumes "getSize = Inr width"
  shows "length (printProgress T getSize n) = width
    \<and> take (length (progressText T n)) (printProgress T getSize n) = take width (progressText T n)"
  using assms by (auto simp: printProgress_def Let_def)

text \<open>The total price that is printed is the price by which candidates are ordered.\<close>

lemma printed_total: "qr_UnsealPrice query + uint (qr_Size query) * qr_MinPricePerByte query = totalCost query"
  by (simp add: totalCost_def)

section \<open>A sample\<close>

definition samplePrint :: print_library where
  "samplePrint = \<lparr>pt_IBytes = (\<lambda>n. ''1.0 KiB''), pt_FILVerbD = fmt_int, pt_DealStates = (\<lambda>_. ''StorageDealSealing''),
     pt_LabelToString = (\<lambda>l. case l of EmptyDealLabel \<Rightarrow> Inl (Opaque ''not a string'') | DealLabel s \<Rightarrow> Inr s),
     pt_cidOpt = (\<lambda>c. case c of None \<Rightarrow> ''<nil>'' | Some x \<Rightarrow> x), pt_epoch = fmt_u64, pt_duration = fmt_u64,
     pt_ipfsSpeed = (\<lambda>n _. n)\<rparr>"

theorem deal_status_print_witness:
  "messages (w_trace (snd (run_state (printDealStatus sampleLibrary samplePrint
      (sampleProviderState\<lparr>pds_Message := ''sealing'', pds_Proposal := Some (sampleDealProposal\<lparr>dp_Label := EmptyDealLabel\<rparr>)\<rparr>))
      \<lparr>w_trace = []\<rparr>))) = [''sealing'', ''sealing'']"
proof -
  let ?run = "run_state (printDealStatus sampleLibrary samplePrint
      (sampleProviderState\<lparr>pds_Message := ''sealing'', pds_Proposal := Some (sampleDealProposal\<lparr>dp_Label := EmptyDealLabel\<rparr>)\<rparr>))
      \<lparr>w_trace = []\<rparr>"
  have "?run = (fst ?run, snd ?run)" by simp
  from deal_status_print [OF this] show ?thesis
    by (auto simp: samplePrint_def sampleProviderState_def isOk_def eval_nat_numeral)
qed

theorem progress_fills_line_witness: "length (printProgress samplePrint (Inr 20) 1024) = 20"
  using progress_fills_line [of "Inr 20" 20 samplePrint 1024] by simp

end
