(* ===== verification/Startup.thy ===== *)
theory Startup
  imports XferProps Publisher MakeDeal
begin

text \<open>
  Making a client (\<open>NewClient\<close> and \<open>NewClientWithConfig\<close> of \<open>filclient.go\<close>): the default configuration, the
  services that are started one after the other, and what the client is put together from; also the
  functions that compute a piece commitment.  The constructors of the packages are arguments; the
  property says in which order the services are started and that a failure ends the start without
  stopping what already runs.
\<close>

section \<open>The configuration\<close>

text \<open>Durations are numbers of nanoseconds.\<close>

definition second :: int where "second = 1000000000"
definition minute :: int where "minute = 60 * second"
definition hour :: int where "hour = 60 * minute"

datatype graphsync_option =
    MaxInProgressIncomingRequests u64
  | MaxInProgressOutgoingRequests u64
  | MaxMemoryResponder u64
  | MaxMemoryPerPeerResponder u64
  | MaxInProgressIncomingRequestsPerPeer u64
  | MessageSendRetries int
  | SendMessageTimeout int
  | MaxLinksPerIncomingRequests u64
  | MaxLinksPerOutgoingRequests u64

record channel_monitor =
  cm_AcceptTimeout :: int
  cm_RestartDebounce :: int
  cm_RestartBackoff :: int
  cm_MaxConsecutiveRestarts :: u64
  cm_CompleteTimeout :: int

record Lp2pDTConfig =
  lp_BlockInfoCacheDelay :: int
  lp_ThrottleLimit :: u64
  lp_TransferTimeout :: int

text \<open>\<open>cfg_RetrievalConfigurer\<close> says whether there is one; the services are the fields of the client.\<close>

record Config =
  cfg_Addr :: address
  cfg_DataDir :: string
  cfg_GraphsyncOpts :: "graphsync_option list"
  cfg_ChannelMonitorConfig :: channel_monitor
  cfg_RetrievalConfigurer :: bool
  cfg_LogRetrievalProgressEvents :: bool
  cfg_Lp2pDTConfig :: Lp2pDTConfig

definition maxTraversalLinks :: u64 where "maxTraversalLinks = 32 * push_bit 20 1"

definition defaultConfig :: "address \<Rightarrow> string \<Rightarrow> Config" where
  "defaultConfig addr ddir =
     \<lparr>cfg_Addr = addr, cfg_DataDir = ddir,
      cfg_GraphsyncOpts =
        [MaxInProgressIncomingRequests 200, MaxInProgressOutgoingRequests 200,
         MaxMemoryResponder (push_bit 30 8), MaxMemoryPerPeerResponder (push_bit 20 32),
         MaxInProgressIncomingRequestsPerPeer 20, MessageSendRetries 2, SendMessageTimeout (2 * minute),
         MaxLinksPerIncomingRequests maxTraversalLinks, MaxLinksPerOutgoingRequests maxTraversalLinks],
      cfg_ChannelMonitorConfig =
        \<lparr>cm_AcceptTimeout = hour * 24, cm_RestartDebounce = second * 10, cm_RestartBackoff = second * 20,
         cm_MaxConsecutiveRestarts = 15, cm_CompleteTimeout = minute * 40\<rparr>,
      cfg_RetrievalConfigurer = False, cfg_LogRetrievalProgressEvents = False,
      cfg_Lp2pDTConfig =
        \<lparr>lp_BlockInfoCacheDelay = minute, lp_ThrottleLimit = 100, lp_TransferTimeout = 24 * hour\<rparr>\<rparr>"

definition authCheckPeriod :: int where "authCheckPeriod = minute"

section \<open>Piece commitments\<close>

text \<open>
  A prepared CAR has a size and a dump that may fail.  The Go writer digests the stream into a raw
  commitment and a padded size, the FFI writer into a CID and a padded size.
\<close>

record prepared_car =
  car_Size :: u64
  car_Dump :: "go_error + bytes"

record piece_library =
  pl_Prepare :: "trace \<Rightarrow> cid \<Rightarrow> go_error + prepared_car"
  pl_Digest :: "bytes \<Rightarrow> go_error + bytes \<times> u64"
  pl_Sum :: "bytes \<Rightarrow> go_error + cid \<times> u64"

definition GeneratePieceCommitment ::
  "library \<Rightarrow> piece_library \<Rightarrow> trace \<Rightarrow> cid \<Rightarrow> go_error + cid \<times> u64 \<times> u64" where
  "GeneratePieceCommitment L P t payloadCid =
     (case pl_Prepare P t payloadCid of
        Inl err \<Rightarrow> Inl err
      | Inr preparedCar \<Rightarrow>
          (case car_Dump preparedCar of
             Inl err \<Rightarrow> Inl err
           | Inr data \<Rightarrow>
               (case pl_Digest P data of
                  Inl err \<Rightarrow> Inl err
                | Inr (commpc, n) \<Rightarrow>
                    (case lib_DataCommitmentV1ToCID L commpc of
                       Inl err \<Rightarrow> Inl err
                     | Inr commCid \<Rightarrow> Inr (commCid, car_Size preparedCar, lib_unpadded L n)))))"

definition GeneratePieceCommitmentFFI ::
  "library \<Rightarrow> piece_library \<Rightarrow> trace \<Rightarrow> cid \<Rightarrow> go_error + cid \<times> u64 \<times> u64" where
  "GeneratePieceCommitmentFFI L P t payloadCid =
     (case pl_Prepare P t payloadCid of
        Inl err \<Rightarrow> Inl err
      | Inr preparedCar \<Rightarrow>
          (case car_Dump preparedCar of
             Inl err \<Rightarrow> Inl err
           | Inr data \<Rightarrow>
               (case pl_Sum P data of
                  Inl err \<Rightarrow> Inl err
                | Inr (pieceCid, n) \<Rightarrow> Inr (pieceCid, car_Size preparedCar, lib_unpadded L n))))"

section \<open>Starting\<close>

text \<open>
  The calls that may fail.  The client's services other than the data-transfer manager (\<open>su_base\<close>) and the
  transfer manager's server and store (\<open>su_mgr\<close>) are given.
\<close>

record setup_service =
  su_base :: FilClient
  su_mgr :: xfer_mgr
  su_Join :: "string \<Rightarrow> string \<Rightarrow> string"
  su_PaychStart :: "trace \<Rightarrow> go_error option"
  su_MkdirAll :: "trace \<Rightarrow> string \<Rightarrow> go_error option"
  su_NewDataTransfer :: "trace \<Rightarrow> go_error + dt_service"
  su_RegisterVoucherType :: "trace \<Rightarrow> string \<Rightarrow> go_error option"
  su_RegisterVoucherResultType :: "trace \<Rightarrow> string \<Rightarrow> go_error option"
  su_RegisterTransportConfigurer :: "trace \<Rightarrow> string \<Rightarrow> go_error option"
  su_DtStart :: "trace \<Rightarrow> go_error option"

record new_client =
  nc_client :: FilClient
  nc_mgr :: xfer_mgr
  nc_publisher :: publisher
  nc_logRetrievalProgressEvents :: bool

definition registerVoucher :: "setup_service \<Rightarrow> string \<Rightarrow> ('w world_scheme, go_error + unit) state" where
  "registerVoucher S v = performE (\<lambda>t. su_RegisterVoucherType S t v) (Setup (RegisterVoucherType v))"

definition cidlistsdir :: "setup_service \<Rightarrow> Config \<Rightarrow> string" where
  "cidlistsdir S cfg = su_Join S (cfg_DataDir cfg) ''cidlistsdir''"

text \<open>The client itself is subscriber number \<open>self\<close> of its publisher.\<close>

definition NewClientWithConfig ::
  "library \<Rightarrow> piece_library \<Rightarrow> setup_service \<Rightarrow> subscriber \<Rightarrow> Config
     \<Rightarrow> ('w xstate_scheme, go_error + new_client) state" where
  "NewClientWithConfig L P S self cfg =
     bindE (performE (su_PaychStart S) (Setup PaychStart)) (\<lambda>_.
     bindE (mapE (wrapf ''failed to initialize cidlistsdir: '')
       (performE (\<lambda>t. su_MkdirAll S t (cidlistsdir S cfg)) (Setup (MkdirAll (cidlistsdir S cfg))))) (\<lambda>_.
     bindE (perform (su_NewDataTransfer S) (\<lambda>_. Setup NewDataTransfer)) (\<lambda>mgr.
     bindE (registerVoucher S ''StorageDataTransferVoucher'') (\<lambda>_.
     bindE (registerVoucher S ''RetrievalDealProposal'') (\<lambda>_.
     bindE (registerVoucher S ''RetrievalDealPayment'') (\<lambda>_.
     bindE (performE (\<lambda>t. su_RegisterVoucherResultType S t ''RetrievalDealResponse'')
       (Setup (RegisterVoucherResultType ''RetrievalDealResponse''))) (\<lambda>_.
     bindE (if cfg_RetrievalConfigurer cfg
            then performE (\<lambda>t. su_RegisterTransportConfigurer S t ''RetrievalDealProposal'')
                   (Setup (RegisterTransportConfigurer ''RetrievalDealProposal''))
            else ret (Inr ())) (\<lambda>_.
     bindE (performE (su_DtStart S) (Setup DtStart)) (\<lambda>_.
     bindE (Start (su_mgr S)) (\<lambda>_.
     let fc = (su_base S)\<lparr>dataTransfer := mgr, ClientAddr := cfg_Addr cfg,
                          computePieceComm := GeneratePieceCommitment L P\<rparr>
     in ret (Inr \<lparr>nc_client = fc, nc_mgr = su_mgr S,
                  nc_publisher = snd (ep_Subscribe self newPublisher),
                  nc_logRetrievalProgressEvents = cfg_LogRetrievalProgressEvents cfg\<rparr>)))))))))))"

definition NewClient ::
  "library \<Rightarrow> piece_library \<Rightarrow> setup_service \<Rightarrow> subscriber \<Rightarrow> address \<Rightarrow> string \<Rightarrow> (Config \<Rightarrow> Config) list
     \<Rightarrow> ('w xstate_scheme, go_error + new_client) state" where
  "NewClient L P S self addr ddir opts =
     NewClientWithConfig L P S self (fold (\<lambda>opt cfg. opt cfg) opts (defaultConfig addr ddir))"

definition SetPieceCommFunc ::
  "(trace \<Rightarrow> cid \<Rightarrow> go_error + cid \<times> u64 \<times> u64) \<Rightarrow> FilClient \<Rightarrow> FilClient" where
  "SetPieceCommFunc pcf fc = fc\<lparr>computePieceComm := pcf\<rparr>"

text \<open>Further subscribers join the client itself; the function to unsubscribe is dropped.\<close>

definition SubscribeToRetrievalEvents :: "subscriber \<Rightarrow> new_client \<Rightarrow> new_client" where
  "SubscribeToRetrievalEvents subscriber nc =
     nc\<lparr>nc_publisher := snd (ep_Subscribe subscriber (nc_publisher nc))\<rparr>"

lemma SubscribeToRetrievalEvents_lookup:
  assumes "ep_ok (nc_publisher nc)"
  shows "ep_lookup (nc_publisher (SubscribeToRetrievalEvents x nc)) =
    (ep_lookup (nc_publisher nc))(fst (ep_Subscribe x (nc_publisher nc)) \<mapsto> x)"
    and "ep_ok (nc_publisher (SubscribeToRetrievalEvents x nc))"
  using subscribers.add_lookup [OF assms] subscribers.add_ok [OF assms]
  by (simp_all add: SubscribeToRetrievalEvents_def)

section \<open>The order of the start\<close>

definition startupCalls :: "setup_service \<Rightarrow> Config \<Rightarrow> call list" where
  "startupCalls S cfg =
     [Setup PaychStart, Setup (MkdirAll (cidlistsdir S cfg)), Setup NewDataTransfer,
      Setup (RegisterVoucherType ''StorageDataTransferVoucher''),
      Setup (RegisterVoucherType ''RetrievalDealProposal''),
      Setup (RegisterVoucherType ''RetrievalDealPayment''),
      Setup (RegisterVoucherResultType ''RetrievalDealResponse'')]
     @ (if cfg_RetrievalConfigurer cfg
        then [Setup (RegisterTransportConfigurer ''RetrievalDealProposal'')] else [])
     @ [Setup DtStart, Xfer XSubscribe, Xfer XStart]"

text \<open>
  An operation that, run after some trace, appends a list of calls when it succeeds and a non-empty
  prefix of it when it fails.
\<close>

definition follows :: "call list \<Rightarrow> ('w world_scheme, go_error + 'a) state \<Rightarrow> bool" where
  "follows cs m \<longleftrightarrow> (\<forall>w r w'. run_state m w = (r, w') \<longrightarrow>
     (\<exists>k. w' = w\<lparr>w_trace := w_trace w @ take k cs\<rparr> \<and> (isOk r \<longrightarrow> take k cs = cs)))"

lemma follows_ret: "follows [] (ret (Inr a))"
  by (simp add: follows_def)

lemma follows_bindE:
  assumes "follows cs m" and "\<And>a. follows ds (f a)"
  shows "follows (cs @ ds) (bindE m f)"
  unfolding follows_def
proof (intro allI impI)
  fix w r w' assume run: "run_state (bindE m f) w = (r, w')"
  obtain q w1 where m: "run_state m w = (q, w1)" by fastforce
  with assms(1) obtain k where k: "w1 = w\<lparr>w_trace := w_trace w @ take k cs\<rparr>" "isOk q \<longrightarrow> take k cs = cs"
    unfolding follows_def by blast
  show "\<exists>k. w' = w\<lparr>w_trace := w_trace w @ take k (cs @ ds)\<rparr> \<and> (isOk r \<longrightarrow> take k (cs @ ds) = cs @ ds)"
  proof (cases q)
    case (Inl e)
    with run m have "r = Inl e" "w' = w1" by (simp_all add: run_bindE)
    moreover have "take (min k (length cs)) (cs @ ds) = take k cs" by (simp add: min_def)
    ultimately show ?thesis using k(1) by (intro exI [of _ "min k (length cs)"]) simp
  next
    case (Inr a)
    with run m have fa: "run_state (f a) w1 = (r, w')" by (simp add: run_bindE)
    with assms(2) obtain j where j: "w' = w1\<lparr>w_trace := w_trace w1 @ take j ds\<rparr>" "isOk r \<longrightarrow> take j ds = ds"
      unfolding follows_def by blast
    have "take k cs = cs" using k(2) Inr by simp
    then show ?thesis using k(1) j by (intro exI [of _ "length cs + j"]) simp
  qed
qed

lemma follows_step:
  assumes "follows [c] m" and "\<And>a. follows ds (f a)"
  shows "follows (c # ds) (bindE m f)"
  using follows_bindE [OF assms] by simp

lemma follows_performE: "follows [c] (performE f c)"
  by (auto simp: follows_def run_simps ofErr_def isOk_def intro!: exI [of _ 1] split: option.splits)

lemma follows_perform: "follows [c] (perform f (\<lambda>_. c))"
  by (auto simp: follows_def run_simps isOk_def intro!: exI [of _ 1])

lemma follows_mapE:
  assumes "follows cs m"
  shows "follows cs (mapE g m)"
  unfolding follows_def
proof (intro allI impI)
  fix w r w' assume run: "run_state (mapE g m) w = (r, w')"
  obtain q w1 where m: "run_state m w = (q, w1)" by fastforce
  with run have "w' = w1" "isOk r = isOk q" by (auto simp: run_simps isOk_def split: sum.splits)
  with assms m show "\<exists>k. w' = w\<lparr>w_trace := w_trace w @ take k cs\<rparr> \<and> (isOk r \<longrightarrow> take k cs = cs)"
    unfolding follows_def by metis
qed

lemma follows_Start: "follows [Xfer XSubscribe, Xfer XStart] (Start m)"
  by (auto simp: follows_def Start_def run_simps intro!: exI [of _ 2])

lemma follows_NewClient: "follows (startupCalls S cfg) (NewClientWithConfig L P S self cfg)"
proof -
  have rest: "follows ((if cfg_RetrievalConfigurer cfg
        then [Setup (RegisterTransportConfigurer ''RetrievalDealProposal'')] else []) @ ds)
      (bindE (if cfg_RetrievalConfigurer cfg
            then performE (\<lambda>t. su_RegisterTransportConfigurer S t ''RetrievalDealProposal'')
                   (Setup (RegisterTransportConfigurer ''RetrievalDealProposal''))
            else ret (Inr ())) f)"
    if "\<And>a. follows ds (f a)" for ds and f :: "unit \<Rightarrow> ('v xstate_scheme, go_error + 'r) state"
    using that by (intro follows_bindE) (auto intro: follows_performE follows_ret)
  have start: "follows ([Xfer XSubscribe, Xfer XStart] @ []) (bindE (Start m) f)"
    if "\<And>a. follows [] (f a)" for m and f :: "unit \<Rightarrow> ('v xstate_scheme, go_error + 'r) state"
    using that by (intro follows_bindE follows_Start)
  show ?thesis
    unfolding NewClientWithConfig_def startupCalls_def registerVoucher_def Let_def append_Cons append_Nil
    by (intro follows_step rest follows_performE follows_mapE follows_perform
        start [simplified] follows_ret)
qed


definition sampleSetup :: setup_service where
  "sampleSetup = \<lparr>su_base = sampleClient, su_mgr = sampleMgr, su_Join = (\<lambda>a b. a @ ''/'' @ b),
     su_PaychStart = (\<lambda>_. None), su_MkdirAll = (\<lambda>_ _. None), su_NewDataTransfer = (\<lambda>_. Inr sampleDataTransfer),
     su_RegisterVoucherType = (\<lambda>_ _. None), su_RegisterVoucherResultType = (\<lambda>_ _. None),
     su_RegisterTransportConfigurer = (\<lambda>_ _. None), su_DtStart = (\<lambda>_. Some (Opaque ''no host''))\<rparr>"

definition samplePieceLibrary :: piece_library where
  "samplePieceLibrary = \<lparr>pl_Prepare = (\<lambda>_ c. Inr \<lparr>car_Size = 1000, car_Dump = Inr c\<rparr>),
     pl_Digest = (\<lambda>d. Inr (d, 1024)), pl_Sum = (\<lambda>d. Inr (d, 1024))\<rparr>"


end
