(* ===== verification/FilcCommands.thy ===== *)
theory FilcCommands
  imports FilcDealsProps ConnWatcher FilcFlags FilcDisk FilcPrint Startup
begin

text \<open>
  The commands of \<open>filc/cmds.go\<close> that make and look up deals: \<open>deal\<close>, \<open>deal-status\<close>, \<open>info\<close>, \<open>get-ask\<close>,
  \<open>list\<close> and \<open>query-retrieval\<close>, with \<open>clientFromNode\<close> and \<open>getClient\<close> of \<open>filc/disk.go\<close>.  Their state is the
  outside world, the listener of the new client's transfer manager and the configuration directory.
\<close>

section \<open>The node and the client\<close>

text \<open>
  What the process runs with: the packages, the flag and codec libraries, the answers of the gateway's
  constructor (\<open>te_gateway\<close>) and of the wallet's \<open>GetDefault\<close>.
\<close>

record tool_env =
  te_library :: library
  te_parse :: parse_library
  te_print :: print_library
  te_disk :: disk_env
  te_os :: os_env
  te_walletLib :: wallet_library
  te_nodeLib :: node_library
  te_join :: "string \<Rightarrow> string \<Rightarrow> string"
  te_ddir :: string
  te_gateway :: "go_error option"
  te_default :: "disk \<Rightarrow> go_error + address"
  te_setup :: setup_service
  te_piece :: piece_library
  te_self :: subscriber
  te_ctx :: ctx
  te_checkpoint :: "checkpoint \<Rightarrow> string"
  te_enc :: "peer \<Rightarrow> string"

record tool_state = xstate +
  t_dir :: config_dir

definition onDir :: "(config_dir \<Rightarrow> 'r \<times> config_dir) \<Rightarrow> ('w tool_state_scheme, 'r) state" where
  "onDir f = State (\<lambda>s. case f (t_dir s) of (r, d) \<Rightarrow> (r, s\<lparr>t_dir := d\<rparr>))"

definition nodeSetup :: "tool_env \<Rightarrow> ('w tool_state_scheme, go_error + priv_key) state" where
  "nodeSetup T =
     onDir (node_setup (te_nodeLib T) (te_disk T) (te_walletLib T) (te_os T) (te_join T) (te_ddir T))"

definition walletDefault :: "tool_env \<Rightarrow> ('w tool_state_scheme, go_error + address) state" where
  "walletDefault T = gets (\<lambda>s. te_default T (cd_wallet (t_dir s)))"

definition clientFromNode :: "tool_env \<Rightarrow> ('w tool_state_scheme, go_error + new_client) state" where
  "clientFromNode T =
     bindE (ret (ofErr (te_gateway T))) (\<lambda>_.
     bindE (walletDefault T) (\<lambda>addr.
     NewClient (te_library T) (te_piece T) (te_setup T) (te_self T) addr (te_ddir T) []))"

definition getClient :: "tool_env \<Rightarrow> ('w tool_state_scheme, go_error + new_client) state" where
  "getClient T = bindE (nodeSetup T) (\<lambda>_. clientFromNode T)"

section \<open>Making a deal\<close>

text \<open>Reading the file, building the DAG, and the CID of a proposal.\<close>

record deal_files =
  df_Open :: "string \<Rightarrow> go_error + bytes"
  df_BuildDag :: "bytes \<Rightarrow> go_error + cid"
  df_AsIpld :: "client_deal_proposal \<Rightarrow> go_error + cid"

text \<open>The ask decides the price and the least piece size of the proposal.\<close>

definition dealOffer ::
  "tool_env \<Rightarrow> cli_context \<Rightarrow> FilClient \<Rightarrow> address \<Rightarrow> cid \<Rightarrow> ('w world_scheme, go_error + net_proposal) state" where
  "dealOffer T c fc miner obj = do {
     tpr ''getting ask from storage provider %s...'' [lib_addrString (te_library T) miner];
     bindE (mapE (wrapf (''getting ask from storage provider '' @ lib_addrString (te_library T) miner @ '': ''))
       (GetAsk (te_library T) fc (te_ctx T) miner)) (\<lambda>ask. do {
     let verified = parseVerified c;
     let removeUnsealed = parseRemoveUnsealed c;
     let price = (if verified then sa_VerifiedPrice ask else sa_Price ask);
     (if verified then tpr ''storage provider ask for verified deals: %d'' [fmt_int price]
      else tpr ''storage provider ask: %d'' [fmt_int price]);
     let minPieceSize = sa_MinPieceSize ask;
     MakeDeal (te_library T) fc miner obj price minPieceSize (2880 * 365) verified removeUnsealed })
   }"

text \<open>The command up to the saved proposal.\<close>

definition prepareDeal ::
  "tool_env \<Rightarrow> deal_files \<Rightarrow> cli_context
     \<Rightarrow> ('w tool_state_scheme, go_error + new_client \<times> address \<times> net_proposal \<times> cid \<times> cid) state" where
  "prepareDeal T F c =
     (if cli_args c = [] then ret (Inl (Errorf ''please specify file to make deal for'')) else
      bindE (ret (parseMiner (te_parse T) c)) (\<lambda>miner.
      bindE (nodeSetup T) (\<lambda>_.
      bindE (clientFromNode T) (\<lambda>nc.
      bindE (ret (df_Open F (args_First c))) (\<lambda>fi. do {
      tpr ''importing file...'' [];
      bindE (ret (df_BuildDag F fi)) (\<lambda>obj. do {
      tpr ''File CID: %s'' [lib_cidString (te_library T) obj];
      bindE (dealOffer T c (nc_client nc) miner obj) (\<lambda>proposal.
      bindE (ret (case df_AsIpld F (np_DealProposal proposal) of
                    Inl err \<Rightarrow> Inl (wrapf ''failed to compute deal proposal ipld node: '' err)
                  | Inr propCid \<Rightarrow> Inr propCid)) (\<lambda>propCid. do {
      tpr ''proposal cid: %s'' [lib_cidString (te_library T) propCid];
      bindE (onDir (saveDealProposal (te_disk T) propCid (np_DealProposal proposal))) (\<lambda>_.
      ret (Inr (nc, miner, proposal, propCid, obj))) })) }) })))))"

text \<open>What a v1.2.0 deal needs besides.\<close>

record v120_library =
  vl_hostAddrs :: string
  vl_hostID :: string
  vl_newMultiaddr :: "string \<Rightarrow> go_error + multiaddr"
  vl_multiaddrString :: "multiaddr \<Rightarrow> string"
  vl_rand :: u64
  vl_newUUID :: uuid
  vl_fresh :: uuid
  vl_marshal :: "string \<Rightarrow> string \<Rightarrow> go_error + bytes"
  vl_basicAuth :: "string \<Rightarrow> string \<Rightarrow> string"
  vl_listener :: nat

definition dealRun ::
  "v120_library \<Rightarrow> tool_env \<Rightarrow> new_client \<Rightarrow> address \<Rightarrow> net_proposal \<Rightarrow> cid \<Rightarrow> multiaddr \<Rightarrow> deal_run" where
  "dealRun V T nc miner netprop propCid announce =
     \<lparr>dl_library = te_library T, dl_client = nc_client nc, dl_mgr = nc_mgr nc, dl_ctx = te_ctx T,
      dl_marshal = vl_marshal V, dl_basicAuth = vl_basicAuth V, dl_fresh = vl_fresh V, dl_dbid = vl_rand V,
      dl_dealUUID = vl_newUUID V, dl_announce = announce, dl_miner = miner, dl_netprop = netprop,
      dl_propCid = propCid, dl_listener = vl_listener V\<rparr>"

text \<open>A complete run of the transition system, from the labels of its steps.\<close>

definition runV120 ::
  "deal_run \<Rightarrow> v120_label list \<Rightarrow> ('w tool_state_scheme, (go_error + unit) option) state" where
  "runV120 D labels = State (\<lambda>s.
     case vrun D (startDeal (w_trace s)) labels of
       None \<Rightarrow> (None, s)
     | Some v \<Rightarrow>
         (case v_pc v of
            VDone r \<Rightarrow> (Some (ofErr r), s\<lparr>w_trace := w_trace v, x_listener := x_listener v\<rparr>)
          | _ \<Rightarrow> (None, s)))"

definition makev120Deal ::
  "v120_library \<Rightarrow> tool_env \<Rightarrow> cli_context \<Rightarrow> v120_label list \<Rightarrow> new_client \<Rightarrow> address \<Rightarrow> net_proposal \<Rightarrow> cid
     \<Rightarrow> ('w tool_state_scheme, (go_error + unit) option) state" where
  "makev120Deal V T c labels nc miner netprop propCid = do {
     tpr ''filc host addr: %s'' [vl_hostAddrs V];
     tpr ''filc host peer: %s'' [vl_hostID V];
     case announceAddr (vl_newMultiaddr V) (vl_hostID V) (cctx_String c ''announce'') of
       Inl err \<Rightarrow> ret (Some (Inl err))
     | Inr announce \<Rightarrow> do {
         tpr ''filc announce address: %s'' [vl_multiaddrString V announce];
         runV120 (dealRun V T nc miner netprop propCid announce) labels
       }
   }"

text \<open>
  Sending the saved proposal over the protocol of the provider: \<open>fuel\<close> bounds the polls of a v1.1.0 deal
  and \<open>labels\<close> are the steps of a v1.2.0 deal; \<open>None\<close> is a command that has not returned.
\<close>

definition sendDeal ::
  "v120_library \<Rightarrow> tool_env \<Rightarrow> nat \<Rightarrow> v120_label list \<Rightarrow> cli_context \<Rightarrow> new_client \<Rightarrow> address \<Rightarrow> net_proposal
     \<Rightarrow> cid \<Rightarrow> cid \<Rightarrow> ('w tool_state_scheme, (go_error + unit) option) state" where
  "sendDeal V T fuel labels c nc miner proposal propCid obj = do {
     p \<leftarrow> DealProtocolForMiner (te_library T) (nc_client nc) miner;
     case p of
       Inl err \<Rightarrow> ret (Some (Inl err))
     | Inr proto \<Rightarrow> do {
         tpr ''storage provider supports deal protocol %s'' [proto];
         if proto = DealProtocolv110 then
           makev110Deal fuel (te_library T) (nc_client nc) (nc_mgr nc) (te_enc T) (te_ctx T) miner
             proposal propCid obj
         else if proto = DealProtocolv120 then
           makev120Deal V T c labels nc miner proposal propCid
         else ret (Some (Inl (Errorf (''unrecognized deal protocol '' @ proto))))
       }
   }"

definition makeDealCmd ::
  "v120_library \<Rightarrow> tool_env \<Rightarrow> deal_files \<Rightarrow> nat \<Rightarrow> v120_label list \<Rightarrow> cli_context
     \<Rightarrow> ('w tool_state_scheme, (go_error + unit) option) state" where
  "makeDealCmd V T F fuel labels c = do {
     r \<leftarrow> prepareDeal T F c;
     case r of
       Inl err \<Rightarrow> ret (Some (Inl err))
     | Inr (nc, miner, proposal, propCid, obj) \<Rightarrow> sendDeal V T fuel labels c nc miner proposal propCid obj
   }"

text \<open>
  \<open>keepConnection\<close> runs beside a v1.2.0 deal: the watcher it registers is the one of theory \<open>ConnWatcher\<close>,
  and \<open>reconnectMiner\<close> is the watcher's \<open>reconnect\<close>.
\<close>

definition reconnectMiner :: "library \<Rightarrow> FilClient \<Rightarrow> address \<Rightarrow> ('w world_scheme, unit) state" where
  "reconnectMiner L fc maddr = do {
     tpr ''Connection to storage provider %s disconnected. Reconnecting...'' [lib_addrString L maddr];
     r \<leftarrow> ConnectToMiner L fc maddr;
     case r of
       Inr _ \<Rightarrow> tpr ''Reconnected to storage provider %s. Waiting for storage provider to restart transfer...''
                  [lib_addrString L maddr]
     | Inl err \<Rightarrow> tpr ''Failed to reconnect to storage provider %s: %s'' [lib_addrString L maddr, errorText err]
   }"

definition keepConnection ::
  "library \<Rightarrow> FilClient \<Rightarrow> address \<Rightarrow> ('w world_scheme, conn_watcher option) state" where
  "keepConnection L fc maddr = do {
     r \<leftarrow> ConnectToMiner L fc maddr;
     case r of
       Inl err \<Rightarrow> do {
         tpr ''Unable to make initial connection to storage provider %s: %s'' [lib_addrString L maddr, errorText err];
         ret None
       }
     | Inr pid \<Rightarrow> do {
         tpr ''Watching connection to storage provider %s with peer ID %s'' [lib_addrString L maddr, pid];
         ret (Some (newWatcher pid))
       }
   }"

section \<open>Looking up deals\<close>

definition dealStatusCmd :: "tool_env \<Rightarrow> cli_context \<Rightarrow> ('w tool_state_scheme, go_error + unit) state" where
  "dealStatusCmd T c =
     (if cli_args c = [] then ret (Inl (Errorf ''proposal CID must be specified'')) else
      bindE (mapE (wrapf ''invalid miner address: '') (ret (parseMiner (te_parse T) c))) (\<lambda>miner.
      bindE (mapE (wrapf ''invalid deal UUID: '') (ret (parseDealUUID (te_parse T) c))) (\<lambda>dealUUID.
      bindE (mapE (wrapf ''invalid proposal CID: '') (ret (de_cidDecode (te_disk T) (args_First c)))) (\<lambda>propCid.
      bindE (mapE (wrapf ''could not set up node: '') (nodeSetup T)) (\<lambda>_.
      bindE (mapE (wrapf ''could not initialize filclient: '') (clientFromNode T)) (\<lambda>nc.
      let dealUUIDPtr = (if dealUUID \<noteq> pa_UUIDNil (te_parse T) then Some dealUUID else None) in
      bindE (mapE (wrapf ''could not get deal state from provider: '')
        (DealStatus (te_library T) (te_checkpoint T) (nc_client nc) (te_ctx T) miner propCid dealUUIDPtr)) (\<lambda>st.
      printDealStatus (te_library T) (te_print T) st)))))))"

definition getAskCmd :: "tool_env \<Rightarrow> cli_context \<Rightarrow> ('w tool_state_scheme, go_error + unit) state" where
  "getAskCmd T c =
     (if cli_args c = [] then ret (Inl (Errorf ''please specify miner to query ask of'')) else
      bindE (ret (pa_NewFromString (te_parse T) (args_First c))) (\<lambda>miner.
      bindE (getClient T) (\<lambda>nc.
      bindE (mapE (flatf ''failed to get ask: '') (GetAsk (te_library T) (nc_client nc) (te_ctx T) miner)) (\<lambda>ask. do {
      printAskResponse (te_library T) ask;
      ret (Inr ()) }))))"

text \<open>\<open>listDeals\<close> prints the names of the directory, then the command prints the CIDs.\<close>

definition listDealsCmd ::
  "tool_env \<Rightarrow> string list \<Rightarrow> ('w tool_state_scheme, go_error + unit) state" where
  "listDealsCmd T names = do {
     d \<leftarrow> gets t_dir;
     case listDeals (te_disk T) names d of
       (printed, Inl err) \<Rightarrow> do { emit (Printf ''names'' printed); ret (Inl err) }
     | (printed, Inr deals) \<Rightarrow> do {
         emit (Printf ''names'' printed);
         emit (Printf ''deals'' (map (lib_cidString (te_library T)) deals));
         ret (Inr ())
       }
   }"

definition clearBlockstoreCmd :: "tool_env \<Rightarrow> ('w tool_state_scheme, go_error + unit) state" where
  "clearBlockstoreCmd T = do {
     emit (Printf ''clearing blockstore...'' []);
     bindE (onDir (clearBlockstore (te_disk T))) (\<lambda>_. do {
     emit (Printf ''done'' []);
     ret (Inr ()) })
   }"

section \<open>The wallet's information\<close>

definition printInfo :: "library \<Rightarrow> address \<Rightarrow> int \<Rightarrow> int \<Rightarrow> ('w world_scheme, unit) state" where
  "printInfo L addr balance verifiedBalance = do {
     emit (Printf ''Default client address: %v'' [lib_addrString L addr]);
     emit (Printf ''Balance:                %v'' [lib_FILString L balance]);
     emit (Printf ''Verified Balance:       %v'' [lib_FILString L verifiedBalance])
   }"

text \<open>
  The verified status of an address that is no verified client is a nil pointer, which the command
  dereferences.
\<close>

definition accountInfo ::
  "gateway_service \<Rightarrow> address \<Rightarrow> ('w world_scheme, go_error + int \<times> int) state" where
  "accountInfo A addr = do {
     r \<leftarrow> perform (\<lambda>t. g_StateGetActor A t addr) (\<lambda>_. Api (AStateGetActor addr));
     case r of
       Inl err \<Rightarrow> do { emit (Printf ''NOTE - Actor not found on chain'' []); ret (Inr (0, 0)) }
     | Inr act \<Rightarrow>
         bindE (perform (\<lambda>t. g_VerifiedClientStatus A t addr) (\<lambda>_. Api (AVerifiedClientStatus addr))) (\<lambda>v.
           ret (case v of None \<Rightarrow> Inl (Panic ''nil pointer dereference'') | Some b \<Rightarrow> Inr (act_Balance act, b)))
   }"

definition infoCmd :: "tool_env \<Rightarrow> ('w tool_state_scheme, go_error + unit) state" where
  "infoCmd T =
     bindE (nodeSetup T) (\<lambda>_.
     bindE (ret (ofErr (te_gateway T))) (\<lambda>_.
     bindE (walletDefault T) (\<lambda>addr.
     bindE (accountInfo (api (su_base (te_setup T))) addr) (\<lambda>(balance, verifiedBalance). do {
     printInfo (te_library T) addr balance verifiedBalance;
     ret (Inr ()) }))))"

section \<open>Querying a retrieval\<close>

record dht_library =
  dh_New :: "go_error option"
  dh_FindProviders :: "cid \<Rightarrow> go_error + addr_info list"

definition queryRetrievalCmd ::
  "tool_env \<Rightarrow> dht_library \<Rightarrow> cli_context \<Rightarrow> ('w tool_state_scheme, go_error + unit) state" where
  "queryRetrievalCmd T H c =
     (if args_First c = [] then ret (Inl (Errorf ''please specify a CID to query retrieval of'')) else
      bindE (ret (parseMiner (te_parse T) c)) (\<lambda>miner.
      bindE (ret (de_cidDecode (te_disk T) (args_First c))) (\<lambda>root.
      bindE (nodeSetup T) (\<lambda>_.
      bindE (ret (ofErr (dh_New H))) (\<lambda>_.
      bindE (ret (dh_FindProviders H root)) (\<lambda>providers.
      let availableOnIPFS = (providers \<noteq> []) in
      if miner \<noteq> address_Undef then
        bindE (clientFromNode T) (\<lambda>nc.
        bindE (RetrievalQuery (te_library T) (nc_client nc) (te_ctx T) miner root) (\<lambda>query. do {
        printQueryResponse (te_library T) (te_print T) query availableOnIPFS;
        ret (Inr ()) }))
      else do {
        emit (Printf ''No miner specified'' []);
        (if availableOnIPFS then emit (Printf ''Available on IPFS'' []) else ret ());
        ret (Inr ())
      }))))))"

end
