(* ===== verification/FilcCommandsProps.thy ===== *)
theory FilcCommandsProps
  imports FilcCommands
begin

text \<open>
  Properties of the commands: a proposal that any provider has been sent is on disk, which terms the
  \<open>deal\<close> command asks for, and when \<open>info\<close> crashes.
\<close>

section \<open>Which calls carry a proposal\<close>

definition proposes :: "call \<Rightarrow> client_deal_proposal option" where
  "proposes c =
     (case c of
        Host (HWrite s (ProposalRequest np)) \<Rightarrow> Some (np_DealProposal np)
      | Host (HWrite s (DealParamsRequest d)) \<Rightarrow> Some (dpar_ClientDealProposal d)
      | _ \<Rightarrow> None)"

definition proposing :: "(client_deal_proposal \<Rightarrow> bool) \<Rightarrow> call \<Rightarrow> bool" where
  "proposing P c \<longleftrightarrow> (case proposes c of None \<Rightarrow> True | Some p \<Rightarrow> P p)"

lemma proposing_host [simp]:
  "proposing P (Host (HConnect a))" "proposing P (Host (HNewStream p ps))" "proposing P (Host (HFirstSupportedProtocol p ps))"
  "proposing P (Host (HPeerstoreGet p k))" "proposing P (Host (HProtect p tag))" "proposing P (Host (HUnprotect p tag))"
  "proposing P (Host (HClose s))" "proposing P (Host (HSetDeadline s d))" "proposing P (Host (HRead s))"
  "proposing P (Host (HConnectedness p))" "proposing P (Host (HWrite s (AskRequest m)))"
  "proposing P (Host (HWrite s (ProposalRequest np))) = P (np_DealProposal np)"
  "proposing P (Host (HWrite s (DealParamsRequest dp))) = P (dpar_ClientDealProposal dp)"
  by (simp_all add: proposing_def proposes_def)

lemma proposing_other [simp]:
  "proposing P (Api a)" "proposing P (WalletSign w b t)" "proposing P (CustomSign b)" "proposing P (Dt d)"
  "proposing P (Xfer x)" "proposing P (ComputePieceComm p)" "proposing P (Tpr f as)" "proposing P (Printf f as)"
  "proposing P (Setup su)"
  by (simp_all add: proposing_def proposes_def)

named_theorems proposing_intros \<open>which operations send no proposal but the given ones\<close>

lemma proposing_connect [proposing_intros]:
  "only (proposing P) (ConnectToMiner L fc maddr)" "only (proposing P) (DealProtocolForMiner L fc maddr)"
  "only (proposing P) (MinerPeer L fc maddr)"
  "only (proposing P) (newStream fc p protos)" "only (proposing P) (streamToMiner L fc maddr protos)"
  by (auto simp: connect_defs DealProtocolForMiner_def MinerPeer_def newStream_def streamToMiner_def Let_def
      split: option.splits sum.splits intro!: only_perform only_performE only_bindE only_mapE only_ret)

lemma proposing_withProtected [proposing_intros]:
  "only (proposing P) body \<Longrightarrow> only (proposing P) (withProtected tag s body)"
  by (auto simp: withProtected_def intro!: only_bind only_deferred only_emit)

lemma proposing_doRpc:
  "proposing P (Host (HWrite s req)) \<Longrightarrow> only (proposing P) (doRpc fc cx s req readResp)"
  by (auto simp: doRpc_def Let_def split: option.splits
      intro!: only_bind only_deferred only_emit only_bindE only_mapE only_performE only_perform)

lemma proposing_tpr [proposing_intros]:
  "only (proposing P) (tpr f as)" "only (proposing P) (tprStatus l)" "only (proposing P) (tprCompleted L m pc)"
  by (auto simp: tpr_def tprStatus_def tprCompleted_def intro!: only_emit only_ret)

lemma proposing_GetAsk [proposing_intros]: "only (proposing P) (GetAsk L fc cx m)"
  unfolding GetAsk_def by (intro only_bindE only_mapE proposing_intros proposing_doRpc) simp

lemma proposing_MakeDeal [proposing_intros]: "only (proposing P) (MakeDeal L fc m obj price n d v ru)"
  by (auto simp: MakeDeal_def MakeDealWithOptions_def MakeDealUnsigned_def dealPieceInfo_def signProposal_def Let_def
      split: option.splits sum.splits prod.splits
      intro!: only_bindE only_mapE only_perform only_performE only_ret)

lemma proposing_NewClient [proposing_intros]:
  "only (proposing P) (NewClient L pl S self addr ddir opts)"
  by (auto simp: NewClient_def NewClientWithConfig_def registerVoucher_def Start_def Let_def
      intro!: only_bindE only_bind only_mapE only_perform only_performE only_emit only_ret)

lemma proposing_send [proposing_intros]:
  "P (np_DealProposal np) \<Longrightarrow> only (proposing P) (SendProposalV110 L fc cx np pc)"
  "P (np_DealProposal np) \<Longrightarrow> only (proposing P) (SendProposalV120 ma ba L fc cx fresh dbid np u ann tok)"
  by (auto simp: SendProposalV110_def SendProposalV120_def SendProposalV120WithOptions_def v120Params_def
      intro!: only_bindE only_mapE only_flagE only_ret proposing_intros proposing_doRpc)

lemma proposing_transfer [proposing_intros]:
  "only (proposing P) (StartDataTransfer L fc m pc obj)" "only (proposing P) (TransferStatus fc mgr enc cid)"
  "only (proposing P) (PrepareForDataRequest mgr db tok pc r n)" "only (proposing P) (CleanupPreparedRequest mgr db tok)"
  by (auto simp: StartDataTransfer_def TransferStatus_def PrepareForDataRequest_def CleanupPreparedRequest_def
      cancelTransfer_def Let_def connect_defs MinerPeer_def split: option.splits sum.splits
      intro!: only_bindE only_bind only_mapE only_perform only_performE only_emit only_ret)

lemma proposing_poll [proposing_intros]: "only (proposing P) (pollTransfer n L fc mgr enc m pc c l)"
  by (induction n arbitrary: l) (auto split: sum.splits intro!: only_bind only_ret proposing_intros)

lemma proposing_makev110Deal [proposing_intros]:
  "P (np_DealProposal np) \<Longrightarrow> only (proposing P) (makev110Deal fuel L fc mgr enc cx m np pc obj)"
  by (auto simp: makev110Deal_def split: sum.splits intro!: only_bind only_ret proposing_intros)

section \<open>A v1.2.0 deal\<close>

lemma notice_proposing: "isNotice c \<Longrightarrow> proposing P c"
  by (cases c rule: isNotice.cases) auto

lemma onlyE_trace:
  assumes "only (proposing P) m"
  shows "\<exists>u. w_trace (snd (run_state m w)) = w_trace w @ u \<and> list_all (proposing P) u"
proof -
  from assms obtain u where "snd (run_state m w) = w\<lparr>w_trace := w_trace w @ u\<rparr>" "list_all (proposing P) u"
    unfolding only_def by blast
  then show ?thesis by simp
qed

lemma prepareStep_proposing:
  "\<exists>u. w_trace (prepareStep D tok s) = w_trace s @ u \<and> list_all (proposing P) u"
proof -
  from prepareStep_effect [of D tok s] obtain v r p
    where "prepareStep D tok s = s\<lparr>w_trace := w_trace s @ [Xfer (XAuthPut tok v r)], v_pc := p\<rparr>" by blast
  then show ?thesis by simp
qed

lemma sendStep_proposing:
  assumes "P (np_DealProposal (dl_netprop D))"
  shows "\<exists>u. w_trace (sendStep D tok s) = w_trace s @ u \<and> list_all (proposing P) u"
proof -
  let ?send = "SendProposalV120 (dl_marshal D) (dl_basicAuth D) (dl_library D) (dl_client D) (dl_ctx D)
              (dl_fresh D) (dl_dbid D) (dl_netprop D) (dl_dealUUID D) (dl_announce D) tok"
  obtain r s1 where run: "run_state ?send s = (r, s1)" by fastforce
  from onlyE_trace [OF proposing_send(2) [of P, OF assms], of _ _ _ _ _ _ _ _ _ _ s] run
  obtain u where u: "w_trace s1 = w_trace s @ u" "list_all (proposing P) u" by (metis snd_conv)
  show ?thesis
  proof (cases r)
    case (Inl x)
    obtain b e where x: "x = (b, e)" by fastforce
    have "only (proposing P) (CleanupPreparedRequest (dl_mgr D) (dl_dbid D) tok :: (v120, _) state)"
      by (rule proposing_intros)
    from onlyE_trace [OF this, of s1] obtain v
      where "w_trace (snd (run_state (CleanupPreparedRequest (dl_mgr D) (dl_dbid D) tok) s1)) = w_trace s1 @ v"
        "list_all (proposing P) v" by blast
    then show ?thesis using run u Inl x by (intro exI [of _ "u @ v"]) (simp add: sendStep_def)
  next
    case (Inr x)
    then show ?thesis using run u
      by (intro exI [of _ "u @ [Tpr ''miner accepted the deal!'' []]"]) (simp add: sendStep_def tpr_def run_simps)
  qed
qed

lemma vnext_proposing:
  assumes "vnext D s l = Some s'" and "P (np_DealProposal (dl_netprop D))"
  shows "\<exists>u. w_trace s' = w_trace s @ u \<and> list_all (proposing P) u"
  using assms(1)
proof (cases rule: vnext_cases)
  case subscribe
  then show ?thesis using subscribeStep_effect [of D s] notice_proposing by (metis list.pred_mono_strong)
next
  case (notify d ts)
  then show ?thesis using notified_of_trace [of D d ts s] notice_proposing by (metis list.pred_mono_strong)
next
  case (token r)
  then show ?thesis using tokenStep_effect [of r s] by auto
next
  case (prepare tok)
  then show ?thesis using prepareStep_proposing by simp
next
  case (send tok)
  then show ?thesis using sendStep_proposing [of P D] assms(2) by simp
qed (simp_all add: receiveStep_def unsubscribe_def run_simps)

lemma vrun_proposing:
  "vrun D s ls = Some s' \<Longrightarrow> P (np_DealProposal (dl_netprop D)) \<Longrightarrow>
    \<exists>u. w_trace s' = w_trace s @ u \<and> list_all (proposing P) u"
proof (induction ls arbitrary: s)
  case Nil
  then show ?case by simp
next
  case (Cons l ls)
  from Cons.prems(1) obtain s1 where s1: "vnext D s l = Some s1" "vrun D s1 ls = Some s'"
    by (auto split: option.splits)
  from vnext_proposing [OF s1(1), of P] Cons.prems(2) obtain u
    where "w_trace s1 = w_trace s @ u" "list_all (proposing P) u" by blast
  moreover from Cons.IH [OF s1(2) Cons.prems(2)] obtain v
    where "w_trace s' = w_trace s1 @ v" "list_all (proposing P) v" by blast
  ultimately show ?case by (intro exI [of _ "u @ v"]) simp
qed

section \<open>The deal command\<close>

text \<open>Operations of the command that send no proposals but the given ones and leave the directory alone.\<close>

definition sendsOnly :: "(client_deal_proposal \<Rightarrow> bool) \<Rightarrow> (tool_state, 'a) state \<Rightarrow> bool" where
  "sendsOnly P m \<longleftrightarrow> (\<forall>s. \<exists>u. w_trace (snd (run_state m s)) = w_trace s @ u \<and> list_all (proposing P) u
     \<and> t_dir (snd (run_state m s)) = t_dir s)"

definition silent :: "(tool_state, 'a) state \<Rightarrow> bool" where
  "silent m \<longleftrightarrow> (\<forall>s. \<exists>u. w_trace (snd (run_state m s)) = w_trace s @ u \<and> list_all (proposing (\<lambda>_. False)) u)"

lemma sendsOnly_only:
  fixes m :: "(tool_state, 'a) state"
  assumes "only (proposing P) m"
  shows "sendsOnly P m"
  unfolding sendsOnly_def
proof
  fix s :: tool_state
  from assms obtain u where "snd (run_state m s) = s\<lparr>w_trace := w_trace s @ u\<rparr>" "list_all (proposing P) u"
    unfolding only_def by blast
  then show "\<exists>u. w_trace (snd (run_state m s)) = w_trace s @ u \<and> list_all (proposing P) u
     \<and> t_dir (snd (run_state m s)) = t_dir s" by simp
qed

lemma silent_only: "only (proposing (\<lambda>_. False)) m \<Longrightarrow> silent m"
  using sendsOnly_only [of "\<lambda>_. False" m] unfolding sendsOnly_def silent_def by blast

lemma silent_bind:
  assumes "silent m" and "\<And>r. silent (k r)"
  shows "silent (m \<bind> k)"
  unfolding silent_def
proof
  fix s :: tool_state
  obtain r s1 where m: "run_state m s = (r, s1)" by fastforce
  from assms(1) m obtain u where "w_trace s1 = w_trace s @ u" "list_all (proposing (\<lambda>_. False)) u"
    unfolding silent_def by (metis snd_conv)
  moreover from assms(2) [of r] obtain v where "w_trace (snd (run_state (k r) s1)) = w_trace s1 @ v"
    "list_all (proposing (\<lambda>_. False)) v" unfolding silent_def by blast
  ultimately show "\<exists>u. w_trace (snd (run_state (m \<bind> k) s)) = w_trace s @ u \<and> list_all (proposing (\<lambda>_. False)) u"
    using m by (intro exI [of _ "u @ v"]) simp
qed

lemma silent_bindE: "silent m \<Longrightarrow> (\<And>r. silent (k r)) \<Longrightarrow> silent (bindE m k)"
  unfolding bindE_def by (intro silent_bind) (auto split: sum.splits intro: silent_only only_ret)

lemma silent_onDir: "silent (onDir f)" "silent (walletDefault T)"
  by (auto simp: silent_def onDir_def walletDefault_def run_simps split: prod.splits)

lemma silent_dealOffer: "silent (dealOffer T c fc m obj)"
  unfolding dealOffer_def Let_def
  by (intro silent_only only_bind only_bindE only_mapE proposing_intros) (auto intro: proposing_intros)

lemma silent_prepareDeal: "silent (prepareDeal T F c)"
  by (auto simp: prepareDeal_def nodeSetup_def clientFromNode_def
      intro!: silent_bind silent_bindE silent_onDir silent_dealOffer silent_only [OF only_ret]
        silent_only [OF proposing_tpr(1)] silent_only [OF proposing_NewClient])

lemma prepareDeal_saved:
  assumes "run_state (prepareDeal T F c) s = (Inr (nc, m, np, pc, obj), s')"
  shows "df_AsIpld F (np_DealProposal np) = Inr pc
    \<and> (\<exists>d. saveDealProposal (te_disk T) pc (np_DealProposal np) d = (Inr (), t_dir s'))"
  using assms
  by (auto simp: prepareDeal_def run_bindE onDir_def tpr_def run_simps split: sum.splits prod.splits if_splits)

lemma sendsOnly_bind:
  assumes "sendsOnly P m" and "\<And>r. sendsOnly P (k r)"
  shows "sendsOnly P (m \<bind> k)"
  unfolding sendsOnly_def
proof
  fix s :: tool_state
  obtain r s1 where m: "run_state m s = (r, s1)" by fastforce
  from assms(1) m obtain u where "w_trace s1 = w_trace s @ u" "list_all (proposing P) u" "t_dir s1 = t_dir s"
    unfolding sendsOnly_def by (metis snd_conv)
  moreover from assms(2) [of r] obtain v where "w_trace (snd (run_state (k r) s1)) = w_trace s1 @ v"
    "list_all (proposing P) v" "t_dir (snd (run_state (k r) s1)) = t_dir s1" unfolding sendsOnly_def by blast
  ultimately show "\<exists>u. w_trace (snd (run_state (m \<bind> k) s)) = w_trace s @ u \<and> list_all (proposing P) u
     \<and> t_dir (snd (run_state (m \<bind> k) s)) = t_dir s"
    using m by (intro exI [of _ "u @ v"]) simp
qed

lemma sendsOnly_runV120:
  assumes "P (np_DealProposal (dl_netprop D))"
  shows "sendsOnly P (runV120 D labels)"
  unfolding sendsOnly_def
proof
  fix s :: tool_state
  show "\<exists>u. w_trace (snd (run_state (runV120 D labels) s)) = w_trace s @ u \<and> list_all (proposing P) u
     \<and> t_dir (snd (run_state (runV120 D labels) s)) = t_dir s"
  proof (cases "vrun D (startDeal (w_trace s)) labels")
    case None
    then show ?thesis by (simp add: runV120_def)
  next
    case (Some v)
    from vrun_proposing [OF Some, of P] assms obtain u where "w_trace v = w_trace s @ u" "list_all (proposing P) u"
      by (auto simp: startDeal_def)
    then show ?thesis using Some by (simp add: runV120_def split: v120_pc.split)
  qed
qed

lemma sendsOnly_makev120Deal:
  assumes "P (np_DealProposal np)"
  shows "sendsOnly P (makev120Deal V T c labels nc m np pc)"
  using assms
  by (auto simp: makev120Deal_def dealRun_def split: sum.splits
      intro!: sendsOnly_bind sendsOnly_runV120 sendsOnly_only [OF proposing_tpr(1)] sendsOnly_only [OF only_ret])

lemma sendsOnly_sendDeal:
  assumes "P (np_DealProposal np)"
  shows "sendsOnly P (sendDeal V T fuel labels c nc m np pc obj)"
  using assms
  by (auto simp: sendDeal_def split: sum.splits
      intro!: sendsOnly_bind sendsOnly_makev120Deal sendsOnly_only [OF proposing_tpr(1)] sendsOnly_only [OF only_ret]
        sendsOnly_only [OF proposing_makev110Deal] sendsOnly_only [OF proposing_connect(2)])

text \<open>
  C4: Every proposal that the command has sent to a provider, over either protocol, is on disk under its
  CID when the command ends, however it ends.
\<close>

theorem sent_deal_is_saved:
  assumes "run_state (makeDealCmd V T F fuel labels c) s = (r, s' :: tool_state)"
    and "w_trace s' = w_trace s @ u" and "x \<in> set u" and "proposes x = Some p"
  shows "\<exists>pc data. df_AsIpld F p = Inr pc \<and> de_encode (te_disk T) p = Inr data
    \<and> dealFiles (t_dir s') (de_cidString (te_disk T) pc) = Some data"
proof -
  obtain q s1 where prep: "run_state (prepareDeal T F c) s = (q, s1)" by fastforce
  from silent_prepareDeal prep obtain v where v: "w_trace s1 = w_trace s @ v" "list_all (proposing (\<lambda>_. False)) v"
    unfolding silent_def by (metis snd_conv)
  from v(2) assms(4) have xv: "x \<notin> set v" by (auto simp: list_all_iff proposing_def)
  show ?thesis
  proof (cases q)
    case (Inl e)
    with assms(1,2) prep v xv assms(3) show ?thesis by (simp add: makeDealCmd_def)
  next
    case (Inr y)
    obtain nc m np pc obj where y: "y = (nc, m, np, pc, obj)" by (metis prod.exhaust)
    from prep Inr y prepareDeal_saved obtain d where saved: "df_AsIpld F (np_DealProposal np) = Inr pc"
      "saveDealProposal (te_disk T) pc (np_DealProposal np) d = (Inr (), t_dir s1)" by metis
    have "run_state (sendDeal V T fuel labels c nc m np pc obj) s1 = (r, s')"
      using assms(1) prep Inr y by (simp add: makeDealCmd_def)
    with sendsOnly_sendDeal [of "\<lambda>p. p = np_DealProposal np" np] obtain w
      where w: "w_trace s' = w_trace s1 @ w" "list_all (proposing (\<lambda>p. p = np_DealProposal np)) w" "t_dir s' = t_dir s1"
      unfolding sendsOnly_def by (metis snd_conv)
    from assms(2,3) v(1) w(1) xv have "x \<in> set w" by auto
    with w(2) assms(4) have p: "p = np_DealProposal np" by (auto simp: list_all_iff proposing_def)
    from saveDealProposal_ok [OF saved(2)] obtain data where "de_encode (te_disk T) p = Inr data"
      "t_dir s1 = d\<lparr>cd_deals := Some ((dealFiles d)(de_cidString (te_disk T) pc \<mapsto> data))\<rparr>" using p by metis
    with saved(1) w(3) p show ?thesis by (auto simp: dealFiles_def)
  qed
qed

lemma dealOffer_run:
  assumes "run_state (dealOffer T c fc m obj) w = (Inr np, w')"
  obtains ask t st w1 where "h_ReadAsk (host fc) t st = Inr ask"
    "run_state (MakeDeal (te_library T) fc m obj (if parseVerified c then sa_VerifiedPrice ask else sa_Price ask)
       (sa_MinPieceSize ask) (2880 * 365) (parseVerified c) (parseRemoveUnsealed c)) w1 = (Inr np, w')"
  using assms
  by (auto simp: dealOffer_def GetAsk_def tpr_def run_withProtected run_simps Let_def
      dest!: doRpc_ok split: sum.splits prod.splits if_splits)

text \<open>
  C17: The terms of the deal the command asks for: price and least size are those of the provider's ask
  for the kind of deal, the deal lasts 2880 * 365 epochs, and, because the command declares no flag
  for it, the provider is never asked to remove the unsealed copy.
\<close>

theorem deal_command_terms:
  assumes "run_state (dealOffer T c fc m obj) w = (Inr np, w')" and "cli_declared c = declared dealFlags"
  shows "np_FastRetrieval np \<and> (\<exists>t st ask. h_ReadAsk (host fc) t st = Inr ask
    \<and> (let p = cdp_Proposal (np_DealProposal np) in
         sa_MinPieceSize ask \<le> dp_PieceSize p \<and> dp_VerifiedDeal p = parseVerified c
       \<and> dp_StoragePricePerEpoch p =
           (sint (dp_PieceSize p) * (if parseVerified c then sa_VerifiedPrice ask else sa_Price ask)) div 2 ^ 30
       \<and> dp_EndEpoch p = dp_StartEpoch p + 1051200))"
proof -
  have no: "\<not> parseRemoveUnsealed c"
    by (simp add: parseRemoveUnsealed_def cctx_Bool_def assms(2) declared_names)
  from assms(1) obtain ask t st w1 where ask: "h_ReadAsk (host fc) t st = Inr ask"
    and make: "run_state (MakeDeal (te_library T) fc m obj (if parseVerified c then sa_VerifiedPrice ask else sa_Price ask)
       (sa_MinPieceSize ask) (2880 * 365) (parseVerified c) (parseRemoveUnsealed c)) w1 = (Inr np, w')"
    by (rule dealOffer_run)
  let ?c = "applyOptions DefaultDealConfig [DealWithMinSize (sa_MinPieceSize ask), DealWithVerified (parseVerified c),
      DealWithFastRetrieval (\<not> parseRemoveUnsealed c)]"
  have c: "cfg_MinSize ?c = sa_MinPieceSize ask" "cfg_Verified ?c = parseVerified c" "cfg_FastRetrieval ?c"
    "cfg_PricePerEpoch ?c = None" "cfg_EndEpoch ?c = 0"
    by (simp_all add: deal_option_defs DefaultDealConfig_def no)
  from make [unfolded MakeDeal_def] obtain p raw w2 sig
    where u: "run_state (MakeDealUnsigned (te_library T) fc m obj
        (if parseVerified c then sa_VerifiedPrice ask else sa_Price ask) (2880 * 365) [DealWithConfig ?c]) w1 = (Inr (p, raw), w2)"
      and npr: "np = \<lparr>np_DealProposal = \<lparr>cdp_Proposal = p, cdp_ClientSignature = sig\<rparr>,
       np_Piece = \<lparr>dr_TransferType = cfg_TransferType ?c, dr_Root = obj,
         dr_RawBlockSize = pi_PayloadSize (cfg_PieceInfo ?c)\<rparr>,
       np_FastRetrieval = cfg_FastRetrieval ?c\<rparr>" by (rule MakeDealWithOptions_run [OF _ refl])
  then have np: "cdp_Proposal (np_DealProposal np) = p" "np_FastRetrieval np = cfg_FastRetrieval ?c"
    by (simp_all only: net_proposal.simps client_deal_proposal.simps)
  from unsigned_terms(1,2,7,10) [OF u refl] np c ask show ?thesis
    by (intro conjI exI [of _ t] exI [of _ st] exI [of _ ask]) (simp_all add: Let_def)
qed

section \<open>The wallet's information\<close>

text \<open>
  \<open>info\<close> crashes for an address that has an actor on chain and is no verified client; an address without
  actor is shown with zero balances.
\<close>

lemma info_crash:
  assumes "g_StateGetActor A (w_trace w) addr = Inr act"
    and "g_VerifiedClientStatus A (w_trace w @ [Api (AStateGetActor addr)]) addr = Inr None"
  shows "isPanic (projl (fst (run_state (accountInfo A addr) w)))"
  using assms by (simp add: accountInfo_def run_simps)

section \<open>A sample\<close>

definition sampleWalletLibrary :: wallet_library where
  "sampleWalletLibrary = \<lparr>wl_NewWallet = (\<lambda>_. None), wl_WalletList = (\<lambda>_. Inr [''f3client'']), wl_WalletNew = (\<lambda>d. (Inr ''f3client'', d))\<rparr>"

definition sampleNodeLibrary :: node_library where
  "sampleNodeLibrary = \<lparr>nl_Libp2pNew = (\<lambda>_. None), nl_Flatfs = (\<lambda>_. None), nl_Levelds = (\<lambda>_. None), nl_DhtNew = (\<lambda>_. None)\<rparr>"

definition sampleTool :: tool_env where
  "sampleTool = \<lparr>te_library = sampleLibrary, te_parse = sampleParse, te_print = samplePrint, te_disk = sampleDiskEnv,
     te_os = sampleEnv, te_walletLib = sampleWalletLibrary, te_nodeLib = sampleNodeLibrary,
     te_join = (\<lambda>a b. a @ ''/'' @ b), te_ddir = ''/home'', te_gateway = None, te_default = (\<lambda>_. Inr ''f3client''),
     te_setup = sampleSetup\<lparr>su_DtStart := \<lambda>_. None,
       su_base := sampleClient\<lparr>host := sampleHost\<lparr>h_FirstSupportedProtocol := \<lambda>_ _ _. Inr DealProtocolv110\<rparr>\<rparr>\<rparr>, te_piece = samplePieceLibrary, te_self = 0, te_ctx = emptyCtx,
     te_checkpoint = (\<lambda>_. []), te_enc = (\<lambda>p. p)\<rparr>"

definition sampleFiles :: deal_files where
  "sampleFiles = \<lparr>df_Open = (\<lambda>f. Inr f), df_BuildDag = (\<lambda>b. Inr ''bafyroot''), df_AsIpld = (\<lambda>_. Inr ''bafyprop'')\<rparr>"

definition sampleDealCli :: cli_context where
  "sampleDealCli = \<lparr>cli_declared = declared dealFlags, cli_strings = (\<lambda>_. ''f01000''), cli_slices = (\<lambda>_. []),
     cli_bools = (\<lambda>_. False), cli_args = [''file'']\<rparr>"

definition sampleV120 :: v120_library where
  "sampleV120 = \<lparr>vl_hostAddrs = [], vl_hostID = ''12D3me'', vl_newMultiaddr = (\<lambda>s. Inr s), vl_multiaddrString = (\<lambda>s. s),
     vl_rand = 7, vl_newUUID = ''uuid'', vl_fresh = ''fresh'', vl_marshal = (\<lambda>u a. Inr (u @ a)), vl_basicAuth = (\<lambda>u t. t),
     vl_listener = 1\<rparr>"

definition sampleToolState :: tool_state where
  "sampleToolState = \<lparr>w_trace = [], x_listener = None, t_dir = sampleConfigDir\<lparr>cd_key := Some ''kkey''\<rparr>\<rparr>"

lemmas sample_tool_defs =
  sampleTool_def sampleFiles_def sampleDealCli_def sampleToolState_def sampleSetup_def sampleNodeLibrary_def
  sampleWalletLibrary_def sampleParse_def sampleDiskEnv_def sampleEnv_def sampleConfigDir_def emptyDisk_def
  samplePieceLibrary_def sampleXferService_def sampleMgr_def samplePrint_def sample_defs

lemmas prepare_defs =
  prepareDeal_def nodeSetup_def onDir_def walletDefault_def clientFromNode_def NewClient_def NewClientWithConfig_def
  registerVoucher_def Start_def dealOffer_def GetAsk_def streamToMiner_def newStream_def connect_defs doRpc_def
  run_withProtected MakeDeal_def make_deal_eval node_setup_def setupWallet_def OpenOrInitKeystore_def stat_def
  loadOrInitPeerKey_def readKeyFile_def saveDealProposal_def dealFiles_def parseMiner_def args_First_def declared_names
  parseVerified_def parseRemoveUnsealed_def cctx_Bool_def cctx_String_def tpr_def GeneratePieceCommitment_def
  defaultConfig_def ofErr_def run_simps

lemma sample_sent:
  "\<exists>x \<in> set (w_trace (snd (run_state (makeDealCmd sampleV120 sampleTool sampleFiles 0 [] sampleDealCli) sampleToolState))).
     proposes x \<noteq> None"
  by (simp add: makeDealCmd_def sendDeal_def DealProtocolForMiner_def protocol_defs makev110Deal_def SendProposalV110_def
      StartDataTransfer_def checkV110Response_def proposes_def prepare_defs sample_tool_defs)

theorem sent_deal_is_saved_witness:
  "\<exists>data. dealFiles (t_dir (snd (run_state (makeDealCmd sampleV120 sampleTool sampleFiles 0 [] sampleDealCli) sampleToolState)))
     ''bafyprop'' = Some data"
proof -
  let ?run = "run_state (makeDealCmd sampleV120 sampleTool sampleFiles 0 [] sampleDealCli) sampleToolState"
  from sample_sent obtain x p where x: "x \<in> set (w_trace (snd ?run))" "proposes x = Some p" by auto
  have "?run = (fst ?run, snd ?run)" "w_trace (snd ?run) = w_trace sampleToolState @ w_trace (snd ?run)"
    by (simp_all add: sampleToolState_def)
  from sent_deal_is_saved [OF this x] show ?thesis
    by (auto simp: sampleFiles_def sampleTool_def sampleDiskEnv_def)
qed

theorem deal_command_terms_witness:
  "\<exists>np. fst (run_state (dealOffer sampleTool sampleDealCli sampleClient ''f01000'' ''bafyroot'') \<lparr>w_trace = []\<rparr>) = Inr np
     \<and> np_FastRetrieval np"
proof -
  obtain np w' where run: "run_state (dealOffer sampleTool sampleDealCli sampleClient ''f01000'' ''bafyroot'') \<lparr>w_trace = []\<rparr> = (Inr np, w')"
    by (simp add: prepare_defs sample_tool_defs)
  have "cli_declared sampleDealCli = declared dealFlags" by (simp add: sampleDealCli_def)
  from deal_command_terms [OF run this] run show ?thesis by simp
qed

end
