(* ===== verification/FilcRetrieveCmd.thy ===== *)
theory FilcRetrieveCmd
  imports FilcCommandsProps
begin

text \<open>
  The \<open>retrieve\<close> command of \<open>filc/cmds.go\<close>: its arguments, the retrieval, the sub-root that a text selector
  stands for, and the output; with \<open>TraverseDag\<close> of \<open>retrievehelper/selector.go\<close>.  The traversal itself
  belongs to \<open>go-ipld-prime\<close>: it is given as the sequence of visits that it makes and the error it ends
  with.
\<close>

section \<open>Walking a DAG\<close>

datatype link = CidLink cid | OtherLink string

text \<open>What the callback is told: path and link of the last block, the path, and whether the node was selected.\<close>

record visit =
  vi_LastBlockPath :: string
  vi_LastBlockLink :: link
  vi_Path :: string
  vi_Match :: bool

type_synonym link_reader = "link \<Rightarrow> go_error + bytes"

record traversal_library =
  tl_MatchAllRecursively :: ipld_node
  tl_ParseSelector :: "ipld_node \<Rightarrow> go_error + string"
  tl_Chooser :: "link \<Rightarrow> go_error + string"
  tl_Load :: "link_reader \<Rightarrow> link \<Rightarrow> string \<Rightarrow> go_error + string"
  tl_WalkAdv :: "link_reader \<Rightarrow> string \<Rightarrow> string \<Rightarrow> visit list \<times> go_error option"

text \<open>\<open>StorageReadOpener\<close>: links are CIDs, and their blocks come from the DAG service.\<close>

definition storageRead :: "(cid \<Rightarrow> go_error + bytes) \<Rightarrow> link_reader" where
  "storageRead dsGet lnk =
     (case lnk of
        OtherLink s \<Rightarrow> Inl (Errorf (''unexpected link type '' @ s))
      | CidLink c \<Rightarrow> (case dsGet c of Inl err \<Rightarrow> Inl err | Inr rawData \<Rightarrow> Inr rawData))"

text \<open>The visits in order; an error of the callback ends the walk.\<close>

fun walkVisits :: "(visit \<Rightarrow> 's \<Rightarrow> go_error option \<times> 's) \<Rightarrow> visit list \<Rightarrow> 's \<Rightarrow> go_error option \<times> 's" where
  "walkVisits visitCallback [] s = (None, s)"
| "walkVisits visitCallback (v # vs) s =
     (case visitCallback v s of
        (Some err, s1) \<Rightarrow> (Some err, s1)
      | (None, s1) \<Rightarrow> walkVisits visitCallback vs s1)"

definition TraverseDag ::
  "traversal_library \<Rightarrow> (cid \<Rightarrow> go_error + bytes) \<Rightarrow> cid \<Rightarrow> ipld_node option
     \<Rightarrow> (visit \<Rightarrow> 's \<Rightarrow> go_error option \<times> 's) \<Rightarrow> 's \<Rightarrow> go_error option \<times> 's" where
  "TraverseDag TL dsGet startFrom optionalSelector visitCallback s =
     (let sel = (case optionalSelector of None \<Rightarrow> tl_MatchAllRecursively TL | Some x \<Rightarrow> x) in
      case tl_ParseSelector TL sel of
        Inl err \<Rightarrow> (Some err, s)
      | Inr parsedSelector \<Rightarrow>
          (case tl_Chooser TL (CidLink startFrom) of
             Inl err \<Rightarrow> (Some err, s)
           | Inr startNodePrototype \<Rightarrow>
               (case tl_Load TL (storageRead dsGet) (CidLink startFrom) startNodePrototype of
                  Inl err \<Rightarrow> (Some err, s)
                | Inr startNode \<Rightarrow>
                    (case tl_WalkAdv TL (storageRead dsGet) startNode parsedSelector of
                       (visits, walkErr) \<Rightarrow>
                         (case walkVisits visitCallback visits s of
                            (Some err, s1) \<Rightarrow> (Some err, s1)
                          | (None, s1) \<Rightarrow> (walkErr, s1))))))"

section \<open>The arguments\<close>

text \<open>
  The packages the command calls: text selectors (\<open>rl_SpecRecursive\<close> selects everything below the path,
  \<open>rl_SpecPlain\<close> only its end), URLs, text, files and the retrieval endpoint.
\<close>

record retrieve_library =
  rl_SpecRecursive :: "string \<Rightarrow> go_error + ipld_node"
  rl_SpecPlain :: "string \<Rightarrow> ipld_node"
  rl_QueryEscape :: "string \<Rightarrow> string"
  rl_lowerTrim :: "string \<Rightarrow> string"
  rl_candidates :: "cid \<Rightarrow> go_error + FILRetrievalCandidate list"
  rl_dsGet :: "cid \<Rightarrow> go_error + bytes"
  rl_Create :: "string \<Rightarrow> go_error option"
  rl_WriteCar :: "trace \<Rightarrow> cid \<Rightarrow> go_error option"
  rl_NewUnixfsFile :: "cid \<Rightarrow> go_error + bytes"
  rl_WriteTo :: "bytes \<Rightarrow> string \<Rightarrow> go_error option"

record retrieve_request =
  rr_cidStr :: string
  rr_dmSelText :: string
  rr_miners :: "address list"
  rr_output :: string
  rr_network :: string
  rr_root :: cid
  rr_selNode :: "ipld_node option"

definition outputName :: "retrieve_library \<Rightarrow> string \<Rightarrow> string \<Rightarrow> string \<Rightarrow> string" where
  "outputName R cidStr dmSelText output =
     (if output = [] then
        cidStr @ (if dmSelText \<noteq> [] then ''_'' @ rl_QueryEscape R dmSelText else [])
      else output)"

definition selectorNode :: "retrieve_library \<Rightarrow> string \<Rightarrow> go_error + ipld_node option" where
  "selectorNode R dmSelText =
     (if dmSelText \<noteq> [] then
        (case rl_SpecRecursive R dmSelText of
           Inl err \<Rightarrow> Inl (wrapf (''failed to parse text-selector '' @ [CHR 0x27] @ dmSelText @ [CHR 0x27] @ '': '') err)
         | Inr n \<Rightarrow> Inr (Some n))
      else Inr None)"

definition retrieveRequest ::
  "tool_env \<Rightarrow> retrieve_library \<Rightarrow> cli_context \<Rightarrow> go_error + retrieve_request" where
  "retrieveRequest T R c =
     (let cidStr = args_First c;
          dmSelText = cctx_String c ''datamodel-path-selector''
      in if cidStr = [] then Inl (Errorf ''please specify a CID to retrieve'')
         else (case parseMiners (te_parse T) c of
           Inl err \<Rightarrow> Inl err
         | Inr miners \<Rightarrow>
             (case parseOutput (te_parse T) c of
                Inl err \<Rightarrow> Inl err
              | Inr output \<Rightarrow>
                  let output' = outputName R cidStr dmSelText output;
                      network = rl_lowerTrim R (cctx_String c ''network'')
                  in (case de_cidDecode (te_disk T) cidStr of
                        Inl err \<Rightarrow> Inl err
                      | Inr root \<Rightarrow>
                          (case selectorNode R dmSelText of
                             Inl err \<Rightarrow> Inl err
                           | Inr selNode \<Rightarrow>
                               Inr \<lparr>rr_cidStr = cidStr, rr_dmSelText = dmSelText, rr_miners = miners,
                                    rr_output = output', rr_network = network, rr_root = root,
                                    rr_selNode = selNode\<rparr>)))))"

section \<open>The sub-root\<close>

text \<open>
  The callback: its state is the CID to save and whether a selected node was met.
\<close>

definition visitMatch :: "visit \<Rightarrow> cid \<times> bool \<Rightarrow> go_error option \<times> cid \<times> bool" where
  "visitMatch p s =
     (if vi_Match p then
        (if vi_LastBlockPath p \<noteq> vi_Path p then
           (Some (Errorf (''unsupported selection path '' @ [CHR 0x27] @ vi_Path p @ [CHR 0x27]
              @ '' does not correspond to a node boundary (a.k.a. CID link)'')), s)
         else (case vi_LastBlockLink p of
                 OtherLink l \<Rightarrow> (Some (Errorf (''cidlink cast unexpectedly failed on '' @ [CHR 0x27] @ l @ [CHR 0x27])), s)
               | CidLink c \<Rightarrow> (None, (c, True))))
      else (None, s))"

definition locateSubRoot ::
  "library \<Rightarrow> traversal_library \<Rightarrow> retrieve_library \<Rightarrow> string \<Rightarrow> cid \<Rightarrow> go_error + cid" where
  "locateSubRoot L TL R dmSelText c =
     (if dmSelText \<noteq> [] then
        (case TraverseDag TL (rl_dsGet R) c (Some (rl_SpecPlain R dmSelText)) visitMatch (c, False) of
           (Some err, s) \<Rightarrow> Inl (wrapf ''error while locating partial retrieval sub-root: '' err)
         | (None, (c', subRootFound)) \<Rightarrow>
             if \<not> subRootFound then
               Inl (Errorf (''path selection '' @ [CHR 0x27] @ dmSelText @ [CHR 0x27]
                 @ '' does not match a node within '' @ lib_cidString L c'))
             else Inr c')
      else Inr c)"

section \<open>The output\<close>

text \<open>The error of \<open>WriteCar\<close> is not looked at.\<close>

definition saveOutput :: "retrieve_library \<Rightarrow> bool \<Rightarrow> string \<Rightarrow> cid \<Rightarrow> ('w world_scheme, go_error + unit) state" where
  "saveOutput R car output c =
     (case rl_dsGet R c of
        Inl err \<Rightarrow> ret (Inl err)
      | Inr dnode \<Rightarrow>
          if car then
            bindE (ret (ofErr (rl_Create R (output @ ''.car'')))) (\<lambda>_. do {
              written \<leftarrow> perform (\<lambda>t. rl_WriteCar R t c) (\<lambda>_. Printf ''car.WriteCar'' [c]);
              emit (Printf ''Saved .car output to'' [output @ ''.car'']);
              ret (Inr ()) })
          else
            bindE (ret (rl_NewUnixfsFile R c)) (\<lambda>ufsFile.
            bindE (ret (ofErr (rl_WriteTo R ufsFile output))) (\<lambda>_. do {
              emit (Printf ''Saved output to'' [output]);
              ret (Inr ()) })))"

section \<open>The command\<close>

definition runAttempts ::
  "ipfs_env \<Rightarrow> fil_env \<Rightarrow> query_label list \<Rightarrow> label list list \<Rightarrow> attempt list
     \<Rightarrow> ('w world_scheme, (go_error + tool_stats) option) state" where
  "runAttempts I E qsched scheds attempts = State (\<lambda>s.
     case RetrieveFromBestCandidate (attemptRetrieve I E qsched scheds) attempts \<lparr>w_trace = w_trace s\<rparr> of
       None \<Rightarrow> (None, s)
     | Some (r, w) \<Rightarrow> (Some r, s\<lparr>w_trace := w_trace w\<rparr>))"

definition prepareRetrieval ::
  "tool_env \<Rightarrow> retrieve_library \<Rightarrow> retrieve_request \<Rightarrow> ('w tool_state_scheme, go_error + new_client \<times> attempt list) state" where
  "prepareRetrieval T R rq =
     bindE (nodeSetup T) (\<lambda>_.
     bindE (clientFromNode T) (\<lambda>nc.
     bindE (ret (chooseCandidates (rl_candidates R) (rr_miners rq) (rr_root rq))) (\<lambda>candidates.
     bindE (ret (networkAttempts (rr_network rq) (rr_selNode rq) (rr_root rq) candidates)) (\<lambda>networks.
     ret (Inr (nc, networks))))))"

text \<open>\<open>qsched\<close> and \<open>scheds\<close> are those of theory \<open>FilcRetrieval\<close>; \<open>None\<close> is a retrieval that has not returned.\<close>

definition retrieveFileCmd ::
  "tool_env \<Rightarrow> retrieve_library \<Rightarrow> traversal_library \<Rightarrow> ipfs_env \<Rightarrow> fil_env \<Rightarrow> query_label list
     \<Rightarrow> label list list \<Rightarrow> cli_context \<Rightarrow> ('w tool_state_scheme, (go_error + unit) option) state" where
  "retrieveFileCmd T R TL I E qsched scheds c =
     (case retrieveRequest T R c of
        Inl err \<Rightarrow> ret (Some (Inl err))
      | Inr rq \<Rightarrow> do {
          p \<leftarrow> prepareRetrieval T R rq;
          case p of
            Inl err \<Rightarrow> ret (Some (Inl err))
          | Inr (nc, networks) \<Rightarrow> do {
              st \<leftarrow> runAttempts I (E\<lparr>fe_client := nc_client nc\<rparr>) qsched scheds networks;
              case st of
                None \<Rightarrow> ret None
              | Some (Inl err) \<Rightarrow> ret (Some (Inl err))
              | Some (Inr stats) \<Rightarrow> do {
                  printRetrievalStats (te_library T) (te_print T) stats;
                  case locateSubRoot (te_library T) TL R (rr_dmSelText rq) (rr_root rq) of
                    Inl err \<Rightarrow> ret (Some (Inl err))
                  | Inr root \<Rightarrow> do {
                      r \<leftarrow> saveOutput R (cctx_Bool c ''car'') (rr_output rq) root;
                      ret (Some r)
                    }
                }
            }
        })"

section \<open>Properties\<close>

lemma visitMatch_ok:
  "visitMatch v s = (None, s') \<Longrightarrow>
     (\<not> vi_Match v \<and> s' = s) \<or> (vi_Match v \<and> vi_LastBlockPath v = vi_Path v \<and> (\<exists>c. vi_LastBlockLink v = CidLink c \<and> s' = (c, True)))"
  by (auto simp: visitMatch_def split: if_splits link.splits)

text \<open>The selected nodes of a walk that ended without error.\<close>

lemma walkVisits_ok:
  assumes "walkVisits visitMatch vs s = (None, (c, found))"
  shows "(\<forall>v \<in> set vs. vi_Match v \<longrightarrow> vi_LastBlockPath v = vi_Path v)
    \<and> (if filter vi_Match vs = [] then (c, found) = s
       else found \<and> vi_LastBlockLink (last (filter vi_Match vs)) = CidLink c)"
  using assms
proof (induction vs arbitrary: s)
  case Nil
  then show ?case by simp
next
  case (Cons v vs)
  from Cons.prems obtain s1 where s1: "visitMatch v s = (None, s1)" "walkVisits visitMatch vs s1 = (None, (c, found))"
    by (auto split: prod.splits option.splits)
  with Cons.IH [OF s1(2)] visitMatch_ok [OF s1(1)] show ?case by (auto split: if_splits)
qed


text \<open>
  A retrieval with a selector never goes to IPFS, which would fetch the whole DAG: every attempt is
  one over Filecoin, with this selector.
\<close>

theorem selector_skips_ipfs:
  assumes "retrieveRequest T R c = Inr rq" and "cctx_String c ''datamodel-path-selector'' \<noteq> []"
    and "rl_SpecRecursive R (cctx_String c ''datamodel-path-selector'') \<noteq> Inr NullNode"
    and "run_state (prepareRetrieval T R rq) s = (Inr (nc, networks), s')"
  shows "\<exists>f. networks = [FILAttempt f] \<and> at_SelNode f = rr_selNode rq \<and> at_SelNode f \<noteq> None"
proof -
  have sel: "\<exists>n. rr_selNode rq = Some n \<and> n \<noteq> NullNode"
    using assms(1-3)
    by (auto simp: retrieveRequest_def selectorNode_def Let_def split: sum.splits if_splits)
  from assms(4) obtain cs where "networkAttempts (rr_network rq) (rr_selNode rq) (rr_root rq) cs = Inr networks"
    by (auto simp: prepareRetrieval_def run_bindE split: sum.splits prod.splits)
  with sel show ?thesis by (auto simp: networkAttempts_def network_names Let_def split: if_splits)
qed

text \<open>A CAR file that could not be written is reported as saved.\<close>

lemma car_error_unnoticed:
  assumes "rl_dsGet R c = Inr d" and "rl_Create R (output @ ''.car'') = None"
    and "rl_WriteCar R (w_trace w) c = Some err"
  shows "run_state (saveOutput R True output c) w =
    (Inr (), w\<lparr>w_trace := w_trace w @ [Printf ''car.WriteCar'' [c], Printf ''Saved .car output to'' [output @ ''.car'']]\<rparr>)"
  using assms by (simp add: saveOutput_def ofErr_def run_simps)

section \<open>A sample\<close>

definition sampleVisit :: "string \<Rightarrow> cid \<Rightarrow> visit" where
  "sampleVisit path c = \<lparr>vi_LastBlockPath = path, vi_LastBlockLink = CidLink c, vi_Path = path, vi_Match = (path = ''Links/0/Hash'')\<rparr>"

definition sampleTraversal :: traversal_library where
  "sampleTraversal = \<lparr>tl_MatchAllRecursively = SelectorNode ''all'', tl_ParseSelector = (\<lambda>n. Inr ''parsed''),
     tl_Chooser = (\<lambda>_. Inr ''dagpb''), tl_Load = (\<lambda>rd l p. rd l),
     tl_WalkAdv = (\<lambda>_ _ _. ([sampleVisit [] ''bafyroot'', sampleVisit ''Links/0/Hash'' ''bafychild''], None))\<rparr>"

definition sampleRetrieveLibrary :: retrieve_library where
  "sampleRetrieveLibrary = \<lparr>rl_SpecRecursive = (\<lambda>s. Inr (SelectorNode s)), rl_SpecPlain = SelectorNode,
     rl_QueryEscape = (\<lambda>s. s), rl_lowerTrim = (\<lambda>s. s), rl_candidates = (\<lambda>_. Inr []), rl_dsGet = (\<lambda>c. Inr c),
     rl_Create = (\<lambda>_. None), rl_WriteCar = (\<lambda>_ _. None), rl_NewUnixfsFile = (\<lambda>c. Inr c), rl_WriteTo = (\<lambda>_ _. None)\<rparr>"

definition sampleRetrieveCli :: cli_context where
  "sampleRetrieveCli = \<lparr>cli_declared = declared retrieveFlags,
     cli_strings = (\<lambda>f. if f = ''network'' then ''auto'' else if f = ''output'' then [] else ''Links/0/Hash''),
     cli_slices = (\<lambda>_. [''f01000'']), cli_bools = (\<lambda>_. False), cli_args = [''bafyroot'']\<rparr>"


theorem selector_skips_ipfs_witness:
  "\<exists>rq f. retrieveRequest sampleTool sampleRetrieveLibrary sampleRetrieveCli = Inr rq \<and> rr_network rq = ''auto''
     \<and> map_sum id snd (fst (run_state (prepareRetrieval sampleTool sampleRetrieveLibrary rq) sampleToolState)) = Inr [FILAttempt f]"
proof -
  obtain rq where rq: "retrieveRequest sampleTool sampleRetrieveLibrary sampleRetrieveCli = Inr rq" "rr_network rq = ''auto''"
    "rr_miners rq = [''f01000'']" "rr_selNode rq = Some (SelectorNode ''Links/0/Hash'')"
    by (simp add: retrieveRequest_def selectorNode_def parseMiners_def parseOneMiner_def parseOutput_def cctx_StringSlice_def
        cctx_String_def args_First_def sampleTool_def sampleParse_def sampleDiskEnv_def sampleRetrieveLibrary_def
        sampleRetrieveCli_def declared_names Let_def)
  have sel: "cctx_String sampleRetrieveCli ''datamodel-path-selector'' = ''Links/0/Hash''"
    by (simp add: cctx_String_def sampleRetrieveCli_def declared_names)
  obtain nc networks s' where
    run: "run_state (prepareRetrieval sampleTool sampleRetrieveLibrary rq) sampleToolState = (Inr (nc, networks), s')"
    using rq(2-4) by (simp add: prepareRetrieval_def chooseCandidates_def networkAttempts_def network_names prepare_defs sample_tool_defs Let_def)
  have "cctx_String sampleRetrieveCli ''datamodel-path-selector'' \<noteq> []"
    "rl_SpecRecursive sampleRetrieveLibrary (cctx_String sampleRetrieveCli ''datamodel-path-selector'') \<noteq> Inr NullNode"
    by (simp_all add: sel sampleRetrieveLibrary_def)
  from selector_skips_ipfs [OF rq(1) this run] obtain f where "networks = [FILAttempt f]" by blast
  with rq run show ?thesis by auto
qed

end
