(* ===== verification/FilcMain.thy ===== *)
theory FilcMain
  imports FilcRetrieveCmd FilcRetrievalProps
begin

text \<open>
  The entry point of the command line (\<open>filc/main.go\<close>): the table of commands with their flags and
  actions, the environment, the configuration directory, and how the process ends.  Parsing the arguments is the
  business of \<open>urfave/cli\<close>: it is a function that decides which command runs with which context.
\<close>

section \<open>The commands\<close>

type_synonym action = "cli_context \<Rightarrow> (tool_state, (go_error + unit) option) state"

record command =
  cmd_Name :: string
  cmd_Usage :: string
  cmd_Description :: string
  cmd_ArgsUsage :: string
  cmd_Flags :: "cli_flag list"
  cmd_Action :: action

text \<open>
  What the actions work with: the packages, the files, the choices of the environment for the transition
  systems (\<open>me_v120steps\<close>, \<open>me_qsched\<close>, \<open>me_scheds\<close>), the bound on polls, the names in the directory of the deals, and the
  loggers.  The packages may depend on the environment variables; \<open>None\<close> is a command that has not returned.
\<close>

type_synonym environ = "string \<rightharpoonup> string"

record main_env =
  me_tool :: "environ \<Rightarrow> tool_env"
  me_files :: deal_files
  me_v120 :: v120_library
  me_fuel :: nat
  me_v120steps :: "v120_label list"
  me_retrieve :: retrieve_library
  me_traversal :: traversal_library
  me_ipfs :: ipfs_env
  me_fil :: fil_env
  me_qsched :: "query_label list"
  me_scheds :: "label list list"
  me_dht :: dht_library
  me_dirNames :: "string list"
  me_loggers :: "string list"
  me_home :: "go_error + string"
  me_mkdir :: "string \<Rightarrow> go_error option"

definition returning :: "('s, 'r) state \<Rightarrow> ('s, 'r option) state" where
  "returning m = do { r \<leftarrow> m; ret (Some r) }"

fun printLines :: "string list \<Rightarrow> ('w world_scheme, unit) state" where
  "printLines [] = ret ()"
| "printLines (l # ls) = do { emit (Printf ''%s'' [l]); printLines ls }"

definition printLoggersCmd :: "main_env \<Rightarrow> command" where
  "printLoggersCmd M = \<lparr>cmd_Name = ''print-loggers'',
     cmd_Usage = ''Display loggers present in the program to help configure log levels'',
     cmd_Description = [], cmd_ArgsUsage = [], cmd_Flags = [],
     cmd_Action = (\<lambda>c. returning (do { printLines (me_loggers M); ret (Inr ()) }))\<rparr>"

definition makeDealCommand :: "main_env \<Rightarrow> tool_env \<Rightarrow> command" where
  "makeDealCommand M T = \<lparr>cmd_Name = ''deal'', cmd_Usage = ''Make a storage deal with a miner'',
     cmd_Description = [], cmd_ArgsUsage = ''<file path>'', cmd_Flags = dealFlags,
     cmd_Action = makeDealCmd (me_v120 M) T (me_files M) (me_fuel M) (me_v120steps M)\<rparr>"

definition dealStatusCommand :: "tool_env \<Rightarrow> command" where
  "dealStatusCommand T = \<lparr>cmd_Name = ''deal-status'', cmd_Usage = ''Get on-chain deal status'',
     cmd_Description = [], cmd_ArgsUsage = ''<proposal cid>'', cmd_Flags = dealStatusFlags,
     cmd_Action = (\<lambda>c. returning (dealStatusCmd T c))\<rparr>"

definition getAskCommand :: "tool_env \<Rightarrow> command" where
  "getAskCommand T = \<lparr>cmd_Name = ''get-ask'', cmd_Usage = ''Query storage deal ask for a miner'',
     cmd_Description = [], cmd_ArgsUsage = ''<miner>'', cmd_Flags = [],
     cmd_Action = (\<lambda>c. returning (getAskCmd T c))\<rparr>"

definition infoCommand :: "tool_env \<Rightarrow> command" where
  "infoCommand T = \<lparr>cmd_Name = ''info'', cmd_Usage = ''Display wallet information'',
     cmd_Description = [], cmd_ArgsUsage = '' '', cmd_Flags = [],
     cmd_Action = (\<lambda>c. returning (infoCmd T))\<rparr>"

definition listDealsCommand :: "main_env \<Rightarrow> tool_env \<Rightarrow> command" where
  "listDealsCommand M T = \<lparr>cmd_Name = ''list'', cmd_Usage = ''List local storage deal history'',
     cmd_Description = [], cmd_ArgsUsage = '' '', cmd_Flags = [],
     cmd_Action = (\<lambda>c. returning (listDealsCmd T (me_dirNames M)))\<rparr>"

definition retrieveFileCommand :: "main_env \<Rightarrow> tool_env \<Rightarrow> command" where
  "retrieveFileCommand M T = \<lparr>cmd_Name = ''retrieve'', cmd_Usage = ''Retrieve a file by CID from a miner'',
     cmd_Description = ''Retrieve a file by CID from a miner. If desired, multiple miners can be specified as fallbacks in case of a failure (comma-separated, no spaces).'',
     cmd_ArgsUsage = ''<cid>'', cmd_Flags = retrieveFlags,
     cmd_Action = retrieveFileCmd T (me_retrieve M) (me_traversal M) (me_ipfs M) (me_fil M) (me_qsched M) (me_scheds M)\<rparr>"

definition queryRetrievalCommand :: "main_env \<Rightarrow> tool_env \<Rightarrow> command" where
  "queryRetrievalCommand M T = \<lparr>cmd_Name = ''query-retrieval'',
     cmd_Usage = ''Query retrieval information for a CID'',
     cmd_Description = [], cmd_ArgsUsage = ''<cid>'', cmd_Flags = queryRetrievalFlags,
     cmd_Action = (\<lambda>c. returning (queryRetrievalCmd T (me_dht M) c))\<rparr>"

definition clearBlockstoreCommand :: "tool_env \<Rightarrow> command" where
  "clearBlockstoreCommand T = \<lparr>cmd_Name = ''clear-blockstore'',
     cmd_Usage = ''Delete all retrieved file data in the blockstore'',
     cmd_Description = [], cmd_ArgsUsage = '' '', cmd_Flags = [],
     cmd_Action = (\<lambda>c. returning (clearBlockstoreCmd T))\<rparr>"

definition filcCommands :: "main_env \<Rightarrow> tool_env \<Rightarrow> command list" where
  "filcCommands M T = [printLoggersCmd M, makeDealCommand M T, dealStatusCommand T, getAskCommand T,
     infoCommand T, listDealsCommand M T, retrieveFileCommand M T, queryRetrievalCommand M T, clearBlockstoreCommand T]"

section \<open>The application\<close>

text \<open>Metadata holds values of any type, of which only strings matter here.\<close>

datatype meta_value = MetaString string | MetaOther

record cli_app =
  app_Commands :: "command list"
  app_Flags :: "cli_flag list"
  app_Metadata :: "string \<rightharpoonup> meta_value"

definition ddir :: "(string \<rightharpoonup> meta_value) \<Rightarrow> go_error + string" where
  "ddir metadata =
     (case metadata ''ddir'' of
        Some (MetaString d) \<Rightarrow> Inr d
      | _ \<Rightarrow> Inl (Panic ''ddir should be present in CLI metadata''))"

text \<open>The actions read the directory from the metadata.\<close>

definition filcApp :: "main_env \<Rightarrow> environ \<Rightarrow> string \<Rightarrow> cli_app" where
  "filcApp M env d =
     (let metadata = [''ddir'' \<mapsto> MetaString d];
          T = (me_tool M env)\<lparr>te_ddir := (case ddir metadata of Inl err \<Rightarrow> [] | Inr d' \<Rightarrow> d')\<rparr>
      in \<lparr>app_Commands = filcCommands M T, app_Flags = appFlags, app_Metadata = metadata\<rparr>)"

text \<open>
  What the flag package makes of the arguments: an error of their form, a help text, or a command with
  its context.
\<close>

datatype dispatch = UsageError go_error | HelpShown | Dispatch string cli_context

type_synonym cli_library = "cli_app \<Rightarrow> string list \<Rightarrow> dispatch"

text \<open>The package dispatches names of the table only; for another name nothing would run.\<close>

definition commandNamed :: "command list \<Rightarrow> string \<Rightarrow> command option" where
  "commandNamed cmds name = find (\<lambda>cmd. cmd_Name cmd = name) cmds"

definition app_Run :: "cli_library \<Rightarrow> cli_app \<Rightarrow> string list \<Rightarrow> (tool_state, (go_error + unit) option) state" where
  "app_Run D app args =
     (case D app args of
        UsageError err \<Rightarrow> ret (Some (Inl err))
      | HelpShown \<Rightarrow> ret (Some (Inr ()))
      | Dispatch name c \<Rightarrow>
          (case commandNamed (app_Commands app) name of
             None \<Rightarrow> ret (Some (Inr ()))
           | Some cmd \<Rightarrow> cmd_Action cmd c))"

section \<open>The process\<close>

definition init_env :: "environ \<Rightarrow> environ" where
  "init_env env =
     (let info = (case env ''FULLNODE_API_INFO'' of None \<Rightarrow> [] | Some v \<Rightarrow> v)
      in if info = [] then env(''FULLNODE_API_INFO'' \<mapsto> ''wss://api.chain.love'') else env)"

text \<open>\<open>os.MkdirAll\<close> fails for the empty path, whatever the file system.\<close>

definition os_MkdirAll :: "(string \<Rightarrow> go_error option) \<Rightarrow> string \<Rightarrow> go_error option" where
  "os_MkdirAll mkdir path = (if path = [] then Some NotExist else mkdir path)"

text \<open>The end of the process: by \<open>os.Exit\<close> or the return of \<open>main\<close>, or by a panic or \<open>log.Fatal\<close>.\<close>

datatype process_end = Exited int | Died go_error

definition main_exit :: "(go_error + unit) option \<Rightarrow> (tool_state, process_end option) state" where
  "main_exit r =
     (case r of
        None \<Rightarrow> ret None
      | Some (Inr _) \<Rightarrow> ret (Some (Exited 0))
      | Some (Inl err) \<Rightarrow>
          if isPanic err then ret (Some (Died err))
          else do { emit (Printf [] [errorText err]); ret (Some (Exited 1)) })"

definition filcMain :: "cli_library \<Rightarrow> main_env \<Rightarrow> environ \<Rightarrow> string list \<Rightarrow> (tool_state, process_end option) state" where
  "filcMain D M env args = do {
     let env' = init_env env;
     d \<leftarrow> (case me_home M of
        Inl err \<Rightarrow> do { emit (Printf ''could not set config dir: '' [errorText err]); ret [] }
      | Inr d \<Rightarrow> ret d);
     let app = filcApp M env' d;
     case os_MkdirAll (me_mkdir M) d of
       Some err \<Rightarrow> do {
         emit (Printf ''could not create config directory: '' [errorText err]);
         ret (Some (Exited 1))
       }
     | None \<Rightarrow> do {
         r \<leftarrow> app_Run D app args;
         main_exit r
       }
   }"

section \<open>The table of commands\<close>

lemmas command_defs =
  printLoggersCmd_def makeDealCommand_def dealStatusCommand_def getAskCommand_def infoCommand_def
  listDealsCommand_def retrieveFileCommand_def queryRetrievalCommand_def clearBlockstoreCommand_def

lemma command_names:
  "map cmd_Name (filcCommands M T) = [''print-loggers'', ''deal'', ''deal-status'', ''get-ask'', ''info'', ''list'',
     ''retrieve'', ''query-retrieval'', ''clear-blockstore'']"
  by (simp add: filcCommands_def command_defs)

text \<open>A look-up in a table without duplicates finds every entry.\<close>

lemma commandNamed_distinct:
  "distinct (map cmd_Name cmds) \<Longrightarrow> cmd \<in> set cmds \<Longrightarrow> commandNamed cmds (cmd_Name cmd) = Some cmd"
  by (induction cmds) (auto simp: commandNamed_def)

text \<open>
  Every command is found under its name, and no two flags that a command can be given share a name
  or an alias: the two ways to name miners, of which one has the name of the other as an alias, never meet in one
  command.
\<close>

theorem command_table:
  "distinct (map cmd_Name (filcCommands M T))
   \<and> list_all (\<lambda>cmd. commandNamed (filcCommands M T) (cmd_Name cmd) = Some cmd
       \<and> distinct (declared (cmd_Flags cmd))) (filcCommands M T)"
proof
  show d: "distinct (map cmd_Name (filcCommands M T))" unfolding command_names by simp
  have "list_all (\<lambda>cmd. distinct (declared (cmd_Flags cmd))) (filcCommands M T)"
    unfolding filcCommands_def command_defs list.pred_inject command.simps declared_names
    by (simp add: declared_def flagNames_def appFlags_def flagNamed_def)
  then show "list_all (\<lambda>cmd. commandNamed (filcCommands M T) (cmd_Name cmd) = Some cmd
       \<and> distinct (declared (cmd_Flags cmd))) (filcCommands M T)"
    using commandNamed_distinct [OF d] by (simp add: list_all_iff)
qed

section \<open>How the process ends\<close>

lemma ddir_filcApp: "ddir (app_Metadata (filcApp M env d)) = Inr d"
  by (simp add: filcApp_def ddir_def Let_def)

lemma filcApp_commands:
  "app_Commands (filcApp M env d) = filcCommands M ((me_tool M env)\<lparr>te_ddir := d\<rparr>)"
  by (simp add: filcApp_def ddir_def Let_def)

lemma init_env_set: "\<exists>v. init_env env ''FULLNODE_API_INFO'' = Some v \<and> v \<noteq> []
    \<and> (env ''FULLNODE_API_INFO'' \<noteq> None \<and> env ''FULLNODE_API_INFO'' \<noteq> Some [] \<longrightarrow> init_env env = env)"
  by (auto simp: init_env_def Let_def split: option.splits)

lemma filcMain_zero:
  "(run_state (filcMain D M env args) s = (Some (Exited 0), s'))
   = (\<exists>d. me_home M = Inr d \<and> d \<noteq> [] \<and> me_mkdir M d = None
    \<and> run_state (app_Run D (filcApp M (init_env env) d) args) s = (Some (Inr ()), s'))"
proof
  show "run_state (filcMain D M env args) s = (Some (Exited 0), s') \<Longrightarrow>
      \<exists>d. me_home M = Inr d \<and> d \<noteq> [] \<and> me_mkdir M d = None
    \<and> run_state (app_Run D (filcApp M (init_env env) d) args) s = (Some (Inr ()), s')"
    by (auto simp: filcMain_def main_exit_def os_MkdirAll_def run_simps Let_def
        split: sum.splits option.splits prod.splits if_splits)
qed (auto simp: filcMain_def main_exit_def os_MkdirAll_def Let_def)

text \<open>
  The exit status is 0 only when the configuration directory is known and exists and the
  command returned no error; then nothing has been done besides the command.
\<close>

theorem main_exit_zero:
  "(run_state (filcMain D M env args) s = (Some (Exited 0), s'))
   = (\<exists>d. me_home M = Inr d \<and> d \<noteq> [] \<and> me_mkdir M d = None
    \<and> run_state (app_Run D (filcApp M (init_env env) d) args) s = (Some (Inr ()), s'))"
  by (rule filcMain_zero)

text \<open>
  Without a home directory the error is printed and the start goes on with the empty path, so no
  command runs: the directory cannot be made, and the status is 1.
\<close>

theorem main_without_home:
  assumes "me_home M = Inl err"
  shows "run_state (filcMain D M env args) s = (Some (Exited 1), s\<lparr>w_trace := w_trace s @
    [Printf ''could not set config dir: '' [errorText err],
     Printf ''could not create config directory: '' [errorText NotExist]]\<rparr>)"
  using assms by (simp add: filcMain_def os_MkdirAll_def run_simps Let_def)

lemma makeDealCmd_ok:
  assumes "run_state (makeDealCmd V T F fuel labels c) s = (Some (Inr ()), s' :: tool_state)"
  shows "\<exists>nc m np pc obj s1. run_state (prepareDeal T F c) s = (Inr (nc, m, np, pc, obj), s1)
    \<and> run_state (sendDeal V T fuel labels c nc m np pc obj) s1 = (Some (Inr ()), s')"
proof -
  obtain r s1 where p: "run_state (prepareDeal T F c) s = (r, s1)" by fastforce
  show ?thesis
  proof (cases r)
    case (Inl e)
    with assms p show ?thesis by (simp add: makeDealCmd_def)
  next
    case (Inr x)
    obtain nc m np pc obj where x: "x = (nc, m, np, pc, obj)" by (metis prod.exhaust)
    with assms p Inr show ?thesis by (auto simp: makeDealCmd_def)
  qed
qed

text \<open>
  C18: \<open>filc deal\<close> exits with status 0 only when a proposal was made, when it is on disk in the configuration
  directory under its CID at that moment, and when the protocol of the provider carried it through
  without an error.
\<close>

theorem deal_exit_zero:
  assumes "run_state (filcMain D M env args) s = (Some (Exited 0), s')"
    and "\<forall>d. D (filcApp M (init_env env) d) args = Dispatch ''deal'' c"
  shows "\<exists>d T nc m np pc obj s1 data. me_home M = Inr d \<and> T = (me_tool M (init_env env))\<lparr>te_ddir := d\<rparr>
    \<and> run_state (prepareDeal T (me_files M) c) s = (Inr (nc, m, np, pc, obj), s1)
    \<and> run_state (sendDeal (me_v120 M) T (me_fuel M) (me_v120steps M) c nc m np pc obj) s1 = (Some (Inr ()), s')
    \<and> de_encode (te_disk T) (np_DealProposal np) = Inr data
    \<and> dealFiles (t_dir s') (de_cidString (te_disk T) pc) = Some data"
proof -
  from assms(1) filcMain_zero obtain d where home: "me_home M = Inr d"
    and run: "run_state (app_Run D (filcApp M (init_env env) d) args) s = (Some (Inr ()), s')" by metis
  let ?T = "(me_tool M (init_env env))\<lparr>te_ddir := d\<rparr>"
  have "commandNamed (app_Commands (filcApp M (init_env env) d)) ''deal'' = Some (makeDealCommand M ?T)"
    unfolding filcApp_commands by (simp add: filcCommands_def commandNamed_def command_defs)
  with run assms(2) have "run_state (makeDealCmd (me_v120 M) ?T (me_files M) (me_fuel M) (me_v120steps M) c) s
      = (Some (Inr ()), s')"
    by (simp add: app_Run_def makeDealCommand_def)
  from makeDealCmd_ok [OF this] obtain nc m np pc obj s1
    where prep: "run_state (prepareDeal ?T (me_files M) c) s = (Inr (nc, m, np, pc, obj), s1)"
    and send: "run_state (sendDeal (me_v120 M) ?T (me_fuel M) (me_v120steps M) c nc m np pc obj) s1 = (Some (Inr ()), s')"
    by blast
  from prepareDeal_saved [OF prep] obtain d1
    where saved: "saveDealProposal (te_disk ?T) pc (np_DealProposal np) d1 = (Inr (), t_dir s1)" by blast
  from saveDealProposal_ok [OF saved] obtain data where data: "de_encode (te_disk ?T) (np_DealProposal np) = Inr data"
    "t_dir s1 = d1\<lparr>cd_deals := Some ((dealFiles d1)(de_cidString (te_disk ?T) pc \<mapsto> data))\<rparr>" by blast
  have "t_dir s' = t_dir s1"
    using sendsOnly_sendDeal [of "\<lambda>_. True" np] send unfolding sendsOnly_def by (metis snd_conv)
  with data have "dealFiles (t_dir s') (de_cidString (te_disk ?T) pc) = Some data" by (simp add: dealFiles_def)
  with home prep send data(1) show ?thesis by blast
qed

section \<open>A retrieval from the command line\<close>

text \<open>What was retrieved by one of the attempts: from a candidate, or from IPFS.\<close>

definition fetchedBy :: "ipfs_env \<Rightarrow> fil_env \<Rightarrow> attempt \<Rightarrow> bool" where
  "fetchedBy I E a =
     (case a of
        IPFSAttempt c \<Rightarrow> ipfsReady (ie_Providers I c) \<and> list_all (\<lambda>b. isOk (ie_Get I b)) (fst (ie_Walk I c))
      | FILAttempt f \<Rightarrow> (\<exists>cand \<in> set (at_Candidates f). \<exists>t. blockstoreHas (fe_client E) t (cand_RootCid cand) = Inr True))"

lemma attemptRetrieve_success:
  assumes "attemptRetrieve I E qsched scheds a w = Some (Inr stats, w')" and "\<forall>qs. set (fe_quick E qs) = set qs"
  shows "fetchedBy I E a"
proof (cases a)
  case (IPFSAttempt c)
  with assms(1) obtain st progress where "ipfsRetrieve I c = Some (Inr st, progress)"
    by (auto simp: attemptRetrieve_def map_sum_def split: option.splits sum.splits)
  from ipfsRetrieve_success [OF this] IPFSAttempt show ?thesis by (simp add: fetchedBy_def list_all_iff)
next
  case (FILAttempt f)
  with assms(1) obtain st w1 where "filRetrieve E f qsched scheds w = Some (Inr st, w1)"
    by (auto simp: attemptRetrieve_def map_sum_def split: option.splits sum.splits)
  from filRetrieve_success [OF this assms(2)] FILAttempt show ?thesis by (auto simp: fetchedBy_def)
qed

lemma retrieveFileCmd_ok:
  assumes "run_state (retrieveFileCmd T R TL I E qsched scheds c) s = (Some (Inr ()), s' :: tool_state)"
  shows "\<exists>rq nc networks s1 s2 stats w root. retrieveRequest T R c = Inr rq
    \<and> run_state (prepareRetrieval T R rq) s = (Inr (nc, networks), s1)
    \<and> RetrieveFromBestCandidate (attemptRetrieve I (E\<lparr>fe_client := nc_client nc\<rparr>) qsched scheds) networks
        \<lparr>w_trace = w_trace s1\<rparr> = Some (Inr stats, w)
    \<and> locateSubRoot (te_library T) TL R (rr_dmSelText rq) (rr_root rq) = Inr root
    \<and> run_state (saveOutput R (cctx_Bool c ''car'') (rr_output rq) root) s2 = (Inr (), s')"
proof -
  from assms obtain rq where rq: "retrieveRequest T R c = Inr rq" by (auto simp: retrieveFileCmd_def split: sum.splits)
  obtain p s1 where p: "run_state (prepareRetrieval T R rq) s = (p, s1)" by fastforce
  from assms rq p obtain nc networks where "p = Inr (nc, networks)" by (auto simp: retrieveFileCmd_def split: sum.splits)
  note prep = p [unfolded this]
  let ?best = "RetrieveFromBestCandidate (attemptRetrieve I (E\<lparr>fe_client := nc_client nc\<rparr>) qsched scheds) networks
    \<lparr>w_trace = w_trace s1\<rparr>"
  from assms rq prep obtain stats w where best: "?best = Some (Inr stats, w)"
    by (auto simp: retrieveFileCmd_def runAttempts_def split: option.splits prod.splits sum.splits)
  let ?s2 = "snd (run_state (printRetrievalStats (te_library T) (te_print T) stats) (s1\<lparr>w_trace := w_trace w\<rparr>))"
  from assms rq prep best obtain root where "locateSubRoot (te_library T) TL R (rr_dmSelText rq) (rr_root rq) = Inr root"
    "run_state (saveOutput R (cctx_Bool c ''car'') (rr_output rq) root) ?s2 = (Inr (), s')"
    by (auto simp: retrieveFileCmd_def runAttempts_def split: prod.splits sum.splits)
  with rq prep best show ?thesis by blast
qed

text \<open>
  C19: \<open>filc retrieve\<close> exits with status 0 only when one of its attempts fetched the data, over IPFS
  from a provider with an address or over Filecoin with the root block of a candidate in the blockstore, and when the
  block to be saved could be read.
\<close>

theorem retrieve_exit_zero:
  assumes "run_state (filcMain D M env args) s = (Some (Exited 0), s')"
    and "\<forall>d. D (filcApp M (init_env env) d) args = Dispatch ''retrieve'' c"
    and "\<forall>qs. set (fe_quick (me_fil M) qs) = set qs"
  shows "\<exists>d T rq nc networks s1 a root b. me_home M = Inr d \<and> T = (me_tool M (init_env env))\<lparr>te_ddir := d\<rparr>
    \<and> retrieveRequest T (me_retrieve M) c = Inr rq
    \<and> run_state (prepareRetrieval T (me_retrieve M) rq) s = (Inr (nc, networks), s1)
    \<and> a \<in> set networks \<and> fetchedBy (me_ipfs M) ((me_fil M)\<lparr>fe_client := nc_client nc\<rparr>) a
    \<and> locateSubRoot (te_library T) (me_traversal M) (me_retrieve M) (rr_dmSelText rq) (rr_root rq) = Inr root
    \<and> rl_dsGet (me_retrieve M) root = Inr b"
proof -
  from assms(1) filcMain_zero obtain d where home: "me_home M = Inr d"
    and run: "run_state (app_Run D (filcApp M (init_env env) d) args) s = (Some (Inr ()), s')" by metis
  let ?T = "(me_tool M (init_env env))\<lparr>te_ddir := d\<rparr>"
  have "commandNamed (app_Commands (filcApp M (init_env env) d)) ''retrieve'' = Some (retrieveFileCommand M ?T)"
    unfolding filcApp_commands by (simp add: filcCommands_def commandNamed_def command_defs)
  with run assms(2) have "run_state (retrieveFileCmd ?T (me_retrieve M) (me_traversal M) (me_ipfs M) (me_fil M) (me_qsched M) (me_scheds M) c) s
      = (Some (Inr ()), s')"
    by (simp add: app_Run_def retrieveFileCommand_def)
  from retrieveFileCmd_ok [OF this] obtain rq nc networks s1 s2 stats w root
    where rq: "retrieveRequest ?T (me_retrieve M) c = Inr rq"
    and prep: "run_state (prepareRetrieval ?T (me_retrieve M) rq) s = (Inr (nc, networks), s1)"
    and best: "RetrieveFromBestCandidate (attemptRetrieve (me_ipfs M) ((me_fil M)\<lparr>fe_client := nc_client nc\<rparr>) (me_qsched M) (me_scheds M))
        networks \<lparr>w_trace = w_trace s1\<rparr> = Some (Inr stats, w)"
    and root: "locateSubRoot (te_library ?T) (me_traversal M) (me_retrieve M) (rr_dmSelText rq) (rr_root rq) = Inr root"
    and save: "run_state (saveOutput (me_retrieve M) (cctx_Bool c ''car'') (rr_output rq) root) s2 = (Inr (), s')"
    by blast
  from best_candidate_success [OF best] obtain a v where a: "a \<in> set networks"
    "attemptRetrieve (me_ipfs M) ((me_fil M)\<lparr>fe_client := nc_client nc\<rparr>) (me_qsched M) (me_scheds M) a v = Some (Inr stats, w)"
    by blast
  from attemptRetrieve_success [OF a(2)] assms(3)
  have "fetchedBy (me_ipfs M) ((me_fil M)\<lparr>fe_client := nc_client nc\<rparr>) a" by simp
  moreover from save obtain b where "rl_dsGet (me_retrieve M) root = Inr b"
    by (auto simp: saveOutput_def split: sum.splits)
  ultimately show ?thesis using home rq prep a(1) root by blast
qed

section \<open>A sample\<close>

definition doneTool :: tool_env where
  "doneTool = sampleTool\<lparr>te_setup := (te_setup sampleTool)\<lparr>su_NewDataTransfer := \<lambda>_. Inr
     (sampleDataTransfer\<lparr>d_ChannelState := \<lambda>_ _. Inr (sampleDtChannel\<lparr>dtc_Status := Completed\<rparr>)\<rparr>)\<rparr>\<rparr>"

definition sampleMain :: main_env where
  "sampleMain = \<lparr>me_tool = (\<lambda>_. doneTool), me_files = sampleFiles, me_v120 = sampleV120, me_fuel = 1, me_v120steps = [],
     me_retrieve = sampleRetrieveLibrary, me_traversal = sampleTraversal, me_ipfs = sampleIpfs, me_fil = sampleFilEnv,
     me_qsched = sampleQuerySteps, me_scheds = [sampleLabels],
     me_dht = \<lparr>dh_New = None, dh_FindProviders = (\<lambda>_. Inr [])\<rparr>, me_dirNames = [], me_loggers = [''filc''],
     me_home = Inr ''/home'', me_mkdir = (\<lambda>_. None)\<rparr>"

definition dealArgs :: cli_library where
  "dealArgs app args = Dispatch ''deal'' sampleDealCli"

lemma sample_deal_command:
  "fst (run_state (makeDealCmd sampleV120 (doneTool\<lparr>te_ddir := ''/home''\<rparr>) sampleFiles 1 [] sampleDealCli) sampleToolState)
    = Some (Inr ())"
  by (simp add: makeDealCmd_def sendDeal_def DealProtocolForMiner_def protocol_defs makev110Deal_def SendProposalV110_def
      StartDataTransfer_def checkV110Response_def prepare_defs doneTool_def sample_tool_defs logStatus_def)

theorem main_without_home_witness:
  "run_state (filcMain dealArgs (sampleMain\<lparr>me_home := Inl (Opaque ''no home'')\<rparr>) Map.empty []) sampleToolState
    = (Some (Exited 1), sampleToolState\<lparr>w_trace := [Printf ''could not set config dir: '' [''no home''],
         Printf ''could not create config directory: '' [errorText NotExist]]\<rparr>)"
proof -
  have "me_home (sampleMain\<lparr>me_home := Inl (Opaque ''no home'')\<rparr>) = Inl (Opaque ''no home'')" by simp
  from main_without_home [OF this] show ?thesis by (simp add: sampleToolState_def)
qed

theorem deal_exit_zero_witness:
  "\<exists>s' data. run_state (filcMain dealArgs sampleMain Map.empty [''filc'', ''deal'']) sampleToolState = (Some (Exited 0), s')
    \<and> dealFiles (t_dir s') ''bafyprop'' = Some data"
proof -
  let ?env = "init_env Map.empty"
  have "run_state (app_Run dealArgs (filcApp sampleMain ?env ''/home'') [''filc'', ''deal'']) sampleToolState
    = run_state (makeDealCmd sampleV120 (doneTool\<lparr>te_ddir := ''/home''\<rparr>) sampleFiles 1 [] sampleDealCli) sampleToolState"
    unfolding app_Run_def filcApp_commands
    by (simp add: dealArgs_def filcCommands_def commandNamed_def command_defs sampleMain_def)
  with sample_deal_command obtain s' where
    "run_state (app_Run dealArgs (filcApp sampleMain ?env ''/home'') [''filc'', ''deal'']) sampleToolState = (Some (Inr ()), s')"
    by (metis prod.collapse)
  then have run: "run_state (filcMain dealArgs sampleMain Map.empty [''filc'', ''deal'']) sampleToolState = (Some (Exited 0), s')"
    unfolding filcMain_zero by (simp add: sampleMain_def)
  have d: "\<forall>d. dealArgs (filcApp sampleMain ?env d) [''filc'', ''deal''] = Dispatch ''deal'' sampleDealCli"
    by (simp add: dealArgs_def)
  from deal_exit_zero [OF run d] obtain T nc m np pc obj s1 data where
    p: "T = (me_tool sampleMain ?env)\<lparr>te_ddir := ''/home''\<rparr>"
      "run_state (prepareDeal T (me_files sampleMain) sampleDealCli) sampleToolState = (Inr (nc, m, np, pc, obj), s1)"
      "dealFiles (t_dir s') (de_cidString (te_disk T) pc) = Some data"
    by (auto simp: sampleMain_def)
  from prepareDeal_saved [OF p(2)] have "pc = ''bafyprop''" by (simp add: sampleMain_def sampleFiles_def)
  moreover have "de_cidString (te_disk T) ''bafyprop'' = ''bafyprop''"
    unfolding p(1) by (simp add: sampleMain_def doneTool_def sampleTool_def sampleDiskEnv_def)
  ultimately show ?thesis using run p(3) by metis
qed

definition retrieveCli :: cli_context where
  "retrieveCli = sampleRetrieveCli\<lparr>cli_strings := (\<lambda>f. if f = ''network'' then ''ipfs'' else [])\<rparr>"

definition retrieveArgs :: cli_library where
  "retrieveArgs app args = Dispatch ''retrieve'' retrieveCli"

lemma sample_retrieve_command:
  "fst (run_state (retrieveFileCmd (doneTool\<lparr>te_ddir := ''/home''\<rparr>) sampleRetrieveLibrary sampleTraversal sampleIpfs
     sampleFilEnv sampleQuerySteps [sampleLabels] retrieveCli) sampleToolState) = Some (Inr ())"
proof -
  let ?rq = "\<lparr>rr_cidStr = ''bafyroot'', rr_dmSelText = [], rr_miners = [''f01000''], rr_output = ''bafyroot'',
    rr_network = ''ipfs'', rr_root = ''bafyroot'', rr_selNode = None\<rparr>"
  have rq: "retrieveRequest (doneTool\<lparr>te_ddir := ''/home''\<rparr>) sampleRetrieveLibrary retrieveCli = Inr ?rq"
    by (simp add: retrieveRequest_def selectorNode_def outputName_def parseMiners_def parseOneMiner_def parseOutput_def
        cctx_StringSlice_def cctx_String_def args_First_def doneTool_def sampleTool_def sampleParse_def sampleDiskEnv_def
        sampleRetrieveLibrary_def retrieveCli_def sampleRetrieveCli_def declared_names Let_def)
  obtain nc s1 where prep: "run_state (prepareRetrieval (doneTool\<lparr>te_ddir := ''/home''\<rparr>) sampleRetrieveLibrary ?rq) sampleToolState
      = (Inr (nc, [IPFSAttempt ''bafyroot'']), s1)"
    by (simp add: prepareRetrieval_def chooseCandidates_def networkAttempts_def network_names prepare_defs doneTool_def
        sample_tool_defs Let_def)
  have ipfs: "ipfsRetrieve sampleIpfs ''bafyroot'' = Some (Inr \<lparr>is_ByteSize = 80, is_Duration = 5\<rparr>, [40, 80])" by code_simp
  have car: "\<not> cctx_Bool retrieveCli ''car''" by (simp add: cctx_Bool_def retrieveCli_def sampleRetrieveCli_def)
  have lib: "rl_dsGet sampleRetrieveLibrary = Inr" "rl_NewUnixfsFile sampleRetrieveLibrary = Inr"
    "rl_WriteTo sampleRetrieveLibrary = (\<lambda>_ _. None)" by (simp_all add: sampleRetrieveLibrary_def)
  show ?thesis
    by (simp add: retrieveFileCmd_def rq prep runAttempts_def attemptRetrieve_def ipfs locateSubRoot_def saveOutput_def
        printRetrievalStats_def run_simps car lib)
qed

theorem retrieve_exit_zero_witness:
  "\<exists>s' d (nc :: new_client). run_state (filcMain retrieveArgs sampleMain Map.empty [''filc'', ''retrieve'', ''bafyroot'']) sampleToolState = (Some (Exited 0), s')
    \<and> fetchedBy sampleIpfs (sampleFilEnv\<lparr>fe_client := nc_client nc\<rparr>) d"
proof -
  let ?env = "init_env Map.empty"
  let ?args = "[''filc'', ''retrieve'', ''bafyroot'']"
  have "run_state (app_Run retrieveArgs (filcApp sampleMain ?env ''/home'') ?args) sampleToolState
    = run_state (retrieveFileCmd (doneTool\<lparr>te_ddir := ''/home''\<rparr>) sampleRetrieveLibrary sampleTraversal sampleIpfs
     sampleFilEnv sampleQuerySteps [sampleLabels] retrieveCli) sampleToolState"
    unfolding app_Run_def filcApp_commands
    by (simp add: retrieveArgs_def filcCommands_def commandNamed_def command_defs sampleMain_def)
  with sample_retrieve_command obtain s' where
    "run_state (app_Run retrieveArgs (filcApp sampleMain ?env ''/home'') ?args) sampleToolState = (Some (Inr ()), s')"
    by (metis prod.collapse)
  then have run: "run_state (filcMain retrieveArgs sampleMain Map.empty ?args) sampleToolState = (Some (Exited 0), s')"
    unfolding filcMain_zero by (simp add: sampleMain_def)
  have d: "\<forall>d. retrieveArgs (filcApp sampleMain ?env d) ?args = Dispatch ''retrieve'' retrieveCli"
    by (simp add: retrieveArgs_def)
  have q: "\<forall>qs. set (fe_quick (me_fil sampleMain) qs) = set qs" by (simp add: sampleMain_def sampleFilEnv_def)
  from retrieve_exit_zero [OF run d q] obtain nc :: new_client and a where
    "fetchedBy (me_ipfs sampleMain) ((me_fil sampleMain)\<lparr>fe_client := nc_client nc\<rparr>) a"
    by blast
  with run show ?thesis by (auto simp: sampleMain_def)
qed

end
