(* ===== verification/Spec2Isabelle.thy ===== *)
theory Spec2Isabelle
  imports MsgPusher MakeDeal SendDeal RetrievalProps RetrieveAsync Funds Keystore Publisher XferProps Transfers
    FilcDealsProps ConnWatcher FilcRetrievalProps FilcParse FilcDisk FilcPrint FilcCommandsProps FilcRetrieveCmd Startup FilcMain
begin

text \<open>
  Filclient: a Filecoin client library that makes storage deals and retrieves data, and \<open>filc\<close>, the
  command-line tool on top of it.

  \<^bold>\<open>The program.\<close>  \<open>filclient.go\<close> is the client: it looks providers up on chain and connects to them, builds
  and sends deal proposals over the protocols 1.1.0 and 1.2.0, pushes data over graphsync
  (\<open>StartDataTransfer\<close>) or serves it over libp2p, retrieves data and pays for it with vouchers of a payment
  channel, and reports on transfers and funds.  \<open>libp2ptransfermgr.go\<close> watches the transfers that a
  provider pulls, \<open>msgpusher.go\<close> signs chain messages with consecutive nonces, \<open>rep/\<close> publishes retrieval
  events, \<open>keystore/\<close> keeps the wallet's keys, \<open>retrievehelper/\<close> builds retrieval proposals and walks a DAG.
  \<open>filc/\<close> puts these together into commands.

  \<^bold>\<open>The style of the model.\<close>  A Go function that talks to the outside is a state transformer: theory
  \<open>World\<close> keeps the trace of all calls made so far, every package is a record of functions whose answers
  depend on that trace, and a call appends itself to it.  So a theorem for all such records holds for
  every deterministic behaviour of the packages, and a law of a package is a hypothesis on its record.  The
  second result of a Go function is the left side of a sum (\<open>go_error\<close>, theory \<open>GoErrors\<close>); a panic and
  \<open>log.Fatal\<close> are the error \<open>Panic\<close>.  Integers keep their width as words, amounts of tokens are \<open>int\<close>.

  \<^bold>\<open>Theories and sources.\<close>
  \<^item> \<open>Prelude\<close>, \<open>GoStrings\<close>, \<open>GoErrors\<close> (\<open>errors.go\<close>), \<open>MarketTypes\<close>, \<open>World\<close>, \<open>Samples\<close>: the monad and its
    simplification rules, the parts of the standard library in use, error values, the data types, the
    world, and the concrete services that the witnesses use.  \<open>Runs\<close>: runs of a transition system given as a
    function, with the locales \<open>guarded\<close> (an invariant) and \<open>draining\<close> (every run is bounded and can be completed).
  \<^item> \<open>Connect\<close>: connections and streams (\<open>ConnectToMiner\<close>, \<open>doRpc\<close>, \<open>GetAsk\<close>, \<open>DealProtocolForMiner\<close>).
  \<^item> \<open>DealConfig\<close>, \<open>MakeDeal\<close>, \<open>SendDeal\<close>: the options of a deal (locale \<open>config_option\<close>: an option sets its
    field and no other; \<open>proposal_option\<close> extends it for v1.2.0), \<open>MakeDeal...\<close>, \<open>SendProposal...\<close>, \<open>DealStatus\<close>.
  \<^item> \<open>Retrieval\<close>, \<open>RetrievalRun\<close>, \<open>RetrievalPay\<close>, \<open>RetrievalProps\<close>: queries and the retrieval itself.  The main thread of
    \<open>retrieveContentFromPeerWithProgressCallback\<close> and its event handler are one transition system \<open>rstep\<close>
    with the executable \<open>rnext\<close>; a label says which of the two moves.  The buffered channel \<open>dtRes\<close> is a cell
    that is written once (locale \<open>once_cell\<close>).  \<open>RetrieveAsync\<close> puts the same system behind the channels of
    \<open>RetrieveContentFromPeerAsync\<close>: \<open>anext\<close> moves the goroutine, the waiting callbacks or the caller.
  \<^item> \<open>RepEvents\<close>, \<open>Publisher\<close> (\<open>rep/\<close>): the events, with the locale \<open>event_source\<close> for their constructors, and
    the publisher with its channel and its loop; subscriptions are an interface (locale \<open>registry\<close>).
  \<^item> \<open>Xfer\<close>, \<open>XferProps\<close> (\<open>libp2ptransfermgr.go\<close>): the manager's operations; the datastore's contents follow
    from the trace.  \<open>Transfers\<close> (\<open>channelid.go\<close> too): status by channel, id and content, and diagnostics.
  \<^item> \<open>Funds\<close>: balances, market funds, starting and checking a push transfer.  \<open>MsgPusher\<close> (\<open>msgpusher.go\<close>,
    \<open>apiprov.go\<close>).  \<open>Keystore\<close> (\<open>keystore/keystore.go\<close>).  \<open>Startup\<close>: \<open>NewClient\<close> and the piece commitment.
  \<^item> \<open>FilcDeals\<close>, \<open>FilcDealsProps\<close>, \<open>ConnWatcher\<close>: the \<open>deal\<close> command's two ways to send a deal.  A v1.2.0
    deal is a transition system of the command and its listener (\<open>vnext\<close>); the connection watcher counts its
    goroutines.
  \<^item> \<open>FilcQueries\<close>, \<open>FilcIpfs\<close>, \<open>FilcRetrieval\<close>, \<open>FilcRetrievalProps\<close> (\<open>filc/retrieval.go\<close>,
    \<open>retrievehelper/params.go\<close>): the goroutines that query the candidates (\<open>qnext\<close>), the search for IPFS providers
    (\<open>pnext\<close>) with the callback of the walk, and the attempts built on them.
  \<^item> \<open>FilcParse\<close>, \<open>FilcFlags\<close>, \<open>FilcDisk\<close>, \<open>FilcPrint\<close>: \<open>parsing.go\<close>, \<open>flags.go\<close>, \<open>disk.go\<close>, \<open>printing.go\<close> of \<open>filc/\<close>.
  \<^item> \<open>FilcCommands\<close>, \<open>FilcCommandsProps\<close>, \<open>FilcRetrieveCmd\<close> (\<open>retrievehelper/selector.go\<close> too): the commands
    as the source composes them from the parts above, over one state \<open>tool_state\<close>: the world, the listener
    of the transfer manager and the configuration directory.  \<open>FilcMain\<close> (\<open>filc/main.go\<close>): the table of
    commands and the process from its environment to its exit status.

  \<^bold>\<open>What is shown.\<close>
  \<^item> Retrieval: success means a finished transfer and a present root block; vouchers carry running totals
    and consecutive nonces; exactly one terminal event, which the client hears
    (\<open>client_hears_end\<close>); the first result wins.  The asynchronous call adds and
    loses no result, shows the progress in order and ends its goroutines.
  \<^item> Deals: the terms of a proposal; every answer of a provider and its result; the command saves every deal
    before it sends it, reports success only for an accepted deal with a completed transfer, and takes
    back an auth token that is not used; polling returns when the transfer ends.
  \<^item> Transfers: reports are well formed; a completed transfer never fails; an expired token does, once; stored completions are found.
  \<^item> Nonces are consecutive; the keystore refines a map; subscribers get their events in order; a
    disconnect is not lost and reconnects are bounded; the start of a client is ordered.
  \<^item> The tool: the concurrent queries refine one loop over the candidates and always return; the search for
    providers decides what the list of providers says; the size of an IPFS retrieval does not depend on the order of the
    visits; \<open>filc deal\<close> exits with 0 only for a saved and completed deal, \<open>filc retrieve\<close> only for data that was fetched; which candidate a retrieval used, the sub-root of a text selector, the forms of the miner
    flag, saved deals and the identity.
  \<^item> Where the code does something it does not mean to, a theorem says what it does: vouchers on the zero
    address, a lost payload size, gas fields, lost early events, a sort without effect, a deadlock of the
    v1.2.0 command, a half-written key that stays, a goroutine that is left behind.

  \<^bold>\<open>Bounds.\<close>  Recursions are structural.  The only loop without a bound in the source is \<open>pollTransfer\<close>, which
  takes fuel: \<open>polling_returns\<close> says that one more round than there are polls before a final status is
  enough, and \<open>poll_more_fuel\<close> that more does not change the result.  Complete runs of the transition systems are
  given by their labels; that the goroutines of the queries and of the provider search come to an end within a
  number of steps linear in the candidates or providers is \<open>queries_return\<close> and \<open>search_returns\<close>.

  \<^bold>\<open>Assumptions in the shape of the model.\<close>  Answers of packages are never nil beside a nil error, apart from
  the options in their types.  A mutex makes an operation atomic, and so is the query of one candidate between the
  steps of the others.  Tracing and log lines are left out; so are the times
  that \<open>tpr\<close> prints.  The comparison of \<open>sort.Slice\<close> is modelled for up to twelve elements and is a parameter for
  more.

  \<^bold>\<open>Not modelled.\<close>  The format of log lines; the average speed of an IPFS retrieval, a floating-point quotient; the
  getters \<open>GetDtMgr\<close> and \<open>GraphSyncStats\<close>, which hand out a package; the tests.
\<close>

section \<open>Retrievals and the publisher\<close>

text \<open>
  C12: The client hears of the end of a retrieval exactly once: when the events of a retrieval that was not cancelled have
  gone through the publisher to which the client subscribed at its start, one of those it received after the earlier
  ones is a failure or a success, whatever the other subscribers did and however the delivery interleaved.
\<close>

theorem client_hears_end:
  assumes "rexec avgSpeed fc P (startRetrieval t) ls (p, s)" and "w_trace s = t @ u"
    and "returned p" and "\<not> panicked p" and "\<not> cancelled ls"
    and "pexec ks ps" and "firstStays client ks" and "ep_loop ps = Idle" and "ep_events ps = []"
    and "ep_published ps = earlier @ published u"
  shows "count_if isTerminal (drop (length earlier) (got client ps)) = 1"
proof -
  have "got client ps = earlier @ published u"
    using pubInv_exec [OF assms(6)] firstInv_exec [OF assms(6,7)] assms(8-10) by (simp add: pubInv_def firstInv_def)
  moreover have "count_if isTerminal (published u) = 1"
    using eventInv_run [OF assms(1)] assms(2-5) by (auto simp: eventInv_def)
  ultimately show ?thesis by simp
qed

theorem client_hears_end_witness:
  "\<exists>ks ps. pexec ks ps \<and> firstStays 0 ks \<and> ep_published ps = published (w_trace (snd sampleEnd))
    \<and> count_if isTerminal (got 0 ps) = 1"
proof -
  have e: "\<not> panicked (fst sampleEnd)" "returned (fst sampleEnd)" "\<not> cancelled sampleLabels" by code_simp+
  obtain ks ps where p: "pexec ks ps" "firstStays 0 ks" "ep_loop ps = Idle" "ep_events ps = []"
    and u: "ep_published ps = published (w_trace (snd sampleEnd))"
    using publisher_delivers [of 0 "published (w_trace (snd sampleEnd))"] by blast
  have "ep_published ps = [] @ published (w_trace (snd sampleEnd))" using u by simp
  from client_hears_end [OF sample_run sample_trace e(2,1,3) p this] p u show ?thesis by auto
qed

end
